(* ===== verification/Prelude.thy ===== *)
theory Prelude
  imports Main "HOL-Library.Word"
begin

text \<open>
  Shared vocabulary of the development.

  \<^item> Machine integers: \<open>u8\<close>, \<open>u16\<close>, \<open>u32\<close>, \<open>u64\<close> are words of that width; \<open>i32\<close> is the
    32-bit word that holds its two's complement representation. \<open>usize\<close> is \<open>nat\<close>: the
    sources only use it for lengths and offsets of buffers held in memory, whose size the
    language bounds by \<open>isize::MAX\<close>, so additions never wrap; a subtraction that would go
    below zero is a panic and is written out (\<open>usize_sub\<close>).
  \<^item> Results of running code: \<open>outcome\<close>. Besides \<open>Ok\<close> and \<open>Err\<close> of Rust's \<open>Result\<close> a
    run may \<open>Panic\<close> (slice index out of range, arithmetic overflow with overflow checks
    enabled), perform an out-of-bounds access through a raw pointer (\<open>UB\<close>), or loop for ever
    (\<open>Diverge\<close>).
  \<^item> Slices of byte buffers with their bounds checks, big-endian integers, and the UTF-8
    validation that \<open>String::from_utf8\<close> performs.
\<close>

unbundle bit_operations_syntax

named_theorems outcome_simps \<open>evaluation of outcomes and slices\<close>

type_synonym u8 = "8 word"
type_synonym u16 = "16 word"
type_synonym u32 = "32 word"
type_synonym u64 = "64 word"
type_synonym i32 = "32 word"
type_synonym bytes = "u8 list"

section \<open>Outcomes of running code\<close>

datatype ('e, 'a) outcome = Ok 'a | Err 'e | Panic | UB | Diverge

primrec bind :: "('e, 'a) outcome \<Rightarrow> ('a \<Rightarrow> ('e, 'b) outcome) \<Rightarrow> ('e, 'b) outcome" where
  "bind (Ok x) f = f x"
| "bind (Err e) f = Err e"
| "bind Panic f = Panic"
| "bind UB f = UB"
| "bind Diverge f = Diverge"

primrec map_err :: "('e \<Rightarrow> 'f) \<Rightarrow> ('e, 'a) outcome \<Rightarrow> ('f, 'a) outcome" where
  "map_err g (Ok x) = Ok x"
| "map_err g (Err e) = Err (g e)"
| "map_err g Panic = Panic"
| "map_err g UB = UB"
| "map_err g Diverge = Diverge"

text \<open>\<open>opt.ok_or(e)\<close>\<close>

definition ok_or :: "'a option \<Rightarrow> 'e \<Rightarrow> ('e, 'a) outcome" where
  "ok_or x e = (case x of None \<Rightarrow> Err e | Some v \<Rightarrow> Ok v)"

lemma ok_or_simps [simp]: "ok_or None e = Err e" "ok_or (Some v) e = Ok v"
  by (simp_all add: ok_or_def)

lemma bind_assoc [simp]: "bind (bind m f) g = bind m (\<lambda>x. bind (f x) g)"
  by (cases m) simp_all

lemma bind_Ok_right [simp]: "bind m Ok = m"
  by (cases m) simp_all

lemma bind_eq_Ok: "bind m f = Ok y \<longleftrightarrow> (\<exists>x. m = Ok x \<and> f x = Ok y)"
  by (cases m) simp_all

lemma bind_eq_UB: "bind m f = UB \<longleftrightarrow> m = UB \<or> (\<exists>x. m = Ok x \<and> f x = UB)"
  by (cases m) simp_all

lemma bind_eq_Diverge: "bind m f = Diverge \<longleftrightarrow> m = Diverge \<or> (\<exists>x. m = Ok x \<and> f x = Diverge)"
  by (cases m) simp_all

lemma bind_split:
  "P (bind m f) \<longleftrightarrow>
     (\<forall>x. m = Ok x \<longrightarrow> P (f x)) \<and> (\<forall>e. m = Err e \<longrightarrow> P (Err e)) \<and>
     (m = Panic \<longrightarrow> P Panic) \<and> (m = UB \<longrightarrow> P UB) \<and> (m = Diverge \<longrightarrow> P Diverge)"
  by (cases m) simp_all

lemma bind_cong [fundef_cong]:
  "m = m' \<Longrightarrow> (\<And>x. m' = Ok x \<Longrightarrow> f x = f' x) \<Longrightarrow> bind m f = bind m' f'"
  by (cases m') simp_all

text \<open>
  A run is sound when it neither touches memory out of bounds nor loops for ever.
\<close>

definition sound :: "('e, 'a) outcome \<Rightarrow> bool" where
  "sound m \<longleftrightarrow> m \<noteq> UB \<and> m \<noteq> Diverge"

lemma sound_simps [simp]:
  "sound (Ok x)" "sound (Err e)" "sound Panic" "\<not> sound UB" "\<not> sound Diverge"
  by (simp_all add: sound_def)

lemma sound_bind [intro]:
  "sound m \<Longrightarrow> (\<And>x. m = Ok x \<Longrightarrow> sound (f x)) \<Longrightarrow> sound (bind m f)"
  by (cases m) simp_all

lemma sound_map_err [simp]: "sound (map_err g m) = sound m"
  by (cases m) simp_all

text \<open>A result that the caller sees: success or an error.\<close>

definition returned :: "('e, 'a) outcome \<Rightarrow> bool" where
  "returned m \<longleftrightarrow> (\<exists>x. m = Ok x) \<or> (\<exists>e. m = Err e)"

lemma returned_simps [simp]:
  "returned (Ok x)" "returned (Err e)" "\<not> returned Panic" "\<not> returned UB" "\<not> returned Diverge"
  by (simp_all add: returned_def)

text \<open>Running a function on the members of a list until it fails.\<close>

fun traverse :: "('a \<Rightarrow> ('e, 'b) outcome) \<Rightarrow> 'a list \<Rightarrow> ('e, 'b list) outcome" where
  "traverse f [] = Ok []"
| "traverse f (x # xs) = bind (f x) (\<lambda>y. bind (traverse f xs) (\<lambda>ys. Ok (y # ys)))"

lemma traverse_append:
  "traverse f (xs @ ys) = bind (traverse f xs) (\<lambda>us. bind (traverse f ys) (\<lambda>vs. Ok (us @ vs)))"
  by (induction xs) simp_all

lemma map_err_bind: "map_err g (bind m f) = bind (map_err g m) (\<lambda>x. map_err g (f x))"
  by (cases m) simp_all

lemma pred_option_True [simp]: "pred_option (\<lambda>_. True) x"
  by (cases x) simp_all

section \<open>Lengths, offsets and slices\<close>

definition usize_sub :: "nat \<Rightarrow> nat \<Rightarrow> ('e, nat) outcome" where
  "usize_sub a b = (if b \<le> a then Ok (a - b) else Panic)"

definition slice_from :: "'a list \<Rightarrow> nat \<Rightarrow> ('e, 'a list) outcome" where
  "slice_from xs a = (if a \<le> length xs then Ok (drop a xs) else Panic)"

definition slice_to :: "'a list \<Rightarrow> nat \<Rightarrow> ('e, 'a list) outcome" where
  "slice_to xs b = (if b \<le> length xs then Ok (take b xs) else Panic)"

definition slice_range :: "'a list \<Rightarrow> nat \<Rightarrow> nat \<Rightarrow> ('e, 'a list) outcome" where
  "slice_range xs a b =
     (if a \<le> b \<and> b \<le> length xs then Ok (take (b - a) (drop a xs)) else Panic)"

definition index :: "'a list \<Rightarrow> nat \<Rightarrow> ('e, 'a) outcome" where
  "index xs i = (if i < length xs then Ok (xs ! i) else Panic)"

text \<open>\<open>addr[0..src.len()].copy_from_slice(src)\<close>: the slice after the copy.\<close>

definition copy_to_front :: "'a list \<Rightarrow> 'a list \<Rightarrow> ('e, 'a list) outcome" where
  "copy_to_front src addr =
     (if length src \<le> length addr then Ok (src @ drop (length src) addr) else Panic)"

lemma sound_usize [simp]:
  "sound (usize_sub a b)" "sound (slice_from xs a)" "sound (slice_to xs a)"
  "sound (slice_range xs a b)" "sound (index xs i)" "sound (copy_to_front xs ys)"
  by (simp_all add: usize_sub_def slice_from_def slice_to_def slice_range_def index_def
      copy_to_front_def)

lemma usize_sub_Ok [outcome_simps]: "b \<le> a \<Longrightarrow> usize_sub a b = Ok (a - b)"
  by (simp add: usize_sub_def)

lemma usize_sub_eq_Ok: "usize_sub a b = Ok c \<longleftrightarrow> b \<le> a \<and> c = a - b"
  by (auto simp: usize_sub_def)

lemma slice_from_append [outcome_simps]:
  "length xs = n \<Longrightarrow> slice_from (xs @ ys) n = Ok ys"
  by (simp add: slice_from_def)

lemma slice_from_Ok [outcome_simps]: "n \<le> length xs \<Longrightarrow> slice_from xs n = Ok (drop n xs)"
  by (simp add: slice_from_def)

lemma slice_from_eq_Ok: "slice_from xs n = Ok ys \<longleftrightarrow> n \<le> length xs \<and> ys = drop n xs"
  by (auto simp: slice_from_def)

lemma slice_to_Ok [outcome_simps]: "n \<le> length xs \<Longrightarrow> slice_to xs n = Ok (take n xs)"
  by (simp add: slice_to_def)

lemma slice_range_middle [outcome_simps]:
  "length xs = a \<Longrightarrow> b = a + length ys \<Longrightarrow> slice_range (xs @ ys @ zs) a b = Ok ys"
  by (simp add: slice_range_def)

lemma slice_range_eq_Ok:
  "slice_range xs a b = Ok ys \<longleftrightarrow> a \<le> b \<and> b \<le> length xs \<and> ys = take (b - a) (drop a xs)"
  by (auto simp: slice_range_def)

lemma copy_to_front_zeros [outcome_simps]:
  "length src \<le> n \<Longrightarrow>
   copy_to_front src (replicate n z) = Ok (src @ replicate (n - length src) z)"
  by (simp add: copy_to_front_def)

lemma copy_to_front_Ok:
  "length src \<le> length addr \<Longrightarrow>
   \<exists>r. copy_to_front src addr = Ok r \<and> length r = length addr"
  by (simp add: copy_to_front_def)

section \<open>Big-endian integers\<close>

lemma unat_small: "n < 2 ^ LENGTH('a) \<Longrightarrow> unat (of_nat n :: 'a::len word) = n"
  by (simp add: unat_of_nat)

fun be_bytes :: "nat \<Rightarrow> 'a::len word \<Rightarrow> bytes" where
  "be_bytes 0 w = []"
| "be_bytes (Suc n) w = ucast (drop_bit (8 * n) w) # be_bytes n w"

definition from_be :: "bytes \<Rightarrow> 'a::len word" where
  "from_be bs = foldl (\<lambda>acc b. push_bit 8 acc OR ucast b) 0 bs"

lemma length_be_bytes [simp]: "length (be_bytes n w) = n"
  by (induction n) simp_all

lemma be_byte_shift:
  "push_bit (8 * n) (push_bit 8 acc OR ucast (ucast (drop_bit (8 * n) w) :: u8)) OR
     take_bit (8 * n) w = push_bit (8 * Suc n) acc OR take_bit (8 * Suc n) (w :: 'a::len word)"
proof (rule bit_word_eqI)
  fix k
  assume "k < LENGTH('a)"
  then show "bit (push_bit (8 * n) (push_bit 8 acc OR ucast (ucast (drop_bit (8 * n) w) :: u8)) OR
     take_bit (8 * n) w) k = bit (push_bit (8 * Suc n) acc OR take_bit (8 * Suc n) w) k"
    by (cases "k < 8 * n"; cases "k < 8 * n + 8")
      (auto simp: bit_simps add.commute [of 8])
qed

lemma foldl_be_bytes:
  "foldl (\<lambda>acc b. push_bit 8 acc OR ucast b) acc (be_bytes n w) =
     push_bit (8 * n) acc OR take_bit (8 * n) (w :: 'a::len word)"
proof (induction n arbitrary: acc)
  case 0
  then show ?case by simp
next
  case (Suc n)
  then show ?case by (simp only: be_bytes.simps foldl_Cons be_byte_shift)
qed

lemma from_be_bytes [simp]:
  "LENGTH('a) = 8 * n \<Longrightarrow> from_be (be_bytes n (w :: 'a::len word)) = w"
  by (simp add: from_be_def foldl_be_bytes take_bit_word_eq_self)

section \<open>Rust strings\<close>

text \<open>
  A Rust \<open>String\<close> is a byte sequence that passes UTF-8 validation; it is modelled by its
  bytes. \<open>str\<close> gives the bytes of an ASCII literal.
\<close>

type_synonym rust_string = bytes

definition str :: "string \<Rightarrow> rust_string" where
  "str s = map (\<lambda>c. of_nat (of_char c)) s"

lemma str_eq_iff [simp]: "str s = str t \<longleftrightarrow> s = t"
proof -
  have "c = d" if "of_nat (of_char c) = (of_nat (of_char d) :: u8)" for c d :: char
  proof -
    have "unat (of_nat (of_char c) :: u8) = of_char c" for c :: char
      using nat_of_char_less_256 [of c] by (intro unat_small) simp
    with that have "(of_char c :: nat) = of_char d" by metis
    then show ?thesis by simp
  qed
  then have "inj (\<lambda>c. of_nat (of_char c) :: u8)" by (auto intro: injI)
  then show ?thesis by (simp add: str_def inj_map_eq_map)
qed

definition in_range :: "u8 \<Rightarrow> u8 \<Rightarrow> u8 \<Rightarrow> bool" where
  "in_range lo hi b \<longleftrightarrow> lo \<le> b \<and> b \<le> hi"

definition cont :: "u8 \<Rightarrow> bool" where
  "cont b \<longleftrightarrow> in_range 0x80 0xBF b"

fun utf8_valid :: "bytes \<Rightarrow> bool" where
  "utf8_valid [] = True"
| "utf8_valid (a # r) =
     (if a < 0x80 then utf8_valid r
      else if in_range 0xC2 0xDF a then
        (case r of b # r' \<Rightarrow> cont b \<and> utf8_valid r' | _ \<Rightarrow> False)
      else if in_range 0xE0 0xEF a then
        (case r of b # c # r' \<Rightarrow>
           (if a = 0xE0 then in_range 0xA0 0xBF b
            else if a = 0xED then in_range 0x80 0x9F b else cont b) \<and> cont c \<and> utf8_valid r'
         | _ \<Rightarrow> False)
      else if in_range 0xF0 0xF4 a then
        (case r of b # c # d # r' \<Rightarrow>
           (if a = 0xF0 then in_range 0x90 0xBF b
            else if a = 0xF4 then in_range 0x80 0x8F b else cont b) \<and>
           cont c \<and> cont d \<and> utf8_valid r'
         | _ \<Rightarrow> False)
      else False)"

lemma utf8_valid_ascii: "\<forall>b\<in>set bs. b < 0x80 \<Longrightarrow> utf8_valid bs"
  by (induction bs) simp_all

end
