(* ===== verification/Sys.thy ===== *)
theory Sys
  imports Prelude
begin

text \<open>
  The environment of the crate: what \<open>src/sys.rs\<close> includes from the file that \<open>build.rs\<close>
  generates with bindgen out of the kernel headers of \<open>include/wrapper.h\<close>, and the constants
  taken from the \<open>libc\<close> crate. None of it is code of the repository, so it is a parameter:
  the record \<open>sys\<close> holds the constants under their own names and the memory layout of the
  four C structures (\<open>nlmsghdr\<close>, \<open>nfgenmsg\<close>, \<open>nlattr\<close>, \<open>nlmsgerr\<close>) as their size and the
  functions that store and load them. Every definition that uses one of these takes the
  record \<open>S\<close> as an argument.

  A constant that the sources use without a cast has the type the sources need (\<open>u16\<close> for the
  \<open>NFTA_*\<close> attribute numbers, which \<open>build.rs\<close> recasts to \<open>u16\<close>; \<open>u32\<close>); one that the
  sources cast with \<open>as\<close> is an \<open>int\<close>, and the cast is \<open>word_of_int\<close>. An attribute number
  that the kernel headers may not declare (the fields marked \<open>optional = true\<close>) is an \<open>option\<close>.

  What the code relies on is stated by the locale \<open>netlink_abi\<close> and its extensions in the
  theories of the components. The record \<open>linux_sys\<close> holds the values of the Linux user-space
  API on a little-endian machine; it satisfies them all.
\<close>

named_theorems abi \<open>facts of the kernel interface used as rewrite rules\<close>

section \<open>The C structures of the netlink headers\<close>

record nlmsghdr =
  nlmsg_len :: u32
  nlmsg_type :: u16
  nlmsg_flags :: u16
  nlmsg_seq :: u32
  nlmsg_pid :: u32

record nfgenmsg =
  nfgen_family :: u8
  genmsg_version :: u8
  genmsg_res_id :: u16

record nlattr =
  nla_len :: u16
  nla_type :: u16

record nlmsgerr =
  nlmsgerr_error :: i32
  nlmsgerr_msg :: nlmsghdr

section \<open>The parameter record\<close>

record nl_sys =
  size_of_nlmsghdr :: nat
  nlmsghdr_bytes :: "nlmsghdr \<Rightarrow> bytes"
  nlmsghdr_of :: "bytes \<Rightarrow> nlmsghdr"
  size_of_nfgenmsg :: nat
  nfgenmsg_bytes :: "nfgenmsg \<Rightarrow> bytes"
  nfgenmsg_of :: "bytes \<Rightarrow> nfgenmsg"
  size_of_nlattr :: nat
  nlattr_bytes :: "nlattr \<Rightarrow> bytes"
  nlattr_of :: "bytes \<Rightarrow> nlattr"
  size_of_nlmsgerr :: nat
  nlmsgerr_of :: "bytes \<Rightarrow> nlmsgerr"
  NLMSG_ALIGNTO :: "int"
  NLM_F_REQUEST :: "int"
  NLM_F_MULTI :: "int"
  NLM_F_ACK :: "u32"
  NLM_F_DUMP_INTR :: "int"
  NLM_F_DUMP :: "int"
  NLM_F_CREATE :: "u32"
  NLM_F_APPEND :: "u32"
  NLMSG_NOOP :: "u32"
  NLMSG_ERROR :: "u32"
  NLMSG_DONE :: "u32"
  NLMSG_MIN_TYPE :: "int"
  NLA_F_NESTED :: "int"
  NLA_TYPE_MASK :: "int"
  NFNETLINK_V0 :: "int"
  NFNL_SUBSYS_NFTABLES :: "int"
  NFNL_MSG_BATCH_BEGIN :: "int"
  NFNL_MSG_BATCH_END :: "int"
  NFPROTO_UNSPEC :: "int"
  NFPROTO_INET :: "int"
  NFPROTO_IPV4 :: "int"
  NFPROTO_ARP :: "int"
  NFPROTO_NETDEV :: "int"
  NFPROTO_BRIDGE :: "int"
  NFPROTO_IPV6 :: "int"
  NFPROTO_DECNET :: "int"

record obj_sys = nl_sys +
  NFT_MSG_NEWTABLE :: "u32"
  NFT_MSG_GETTABLE :: "int"
  NFT_MSG_DELTABLE :: "u32"
  NFT_MSG_NEWCHAIN :: "u32"
  NFT_MSG_GETCHAIN :: "int"
  NFT_MSG_DELCHAIN :: "u32"
  NFT_MSG_NEWRULE :: "u32"
  NFT_MSG_GETRULE :: "int"
  NFT_MSG_DELRULE :: "u32"
  NFT_MSG_NEWSET :: "u32"
  NFT_MSG_DELSET :: "u32"
  NFT_MSG_NEWSETELEM :: "u32"
  NFT_MSG_DELSETELEM :: "u32"
  NFTA_TABLE_NAME :: "u16"
  NFTA_TABLE_FLAGS :: "u16"
  NFTA_TABLE_USERDATA :: "u16 option"
  NFTA_HOOK_HOOKNUM :: "u16"
  NFTA_HOOK_PRIORITY :: "u16"
  NFTA_CHAIN_TABLE :: "u16"
  NFTA_CHAIN_NAME :: "u16"
  NFTA_CHAIN_HOOK :: "u16"
  NFTA_CHAIN_POLICY :: "u16"
  NFTA_CHAIN_TYPE :: "u16"
  NFTA_CHAIN_FLAGS :: "u16"
  NFTA_CHAIN_USERDATA :: "u16 option"
  NFTA_RULE_TABLE :: "u16"
  NFTA_RULE_CHAIN :: "u16"
  NFTA_RULE_HANDLE :: "u16"
  NFTA_RULE_EXPRESSIONS :: "u16"
  NFTA_RULE_POSITION :: "u16"
  NFTA_RULE_USERDATA :: "u16"
  NFTA_RULE_ID :: "u16"
  NFTA_SET_TABLE :: "u16"
  NFTA_SET_NAME :: "u16"
  NFTA_SET_FLAGS :: "u16"
  NFTA_SET_KEY_TYPE :: "u16"
  NFTA_SET_KEY_LEN :: "u16"
  NFTA_SET_ID :: "u16"
  NFTA_SET_USERDATA :: "u16"
  NFTA_SET_ELEM_LIST_TABLE :: "u16"
  NFTA_SET_ELEM_LIST_SET :: "u16"
  NFTA_SET_ELEM_LIST_ELEMENTS :: "u16"
  NFTA_SET_ELEM_KEY :: "u16"
  NFTA_LIST_ELEM :: "u16"
  NFTA_DATA_VALUE :: "u16"
  NFTA_DATA_VERDICT :: "u16"
  NFTA_EXPR_NAME :: "u16"
  NFTA_EXPR_DATA :: "u16"
  NFTA_VERDICT_CODE :: "u16"
  NFTA_VERDICT_CHAIN :: "u16"
  NFTA_VERDICT_CHAIN_ID :: "u16 option"
  NF_DROP :: "int"
  NF_ACCEPT :: "int"
  NF_QUEUE :: "int"
  NFT_CONTINUE :: "int"
  NFT_BREAK :: "int"
  NFT_JUMP :: "int"
  NFT_GOTO :: "int"
  NFT_RETURN :: "int"
  NF_INET_PRE_ROUTING :: "int"
  NF_INET_LOCAL_IN :: "int"
  NF_INET_FORWARD :: "int"
  NF_INET_LOCAL_OUT :: "int"
  NF_INET_POST_ROUTING :: "int"

record expr_sys = obj_sys +
  NFT_REG_VERDICT :: "int"
  NFT_REG_1 :: "int"
  NFT_REG_2 :: "int"
  NFT_REG_3 :: "int"
  NFT_REG_4 :: "int"
  NFTA_BITWISE_SREG :: "u16"
  NFTA_BITWISE_DREG :: "u16"
  NFTA_BITWISE_LEN :: "u16"
  NFTA_BITWISE_MASK :: "u16"
  NFTA_BITWISE_XOR :: "u16"
  NFTA_BYTEORDER_SREG :: "u16"
  NFTA_BYTEORDER_DREG :: "u16"
  NFTA_BYTEORDER_OP :: "u16"
  NFTA_BYTEORDER_LEN :: "u16"
  NFTA_BYTEORDER_SIZE :: "u16"
  NFT_BYTEORDER_NTOH :: "int"
  NFT_BYTEORDER_HTON :: "int"
  NFTA_CMP_SREG :: "u16"
  NFTA_CMP_OP :: "u16"
  NFTA_CMP_DATA :: "u16"
  NFT_CMP_EQ :: "int"
  NFT_CMP_NEQ :: "int"
  NFT_CMP_LT :: "int"
  NFT_CMP_LTE :: "int"
  NFT_CMP_GT :: "int"
  NFT_CMP_GTE :: "int"
  NFTA_CT_DREG :: "u16"
  NFTA_CT_KEY :: "u16"
  NFTA_CT_DIRECTION :: "u16"
  NFTA_CT_SREG :: "u16"
  NFT_CT_STATE :: "int"
  NFT_CT_MARK :: "int"
  NFTA_COUNTER_BYTES :: "u16"
  NFTA_COUNTER_PACKETS :: "u16"
  NFTA_EXTHDR_DREG :: "u16"
  NFTA_EXTHDR_TYPE :: "u16"
  NFTA_EXTHDR_OFFSET :: "u16"
  NFTA_EXTHDR_LEN :: "u16"
  NFTA_EXTHDR_FLAGS :: "u16"
  NFTA_EXTHDR_OP :: "u16"
  NFTA_EXTHDR_SREG :: "u16"
  NFT_EXTHDR_OP_IPV6 :: "int"
  NFT_EXTHDR_OP_TCPOPT :: "int"
  NFTA_IMMEDIATE_DREG :: "u16"
  NFTA_IMMEDIATE_DATA :: "u16"
  NFTA_LOG_GROUP :: "u16"
  NFTA_LOG_PREFIX :: "u16"
  NFTA_LOOKUP_SET :: "u16"
  NFTA_LOOKUP_SREG :: "u16"
  NFTA_LOOKUP_DREG :: "u16"
  NFTA_LOOKUP_SET_ID :: "u16"

record sys = expr_sys +
  NFTA_META_DREG :: "u16"
  NFTA_META_KEY :: "u16"
  NFTA_META_SREG :: "u16"
  NFT_META_PROTOCOL :: "int"
  NFT_META_MARK :: "int"
  NFT_META_IIF :: "int"
  NFT_META_OIF :: "int"
  NFT_META_IIFNAME :: "int"
  NFT_META_OIFNAME :: "int"
  NFT_META_IIFTYPE :: "int"
  NFT_META_OIFTYPE :: "int"
  NFT_META_SKUID :: "int"
  NFT_META_SKGID :: "int"
  NFT_META_NFPROTO :: "int"
  NFT_META_L4PROTO :: "int"
  NFT_META_CGROUP :: "int"
  NFT_META_PRANDOM :: "int"
  NFTA_NAT_TYPE :: "u16"
  NFTA_NAT_FAMILY :: "u16"
  NFTA_NAT_REG_ADDR_MIN :: "u16"
  NFTA_NAT_REG_PROTO_MIN :: "u16"
  NFT_NAT_SNAT :: "int"
  NFT_NAT_DNAT :: "int"
  NFTA_PAYLOAD_DREG :: "u16"
  NFTA_PAYLOAD_BASE :: "u16"
  NFTA_PAYLOAD_OFFSET :: "u16"
  NFTA_PAYLOAD_LEN :: "u16"
  NFTA_PAYLOAD_SREG :: "u16"
  NFT_PAYLOAD_LL_HEADER :: "u32"
  NFT_PAYLOAD_NETWORK_HEADER :: "u32"
  NFT_PAYLOAD_TRANSPORT_HEADER :: "u32"
  NFTA_REJECT_TYPE :: "u16"
  NFTA_REJECT_ICMP_CODE :: "u16"
  NFT_REJECT_ICMP_UNREACH :: "int"
  NFT_REJECT_TCP_RST :: "int"
  NFT_REJECT_ICMPX_UNREACH :: "int"
  NFT_REJECT_ICMPX_NO_ROUTE :: "int"
  NFT_REJECT_ICMPX_PORT_UNREACH :: "int"
  NFT_REJECT_ICMPX_HOST_UNREACH :: "int"
  NFT_REJECT_ICMPX_ADMIN_PROHIBITED :: "int"
  NFTA_RT_DREG :: "u16"
  NFTA_RT_KEY :: "u16"
  NFT_RT_CLASSID :: "int"
  NFT_RT_NEXTHOP4 :: "int"
  NFT_RT_NEXTHOP6 :: "int"
  NFT_RT_TCPMSS :: "int"
  IPPROTO_ICMP :: "int"
  IPPROTO_IGMP :: "int"
  IPPROTO_TCP :: "int"
  IPPROTO_UDP :: "int"
  IPPROTO_ICMPV6 :: "int"
  IFNAMSIZ :: "nat"

section \<open>What the code relies on\<close>

text \<open>
  The documented netlink interface: messages and attributes are aligned on four bytes, the
  headers have the sizes of \<open>linux/netlink.h\<close> and \<open>linux/netfilter/nfnetlink.h\<close>, loading a
  structure gives back what was stored, all-zero memory holds zero fields, and the attribute
  type mask clears exactly the nested flag from a type below the flag bits.
\<close>

locale netlink_abi =
  fixes S :: sys
  assumes align [abi]: "NLMSG_ALIGNTO S = 4"
    and sizes [abi]: "size_of_nlmsghdr S = 16" "size_of_nfgenmsg S = 4" "size_of_nlattr S = 4"
      "size_of_nlmsgerr S = 20"
    and lengths [abi]: "length (nlmsghdr_bytes S h) = 16" "length (nfgenmsg_bytes S g) = 4"
      "length (nlattr_bytes S a) = 4"
    and load_store [abi]: "nlmsghdr_of S (nlmsghdr_bytes S h @ r) = h"
      "nfgenmsg_of S (nfgenmsg_bytes S g @ r) = g" "nlattr_of S (nlattr_bytes S a @ r) = a"
    and load_zero [abi]:
      "nlmsghdr_of S (replicate 16 0 @ r) =
         \<lparr>nlmsg_len = 0, nlmsg_type = 0, nlmsg_flags = 0, nlmsg_seq = 0, nlmsg_pid = 0\<rparr>"
      "nfgenmsg_of S (replicate 4 0 @ r) = \<lparr>nfgen_family = 0, genmsg_version = 0, genmsg_res_id = 0\<rparr>"
    and type_mask: "word_of_int (NLA_TYPE_MASK S) = (0x3FFF :: u16)"
    and nested_flag: "word_of_int (NLA_F_NESTED S) = (0x8000 :: u16)"

text \<open>
  An attribute number is usable for a structure when its numbers are distinct and lie below
  the flag bits of \<open>nla_type\<close>.
\<close>

definition attr_types_ok :: "u16 list \<Rightarrow> bool" where
  "attr_types_ok tys \<longleftrightarrow> distinct tys \<and> (\<forall>t\<in>set tys. t < 0x4000)"

section \<open>The Linux user-space interface\<close>

definition le_bytes :: "nat \<Rightarrow> 'a::len word \<Rightarrow> bytes" where
  "le_bytes n w = rev (be_bytes n w)"

definition from_le :: "bytes \<Rightarrow> 'a::len word" where
  "from_le bs = from_be (rev bs)"

lemma length_le_bytes [simp]: "length (le_bytes n w) = n"
  by (simp add: le_bytes_def)

lemma from_le_bytes [simp]:
  "LENGTH('a) = 8 * n \<Longrightarrow> from_le (le_bytes n (w :: 'a::len word)) = w"
  by (simp add: from_le_def le_bytes_def)

definition linux_nlmsghdr_bytes :: "nlmsghdr \<Rightarrow> bytes" where
  "linux_nlmsghdr_bytes h = le_bytes 4 (nlmsg_len h) @ le_bytes 2 (nlmsg_type h) @
     le_bytes 2 (nlmsg_flags h) @ le_bytes 4 (nlmsg_seq h) @ le_bytes 4 (nlmsg_pid h)"

definition linux_nlmsghdr_of :: "bytes \<Rightarrow> nlmsghdr" where
  "linux_nlmsghdr_of b =
     \<lparr>nlmsg_len = from_le (take 4 b), nlmsg_type = from_le (take 2 (drop 4 b)),
      nlmsg_flags = from_le (take 2 (drop 6 b)), nlmsg_seq = from_le (take 4 (drop 8 b)),
      nlmsg_pid = from_le (take 4 (drop 12 b))\<rparr>"

definition linux_nfgenmsg_bytes :: "nfgenmsg \<Rightarrow> bytes" where
  "linux_nfgenmsg_bytes g =
     le_bytes 1 (nfgen_family g) @ le_bytes 1 (genmsg_version g) @ le_bytes 2 (genmsg_res_id g)"

definition linux_nfgenmsg_of :: "bytes \<Rightarrow> nfgenmsg" where
  "linux_nfgenmsg_of b =
     \<lparr>nfgen_family = from_le (take 1 b), genmsg_version = from_le (take 1 (drop 1 b)),
      genmsg_res_id = from_le (take 2 (drop 2 b))\<rparr>"

definition linux_nlattr_bytes :: "nlattr \<Rightarrow> bytes" where
  "linux_nlattr_bytes a = le_bytes 2 (nla_len a) @ le_bytes 2 (nla_type a)"

definition linux_nlattr_of :: "bytes \<Rightarrow> nlattr" where
  "linux_nlattr_of b = \<lparr>nla_len = from_le (take 2 b), nla_type = from_le (take 2 (drop 2 b))\<rparr>"

definition linux_nlmsgerr_of :: "bytes \<Rightarrow> nlmsgerr" where
  "linux_nlmsgerr_of b = \<lparr>nlmsgerr_error = from_le (take 4 b), nlmsgerr_msg = linux_nlmsghdr_of (drop 4 b)\<rparr>"

definition linux_sys :: sys where
  "linux_sys =
    \<lparr>size_of_nlmsghdr = 16, nlmsghdr_bytes = linux_nlmsghdr_bytes,
     nlmsghdr_of = linux_nlmsghdr_of,
     size_of_nfgenmsg = 4, nfgenmsg_bytes = linux_nfgenmsg_bytes,
     nfgenmsg_of = linux_nfgenmsg_of,
     size_of_nlattr = 4, nlattr_bytes = linux_nlattr_bytes, nlattr_of = linux_nlattr_of,
     size_of_nlmsgerr = 20, nlmsgerr_of = linux_nlmsgerr_of,
     NLMSG_ALIGNTO = 4,
     NLM_F_REQUEST = 1,
     NLM_F_MULTI = 2,
     NLM_F_ACK = 4,
     NLM_F_DUMP_INTR = 16,
     NLM_F_DUMP = 768,
     NLM_F_CREATE = 1024,
     NLM_F_APPEND = 2048,
     NLMSG_NOOP = 1,
     NLMSG_ERROR = 2,
     NLMSG_DONE = 3,
     NLMSG_MIN_TYPE = 16,
     NLA_F_NESTED = 32768,
     NLA_TYPE_MASK = - 49153,
     NFNETLINK_V0 = 0,
     NFNL_SUBSYS_NFTABLES = 10,
     NFNL_MSG_BATCH_BEGIN = 16,
     NFNL_MSG_BATCH_END = 17,
     NFPROTO_UNSPEC = 0,
     NFPROTO_INET = 1,
     NFPROTO_IPV4 = 2,
     NFPROTO_ARP = 3,
     NFPROTO_NETDEV = 5,
     NFPROTO_BRIDGE = 7,
     NFPROTO_IPV6 = 10,
     NFPROTO_DECNET = 12,
     NFT_MSG_NEWTABLE = 0,
     NFT_MSG_GETTABLE = 1,
     NFT_MSG_DELTABLE = 2,
     NFT_MSG_NEWCHAIN = 3,
     NFT_MSG_GETCHAIN = 4,
     NFT_MSG_DELCHAIN = 5,
     NFT_MSG_NEWRULE = 6,
     NFT_MSG_GETRULE = 7,
     NFT_MSG_DELRULE = 8,
     NFT_MSG_NEWSET = 9,
     NFT_MSG_DELSET = 11,
     NFT_MSG_NEWSETELEM = 12,
     NFT_MSG_DELSETELEM = 14,
     NFTA_TABLE_NAME = 1,
     NFTA_TABLE_FLAGS = 2,
     NFTA_TABLE_USERDATA = Some 6,
     NFTA_HOOK_HOOKNUM = 1,
     NFTA_HOOK_PRIORITY = 2,
     NFTA_CHAIN_TABLE = 1,
     NFTA_CHAIN_NAME = 3,
     NFTA_CHAIN_HOOK = 4,
     NFTA_CHAIN_POLICY = 5,
     NFTA_CHAIN_TYPE = 7,
     NFTA_CHAIN_FLAGS = 10,
     NFTA_CHAIN_USERDATA = Some 12,
     NFTA_RULE_TABLE = 1,
     NFTA_RULE_CHAIN = 2,
     NFTA_RULE_HANDLE = 3,
     NFTA_RULE_EXPRESSIONS = 4,
     NFTA_RULE_POSITION = 6,
     NFTA_RULE_USERDATA = 7,
     NFTA_RULE_ID = 9,
     NFTA_SET_TABLE = 1,
     NFTA_SET_NAME = 2,
     NFTA_SET_FLAGS = 3,
     NFTA_SET_KEY_TYPE = 4,
     NFTA_SET_KEY_LEN = 5,
     NFTA_SET_ID = 10,
     NFTA_SET_USERDATA = 13,
     NFTA_SET_ELEM_LIST_TABLE = 1,
     NFTA_SET_ELEM_LIST_SET = 2,
     NFTA_SET_ELEM_LIST_ELEMENTS = 3,
     NFTA_SET_ELEM_KEY = 1,
     NFTA_LIST_ELEM = 1,
     NFTA_DATA_VALUE = 1,
     NFTA_DATA_VERDICT = 2,
     NFTA_EXPR_NAME = 1,
     NFTA_EXPR_DATA = 2,
     NFTA_VERDICT_CODE = 1,
     NFTA_VERDICT_CHAIN = 2,
     NFTA_VERDICT_CHAIN_ID = Some 3,
     NF_DROP = 0,
     NF_ACCEPT = 1,
     NF_QUEUE = 3,
     NFT_CONTINUE = - 1,
     NFT_BREAK = - 2,
     NFT_JUMP = - 3,
     NFT_GOTO = - 4,
     NFT_RETURN = - 5,
     NF_INET_PRE_ROUTING = 0,
     NF_INET_LOCAL_IN = 1,
     NF_INET_FORWARD = 2,
     NF_INET_LOCAL_OUT = 3,
     NF_INET_POST_ROUTING = 4,
     NFT_REG_VERDICT = 0,
     NFT_REG_1 = 1,
     NFT_REG_2 = 2,
     NFT_REG_3 = 3,
     NFT_REG_4 = 4,
     NFTA_BITWISE_SREG = 1,
     NFTA_BITWISE_DREG = 2,
     NFTA_BITWISE_LEN = 3,
     NFTA_BITWISE_MASK = 4,
     NFTA_BITWISE_XOR = 5,
     NFTA_BYTEORDER_SREG = 1,
     NFTA_BYTEORDER_DREG = 2,
     NFTA_BYTEORDER_OP = 3,
     NFTA_BYTEORDER_LEN = 4,
     NFTA_BYTEORDER_SIZE = 5,
     NFT_BYTEORDER_NTOH = 0,
     NFT_BYTEORDER_HTON = 1,
     NFTA_CMP_SREG = 1,
     NFTA_CMP_OP = 2,
     NFTA_CMP_DATA = 3,
     NFT_CMP_EQ = 0,
     NFT_CMP_NEQ = 1,
     NFT_CMP_LT = 2,
     NFT_CMP_LTE = 3,
     NFT_CMP_GT = 4,
     NFT_CMP_GTE = 5,
     NFTA_CT_DREG = 1,
     NFTA_CT_KEY = 2,
     NFTA_CT_DIRECTION = 3,
     NFTA_CT_SREG = 4,
     NFT_CT_STATE = 0,
     NFT_CT_MARK = 3,
     NFTA_COUNTER_BYTES = 1,
     NFTA_COUNTER_PACKETS = 2,
     NFTA_EXTHDR_DREG = 1,
     NFTA_EXTHDR_TYPE = 2,
     NFTA_EXTHDR_OFFSET = 3,
     NFTA_EXTHDR_LEN = 4,
     NFTA_EXTHDR_FLAGS = 5,
     NFTA_EXTHDR_OP = 6,
     NFTA_EXTHDR_SREG = 7,
     NFT_EXTHDR_OP_IPV6 = 0,
     NFT_EXTHDR_OP_TCPOPT = 1,
     NFTA_IMMEDIATE_DREG = 1,
     NFTA_IMMEDIATE_DATA = 2,
     NFTA_LOG_GROUP = 1,
     NFTA_LOG_PREFIX = 2,
     NFTA_LOOKUP_SET = 1,
     NFTA_LOOKUP_SREG = 2,
     NFTA_LOOKUP_DREG = 3,
     NFTA_LOOKUP_SET_ID = 4,
     NFTA_META_DREG = 1,
     NFTA_META_KEY = 2,
     NFTA_META_SREG = 3,
     NFT_META_PROTOCOL = 1,
     NFT_META_MARK = 3,
     NFT_META_IIF = 4,
     NFT_META_OIF = 5,
     NFT_META_IIFNAME = 6,
     NFT_META_OIFNAME = 7,
     NFT_META_IIFTYPE = 8,
     NFT_META_OIFTYPE = 9,
     NFT_META_SKUID = 10,
     NFT_META_SKGID = 11,
     NFT_META_NFPROTO = 15,
     NFT_META_L4PROTO = 16,
     NFT_META_CGROUP = 23,
     NFT_META_PRANDOM = 24,
     NFTA_NAT_TYPE = 1,
     NFTA_NAT_FAMILY = 2,
     NFTA_NAT_REG_ADDR_MIN = 3,
     NFTA_NAT_REG_PROTO_MIN = 5,
     NFT_NAT_SNAT = 0,
     NFT_NAT_DNAT = 1,
     NFTA_PAYLOAD_DREG = 1,
     NFTA_PAYLOAD_BASE = 2,
     NFTA_PAYLOAD_OFFSET = 3,
     NFTA_PAYLOAD_LEN = 4,
     NFTA_PAYLOAD_SREG = 5,
     NFT_PAYLOAD_LL_HEADER = 0,
     NFT_PAYLOAD_NETWORK_HEADER = 1,
     NFT_PAYLOAD_TRANSPORT_HEADER = 2,
     NFTA_REJECT_TYPE = 1,
     NFTA_REJECT_ICMP_CODE = 2,
     NFT_REJECT_ICMP_UNREACH = 0,
     NFT_REJECT_TCP_RST = 1,
     NFT_REJECT_ICMPX_UNREACH = 2,
     NFT_REJECT_ICMPX_NO_ROUTE = 0,
     NFT_REJECT_ICMPX_PORT_UNREACH = 1,
     NFT_REJECT_ICMPX_HOST_UNREACH = 2,
     NFT_REJECT_ICMPX_ADMIN_PROHIBITED = 3,
     NFTA_RT_DREG = 1,
     NFTA_RT_KEY = 2,
     NFT_RT_CLASSID = 0,
     NFT_RT_NEXTHOP4 = 1,
     NFT_RT_NEXTHOP6 = 2,
     NFT_RT_TCPMSS = 3,
     IPPROTO_ICMP = 1,
     IPPROTO_IGMP = 2,
     IPPROTO_TCP = 6,
     IPPROTO_UDP = 17,
     IPPROTO_ICMPV6 = 58,
     IFNAMSIZ = 16\<rparr>"

lemma linux_values [simp]:
  "size_of_nlmsghdr linux_sys = 16"
  "nlmsghdr_bytes linux_sys = linux_nlmsghdr_bytes"
  "nlmsghdr_of linux_sys = linux_nlmsghdr_of"
  "size_of_nfgenmsg linux_sys = 4"
  "nfgenmsg_bytes linux_sys = linux_nfgenmsg_bytes"
  "nfgenmsg_of linux_sys = linux_nfgenmsg_of"
  "size_of_nlattr linux_sys = 4"
  "nlattr_bytes linux_sys = linux_nlattr_bytes"
  "nlattr_of linux_sys = linux_nlattr_of"
  "size_of_nlmsgerr linux_sys = 20"
  "nlmsgerr_of linux_sys = linux_nlmsgerr_of"
  "NLMSG_ALIGNTO linux_sys = 4"
  "NLM_F_REQUEST linux_sys = 1"
  "NLM_F_MULTI linux_sys = 2"
  "NLM_F_ACK linux_sys = 4"
  "NLM_F_DUMP_INTR linux_sys = 16"
  "NLM_F_DUMP linux_sys = 768"
  "NLM_F_CREATE linux_sys = 1024"
  "NLM_F_APPEND linux_sys = 2048"
  "NLMSG_NOOP linux_sys = 1"
  "NLMSG_ERROR linux_sys = 2"
  "NLMSG_DONE linux_sys = 3"
  "NLMSG_MIN_TYPE linux_sys = 16"
  "NLA_F_NESTED linux_sys = 32768"
  "NLA_TYPE_MASK linux_sys = - 49153"
  "NFNETLINK_V0 linux_sys = 0"
  "NFNL_SUBSYS_NFTABLES linux_sys = 10"
  "NFNL_MSG_BATCH_BEGIN linux_sys = 16"
  "NFNL_MSG_BATCH_END linux_sys = 17"
  "NFPROTO_UNSPEC linux_sys = 0"
  "NFPROTO_INET linux_sys = 1"
  "NFPROTO_IPV4 linux_sys = 2"
  "NFPROTO_ARP linux_sys = 3"
  "NFPROTO_NETDEV linux_sys = 5"
  "NFPROTO_BRIDGE linux_sys = 7"
  "NFPROTO_IPV6 linux_sys = 10"
  "NFPROTO_DECNET linux_sys = 12"
  "NFT_MSG_NEWTABLE linux_sys = 0"
  "NFT_MSG_GETTABLE linux_sys = 1"
  "NFT_MSG_DELTABLE linux_sys = 2"
  "NFT_MSG_NEWCHAIN linux_sys = 3"
  "NFT_MSG_GETCHAIN linux_sys = 4"
  "NFT_MSG_DELCHAIN linux_sys = 5"
  "NFT_MSG_NEWRULE linux_sys = 6"
  "NFT_MSG_GETRULE linux_sys = 7"
  "NFT_MSG_DELRULE linux_sys = 8"
  "NFT_MSG_NEWSET linux_sys = 9"
  "NFT_MSG_DELSET linux_sys = 11"
  "NFT_MSG_NEWSETELEM linux_sys = 12"
  "NFT_MSG_DELSETELEM linux_sys = 14"
  "NFTA_TABLE_NAME linux_sys = 1"
  "NFTA_TABLE_FLAGS linux_sys = 2"
  "NFTA_TABLE_USERDATA linux_sys = Some 6"
  "NFTA_HOOK_HOOKNUM linux_sys = 1"
  "NFTA_HOOK_PRIORITY linux_sys = 2"
  "NFTA_CHAIN_TABLE linux_sys = 1"
  "NFTA_CHAIN_NAME linux_sys = 3"
  "NFTA_CHAIN_HOOK linux_sys = 4"
  "NFTA_CHAIN_POLICY linux_sys = 5"
  "NFTA_CHAIN_TYPE linux_sys = 7"
  "NFTA_CHAIN_FLAGS linux_sys = 10"
  "NFTA_CHAIN_USERDATA linux_sys = Some 12"
  "NFTA_RULE_TABLE linux_sys = 1"
  "NFTA_RULE_CHAIN linux_sys = 2"
  "NFTA_RULE_HANDLE linux_sys = 3"
  "NFTA_RULE_EXPRESSIONS linux_sys = 4"
  "NFTA_RULE_POSITION linux_sys = 6"
  "NFTA_RULE_USERDATA linux_sys = 7"
  "NFTA_RULE_ID linux_sys = 9"
  "NFTA_SET_TABLE linux_sys = 1"
  "NFTA_SET_NAME linux_sys = 2"
  "NFTA_SET_FLAGS linux_sys = 3"
  "NFTA_SET_KEY_TYPE linux_sys = 4"
  "NFTA_SET_KEY_LEN linux_sys = 5"
  "NFTA_SET_ID linux_sys = 10"
  "NFTA_SET_USERDATA linux_sys = 13"
  "NFTA_SET_ELEM_LIST_TABLE linux_sys = 1"
  "NFTA_SET_ELEM_LIST_SET linux_sys = 2"
  "NFTA_SET_ELEM_LIST_ELEMENTS linux_sys = 3"
  "NFTA_SET_ELEM_KEY linux_sys = 1"
  "NFTA_LIST_ELEM linux_sys = 1"
  "NFTA_DATA_VALUE linux_sys = 1"
  "NFTA_DATA_VERDICT linux_sys = 2"
  "NFTA_EXPR_NAME linux_sys = 1"
  "NFTA_EXPR_DATA linux_sys = 2"
  "NFTA_VERDICT_CODE linux_sys = 1"
  "NFTA_VERDICT_CHAIN linux_sys = 2"
  "NFTA_VERDICT_CHAIN_ID linux_sys = Some 3"
  "NF_DROP linux_sys = 0"
  "NF_ACCEPT linux_sys = 1"
  "NF_QUEUE linux_sys = 3"
  "NFT_CONTINUE linux_sys = - 1"
  "NFT_BREAK linux_sys = - 2"
  "NFT_JUMP linux_sys = - 3"
  "NFT_GOTO linux_sys = - 4"
  "NFT_RETURN linux_sys = - 5"
  "NF_INET_PRE_ROUTING linux_sys = 0"
  "NF_INET_LOCAL_IN linux_sys = 1"
  "NF_INET_FORWARD linux_sys = 2"
  "NF_INET_LOCAL_OUT linux_sys = 3"
  "NF_INET_POST_ROUTING linux_sys = 4"
  "NFT_REG_VERDICT linux_sys = 0"
  "NFT_REG_1 linux_sys = 1"
  "NFT_REG_2 linux_sys = 2"
  "NFT_REG_3 linux_sys = 3"
  "NFT_REG_4 linux_sys = 4"
  "NFTA_BITWISE_SREG linux_sys = 1"
  "NFTA_BITWISE_DREG linux_sys = 2"
  "NFTA_BITWISE_LEN linux_sys = 3"
  "NFTA_BITWISE_MASK linux_sys = 4"
  "NFTA_BITWISE_XOR linux_sys = 5"
  "NFTA_BYTEORDER_SREG linux_sys = 1"
  "NFTA_BYTEORDER_DREG linux_sys = 2"
  "NFTA_BYTEORDER_OP linux_sys = 3"
  "NFTA_BYTEORDER_LEN linux_sys = 4"
  "NFTA_BYTEORDER_SIZE linux_sys = 5"
  "NFT_BYTEORDER_NTOH linux_sys = 0"
  "NFT_BYTEORDER_HTON linux_sys = 1"
  "NFTA_CMP_SREG linux_sys = 1"
  "NFTA_CMP_OP linux_sys = 2"
  "NFTA_CMP_DATA linux_sys = 3"
  "NFT_CMP_EQ linux_sys = 0"
  "NFT_CMP_NEQ linux_sys = 1"
  "NFT_CMP_LT linux_sys = 2"
  "NFT_CMP_LTE linux_sys = 3"
  "NFT_CMP_GT linux_sys = 4"
  "NFT_CMP_GTE linux_sys = 5"
  "NFTA_CT_DREG linux_sys = 1"
  "NFTA_CT_KEY linux_sys = 2"
  "NFTA_CT_DIRECTION linux_sys = 3"
  "NFTA_CT_SREG linux_sys = 4"
  "NFT_CT_STATE linux_sys = 0"
  "NFT_CT_MARK linux_sys = 3"
  "NFTA_COUNTER_BYTES linux_sys = 1"
  "NFTA_COUNTER_PACKETS linux_sys = 2"
  "NFTA_EXTHDR_DREG linux_sys = 1"
  "NFTA_EXTHDR_TYPE linux_sys = 2"
  "NFTA_EXTHDR_OFFSET linux_sys = 3"
  "NFTA_EXTHDR_LEN linux_sys = 4"
  "NFTA_EXTHDR_FLAGS linux_sys = 5"
  "NFTA_EXTHDR_OP linux_sys = 6"
  "NFTA_EXTHDR_SREG linux_sys = 7"
  "NFT_EXTHDR_OP_IPV6 linux_sys = 0"
  "NFT_EXTHDR_OP_TCPOPT linux_sys = 1"
  "NFTA_IMMEDIATE_DREG linux_sys = 1"
  "NFTA_IMMEDIATE_DATA linux_sys = 2"
  "NFTA_LOG_GROUP linux_sys = 1"
  "NFTA_LOG_PREFIX linux_sys = 2"
  "NFTA_LOOKUP_SET linux_sys = 1"
  "NFTA_LOOKUP_SREG linux_sys = 2"
  "NFTA_LOOKUP_DREG linux_sys = 3"
  "NFTA_LOOKUP_SET_ID linux_sys = 4"
  "NFTA_META_DREG linux_sys = 1"
  "NFTA_META_KEY linux_sys = 2"
  "NFTA_META_SREG linux_sys = 3"
  "NFT_META_PROTOCOL linux_sys = 1"
  "NFT_META_MARK linux_sys = 3"
  "NFT_META_IIF linux_sys = 4"
  "NFT_META_OIF linux_sys = 5"
  "NFT_META_IIFNAME linux_sys = 6"
  "NFT_META_OIFNAME linux_sys = 7"
  "NFT_META_IIFTYPE linux_sys = 8"
  "NFT_META_OIFTYPE linux_sys = 9"
  "NFT_META_SKUID linux_sys = 10"
  "NFT_META_SKGID linux_sys = 11"
  "NFT_META_NFPROTO linux_sys = 15"
  "NFT_META_L4PROTO linux_sys = 16"
  "NFT_META_CGROUP linux_sys = 23"
  "NFT_META_PRANDOM linux_sys = 24"
  "NFTA_NAT_TYPE linux_sys = 1"
  "NFTA_NAT_FAMILY linux_sys = 2"
  "NFTA_NAT_REG_ADDR_MIN linux_sys = 3"
  "NFTA_NAT_REG_PROTO_MIN linux_sys = 5"
  "NFT_NAT_SNAT linux_sys = 0"
  "NFT_NAT_DNAT linux_sys = 1"
  "NFTA_PAYLOAD_DREG linux_sys = 1"
  "NFTA_PAYLOAD_BASE linux_sys = 2"
  "NFTA_PAYLOAD_OFFSET linux_sys = 3"
  "NFTA_PAYLOAD_LEN linux_sys = 4"
  "NFTA_PAYLOAD_SREG linux_sys = 5"
  "NFT_PAYLOAD_LL_HEADER linux_sys = 0"
  "NFT_PAYLOAD_NETWORK_HEADER linux_sys = 1"
  "NFT_PAYLOAD_TRANSPORT_HEADER linux_sys = 2"
  "NFTA_REJECT_TYPE linux_sys = 1"
  "NFTA_REJECT_ICMP_CODE linux_sys = 2"
  "NFT_REJECT_ICMP_UNREACH linux_sys = 0"
  "NFT_REJECT_TCP_RST linux_sys = 1"
  "NFT_REJECT_ICMPX_UNREACH linux_sys = 2"
  "NFT_REJECT_ICMPX_NO_ROUTE linux_sys = 0"
  "NFT_REJECT_ICMPX_PORT_UNREACH linux_sys = 1"
  "NFT_REJECT_ICMPX_HOST_UNREACH linux_sys = 2"
  "NFT_REJECT_ICMPX_ADMIN_PROHIBITED linux_sys = 3"
  "NFTA_RT_DREG linux_sys = 1"
  "NFTA_RT_KEY linux_sys = 2"
  "NFT_RT_CLASSID linux_sys = 0"
  "NFT_RT_NEXTHOP4 linux_sys = 1"
  "NFT_RT_NEXTHOP6 linux_sys = 2"
  "NFT_RT_TCPMSS linux_sys = 3"
  "IPPROTO_ICMP linux_sys = 1"
  "IPPROTO_IGMP linux_sys = 2"
  "IPPROTO_TCP linux_sys = 6"
  "IPPROTO_UDP linux_sys = 17"
  "IPPROTO_ICMPV6 linux_sys = 58"
  "IFNAMSIZ linux_sys = 16"
  by (simp_all add: linux_sys_def)

lemma from_le_zeros [simp]: "from_le (replicate n 0) = (0 :: 'a::len word)"
proof -
  have "foldl (\<lambda>acc b. push_bit 8 acc OR ucast b) (0 :: 'a word) (replicate n 0) = 0"
    by (induction n) simp_all
  then show ?thesis by (simp add: from_le_def from_be_def)
qed

interpretation linux: netlink_abi linux_sys
  by unfold_locales
    (simp_all add: linux_nlmsghdr_bytes_def linux_nlmsghdr_of_def
      linux_nfgenmsg_bytes_def linux_nfgenmsg_of_def linux_nlattr_bytes_def linux_nlattr_of_def
      min_def from_le_zeros [of 1, simplified])

end
