(* ===== verification/Errors.thy ===== *)
theory Errors
  imports Sys
begin

text \<open>
  The error types of \<open>src/error.rs\<close>, with the payload each variant carries. The payload of
  \<open>StringDecodeFailure\<close> (the bytes that failed to decode) is not kept. \<open>nix::Error\<close> and
  \<open>Errno\<close> are errno numbers. The last section has the two enumerations of \<open>src/lib.rs\<close>.
\<close>

datatype (plugins only: code size) DecodeError =
    BufTooSmall
  | NlMsgTooSmall
  | InvalidDataSize
  | InvalidSubsystem u8
  | InvalidVersion u8
  | InvalidPortId u32
  | InvalidSeq u32
  | ConcurrentGenerationUpdate
  | UnsupportedType u16
  | InvalidAttributeType
  | UnknownChainType
  | UnknownChainPolicy
  | UnknownMetaType u32
  | UnknownRejectType u32
  | UnknownRtKey u32
  | UnknownIcmpCode u8
  | UnknownRegister u32
  | UnknownVerdictType i32
  | UnknownNatType i32
  | UnknownPayloadType u32
  | UnknownByteorderOp u32
  | UnknownCmpOp u32
  | UnknownConntrackKey u32
  | UnknownExtHdrOp u32
  | UnknownLinkLayerHeaderField u32 u32
  | UnknownIPv4HeaderField u32 u32
  | UnknownIPv6HeaderField u32 u32
  | UnknownTCPHeaderField u32 u32
  | UnknownUDPHeaderField u32 u32
  | UnknownICMPv6HeaderField u32 u32
  | PayloadMissingBase
  | PayloadMissingOffset
  | PayloadMissingLen
  | MissingExpressionName
  | UnsupportedAttributeType u16
  | UnexpectedType u16
  | StringDecodeFailure
  | UnknownProtocolFamily i32

datatype BuilderError =
    IncompatibleLength
  | MissingTableName
  | MissingChainInformationError
  | MissingSetName
  | InterfaceNameTooLong
  | TooLongLogPrefix

type_synonym errno = int

datatype (plugins only: code size) QueryError =
    NetlinkOpenError errno
  | NetlinkSendError errno
  | NetlinkRecvError errno
  | ProcessNetlinkError DecodeError
  | BuilderErr BuilderError
  | NetlinkError nlmsgerr
  | NetlinkAllocationFailed
  | NotNetlinkSocket
  | RetrievingSocketInfoFailed
  | TruncatedSend
  | UndecidableMessageTermination
  | CloseFailed errno

type_synonym 'a decoded = "(DecodeError, 'a) outcome"
type_synonym 'a built = "(BuilderError, 'a) outcome"
type_synonym 'a queried = "(QueryError, 'a) outcome"

section \<open>Enumerations of the crate root\<close>

datatype MsgType = Add | Del

datatype ProtocolFamily =
    FamUnspec | FamInet | FamIpv4 | FamArp | FamNetDev | FamBridge | FamIpv6 | FamDecNet

text \<open>The discriminant \<open>family as i32\<close>.\<close>

fun ProtocolFamily_value :: "sys \<Rightarrow> ProtocolFamily \<Rightarrow> i32" where
  "ProtocolFamily_value S FamUnspec = word_of_int (NFPROTO_UNSPEC S)"
| "ProtocolFamily_value S FamInet = word_of_int (NFPROTO_INET S)"
| "ProtocolFamily_value S FamIpv4 = word_of_int (NFPROTO_IPV4 S)"
| "ProtocolFamily_value S FamArp = word_of_int (NFPROTO_ARP S)"
| "ProtocolFamily_value S FamNetDev = word_of_int (NFPROTO_NETDEV S)"
| "ProtocolFamily_value S FamBridge = word_of_int (NFPROTO_BRIDGE S)"
| "ProtocolFamily_value S FamIpv6 = word_of_int (NFPROTO_IPV6 S)"
| "ProtocolFamily_value S FamDecNet = word_of_int (NFPROTO_DECNET S)"

definition ProtocolFamily_default :: ProtocolFamily where
  "ProtocolFamily_default = FamUnspec"

end
