(* ===== verification/Nlmsg.thy ===== *)
theory Nlmsg
  imports Errors
begin

text \<open>
  Model of \<open>src/nlmsg.rs\<close>: the alignment arithmetic, the message type fields, the writer that
  appends netlink messages to a byte vector, and the traits an object implements.

  \<open>NfNetlinkWriter\<close> keeps the vector it appends to and the offsets of the headers of the
  message being written. A \<open>&mut [u8]\<close> that a method returns is the range (offset, length) of
  the vector; \<open>update_slice\<close> runs the code that writes through it. Casting such a slice to a
  \<open>nlmsghdr\<close> pointer and using it is an access without bounds check: it is \<open>UB\<close> when the
  slice is shorter than the structure. The increments of \<open>u32\<close> fields panic on overflow, as
  they do with overflow checks on.

  The trait \<open>NfNetlinkAttribute\<close> is the record \<open>attr_obj\<close>: what a value answers when it is
  asked to serialise itself. The trait \<open>NfNetlinkObject\<close> with its supertraits is the record
  \<open>nf_object\<close>.
\<close>

section \<open>Sizes and types\<close>

definition checked_add_u32 :: "u32 \<Rightarrow> u32 \<Rightarrow> ('e, u32) outcome" where
  "checked_add_u32 a b = (if unat a + unat b < 2 ^ 32 then Ok (a + b) else Panic)"

lemma sound_checked_add [simp]: "sound (checked_add_u32 a b)"
  by (simp add: checked_add_u32_def)

text \<open>The page size, \<open>sysconf(_SC_PAGESIZE)\<close>, is a parameter.\<close>

definition nft_nlmsg_maxsize :: "int \<Rightarrow> ('e, u32) outcome" where
  "nft_nlmsg_maxsize pagesize = checked_add_u32 65535 (word_of_int pagesize)"

definition pad_netlink_object_with_variable_size :: "sys \<Rightarrow> nat \<Rightarrow> nat" where
  "pad_netlink_object_with_variable_size S sz =
     nat ((int sz + (NLMSG_ALIGNTO S - 1)) AND NOT (NLMSG_ALIGNTO S - 1))"

abbreviation pad :: "sys \<Rightarrow> nat \<Rightarrow> nat" where
  "pad \<equiv> pad_netlink_object_with_variable_size"

text \<open>\<open>pad_netlink_object::<T>()\<close>, given \<open>size_of::<T>()\<close>.\<close>

definition pad_netlink_object :: "sys \<Rightarrow> (sys \<Rightarrow> nat) \<Rightarrow> nat" where
  "pad_netlink_object S size_of = pad_netlink_object_with_variable_size S (size_of S)"

definition get_subsystem_from_nlmsghdr_type :: "u16 \<Rightarrow> u8" where
  "get_subsystem_from_nlmsghdr_type x = ucast (drop_bit 8 (x AND 0xff00))"

definition get_operation_from_nlmsghdr_type :: "u16 \<Rightarrow> u8" where
  "get_operation_from_nlmsghdr_type x = ucast (x AND 0x00ff)"

section \<open>The writer\<close>

record NfNetlinkWriter =
  w_buf :: bytes
  w_headers :: "(nat \<times> nat) option"

definition writer_new :: "bytes \<Rightarrow> NfNetlinkWriter" where
  "writer_new b = \<lparr>w_buf = b, w_headers = None\<rparr>"

text \<open>Runs \<open>f\<close> on the slice of \<open>n\<close> bytes at \<open>start\<close> and stores what it leaves there.\<close>

definition update_slice ::
  "NfNetlinkWriter \<Rightarrow> nat \<Rightarrow> nat \<Rightarrow> (bytes \<Rightarrow> ('e, bytes) outcome) \<Rightarrow>
   ('e, NfNetlinkWriter) outcome" where
  "update_slice w start n f =
     bind (slice_range (w_buf w) start (start + n)) (\<lambda>sl.
     bind (f sl) (\<lambda>sl'.
     Ok (w\<lparr>w_buf := take start (w_buf w) @ sl' @ drop (start + n) (w_buf w)\<rparr>)))"

text \<open>Access to the \<open>nlmsghdr\<close> or \<open>nfgenmsg\<close> at the front of a slice through a raw pointer.\<close>

definition with_nlmsghdr ::
  "sys \<Rightarrow> (nlmsghdr \<Rightarrow> ('e, nlmsghdr) outcome) \<Rightarrow> bytes \<Rightarrow> ('e, bytes) outcome" where
  "with_nlmsghdr S f sl =
     (if length sl < size_of_nlmsghdr S then UB
      else bind (f (nlmsghdr_of S sl)) (\<lambda>h.
             Ok (nlmsghdr_bytes S h @ drop (size_of_nlmsghdr S) sl)))"

definition with_nfgenmsg ::
  "sys \<Rightarrow> (nfgenmsg \<Rightarrow> ('e, nfgenmsg) outcome) \<Rightarrow> bytes \<Rightarrow> ('e, bytes) outcome" where
  "with_nfgenmsg S f sl =
     (if length sl < size_of_nfgenmsg S then UB
      else bind (f (nfgenmsg_of S sl)) (\<lambda>g.
             Ok (nfgenmsg_bytes S g @ drop (size_of_nfgenmsg S) sl)))"

definition add_data_zeroed ::
  "sys \<Rightarrow> NfNetlinkWriter \<Rightarrow> nat \<Rightarrow> ('e, NfNetlinkWriter \<times> nat \<times> nat) outcome" where
  "add_data_zeroed S w sz =
     (let padded_size = pad_netlink_object_with_variable_size S sz;
          start = length (w_buf w);
          w1 = w\<lparr>w_buf := w_buf w @ replicate padded_size 0\<rparr> in
      bind (case w_headers w1 of
              None \<Rightarrow> Ok w1
            | Some (msghdr_idx, nfgenmsg_idx) \<Rightarrow>
                bind (slice_from (w_buf w1) msghdr_idx) (\<lambda>sl.
                update_slice w1 msghdr_idx (length sl)
                  (with_nlmsghdr S (\<lambda>hdr.
                     bind (checked_add_u32 (nlmsg_len hdr) (of_nat padded_size)) (\<lambda>len.
                     Ok (hdr\<lparr>nlmsg_len := len\<rparr>)))))) (\<lambda>w2.
      bind (slice_range (w_buf w2) start (start + sz)) (\<lambda>_.
      Ok (w2, start, sz))))"

definition write_header ::
  "sys \<Rightarrow> NfNetlinkWriter \<Rightarrow> u16 \<Rightarrow> ProtocolFamily \<Rightarrow> u16 \<Rightarrow> u32 \<Rightarrow> u16 option \<Rightarrow>
   ('e, NfNetlinkWriter) outcome" where
  "write_header S w msg_type family flags seq ressource_id =
     (let nlmsghdr_len = pad_netlink_object S size_of_nlmsghdr;
          nfgenmsg_len = pad_netlink_object S size_of_nfgenmsg in
      bind (add_data_zeroed S w nlmsghdr_len) (\<lambda>(w1, start1, n1).
      bind (update_slice w1 start1 n1 (with_nlmsghdr S (\<lambda>hdr.
        Ok (hdr\<lparr>nlmsg_len := of_nat (nlmsghdr_len + nfgenmsg_len),
               nlmsg_type :=
                 (if msg_type \<noteq> word_of_int (NFNL_MSG_BATCH_BEGIN S) \<and>
                     msg_type \<noteq> word_of_int (NFNL_MSG_BATCH_END S)
                  then msg_type OR push_bit 8 (word_of_int (NFNL_SUBSYS_NFTABLES S))
                  else msg_type),
               nlmsg_flags := word_of_int (NLM_F_REQUEST S) OR flags,
               nlmsg_seq := seq\<rparr>)))) (\<lambda>w2.
      bind (add_data_zeroed S w2 nfgenmsg_len) (\<lambda>(w3, start3, n3).
      bind (update_slice w3 start3 n3 (with_nfgenmsg S (\<lambda>g.
        Ok (g\<lparr>nfgen_family := ucast (ProtocolFamily_value S family),
              genmsg_version := word_of_int (NFNETLINK_V0 S),
              genmsg_res_id := (case ressource_id of None \<Rightarrow> 0 | Some r \<Rightarrow> r)\<rparr>)))) (\<lambda>w4.
      bind (usize_sub (length (w_buf w4)) (nlmsghdr_len + nfgenmsg_len)) (\<lambda>i.
      bind (usize_sub (length (w_buf w4)) nfgenmsg_len) (\<lambda>j.
      Ok (w4\<lparr>w_headers := Some (i, j)\<rparr>))))))))"

definition finalize_writing_object :: "NfNetlinkWriter \<Rightarrow> NfNetlinkWriter" where
  "finalize_writing_object w = w\<lparr>w_headers := None\<rparr>"

section \<open>Traits\<close>

text \<open>A value seen through \<open>NfNetlinkAttribute\<close>.\<close>

record attr_obj =
  is_nested :: bool
  get_size :: nat
  write_payload :: "bytes \<Rightarrow> bytes decoded"

text \<open>
  \<open>NfNetlinkObject\<close> for a type \<open>'a\<close>: its constants and methods, the attribute view of a value,
  the \<open>AttributeDecoder\<close> and \<open>Default\<close> implementations.
\<close>

record 'a nf_object =
  MSG_TYPE_ADD :: u32
  MSG_TYPE_DEL :: u32
  get_family :: "'a \<Rightarrow> ProtocolFamily"
  set_family :: "'a \<Rightarrow> ProtocolFamily \<Rightarrow> 'a"
  get_add_flags :: "'a \<Rightarrow> u32"
  get_del_flags :: "'a \<Rightarrow> u32"
  as_attr :: "'a \<Rightarrow> attr_obj"
  decode_attribute :: "'a \<Rightarrow> u16 \<Rightarrow> bytes \<Rightarrow> 'a decoded"
  default_obj :: 'a

definition default_set_family :: "'a \<Rightarrow> ProtocolFamily \<Rightarrow> 'a" where
  "default_set_family x family = x"

definition default_add_flags :: "sys \<Rightarrow> 'a \<Rightarrow> u32" where
  "default_add_flags S x = NLM_F_CREATE S"

definition default_del_flags :: "'a \<Rightarrow> u32" where
  "default_del_flags x = 0"

definition with_family :: "'a nf_object \<Rightarrow> 'a \<Rightarrow> ProtocolFamily \<Rightarrow> 'a" where
  "with_family T x family = set_family T x family"

definition add_or_remove ::
  "sys \<Rightarrow> 'a nf_object \<Rightarrow> 'a \<Rightarrow> NfNetlinkWriter \<Rightarrow> MsgType \<Rightarrow> u32 \<Rightarrow> NfNetlinkWriter decoded" where
  "add_or_remove S T x w msg_type seq =
     (let raw_msg_type = ucast (case msg_type of Add \<Rightarrow> MSG_TYPE_ADD T | Del \<Rightarrow> MSG_TYPE_DEL T) in
      bind (write_header S w raw_msg_type (get_family T x)
              (ucast ((case msg_type of Add \<Rightarrow> get_add_flags T x | Del \<Rightarrow> get_del_flags T x)
                      OR NLM_F_ACK S)) seq None) (\<lambda>w1.
      bind (add_data_zeroed S w1 (get_size (as_attr T x))) (\<lambda>(w2, start, n).
      bind (update_slice w2 start n (write_payload (as_attr T x))) (\<lambda>w3.
      Ok (finalize_writing_object w3)))))"

section \<open>Alignment\<close>

lemma and_not_mask: "(a :: int) AND NOT (2 ^ k - 1) = a div 2 ^ k * 2 ^ k"
proof -
  have "a AND NOT (mask k) = push_bit k (drop_bit k a)"
    by (rule bit_eqI) (auto simp: bit_simps)
  then show ?thesis
    by (simp add: mask_eq_exp_minus_1 push_bit_eq_mult drop_bit_eq_div)
qed

lemma pad_power:
  assumes "NLMSG_ALIGNTO S = 2 ^ k"
  shows "pad S n = (n + (2 ^ k - 1)) div 2 ^ k * 2 ^ k"
proof -
  have "1 \<le> (2 :: nat) ^ k" by simp
  then have "int n + (2 ^ k - 1) = int (n + (2 ^ k - 1))"
    by (simp only: of_nat_add of_nat_diff of_nat_power of_nat_numeral of_nat_1)
  then have "pad S n = nat (int (n + (2 ^ k - 1)) div 2 ^ k * 2 ^ k)"
    by (simp only: pad_netlink_object_with_variable_size_def assms and_not_mask)
  then show ?thesis
    by (metis nat_int of_nat_div of_nat_mult of_nat_numeral of_nat_power)
qed

context netlink_abi
begin

lemma pad_eq: "pad S n = (n + 3) div 4 * 4"
  using pad_power [of S 2 n] align by simp

lemma pad_dvd [simp]: "4 dvd pad S n"
  by (simp add: pad_eq)

lemma pad_ge [simp]: "n \<le> pad S n"
  by (simp add: pad_eq)

lemma pad_less: "pad S n < n + 4"
  unfolding pad_eq by linarith

lemma pad_id [simp]: "4 dvd n \<Longrightarrow> pad S n = n"
  unfolding pad_eq by presburger

lemma pad_add_dvd: "4 dvd m \<Longrightarrow> pad S (m + n) = m + pad S n"
  unfolding pad_eq by presburger

lemma pad_hdr [abi]:
  "pad_netlink_object S size_of_nlmsghdr = 16" "pad_netlink_object S size_of_nfgenmsg = 4"
  "pad_netlink_object S size_of_nlattr = 4"
  by (simp_all add: pad_netlink_object_def sizes)

end

end
