(* ===== verification/Parser.thy ===== *)
theory Parser
  imports Nlmsg
begin

text \<open>
  Model of \<open>src/parser.rs\<close>: reading message headers and messages, writing one attribute,
  the loop that decodes the attributes of a structure, and the parser of a whole object.

  Dereferencing a pointer into a slice is \<open>UB\<close> when the slice is shorter than the structure
  read. A generic parameter \<open>T: AttributeDecoder + Default\<close> is the pair of its
  \<open>decode_attribute\<close> and its default value. The loop of \<open>read_attributes\<close> consumes the padded
  length of an attribute in each round; a length of zero, which the sizes of the netlink
  headers exclude, would repeat the round for ever and is \<open>Diverge\<close>.
\<close>

section \<open>Messages\<close>

definition get_nlmsghdr :: "sys \<Rightarrow> bytes \<Rightarrow> nlmsghdr decoded" where
  "get_nlmsghdr S b =
     (let size_of_hdr = size_of_nlmsghdr S in
      if length b < size_of_hdr then Err BufTooSmall
      else
        bind (slice_range b 0 size_of_hdr) (\<lambda>h.
        let hdr = nlmsghdr_of S h in
        if unat (nlmsg_len hdr) > length b \<or> unat (nlmsg_len hdr) < size_of_hdr
        then Err NlMsgTooSmall
        else if nlmsg_flags hdr AND word_of_int (NLM_F_DUMP_INTR S) \<noteq> 0
        then Err ConcurrentGenerationUpdate
        else Ok hdr))"

datatype NlMsg = NlDone | NlNoop | NlError nlmsgerr | NfGenMsg nfgenmsg bytes

text \<open>\<open>i32::abs\<close>, which overflows on \<open>i32::MIN\<close>.\<close>

definition i32_abs :: "i32 \<Rightarrow> ('e, i32) outcome" where
  "i32_abs x = (if sint x = - (2 ^ 31) then Panic else Ok (if sint x < 0 then - x else x))"

definition parse_nlmsg :: "sys \<Rightarrow> bytes \<Rightarrow> (nlmsghdr \<times> NlMsg) decoded" where
  "parse_nlmsg S b =
     bind (get_nlmsghdr S b) (\<lambda>hdr.
     let size_of_hdr = pad_netlink_object S size_of_nlmsghdr;
         size_of_nfgenmsg = pad_netlink_object S size_of_nfgenmsg;
         len = unat (nlmsg_len hdr) in
     if nlmsg_type hdr < word_of_int (NLMSG_MIN_TYPE S) then
       (if ucast (nlmsg_type hdr) = NLMSG_NOOP S then Ok (hdr, NlNoop)
        else if ucast (nlmsg_type hdr) = NLMSG_ERROR S then
          (if len < size_of_hdr + size_of_nlmsgerr S then Err NlMsgTooSmall
           else bind (slice_range b size_of_hdr (size_of_hdr + size_of_nlmsgerr S)) (\<lambda>e.
                let err = nlmsgerr_of S e in
                bind (i32_abs (nlmsgerr_error err)) (\<lambda>a.
                Ok (hdr, NlError (err\<lparr>nlmsgerr_error := a\<rparr>)))))
        else if ucast (nlmsg_type hdr) = NLMSG_DONE S then Ok (hdr, NlDone)
        else Err (UnsupportedType (nlmsg_type hdr)))
     else if nlmsg_type hdr \<noteq> word_of_int (NFNL_MSG_BATCH_BEGIN S) \<and>
             nlmsg_type hdr \<noteq> word_of_int (NFNL_MSG_BATCH_END S) \<and>
             get_subsystem_from_nlmsghdr_type (nlmsg_type hdr)
               \<noteq> word_of_int (NFNL_SUBSYS_NFTABLES S)
     then Err (InvalidSubsystem (get_subsystem_from_nlmsghdr_type (nlmsg_type hdr)))
     else if len > length b \<or> len < size_of_hdr + size_of_nfgenmsg then Err NlMsgTooSmall
     else
       bind (slice_range b size_of_hdr (size_of_hdr + size_of_nfgenmsg)) (\<lambda>g.
       let nfgenmsg = nfgenmsg_of S g in
       if genmsg_version nfgenmsg \<noteq> word_of_int (NFNETLINK_V0 S)
       then Err (InvalidVersion (genmsg_version nfgenmsg))
       else bind (slice_range b (size_of_hdr + size_of_nfgenmsg) len) (\<lambda>raw_value.
            Ok (hdr, NfGenMsg nfgenmsg raw_value))))"

section \<open>Attributes\<close>

definition write_attribute :: "sys \<Rightarrow> u16 \<Rightarrow> attr_obj \<Rightarrow> bytes \<Rightarrow> bytes decoded" where
  "write_attribute S ty obj b =
     (let header_len = pad_netlink_object S size_of_nlattr;
          header =
            \<lparr>nla_len = of_nat (header_len + get_size obj),
             nla_type = (if is_nested obj then ty OR word_of_int (NLA_F_NESTED S) else ty)\<rparr> in
      if length b < size_of_nlattr S then UB
      else
        let b1 = nlattr_bytes S header @ drop (size_of_nlattr S) b in
        bind (slice_from b1 header_len) (\<lambda>tail.
        bind (write_payload obj tail) (\<lambda>tail'.
        Ok (take header_len b1 @ tail'))))"

text \<open>
  One round of the loop of \<open>read_attributes\<close>: the state after decoding the attribute at \<open>pos\<close>,
  with the new position and the new remaining size.
\<close>

definition read_attribute_step ::
  "sys \<Rightarrow> ('t \<Rightarrow> u16 \<Rightarrow> bytes \<Rightarrow> 't decoded) \<Rightarrow> bytes \<Rightarrow> nat \<Rightarrow> nat \<Rightarrow> 't \<Rightarrow>
   (nat \<times> nat \<times> 't) decoded" where
  "read_attribute_step S decode b pos remaining_size res =
     bind (slice_from b pos) (\<lambda>tail.
     if length tail < size_of_nlattr S then UB
     else
       let a = nlattr_of S tail;
           ty = nla_type a AND word_of_int (NLA_TYPE_MASK S);
           pos1 = pos + pad_netlink_object S size_of_nlattr in
       bind (usize_sub (unat (nla_len a)) (pad_netlink_object S size_of_nlattr))
         (\<lambda>attr_remaining_size.
       bind (slice_range b pos1 (pos1 + attr_remaining_size)) (\<lambda>payload.
       bind (case decode res ty payload of
               Err (UnsupportedAttributeType t) \<Rightarrow> Ok res
             | r \<Rightarrow> r) (\<lambda>res'.
       bind (usize_sub remaining_size (pad_netlink_object_with_variable_size S (unat (nla_len a))))
         (\<lambda>remaining'.
       Ok (pos1 + pad_netlink_object_with_variable_size S attr_remaining_size,
           remaining', res'))))))"

function read_attributes_loop ::
  "sys \<Rightarrow> ('t \<Rightarrow> u16 \<Rightarrow> bytes \<Rightarrow> 't decoded) \<Rightarrow> bytes \<Rightarrow> nat \<Rightarrow> nat \<Rightarrow> 't \<Rightarrow> 't decoded" where
  "read_attributes_loop S decode b pos remaining_size res =
     (if remaining_size > pad_netlink_object S size_of_nlattr then
        bind (read_attribute_step S decode b pos remaining_size res) (\<lambda>(pos', remaining', res').
        if remaining' < remaining_size
        then read_attributes_loop S decode b pos' remaining' res'
        else Diverge)
      else if remaining_size \<noteq> 0 then Err InvalidDataSize
      else Ok res)"
  by pat_completeness auto
termination
  by (relation "measure (\<lambda>(S, decode, b, pos, remaining_size, res). remaining_size)") auto

declare read_attributes_loop.simps [simp del]

definition read_attributes ::
  "sys \<Rightarrow> ('t \<Rightarrow> u16 \<Rightarrow> bytes \<Rightarrow> 't decoded) \<Rightarrow> 't \<Rightarrow> bytes \<Rightarrow> 't decoded" where
  "read_attributes S decode dflt b = read_attributes_loop S decode b 0 (length b) dflt"

section \<open>Objects\<close>

definition parse_object ::
  "sys \<Rightarrow> ('t \<Rightarrow> u16 \<Rightarrow> bytes \<Rightarrow> 't decoded) \<Rightarrow> 't \<Rightarrow> bytes \<Rightarrow> u32 \<Rightarrow> u32 \<Rightarrow>
   ('t \<times> nfgenmsg \<times> bytes) decoded" where
  "parse_object S decode dflt b add_obj del_obj =
     bind (parse_nlmsg S b) (\<lambda>(hdr, nlmsg).
     let op = ucast (get_operation_from_nlmsghdr_type (nlmsg_type hdr)) in
     if op \<noteq> add_obj \<and> op \<noteq> del_obj then Err (UnexpectedType (nlmsg_type hdr))
     else
       bind (usize_sub (unat (nlmsg_len hdr))
              (pad_netlink_object_with_variable_size S (size_of_nlmsghdr S + size_of_nfgenmsg S)))
         (\<lambda>obj_size.
       bind (slice_from b (pad_netlink_object_with_variable_size S (unat (nlmsg_len hdr))))
         (\<lambda>remaining_data.
       case nlmsg of
         NfGenMsg nfgenmsg content \<Rightarrow>
           bind (slice_to content obj_size) (\<lambda>c.
           bind (read_attributes S decode dflt c) (\<lambda>res.
           Ok (res, nfgenmsg, remaining_data)))
       | _ \<Rightarrow> Err (UnexpectedType (nlmsg_type hdr)))))"

end
