(* ===== verification/Codec.thy ===== *)
theory Codec
  imports Parser
begin

text \<open>
  The contract between the generic serialisation code and the types it serialises, stated as
  two locales.

  \<^item> \<open>attribute\<close>: a type whose values can be written. Every buffer with room for \<open>get_size\<close>
    bytes is accepted, keeps its length, and on a zeroed buffer (the only kind the writer
    hands out) the value leaves its wire format followed by zeros.
  \<^item> \<open>codec\<close>: in addition a decoder that reads the wire format of every admissible value back.

  \<open>wire\<close> is the wire format of a value, \<open>tlv\<close> the format of one attribute: the header with the
  unpadded length, the payload, and zero bytes up to the next multiple of four.
\<close>

named_theorems wire_simps \<open>wire formats of the types of the crate\<close>

definition wire :: "attr_obj \<Rightarrow> bytes" where
  "wire obj = (case write_payload obj (replicate (get_size obj) 0) of Ok b \<Rightarrow> b | _ \<Rightarrow> [])"

definition writes :: "attr_obj \<Rightarrow> bytes \<Rightarrow> bool" where
  "writes obj e \<longleftrightarrow> get_size obj = length e \<and>
     (\<forall>n. length e \<le> n \<longrightarrow>
        write_payload obj (replicate n 0) = Ok (e @ replicate (n - length e) 0))"

definition safe_write :: "attr_obj \<Rightarrow> bool" where
  "safe_write obj \<longleftrightarrow>
     (\<forall>b. get_size obj \<le> length b \<longrightarrow>
        (\<exists>b'. write_payload obj b = Ok b' \<and> length b' = length b))"

lemma writesD: "writes obj e \<Longrightarrow> length e \<le> n \<Longrightarrow>
    write_payload obj (replicate n 0) = Ok (e @ replicate (n - length e) 0)"
  by (simp add: writes_def)

lemma wire_eqI: "writes obj e \<Longrightarrow> wire obj = e"
  by (simp add: wire_def writes_def)

lemma writes_wireI: "writes obj e \<Longrightarrow> writes obj (wire obj)"
  by (simp add: wire_eqI)

lemma length_wire: "writes obj (wire obj) \<Longrightarrow> length (wire obj) = get_size obj"
  by (simp add: writes_def)

lemma safe_writeD: "safe_write obj \<Longrightarrow> get_size obj \<le> length b \<Longrightarrow>
    \<exists>b'. write_payload obj b = Ok b' \<and> length b' = length b"
  by (simp add: safe_write_def)

locale attribute =
  fixes attr :: "'v \<Rightarrow> attr_obj"
  assumes writes_attr: "writes (attr v) (wire (attr v))"
    and safe_attr: "safe_write (attr v)"
begin

lemma length_wire_attr [simp]: "length (wire (attr v)) = get_size (attr v)"
  by (rule length_wire) (rule writes_attr)

end

locale codec = attribute +
  fixes deser :: "bytes \<Rightarrow> ('v \<times> bytes) decoded"
    and ok :: "'v \<Rightarrow> bool"
  assumes read_back: "ok v \<Longrightarrow> deser (wire (attr v)) = Ok (v, [])"

lemma attributeI:
  assumes "\<And>v. writes (attr v) (e v)" and "\<And>v. safe_write (attr v)"
  shows "attribute attr"
  using assms by unfold_locales (auto intro: writes_wireI)

section \<open>One attribute\<close>

definition attr_header :: "sys \<Rightarrow> u16 \<Rightarrow> attr_obj \<Rightarrow> nlattr" where
  "attr_header S ty obj =
     \<lparr>nla_len = of_nat (4 + get_size obj),
      nla_type = (if is_nested obj then ty OR word_of_int (NLA_F_NESTED S) else ty)\<rparr>"

definition tlv :: "sys \<Rightarrow> u16 \<Rightarrow> attr_obj \<Rightarrow> bytes" where
  "tlv S ty obj = nlattr_bytes S (attr_header S ty obj) @ wire obj @
     replicate (pad S (get_size obj) - get_size obj) 0"

context netlink_abi
begin

lemma length_tlv:
  assumes "writes obj (wire obj)"
  shows "length (tlv S ty obj) = 4 + pad S (get_size obj)"
  using length_wire [OF assms] by (simp add: tlv_def lengths)

lemma tlv_nonempty [simp]: "tlv S ty obj \<noteq> []"
  using lengths(3) [of "attr_header S ty obj"] by (auto simp: tlv_def)

lemma tlv_dvd [simp]:
  assumes "writes obj (wire obj)"
  shows "4 dvd length (tlv S ty obj)"
  by (simp add: length_tlv [OF assms])

lemma write_attribute_eq:
  assumes "4 \<le> length b"
  shows "write_attribute S ty obj b =
    bind (write_payload obj (drop 4 b)) (\<lambda>t. Ok (nlattr_bytes S (attr_header S ty obj) @ t))"
  using assms by (simp add: write_attribute_def Let_def abi attr_header_def slice_from_def)

lemma write_attribute_zeros:
  assumes "writes obj (wire obj)" and "4 + get_size obj \<le> n"
  shows "write_attribute S ty obj (replicate n 0) =
    Ok (nlattr_bytes S (attr_header S ty obj) @ wire obj @ replicate (n - (4 + get_size obj)) 0)"
  using assms length_wire [OF assms(1)]
  by (simp add: write_attribute_eq writesD)

lemma write_attribute_tlv:
  assumes "writes obj (wire obj)" and "4 + pad S (get_size obj) \<le> n"
  shows "write_attribute S ty obj (replicate n 0) =
    Ok (tlv S ty obj @ replicate (n - (4 + pad S (get_size obj))) 0)"
proof -
  have "replicate (n - (4 + get_size obj)) (0 :: u8) =
      replicate (pad S (get_size obj) - get_size obj) 0 @
      replicate (n - (4 + pad S (get_size obj))) 0"
    using assms(2) pad_ge [of "get_size obj"] by (simp flip: replicate_add)
  moreover have "4 + get_size obj \<le> n"
    using assms(2) pad_ge [of "get_size obj"] by linarith
  ultimately show ?thesis
    using assms(1) by (simp add: write_attribute_zeros tlv_def)
qed

lemma write_attribute_safe:
  assumes "safe_write obj" and "4 + get_size obj \<le> length b"
  shows "\<exists>b'. write_attribute S ty obj b = Ok b' \<and> length b' = length b"
proof -
  have "get_size obj \<le> length (drop 4 b)" using assms(2) by simp
  then obtain t where "write_payload obj (drop 4 b) = Ok t" "length t = length b - 4"
    using safe_writeD [OF assms(1), of "drop 4 b"] by auto
  with assms(2) show ?thesis by (auto simp: write_attribute_eq lengths)
qed

text \<open>Reading the header of an attribute back.\<close>

lemma header_type [simp]:
  assumes "ty < 0x4000"
  shows "nla_type (attr_header S ty obj) AND word_of_int (NLA_TYPE_MASK S) = ty"
proof -
  have mask: "x AND word_of_int (NLA_TYPE_MASK S) = take_bit 14 (x :: u16)" for x
    by (simp add: type_mask take_bit_eq_mask mask_eq_exp_minus_1)
  have "take_bit 14 (unat ty) = unat ty"
    using assms by (simp add: take_bit_nat_eq_self word_less_nat_alt)
  then have "take_bit 14 ty = ty"
    by (metis unsigned_take_bit_eq word_unat_eq_iff)
  then show ?thesis
    by (simp add: attr_header_def mask nested_flag take_bit_or)
qed

lemma header_len [simp]:
  assumes "4 + get_size obj < 65536"
  shows "unat (nla_len (attr_header S ty obj)) = 4 + get_size obj"
  using assms by (simp add: attr_header_def unat_small del: of_nat_add)

end

section \<open>Streams of attributes\<close>

text \<open>
  The attributes of a structure in the order they are written, and what a decoder makes of
  them: \<open>decode_all\<close> is the specification of the decoding loop on well-formed input.
\<close>

type_synonym attr_list = "(u16 \<times> attr_obj) list"

definition tlvs :: "sys \<Rightarrow> attr_list \<Rightarrow> bytes" where
  "tlvs S ps = concat (map (\<lambda>(ty, obj). tlv S ty obj) ps)"

fun decode_all :: "('t \<Rightarrow> u16 \<Rightarrow> bytes \<Rightarrow> 't decoded) \<Rightarrow> attr_list \<Rightarrow> 't \<Rightarrow> 't decoded" where
  "decode_all decode [] res = Ok res"
| "decode_all decode ((ty, obj) # ps) res =
     bind (decode res ty (wire obj)) (decode_all decode ps)"

text \<open>An attribute that fits its 16-bit length field and has a plain type number.\<close>

definition attr_fits :: "u16 \<times> attr_obj \<Rightarrow> bool" where
  "attr_fits p \<longleftrightarrow> fst p < 0x4000 \<and> writes (snd p) (wire (snd p)) \<and> 4 + get_size (snd p) < 65536"

text \<open>The stream does not end in an attribute without payload.\<close>

definition ends_nonempty :: "attr_list \<Rightarrow> bool" where
  "ends_nonempty ps \<longleftrightarrow> ps = [] \<or> get_size (snd (last ps)) \<noteq> 0"

lemma tlvs_simps [simp]:
  "tlvs S [] = []" "tlvs S ((ty, obj) # ps) = tlv S ty obj @ tlvs S ps"
  "tlvs S (ps @ qs) = tlvs S ps @ tlvs S qs"
  by (simp_all add: tlvs_def)

context netlink_abi
begin

lemma read_attribute_step_tlv:
  assumes fits: "attr_fits (ty, obj)"
    and b: "b = pre @ tlv S ty obj @ post"
    and r: "remaining = length (tlv S ty obj) + r"
    and d: "decode res ty (wire obj) = Ok res'"
  shows "read_attribute_step S decode b (length pre) remaining res =
    Ok (length pre + length (tlv S ty obj), r, res')"
proof -
  let ?h = "attr_header S ty obj"
  from fits have ty: "ty < 0x4000" and w: "writes obj (wire obj)"
    and len: "4 + get_size obj < 65536"
    by (simp_all add: attr_fits_def)
  have tail: "slice_from b (length pre) = Ok (tlv S ty obj @ post)"
    by (simp add: b slice_from_def)
  have hdr: "nlattr_of S (tlv S ty obj @ post) = ?h"
    by (simp add: tlv_def load_store)
  have payload: "slice_range b (length pre + 4) (length pre + 4 + get_size obj) = Ok (wire obj)"
    using length_wire [OF w] lengths(3) [of ?h]
    by (simp add: b tlv_def slice_range_def)
  have pads: "pad S (4 + get_size obj) = 4 + pad S (get_size obj)"
    by (rule pad_add_dvd) simp
  show ?thesis
    using header_type [OF ty, of obj] header_len [OF len, of ty] d
    by (simp add: read_attribute_step_def tail hdr abi Let_def usize_sub_Ok payload
        length_tlv [OF w] r pads)
qed

text \<open>
  The loop consumes a well-formed prefix: what follows it decides the rest. A prefix at the
  end of the buffer must not end in an attribute without payload.
\<close>

lemma read_attributes_loop_prefix:
  assumes "\<forall>p\<in>set ps. attr_fits p" and "post \<noteq> [] \<or> ends_nonempty ps"
    and "decode_all decode ps res = Ok res'"
  shows "read_attributes_loop S decode (pre @ tlvs S ps @ post) (length pre)
      (length (tlvs S ps @ post)) res =
    read_attributes_loop S decode (pre @ tlvs S ps @ post) (length (pre @ tlvs S ps))
      (length post) res'"
  using assms
proof (induction ps arbitrary: pre res)
  case Nil
  then show ?case by simp
next
  case (Cons p ps)
  obtain ty obj where p: "p = (ty, obj)" by (cases p)
  from Cons.prems p obtain res1 where d: "decode res ty (wire obj) = Ok res1"
    and rest: "decode_all decode ps res1 = Ok res'"
    by (auto simp: bind_eq_Ok)
  have fits: "attr_fits (ty, obj)" using Cons.prems(1) p by simp
  then have w: "writes obj (wire obj)" by (simp add: attr_fits_def)
  have more: "4 < length (tlvs S (p # ps) @ post)"
  proof (cases "post = [] \<and> ps = []")
    case True
    then have "get_size obj \<noteq> 0" using Cons.prems(2) p by (simp add: ends_nonempty_def)
    then have "0 < pad S (get_size obj)" using pad_ge [of "get_size obj"] by linarith
    then show ?thesis by (simp add: p length_tlv [OF w])
  next
    case False
    moreover have "tlvs S ps \<noteq> []" if "ps \<noteq> []"
      using that by (cases ps) auto
    ultimately show ?thesis by (auto simp: p length_tlv [OF w])
  qed
  have step: "read_attribute_step S decode (pre @ tlvs S (p # ps) @ post) (length pre)
      (length (tlvs S (p # ps) @ post)) res =
    Ok (length (pre @ tlv S ty obj), length (tlvs S ps @ post), res1)"
    using read_attribute_step_tlv [where decode = decode, OF fits refl refl d,
        of pre "tlvs S ps @ post" "length (tlvs S ps @ post)"]
    by (simp add: p)
  have "post \<noteq> [] \<or> ends_nonempty ps"
    using Cons.prems(2) by (auto simp: ends_nonempty_def split: if_splits)
  then have "read_attributes_loop S decode ((pre @ tlv S ty obj) @ tlvs S ps @ post)
      (length (pre @ tlv S ty obj)) (length (tlvs S ps @ post)) res1 =
    read_attributes_loop S decode ((pre @ tlv S ty obj) @ tlvs S ps @ post)
      (length ((pre @ tlv S ty obj) @ tlvs S ps)) (length post) res'"
    using Cons.prems(1) rest by (intro Cons.IH) simp_all
  then show ?case
    using more step length_tlv [OF w, of ty]
    by (subst read_attributes_loop.simps) (simp add: abi p add.assoc)
qed

lemma read_attributes_tlvs:
  assumes "\<forall>p\<in>set ps. attr_fits p" and "ends_nonempty ps"
    and "decode_all decode ps dflt = Ok res"
  shows "read_attributes S decode dflt (tlvs S ps) = Ok res"
  using read_attributes_loop_prefix [of ps "[]" decode dflt res "[]"] assms
  by (simp add: read_attributes_def read_attributes_loop.simps [of _ _ _ _ 0])

lemma read_attributes_trailing_empty:
  assumes "\<forall>p\<in>set ps. attr_fits p" and "decode_all decode ps dflt = Ok res"
    and "writes obj (wire obj)" and "get_size obj = 0"
  shows "read_attributes S decode dflt (tlvs S (ps @ [(ty, obj)])) = Err InvalidDataSize"
proof -
  have len: "length (tlv S ty obj) = 4"
    using length_tlv [OF assms(3)] assms(4) by simp
  then show ?thesis
    using read_attributes_loop_prefix [of ps "tlv S ty obj" decode dflt res "[]"] assms(1,2) len
    by (simp add: read_attributes_def abi read_attributes_loop.simps [of _ _ _ _ 4])
qed

text \<open>
  The error of a decoder ends the loop, unless it says that the attribute is not supported.
\<close>

lemma read_attributes_error:
  assumes "\<forall>p\<in>set ps. attr_fits p" and "decode_all decode ps dflt = Ok res"
    and fits: "attr_fits (ty, obj)" and size: "0 < get_size obj"
    and err: "decode res ty (wire obj) = Err e" "\<forall>t. e \<noteq> UnsupportedAttributeType t"
  shows "read_attributes S decode dflt (tlvs S (ps @ (ty, obj) # qs)) = Err e"
proof -
  let ?h = "attr_header S ty obj" and ?post = "tlvs S ((ty, obj) # qs)"
  let ?b = "tlvs S ps @ ?post"
  from fits have ty: "ty < 0x4000" and w: "writes obj (wire obj)"
    and len: "4 + get_size obj < 65536"
    by (simp_all add: attr_fits_def)
  have "0 < pad S (get_size obj)" using size pad_ge [of "get_size obj"] by linarith
  then have more: "4 < length ?post" "?post \<noteq> []" by (auto simp: length_tlv [OF w])
  have loop: "read_attributes S decode dflt (tlvs S (ps @ (ty, obj) # qs)) =
      read_attributes_loop S decode ?b (length (tlvs S ps)) (length ?post) res"
    using read_attributes_loop_prefix [of ps ?post decode dflt res "[]"] assms(1,2) more(2)
    by (simp add: read_attributes_def)
  have tail: "slice_from ?b (length (tlvs S ps)) = Ok ?post"
    by (simp add: slice_from_def)
  have hdr: "nlattr_of S ?post = ?h" by (simp add: tlv_def load_store)
  have payload: "slice_range ?b (length (tlvs S ps) + 4) (length (tlvs S ps) + 4 + get_size obj) =
      Ok (wire obj)"
    using length_wire [OF w] lengths(3) [of ?h] by (simp add: tlv_def slice_range_def)
  have "read_attribute_step S decode ?b (length (tlvs S ps)) (length ?post) res = Err e"
    using header_type [OF ty, of obj] header_len [OF len, of ty] err more
    by (simp add: read_attribute_step_def tail hdr abi Let_def usize_sub_Ok payload
        split: DecodeError.splits del: tlvs_simps)
  then show ?thesis
    using loop more by (subst (asm) read_attributes_loop.simps) (simp add: abi)
qed

end

end
