(* ===== verification/Macros.thy ===== *)
theory Macros
  imports Codec
begin

text \<open>
  Model of the code that the procedural macros of \<open>macros/src/lib.rs\<close> generate.

  \<^item> \<open>nfnetlink_struct\<close> turns the annotated fields of a structure into getters, setters, an
    \<open>AttributeDecoder\<close>, an \<open>NfNetlinkAttribute\<close> and (unless \<open>derive_deserialize = false\<close>) an
    \<open>NfNetlinkDeserializable\<close> implementation. The generated code repeats one block per field,
    so it is modelled once, as recursion over the list of field descriptions: attribute number,
    how the present value serialises, how the payload is decoded into an update of the
    structure. \<open>mk_field\<close> makes the description of an annotated field from the implementations
    of the field's type and the accessors of the record.
  \<^item> \<open>nfnetlink_enum\<close> generates \<open>TryFrom\<close>, \<open>NfNetlinkDeserializable\<close> and
    \<open>NfNetlinkAttribute\<close> for an enumeration with explicit discriminants.

  The locales \<open>nf_struct\<close> and \<open>nf_struct_codec\<close> state what the fields of a structure have to
  satisfy; inside them the generated code is shown to implement the \<open>attribute\<close> and \<open>codec\<close>
  contracts. The locale \<open>nf_enum\<close> does the same for enumerations.
\<close>

named_theorems struct_simps \<open>the fields of a structure in terms of the codecs of their types\<close>

section \<open>Structures\<close>

record 's field =
  netlink_type :: u16
  field_attr :: "'s \<Rightarrow> attr_obj option"
  field_decode :: "bytes \<Rightarrow> (('s \<Rightarrow> 's) \<times> bytes) decoded"

text \<open>The setters \<open>set_<name>\<close> and \<open>with_<name>\<close>; the getter is the field of the record.\<close>

definition set_field :: "(('v option \<Rightarrow> 'v option) \<Rightarrow> 's \<Rightarrow> 's) \<Rightarrow> 'v \<Rightarrow> 's \<Rightarrow> 's" where
  "set_field upd v s = upd (\<lambda>_. Some v) s"

definition mk_field ::
  "u16 \<Rightarrow> ('v \<Rightarrow> attr_obj) \<Rightarrow> (bytes \<Rightarrow> ('v \<times> bytes) decoded) \<Rightarrow> ('s \<Rightarrow> 'v option) \<Rightarrow>
   (('v option \<Rightarrow> 'v option) \<Rightarrow> 's \<Rightarrow> 's) \<Rightarrow> 's field" where
  "mk_field ty attr deser get upd =
     \<lparr>netlink_type = ty,
      field_attr = (\<lambda>s. map_option attr (get s)),
      field_decode = (\<lambda>b. bind (deser b) (\<lambda>(v, remaining). Ok (set_field upd v, remaining)))\<rparr>"

text \<open>
  A field marked \<open>optional = true\<close> exists only when the kernel headers declare its attribute.
\<close>

definition optional_field :: "u16 option \<Rightarrow> (u16 \<Rightarrow> 's field) \<Rightarrow> 's field list" where
  "optional_field ty mk = (case ty of None \<Rightarrow> [] | Some t \<Rightarrow> [mk t])"

fun struct_decode_attribute :: "'s field list \<Rightarrow> 's \<Rightarrow> u16 \<Rightarrow> bytes \<Rightarrow> 's decoded" where
  "struct_decode_attribute [] s attr_type b = Err (UnsupportedAttributeType attr_type)"
| "struct_decode_attribute (f # fs) s attr_type b =
     (if attr_type = netlink_type f then
        bind (field_decode f b) (\<lambda>(set, remaining).
        if length remaining \<noteq> 0 then Err InvalidDataSize else Ok (set s))
      else struct_decode_attribute fs s attr_type b)"

fun struct_get_size :: "sys \<Rightarrow> 's field list \<Rightarrow> 's \<Rightarrow> nat" where
  "struct_get_size S [] s = 0"
| "struct_get_size S (f # fs) s =
     (case field_attr f s of
        None \<Rightarrow> 0
      | Some val \<Rightarrow> pad_netlink_object S size_of_nlattr +
          pad_netlink_object_with_variable_size S (get_size val)) + struct_get_size S fs s"

fun struct_write_payload :: "sys \<Rightarrow> 's field list \<Rightarrow> 's \<Rightarrow> bytes \<Rightarrow> bytes decoded" where
  "struct_write_payload S [] s addr = Ok addr"
| "struct_write_payload S (f # fs) s addr =
     (case field_attr f s of
        None \<Rightarrow> struct_write_payload S fs s addr
      | Some val \<Rightarrow>
          bind (write_attribute S (netlink_type f) val addr) (\<lambda>addr1.
          let sz = pad_netlink_object S size_of_nlattr +
                pad_netlink_object_with_variable_size S (get_size val) in
          bind (slice_from addr1 sz) (\<lambda>rest.
          bind (struct_write_payload S fs s rest) (\<lambda>rest'.
          Ok (take sz addr1 @ rest')))))"

definition struct_attr :: "sys \<Rightarrow> bool \<Rightarrow> 's field list \<Rightarrow> 's \<Rightarrow> attr_obj" where
  "struct_attr S nested fs s =
     \<lparr>is_nested = nested, get_size = struct_get_size S fs s,
      write_payload = struct_write_payload S fs s\<rparr>"

definition struct_deserialize ::
  "sys \<Rightarrow> 's field list \<Rightarrow> 's \<Rightarrow> bytes \<Rightarrow> ('s \<times> bytes) decoded" where
  "struct_deserialize S fs dflt b =
     bind (read_attributes S (struct_decode_attribute fs) dflt b) (\<lambda>s. Ok (s, []))"

section \<open>Enumerations\<close>

definition enum_try_from ::
  "('v \<Rightarrow> 'r) \<Rightarrow> 'v list \<Rightarrow> ('r \<Rightarrow> DecodeError) \<Rightarrow> 'r \<Rightarrow> 'v decoded" where
  "enum_try_from value variants unknown val =
     (case find (\<lambda>v. val = value v) variants of
        Some v \<Rightarrow> Ok v
      | None \<Rightarrow> Err (unknown val))"

definition enum_deserialize ::
  "(bytes \<Rightarrow> ('r \<times> bytes) decoded) \<Rightarrow> ('r \<Rightarrow> 'v decoded) \<Rightarrow> bytes \<Rightarrow> ('v \<times> bytes) decoded" where
  "enum_deserialize repr_deserialize try_from b =
     bind (repr_deserialize b) (\<lambda>(v, remaining_data).
     bind (try_from v) (\<lambda>x. Ok (x, remaining_data)))"

text \<open>
  \<open>get_size\<close> and \<open>write_payload\<close> of the representation; \<open>is_nested\<close> is the default of the
  trait, \<open>false\<close>, whatever the \<open>nested\<close> argument of the macro says.
\<close>

definition enum_attr :: "('r \<Rightarrow> attr_obj) \<Rightarrow> ('v \<Rightarrow> 'r) \<Rightarrow> 'v \<Rightarrow> attr_obj" where
  "enum_attr repr_attr value v =
     \<lparr>is_nested = False, get_size = get_size (repr_attr (value v)),
      write_payload = write_payload (repr_attr (value v))\<rparr>"

section \<open>Structures implement the attribute contract\<close>

definition present :: "'s field list \<Rightarrow> 's \<Rightarrow> attr_list" where
  "present fs s =
     concat (map (\<lambda>f. case field_attr f s of None \<Rightarrow> [] | Some obj \<Rightarrow> [(netlink_type f, obj)]) fs)"

lemma present_simps [simp]:
  "present [] s = []"
  "present (f # fs) s =
     (case field_attr f s of None \<Rightarrow> [] | Some obj \<Rightarrow> [(netlink_type f, obj)]) @ present fs s"
  by (simp_all add: present_def)

definition field_writable :: "'s field \<Rightarrow> bool" where
  "field_writable f \<longleftrightarrow>
     (\<forall>s obj. field_attr f s = Some obj \<longrightarrow> writes obj (wire obj) \<and> safe_write obj)"

lemma mk_field_simps [simp]:
  "netlink_type (mk_field ty attr deser get upd) = ty"
  "field_attr (mk_field ty attr deser get upd) s = map_option attr (get s)"
  by (simp_all add: mk_field_def)

lemma optional_field_simps [simp]:
  "optional_field None mk = []" "optional_field (Some t) mk = [mk t]"
  by (simp_all add: optional_field_def)

context attribute
begin

lemma field_writable_mk [simp]: "field_writable (mk_field ty attr deser get upd)"
  by (auto simp: field_writable_def writes_attr safe_attr)

end

locale nf_struct = netlink_abi +
  fixes fs :: "'s field list"
    and nested :: bool
  assumes writable: "f \<in> set fs \<Longrightarrow> field_writable f"
begin

lemma struct_size_aux:
  "set gs \<subseteq> set fs \<Longrightarrow> struct_get_size S gs s = length (tlvs S (present gs s))"
  by (induction gs)
    (auto simp: abi field_writable_def length_tlv dest: writable split: option.splits)

lemma struct_write_aux:
  "set gs \<subseteq> set fs \<Longrightarrow> length (tlvs S (present gs s)) \<le> n \<Longrightarrow>
   struct_write_payload S gs s (replicate n 0) =
     Ok (tlvs S (present gs s) @ replicate (n - length (tlvs S (present gs s))) 0)"
proof (induction gs arbitrary: n)
  case Nil
  then show ?case by simp
next
  case (Cons f gs)
  show ?case
  proof (cases "field_attr f s")
    case None
    with Cons show ?thesis by simp
  next
    case (Some obj)
    with Cons.prems have w: "writes obj (wire obj)"
      using writable [of f] by (auto simp: field_writable_def)
    let ?t = "tlv S (netlink_type f) obj"
    let ?m = "n - (4 + pad S (get_size obj))"
    have len: "length ?t = 4 + pad S (get_size obj)" by (rule length_tlv [OF w])
    have le: "length (tlvs S (present gs s)) \<le> ?m" and n: "4 + pad S (get_size obj) \<le> n"
      using Cons.prems(2) Some len by simp_all
    show ?thesis
      using Cons.IH [OF _ le] Cons.prems(1) le n len
      by (simp add: Some write_attribute_tlv [OF w n] abi Let_def slice_from_def)
  qed
qed

lemma struct_safe_aux:
  "set gs \<subseteq> set fs \<Longrightarrow> struct_get_size S gs s \<le> length b \<Longrightarrow>
   \<exists>b'. struct_write_payload S gs s b = Ok b' \<and> length b' = length b"
proof (induction gs arbitrary: b)
  case Nil
  then show ?case by simp
next
  case (Cons f gs)
  show ?case
  proof (cases "field_attr f s")
    case None
    with Cons show ?thesis by simp
  next
    case (Some obj)
    let ?sz = "4 + pad S (get_size obj)"
    have sz: "?sz + struct_get_size S gs s \<le> length b"
      using Cons.prems(2) Some by (simp add: abi)
    have "safe_write obj" using Some Cons.prems(1) writable [of f] by (auto simp: field_writable_def)
    moreover have "4 + get_size obj \<le> length b"
      using sz pad_ge [of "get_size obj"] by linarith
    ultimately obtain b1 where b1: "write_attribute S (netlink_type f) obj b = Ok b1"
      "length b1 = length b"
      using write_attribute_safe by blast
    have "\<exists>b2. struct_write_payload S gs s (drop ?sz b1) = Ok b2 \<and>
        length b2 = length (drop ?sz b1)"
      using Cons.prems(1) sz b1(2) by (intro Cons.IH) simp_all
    then show ?thesis
      using sz b1 by (auto simp: Some abi Let_def slice_from_def)
  qed
qed

lemma struct_writes: "writes (struct_attr S nested fs s) (tlvs S (present fs s))"
  by (simp add: writes_def struct_attr_def struct_size_aux struct_write_aux)

lemma struct_safe: "safe_write (struct_attr S nested fs s)"
  using struct_safe_aux [of fs s] by (simp add: safe_write_def struct_attr_def)

lemma struct_wire: "wire (struct_attr S nested fs s) = tlvs S (present fs s)"
  by (rule wire_eqI) (rule struct_writes)

sublocale attribute "struct_attr S nested fs"
  by (rule attributeI) (rule struct_writes, rule struct_safe)

lemma present_writes: "p \<in> set (present fs s) \<Longrightarrow> writes (snd p) (wire (snd p))"
  using writable by (fastforce simp: present_def field_writable_def split: option.splits)

lemma struct_size_dvd [simp]: "4 dvd struct_get_size S fs s"
proof -
  have "4 dvd length (tlvs S ps)" if "\<forall>p\<in>set ps. writes (snd p) (wire (snd p))" for ps
    using that by (induction ps) auto
  then show ?thesis
    using present_writes by (simp add: struct_size_aux)
qed

end

section \<open>Structures implement the codec contract\<close>

text \<open>The update that decoding the present value of a field performs.\<close>

definition field_upd :: "'s \<Rightarrow> 's field \<Rightarrow> 's \<Rightarrow> 's" where
  "field_upd s f =
     (case field_attr f s of
        None \<Rightarrow> id
      | Some obj \<Rightarrow> (case field_decode f (wire obj) of Ok (u, r) \<Rightarrow> u | _ \<Rightarrow> id))"

text \<open>The field reads back what it writes for the structure \<open>s\<close>.\<close>

definition field_reads :: "'s \<Rightarrow> 's field \<Rightarrow> bool" where
  "field_reads s f \<longleftrightarrow>
     (\<forall>obj. field_attr f s = Some obj \<longrightarrow> field_decode f (wire obj) = Ok (field_upd s f, []))"

definition keep_or_set :: "'v option \<Rightarrow> 'v option \<Rightarrow> 'v option" where
  "keep_or_set new old = (case new of None \<Rightarrow> old | Some v \<Rightarrow> Some v)"

lemma keep_or_set_fun:
  "keep_or_set None = (\<lambda>x. x)" "keep_or_set (Some v) = (\<lambda>_. Some v)"
  by (simp_all add: keep_or_set_def fun_eq_iff)

lemma keep_or_set_None [simp]: "keep_or_set new None = new"
  by (cases new) (simp_all add: keep_or_set_def)

context codec
begin

lemma field_reads_mk [struct_simps]:
  "pred_option ok (get s) \<Longrightarrow> field_reads s (mk_field ty attr deser get upd)"
  by (auto simp: field_reads_def field_upd_def mk_field_def read_back)

lemma field_upd_mk [struct_simps]:
  assumes "pred_option ok (get s)" and "\<And>t. upd (\<lambda>x. x) t = t"
  shows "field_upd s (mk_field ty attr deser get upd) t = upd (keep_or_set (get s)) t"
  using assms
  by (cases "get s")
    (simp_all add: field_upd_def mk_field_def read_back set_field_def keep_or_set_fun)

end

text \<open>Every present attribute fits its length field and the last one has a payload.\<close>

definition struct_fits :: "'s field list \<Rightarrow> 's \<Rightarrow> bool" where
  "struct_fits fs s \<longleftrightarrow>
     list_all (\<lambda>p. 4 + get_size (snd p) < 65536) (present fs s) \<and> ends_nonempty (present fs s)"

lemma struct_decode_attribute_found:
  assumes "distinct (map netlink_type fs)" and "f \<in> set fs" and "field_decode f b = Ok (u, [])"
  shows "struct_decode_attribute fs s (netlink_type f) b = Ok (u s)"
  using assms by (induction fs) (auto simp: rev_image_eqI)

lemma struct_decode_attribute_unknown:
  "ty \<notin> netlink_type ` set fs \<Longrightarrow>
   struct_decode_attribute fs s ty b = Err (UnsupportedAttributeType ty)"
  by (induction fs) auto

lemma decode_all_present:
  assumes "distinct (map netlink_type fs)" and "\<forall>f\<in>set gs. field_reads s f"
    and "set gs \<subseteq> set fs"
  shows "decode_all (struct_decode_attribute fs) (present gs s) t = Ok (fold (field_upd s) gs t)"
  using assms(2,3)
proof (induction gs arbitrary: t)
  case Nil
  then show ?case by simp
next
  case (Cons f gs)
  show ?case
  proof (cases "field_attr f s")
    case None
    with Cons show ?thesis by (simp add: field_upd_def)
  next
    case (Some obj)
    with Cons.prems have "field_decode f (wire obj) = Ok (field_upd s f, [])"
      by (simp add: field_reads_def)
    with Some Cons assms(1) show ?thesis
      by (simp add: struct_decode_attribute_found)
  qed
qed

locale nf_struct_codec = nf_struct +
  fixes dflt :: 's
    and ok :: "'s \<Rightarrow> bool"
  assumes types: "attr_types_ok (map netlink_type fs)"
    and reads: "ok s \<Longrightarrow> f \<in> set fs \<Longrightarrow> field_reads s f"
    and rebuild: "ok s \<Longrightarrow> fold (field_upd s) fs dflt = s"
begin

lemma present_fits:
  assumes "struct_fits fs s"
  shows "\<forall>p\<in>set (present fs s). attr_fits p"
proof
  fix p
  assume p: "p \<in> set (present fs s)"
  then have "fst p \<in> netlink_type ` set fs"
    by (auto simp: present_def split: option.splits)
  then have "fst p < 0x4000" using types by (auto simp: attr_types_ok_def)
  then show "attr_fits p"
    using p assms present_writes [OF p] by (simp add: attr_fits_def struct_fits_def list_all_iff)
qed

lemma struct_decode_all:
  assumes "ok s"
  shows "decode_all (struct_decode_attribute fs) (present fs s) dflt = Ok s"
  using decode_all_present [of fs fs s dflt] types reads [OF assms] rebuild [OF assms]
  by (simp add: attr_types_ok_def)

lemma struct_read_attributes:
  assumes "ok s" and "struct_fits fs s"
  shows "read_attributes S (struct_decode_attribute fs) dflt (tlvs S (present fs s)) = Ok s"
  using assms present_fits struct_decode_all
  by (intro read_attributes_tlvs) (simp_all add: struct_fits_def)

sublocale codec "struct_attr S nested fs" "struct_deserialize S fs dflt"
    "\<lambda>s. ok s \<and> struct_fits fs s"
  by unfold_locales (simp add: struct_wire struct_deserialize_def struct_read_attributes)

lemmas axioms_codec = codec_axioms

end

text \<open>The same as a rule, for a named implementation.\<close>

lemma struct_codecI:
  assumes "netlink_abi S" and "attr_types_ok (map netlink_type fs)"
    and "\<And>f. f \<in> set fs \<Longrightarrow> field_writable f"
    and "\<And>s f. base s \<Longrightarrow> f \<in> set fs \<Longrightarrow> field_reads s f"
    and "\<And>s. base s \<Longrightarrow> fold (field_upd s) fs dflt = s"
    and "\<And>s. attr s = struct_attr S nested fs s" and "\<And>b. deser b = struct_deserialize S fs dflt b"
    and "\<And>s. ok s \<longleftrightarrow> base s \<and> struct_fits fs s"
  shows "codec attr deser ok"
proof -
  have "nf_struct_codec S fs dflt base"
    using assms(1-5)
    by (simp add: nf_struct_codec_def nf_struct_def nf_struct_axioms_def nf_struct_codec_axioms_def)
  then have "codec (struct_attr S nested fs) (struct_deserialize S fs dflt)
      (\<lambda>s. base s \<and> struct_fits fs s)"
    by (rule nf_struct_codec.axioms_codec)
  moreover have "attr = struct_attr S nested fs" "deser = struct_deserialize S fs dflt"
    "ok = (\<lambda>s. base s \<and> struct_fits fs s)"
    using assms(6-8) by (simp_all add: fun_eq_iff)
  ultimately show ?thesis by simp
qed

section \<open>Enumerations implement the codec contract\<close>

locale nf_enum = repr: codec repr_attr repr_deser "\<lambda>_. True"
  for repr_attr :: "'r \<Rightarrow> attr_obj" and repr_deser +
  fixes val_of :: "'v \<Rightarrow> 'r"
    and variants :: "'v list"
    and unknown :: "'r \<Rightarrow> DecodeError"
  assumes all_variants: "v \<in> set variants"
    and distinct_values: "distinct (map val_of variants)"
begin

lemma try_from_value [simp]: "enum_try_from val_of variants unknown (val_of v) = Ok v"
proof -
  have "find (\<lambda>u. val_of v = val_of u) variants = Some v"
    using all_variants [of v] distinct_values
    by (induction variants) (auto simp: rev_image_eqI)
  then show ?thesis by (simp add: enum_try_from_def)
qed

lemma try_from_unknown:
  "r \<notin> range val_of \<Longrightarrow> enum_try_from val_of variants unknown r = Err (unknown r)"
  by (auto simp: enum_try_from_def find_None_iff split: option.splits dest!: find_Some_iff [THEN iffD1])

lemma enum_wire: "wire (enum_attr repr_attr val_of v) = wire (repr_attr (val_of v))"
  by (simp add: wire_def enum_attr_def)

sublocale codec "enum_attr repr_attr val_of"
    "enum_deserialize repr_deser (enum_try_from val_of variants unknown)" "\<lambda>_. True"
proof
  fix v
  show "writes (enum_attr repr_attr val_of v) (wire (enum_attr repr_attr val_of v))"
    using repr.writes_attr [of "val_of v"] by (simp add: enum_wire) (simp add: writes_def enum_attr_def)
  show "safe_write (enum_attr repr_attr val_of v)"
    using repr.safe_attr [of "val_of v"] by (simp add: safe_write_def enum_attr_def)
  show "enum_deserialize repr_deser (enum_try_from val_of variants unknown)
      (wire (enum_attr repr_attr val_of v)) = Ok (v, [])"
    by (simp add: enum_deserialize_def enum_wire repr.read_back)
qed

lemmas axioms_codec = codec_axioms

end

lemma enum_codecI:
  assumes "codec repr_attr repr_deser (\<lambda>_. True)"
    and "\<And>v. v \<in> set variants" and "distinct (map val_of variants)"
    and "\<And>v. attr v = enum_attr repr_attr val_of v"
    and "\<And>b. deser b = enum_deserialize repr_deser (enum_try_from val_of variants unknown) b"
  shows "codec attr deser (\<lambda>_. True)"
proof -
  have "nf_enum repr_attr repr_deser val_of variants"
    using assms(1-3) by (simp add: nf_enum_def nf_enum_axioms_def)
  then have "codec (enum_attr repr_attr val_of)
      (enum_deserialize repr_deser (enum_try_from val_of variants unknown)) (\<lambda>_. True)"
    by (rule nf_enum.axioms_codec)
  moreover have "attr = enum_attr repr_attr val_of"
    "deser = enum_deserialize repr_deser (enum_try_from val_of variants unknown)"
    using assms(4,5) by (simp_all add: fun_eq_iff)
  ultimately show ?thesis by simp
qed

end
