(* ===== verification/ParserImpls.thy ===== *)
theory ParserImpls
  imports Macros
begin

text \<open>
  Model of \<open>src/parser_impls.rs\<close>: how integers, strings, byte vectors and lists are written
  and read, and the \<open>deserialize\<close> that every \<open>NfNetlinkObject\<close> gets. A \<open>NfNetlinkList<T>\<close> is
  the HOL list of its \<open>objs\<close>. The implementations for the leaf types are shown to be codecs by
  interpretation; lists in the locale \<open>nf_list\<close>.
\<close>

section \<open>Integers\<close>

definition u8_attr :: "u8 \<Rightarrow> attr_obj" where
  "u8_attr v =
     \<lparr>is_nested = False, get_size = 1,
      write_payload = (\<lambda>addr. if length addr = 0 then Panic else Ok (addr[0 := v]))\<rparr>"

definition u8_deserialize :: "bytes \<Rightarrow> (u8 \<times> bytes) decoded" where
  "u8_deserialize b = bind (index b 0) (\<lambda>v. bind (slice_from b 1) (\<lambda>r. Ok (v, r)))"

text \<open>
  \<open>from_be_bytes([buf[0], ..])\<close> followed by \<open>&buf[n..]\<close>: each index is checked.
\<close>

definition be_read :: "nat \<Rightarrow> bytes \<Rightarrow> ('a::len word \<times> bytes) decoded" where
  "be_read n b = (if n \<le> length b then Ok (from_be (take n b), drop n b) else Panic)"

definition u16_attr :: "u16 \<Rightarrow> attr_obj" where
  "u16_attr v =
     \<lparr>is_nested = False, get_size = 2, write_payload = copy_to_front (be_bytes 2 v)\<rparr>"

definition u16_deserialize :: "bytes \<Rightarrow> (u16 \<times> bytes) decoded" where
  "u16_deserialize = be_read 2"

definition i32_attr :: "i32 \<Rightarrow> attr_obj" where
  "i32_attr v =
     \<lparr>is_nested = False, get_size = 4, write_payload = copy_to_front (be_bytes 4 v)\<rparr>"

definition i32_deserialize :: "bytes \<Rightarrow> (i32 \<times> bytes) decoded" where
  "i32_deserialize = be_read 4"

definition u32_attr :: "u32 \<Rightarrow> attr_obj" where
  "u32_attr v =
     \<lparr>is_nested = False, get_size = 4, write_payload = copy_to_front (be_bytes 4 v)\<rparr>"

definition u32_deserialize :: "bytes \<Rightarrow> (u32 \<times> bytes) decoded" where
  "u32_deserialize = be_read 4"

definition u64_attr :: "u64 \<Rightarrow> attr_obj" where
  "u64_attr v =
     \<lparr>is_nested = False, get_size = 8, write_payload = copy_to_front (be_bytes 8 v)\<rparr>"

definition u64_deserialize :: "bytes \<Rightarrow> (u64 \<times> bytes) decoded" where
  "u64_deserialize = be_read 8"

section \<open>Strings and byte vectors\<close>

definition String_attr :: "rust_string \<Rightarrow> attr_obj" where
  "String_attr s = \<lparr>is_nested = False, get_size = length s, write_payload = copy_to_front s\<rparr>"

definition from_utf8 :: "bytes \<Rightarrow> rust_string decoded" where
  "from_utf8 b = (if utf8_valid b then Ok b else Err StringDecodeFailure)"

definition String_deserialize :: "bytes \<Rightarrow> (rust_string \<times> bytes) decoded" where
  "String_deserialize b =
     (let b' = (if 0 < length b \<and> b ! (length b - 1) = 0 then take (length b - 1) b else b) in
      bind (from_utf8 b') (\<lambda>s. Ok (s, [])))"

definition bytes_attr :: "bytes \<Rightarrow> attr_obj" where
  "bytes_attr v = \<lparr>is_nested = False, get_size = length v, write_payload = copy_to_front v\<rparr>"

definition bytes_deserialize :: "bytes \<Rightarrow> (bytes \<times> bytes) decoded" where
  "bytes_deserialize b = Ok (b, [])"

section \<open>Lists\<close>

definition add_value :: "'v list \<Rightarrow> 'v \<Rightarrow> 'v list" where
  "add_value objs e = objs @ [e]"

definition with_value :: "'v list \<Rightarrow> 'v \<Rightarrow> 'v list" where
  "with_value objs e = add_value objs e"

definition list_get_size :: "sys \<Rightarrow> ('v \<Rightarrow> attr_obj) \<Rightarrow> 'v list \<Rightarrow> nat" where
  "list_get_size S attr objs =
     foldl (\<lambda>acc item. acc + get_size (attr item) + pad_netlink_object S size_of_nlattr) 0 objs"

fun list_write_payload :: "sys \<Rightarrow> ('v \<Rightarrow> attr_obj) \<Rightarrow> 'v list \<Rightarrow> bytes \<Rightarrow> bytes decoded" where
  "list_write_payload S attr [] addr = Ok addr"
| "list_write_payload S attr (item # objs) addr =
     bind (write_attribute S (NFTA_LIST_ELEM S) (attr item) addr) (\<lambda>addr1.
     let offset = pad_netlink_object S size_of_nlattr + get_size (attr item) in
     bind (slice_from addr1 offset) (\<lambda>rest.
     bind (list_write_payload S attr objs rest) (\<lambda>rest'.
     Ok (take offset addr1 @ rest'))))"

definition list_attr :: "sys \<Rightarrow> ('v \<Rightarrow> attr_obj) \<Rightarrow> 'v list \<Rightarrow> attr_obj" where
  "list_attr S attr objs =
     \<lparr>is_nested = True, get_size = list_get_size S attr objs,
      write_payload = list_write_payload S attr objs\<rparr>"

function list_deserialize_loop ::
  "sys \<Rightarrow> (bytes \<Rightarrow> ('v \<times> bytes) decoded) \<Rightarrow> bytes \<Rightarrow> nat \<Rightarrow> 'v list \<Rightarrow> ('v list \<times> bytes) decoded"
where
  "list_deserialize_loop S deser b pos objs =
     bind (usize_sub (length b) pos) (\<lambda>left.
     if left > pad_netlink_object S size_of_nlattr then
       bind (slice_from b pos) (\<lambda>tail.
       if length tail < size_of_nlattr S then UB
       else
         let a = nlattr_of S tail;
             ty = nla_type a AND word_of_int (NLA_TYPE_MASK S);
             step = pad_netlink_object_with_variable_size S (unat (nla_len a)) in
         if ty \<noteq> NFTA_LIST_ELEM S then Err (UnsupportedAttributeType ty)
         else
           bind (slice_range b (pos + pad_netlink_object S size_of_nlattr)
                  (pos + unat (nla_len a))) (\<lambda>payload.
           bind (deser payload) (\<lambda>(obj, remaining).
           if length remaining \<noteq> 0 then Err InvalidDataSize
           else if 0 < step then list_deserialize_loop S deser b (pos + step) (objs @ [obj])
           else Diverge)))
     else if pos \<noteq> length b then Err InvalidDataSize
     else Ok (objs, []))"
  by pat_completeness auto
termination
  by (relation "measure (\<lambda>(S, deser, b, pos, objs). length b - pos)")
    (auto simp: usize_sub_eq_Ok)

declare list_deserialize_loop.simps [simp del]

definition list_deserialize ::
  "sys \<Rightarrow> (bytes \<Rightarrow> ('v \<times> bytes) decoded) \<Rightarrow> bytes \<Rightarrow> ('v list \<times> bytes) decoded" where
  "list_deserialize S deser b = list_deserialize_loop S deser b 0 []"

definition list_from :: "('o \<Rightarrow> 'v) \<Rightarrow> 'o list \<Rightarrow> 'v list" where
  "list_from from v = map from v"

section \<open>Objects\<close>

definition ProtocolFamily_variants :: "ProtocolFamily list" where
  "ProtocolFamily_variants =
     [FamUnspec, FamInet, FamIpv4, FamArp, FamNetDev, FamBridge, FamIpv6, FamDecNet]"

definition ProtocolFamily_try_from :: "sys \<Rightarrow> i32 \<Rightarrow> ProtocolFamily decoded" where
  "ProtocolFamily_try_from S =
     enum_try_from (ProtocolFamily_value S) ProtocolFamily_variants UnknownProtocolFamily"

definition ProtocolFamily_attr :: "sys \<Rightarrow> ProtocolFamily \<Rightarrow> attr_obj" where
  "ProtocolFamily_attr S = enum_attr i32_attr (ProtocolFamily_value S)"

definition ProtocolFamily_deserialize :: "sys \<Rightarrow> bytes \<Rightarrow> (ProtocolFamily \<times> bytes) decoded" where
  "ProtocolFamily_deserialize S = enum_deserialize i32_deserialize (ProtocolFamily_try_from S)"

definition object_deserialize :: "sys \<Rightarrow> 'a nf_object \<Rightarrow> bytes \<Rightarrow> ('a \<times> bytes) decoded" where
  "object_deserialize S T b =
     bind (parse_object S (decode_attribute T) (default_obj T) b (MSG_TYPE_ADD T) (MSG_TYPE_DEL T))
       (\<lambda>(obj, nfgenmsg, remaining_data).
     bind (ProtocolFamily_try_from S (ucast (nfgen_family nfgenmsg))) (\<lambda>family.
     Ok (set_family T obj family, remaining_data)))"

section \<open>The leaf types are codecs\<close>

text \<open>A type that copies its encoding to the front of the slice and reads it back is a codec.\<close>

lemma copy_writes:
  assumes "obj = \<lparr>is_nested = n, get_size = length e, write_payload = copy_to_front e\<rparr>"
  shows "writes obj e" and "safe_write obj"
  using assms by (simp_all add: writes_def safe_write_def outcome_simps copy_to_front_Ok)

lemma copy_codec:
  assumes "\<And>v. attr v = \<lparr>is_nested = n, get_size = length (e v), write_payload = copy_to_front (e v)\<rparr>"
    and "\<And>v. ok v \<Longrightarrow> deser (e v) = Ok (v, [])"
  shows "codec attr deser ok"
proof -
  have w: "writes (attr v) (e v)" "safe_write (attr v)" for v
    using copy_writes [OF assms(1)] by blast+
  then have "wire (attr v) = e v" for v by (simp add: wire_eqI)
  then show ?thesis
    using w assms(2) by unfold_locales simp_all
qed

lemma be_read_bytes [simp]:
  "LENGTH('a) = 8 * n \<Longrightarrow> be_read n (be_bytes n (v :: 'a::len word)) = Ok (v, [])"
  by (simp add: be_read_def)

lemma writes_u8: "writes (u8_attr v) [v]"
proof -
  have "(replicate n 0)[0 := v] = v # replicate (n - 1) 0" if "1 \<le> n" for n
    using that by (cases n) simp_all
  then show ?thesis by (auto simp: writes_def u8_attr_def)
qed

lemma leaf_wire [wire_simps]:
  "wire (u8_attr b) = [b]"
  "wire (u16_attr h) = be_bytes 2 h" "wire (i32_attr i) = be_bytes 4 i"
  "wire (u32_attr w) = be_bytes 4 w" "wire (u64_attr d) = be_bytes 8 d"
  "wire (String_attr s) = s" "wire (bytes_attr v) = v"
  by (simp_all add: wire_def u8_attr_def u16_attr_def i32_attr_def u32_attr_def
      u64_attr_def String_attr_def bytes_attr_def outcome_simps)

text \<open>A string reads back unless it ends in the NUL byte that the decoder strips.\<close>

definition string_ok :: "rust_string \<Rightarrow> bool" where
  "string_ok s \<longleftrightarrow> utf8_valid s \<and> (s \<noteq> [] \<longrightarrow> last s \<noteq> 0)"

lemma String_deserialize_ok: "string_ok s \<Longrightarrow> String_deserialize s = Ok (s, [])"
  by (auto simp: String_deserialize_def string_ok_def from_utf8_def last_conv_nth Let_def)

interpretation u8: codec u8_attr u8_deserialize "\<lambda>_. True"
proof
  fix v
  show "writes (u8_attr v) (wire (u8_attr v))" by (rule writes_wireI) (rule writes_u8)
  show "safe_write (u8_attr v)" by (auto simp: safe_write_def u8_attr_def)
  show "u8_deserialize (wire (u8_attr v)) = Ok (v, [])"
    by (simp add: wire_simps u8_deserialize_def index_def slice_from_def)
qed

interpretation u16: codec u16_attr u16_deserialize "\<lambda>_. True"
  by (rule copy_codec [of _ False "be_bytes 2"]) (simp_all add: u16_attr_def u16_deserialize_def)

interpretation i32: codec i32_attr i32_deserialize "\<lambda>_. True"
  by (rule copy_codec [of _ False "be_bytes 4"]) (simp_all add: i32_attr_def i32_deserialize_def)

interpretation u32: codec u32_attr u32_deserialize "\<lambda>_. True"
  by (rule copy_codec [of _ False "be_bytes 4"]) (simp_all add: u32_attr_def u32_deserialize_def)

interpretation u64: codec u64_attr u64_deserialize "\<lambda>_. True"
  by (rule copy_codec [of _ False "be_bytes 8"]) (simp_all add: u64_attr_def u64_deserialize_def)

interpretation rstring: codec String_attr String_deserialize string_ok
  by (rule copy_codec [of _ False "\<lambda>s. s"]) (simp_all add: String_attr_def String_deserialize_ok)

interpretation vec: codec bytes_attr bytes_deserialize "\<lambda>_. True"
  by (rule copy_codec [of _ False "\<lambda>s. s"]) (simp_all add: bytes_attr_def bytes_deserialize_def)

lemma leaf_sizes [simp]:
  "get_size (u8_attr b) = 1" "get_size (u16_attr h) = 2" "get_size (i32_attr i) = 4"
  "get_size (u32_attr w) = 4" "get_size (u64_attr d) = 8"
  "get_size (String_attr s) = length s" "get_size (bytes_attr v) = length v"
  by (simp_all add: u8_attr_def u16_attr_def i32_attr_def u32_attr_def u64_attr_def
      String_attr_def bytes_attr_def)

section \<open>Lists of aligned elements are codecs\<close>

text \<open>
  Neither \<open>get_size\<close> nor \<open>write_payload\<close> of a list pads its elements, while \<open>deserialize\<close>
  steps over padded elements; so the elements must have an aligned size. Every structure has
  one. A list whose last element is empty does not read back.
\<close>

definition list_items :: "sys \<Rightarrow> ('v \<Rightarrow> attr_obj) \<Rightarrow> 'v list \<Rightarrow> attr_list" where
  "list_items S attr xs = map (\<lambda>x. (NFTA_LIST_ELEM S, attr x)) xs"

definition list_ok :: "sys \<Rightarrow> ('v \<Rightarrow> attr_obj) \<Rightarrow> ('v \<Rightarrow> bool) \<Rightarrow> 'v list \<Rightarrow> bool" where
  "list_ok S attr elem_ok xs \<longleftrightarrow>
     list_all (\<lambda>x. elem_ok x \<and> 4 + get_size (attr x) < 65536) xs \<and>
     ends_nonempty (list_items S attr xs)"

locale nf_list = netlink_abi + elem: codec attr deser elem_ok
  for attr :: "'v \<Rightarrow> attr_obj" and deser and elem_ok +
  assumes aligned: "4 dvd get_size (attr v)"
    and elem_type: "NFTA_LIST_ELEM S < 0x4000"
begin

lemma items_simps [simp]:
  "list_items S attr [] = []"
  "list_items S attr (x # xs) = (NFTA_LIST_ELEM S, attr x) # list_items S attr xs"
  by (simp_all add: list_items_def)

lemma elem_tlv:
  "tlv S ty (attr x) = nlattr_bytes S (attr_header S ty (attr x)) @ wire (attr x)"
  "length (tlv S ty (attr x)) = 4 + get_size (attr x)"
  by (simp_all add: tlv_def aligned lengths)

lemma list_size: "list_get_size S attr xs = length (tlvs S (list_items S attr xs))"
proof -
  have "foldl (\<lambda>acc item. acc + get_size (attr item) + pad_netlink_object S size_of_nlattr) n xs =
      n + length (tlvs S (list_items S attr xs))" for n
    by (induction xs arbitrary: n) (simp_all add: abi elem_tlv(2))
  then show ?thesis by (simp add: list_get_size_def)
qed

lemma list_write:
  "length (tlvs S (list_items S attr xs)) \<le> n \<Longrightarrow>
   list_write_payload S attr xs (replicate n 0) =
     Ok (tlvs S (list_items S attr xs) @ replicate (n - length (tlvs S (list_items S attr xs))) 0)"
proof (induction xs arbitrary: n)
  case Nil
  then show ?case by simp
next
  case (Cons x xs)
  then have n: "4 + get_size (attr x) \<le> n" by (simp add: elem_tlv(2))
  show ?case
    using Cons write_attribute_zeros [OF elem.writes_attr n, of "NFTA_LIST_ELEM S"]
    by (simp add: abi Let_def slice_from_def elem_tlv)
qed

lemma list_safe:
  "list_get_size S attr xs \<le> length b \<Longrightarrow>
   \<exists>b'. list_write_payload S attr xs b = Ok b' \<and> length b' = length b"
proof (induction xs arbitrary: b)
  case Nil
  then show ?case by simp
next
  case (Cons x xs)
  let ?sz = "4 + get_size (attr x)"
  have sz: "?sz + list_get_size S attr xs \<le> length b"
    using Cons.prems by (simp add: list_size elem_tlv(2))
  obtain b1 where b1: "write_attribute S (NFTA_LIST_ELEM S) (attr x) b = Ok b1"
    "length b1 = length b"
    using write_attribute_safe [OF elem.safe_attr] sz by (metis add_leD1)
  have "\<exists>b2. list_write_payload S attr xs (drop ?sz b1) = Ok b2 \<and>
      length b2 = length (drop ?sz b1)"
    using sz b1(2) by (intro Cons.IH) simp
  then show ?case
    using sz b1 by (auto simp: abi Let_def slice_from_def)
qed

lemma list_writes: "writes (list_attr S attr xs) (tlvs S (list_items S attr xs))"
  by (simp add: writes_def list_attr_def list_size list_write)

lemma list_wire: "wire (list_attr S attr xs) = tlvs S (list_items S attr xs)"
  by (rule wire_eqI) (rule list_writes)

text \<open>One round of the loop on an admissible element.\<close>

lemma list_round:
  assumes x: "elem_ok x" "4 + get_size (attr x) < 65536" and more: "0 < get_size (attr x) \<or> post \<noteq> []"
  shows "list_deserialize_loop S deser (pre @ tlv S (NFTA_LIST_ELEM S) (attr x) @ post)
      (length pre) objs =
    list_deserialize_loop S deser ((pre @ tlv S (NFTA_LIST_ELEM S) (attr x)) @ post)
      (length (pre @ tlv S (NFTA_LIST_ELEM S) (attr x))) (objs @ [x])"
proof -
  let ?h = "attr_header S (NFTA_LIST_ELEM S) (attr x)"
  have payload: "slice_range (pre @ nlattr_bytes S ?h @ wire (attr x) @ post)
      (length pre + 4) (length pre + (4 + get_size (attr x))) = Ok (wire (attr x))"
    using lengths(3) [of ?h] by (simp add: slice_range_def)
  have pads: "pad S (4 + get_size (attr x)) = 4 + get_size (attr x)"
    using aligned by simp
  show ?thesis
    using more header_type [OF elem_type, of "attr x"]
      header_len [OF x(2), of "NFTA_LIST_ELEM S"]
    by (subst list_deserialize_loop.simps)
      (simp add: abi Let_def usize_sub_Ok slice_from_def payload pads elem_tlv
        elem.read_back [OF x(1)])
qed

lemma list_read:
  assumes "list_ok S attr elem_ok xs"
  shows "list_deserialize_loop S deser (pre @ tlvs S (list_items S attr xs)) (length pre) objs =
    Ok (objs @ xs, [])"
  using assms
proof (induction xs arbitrary: pre objs)
  case Nil
  then show ?case
    by (subst list_deserialize_loop.simps) (simp add: outcome_simps)
next
  case (Cons x xs)
  have x: "elem_ok x" "4 + get_size (attr x) < 65536" and rest: "list_ok S attr elem_ok xs"
    using Cons.prems by (auto simp: list_ok_def ends_nonempty_def split: if_splits)
  have more: "0 < get_size (attr x) \<or> tlvs S (list_items S attr xs) \<noteq> []"
    using Cons.prems by (cases xs) (auto simp: list_ok_def ends_nonempty_def)
  show ?case
    using list_round [OF x more, of pre objs]
      Cons.IH [OF rest, of "pre @ tlv S (NFTA_LIST_ELEM S) (attr x)" "objs @ [x]"]
    by simp
qed

text \<open>The error of an element is the error of the list.\<close>

lemma list_read_error:
  assumes "list_all (\<lambda>x. elem_ok x \<and> 4 + get_size (attr x) < 65536) xs"
    and y: "4 + get_size (attr y) < 65536" "0 < get_size (attr y)"
    and err: "deser (wire (attr y)) = Err e"
  shows "list_deserialize_loop S deser (pre @ tlvs S (list_items S attr (xs @ y # zs)))
    (length pre) objs = Err e"
  using assms(1)
proof (induction xs arbitrary: pre objs)
  case Nil
  let ?h = "attr_header S (NFTA_LIST_ELEM S) (attr y)"
  have payload: "slice_range (pre @ nlattr_bytes S ?h @ wire (attr y) @
      tlvs S (list_items S attr zs))
      (length pre + 4) (length pre + (4 + get_size (attr y))) = Ok (wire (attr y))"
    using lengths(3) [of ?h] by (simp add: slice_range_def)
  show ?case
    using y(2) header_type [OF elem_type, of "attr y"]
      header_len [OF y(1), of "NFTA_LIST_ELEM S"]
    by (subst list_deserialize_loop.simps)
      (simp add: abi Let_def usize_sub_Ok slice_from_def payload elem_tlv err)
next
  case (Cons x xs)
  have more: "tlvs S (list_items S attr (xs @ y # zs)) \<noteq> []" by (cases xs) simp_all
  show ?case
    using list_round [of x "tlvs S (list_items S attr (xs @ y # zs))" pre objs] more Cons.prems
      Cons.IH [of "pre @ tlv S (NFTA_LIST_ELEM S) (attr x)" "objs @ [x]"]
    by simp
qed

sublocale codec "list_attr S attr" "list_deserialize S deser" "list_ok S attr elem_ok"
proof
  fix xs
  show "writes (list_attr S attr xs) (wire (list_attr S attr xs))"
    by (rule writes_wireI) (rule list_writes)
  show "safe_write (list_attr S attr xs)"
    using list_safe [of xs] by (simp add: safe_write_def list_attr_def)
  show "list_ok S attr elem_ok xs \<Longrightarrow> list_deserialize S deser (wire (list_attr S attr xs)) = Ok (xs, [])"
    using list_read [of xs "[]" "[]"] by (simp add: list_deserialize_def list_wire)
qed

end

end
