(* ===== verification/Objects.thy ===== *)
theory Objects
  imports ParserImpls
begin

text \<open>
  Whole messages: what the writer of \<open>src/nlmsg.rs\<close> appends for a header and for an object, and
  what the parsers of \<open>src/parser.rs\<close> and \<open>src/parser_impls.rs\<close> make of it.

  The locale \<open>message_abi\<close> adds the documented values of the message types, flags and protocol
  families to \<open>netlink_abi\<close>; the locale \<open>nf_obj\<close> states the contract of an \<open>NfNetlinkObject\<close>
  implementation, and inside it an object is shown to survive the trip through a message.
\<close>

locale message_abi = netlink_abi +
  assumes message_types [abi]: "NLMSG_MIN_TYPE S = 16" "NFNL_MSG_BATCH_BEGIN S = 16"
      "NFNL_MSG_BATCH_END S = 17" "NFNL_SUBSYS_NFTABLES S = 10" "NFNETLINK_V0 S = 0"
    and message_flags [abi]: "NLM_F_REQUEST S = 1" "NLM_F_MULTI S = 2" "NLM_F_ACK S = 4"
      "NLM_F_DUMP_INTR S = 16" "NLM_F_CREATE S = 0x400" "NLM_F_APPEND S = 0x800"
      "NLM_F_DUMP S = 0x300"
    and control_types [abi]: "NLMSG_NOOP S = 1" "NLMSG_ERROR S = 2" "NLMSG_DONE S = 3"
    and families_distinct: "distinct (map (ProtocolFamily_value S) ProtocolFamily_variants)"
    and families_byte: "ProtocolFamily_value S f < 256"

interpretation linux: message_abi linux_sys
proof
  show "ProtocolFamily_value linux_sys f < 256" for f
    by (cases f) simp_all
qed (simp_all add: ProtocolFamily_variants_def)

text \<open>A message in memory, and the type field of a message of the nftables subsystem.\<close>

definition msg_hdr :: "u16 \<Rightarrow> u16 \<Rightarrow> u32 \<Rightarrow> bytes \<Rightarrow> nlmsghdr" where
  "msg_hdr ty flags seq payload =
     \<lparr>nlmsg_len = of_nat (20 + length payload), nlmsg_type = ty, nlmsg_flags = flags,
      nlmsg_seq = seq, nlmsg_pid = 0\<rparr>"

definition msg_gen :: "sys \<Rightarrow> ProtocolFamily \<Rightarrow> u16 \<Rightarrow> nfgenmsg" where
  "msg_gen S family rid =
     \<lparr>nfgen_family = ucast (ProtocolFamily_value S family),
      genmsg_version = word_of_int (NFNETLINK_V0 S), genmsg_res_id = rid\<rparr>"

definition message ::
  "sys \<Rightarrow> u16 \<Rightarrow> u16 \<Rightarrow> u32 \<Rightarrow> ProtocolFamily \<Rightarrow> u16 \<Rightarrow> bytes \<Rightarrow> bytes" where
  "message S ty flags seq family rid payload =
     nlmsghdr_bytes S (msg_hdr ty flags seq payload) @ nfgenmsg_bytes S (msg_gen S family rid) @
     payload"

text \<open>A message with an arbitrary header, as the kernel sends it.\<close>

definition reply :: "sys \<Rightarrow> nlmsghdr \<Rightarrow> nfgenmsg \<Rightarrow> bytes \<Rightarrow> bytes" where
  "reply S h g payload = nlmsghdr_bytes S h @ nfgenmsg_bytes S g @ payload"

lemma message_reply:
  "message S ty flags seq family rid payload =
     reply S (msg_hdr ty flags seq payload) (msg_gen S family rid) payload"
  by (simp add: message_def reply_def)

definition full_type :: "sys \<Rightarrow> u16 \<Rightarrow> u16" where
  "full_type S ty =
     (if ty \<noteq> word_of_int (NFNL_MSG_BATCH_BEGIN S) \<and> ty \<noteq> word_of_int (NFNL_MSG_BATCH_END S)
      then ty OR push_bit 8 (word_of_int (NFNL_SUBSYS_NFTABLES S)) else ty)"

section \<open>What the writer appends\<close>

lemma update_slice_middle:
  assumes "w_buf w = pre @ sl @ post" and "start = length pre" and "n = length sl"
  shows "update_slice w start n f = bind (f sl) (\<lambda>sl'. Ok (w\<lparr>w_buf := pre @ sl' @ post\<rparr>))"
  using assms by (simp add: update_slice_def slice_range_def)

context netlink_abi
begin

lemma length_message: "length (message S ty flags seq family rid payload) = 20 + length payload"
  by (simp add: message_def lengths)

lemma length_reply: "length (reply S h g payload) = 20 + length payload"
  by (simp add: reply_def lengths)

lemma add_data_zeroed_closed:
  assumes "w_headers w = None"
  shows "add_data_zeroed S w n =
    Ok (w\<lparr>w_buf := w_buf w @ replicate (pad S n) 0\<rparr>, length (w_buf w), n)"
  using assms pad_ge [of n]
  by (simp add: add_data_zeroed_def Let_def slice_range_def)

lemma write_header_closed:
  assumes "w_headers w = None"
  shows "write_header S w ty family flags seq rid =
    Ok \<lparr>w_buf = w_buf w @ message S (full_type S ty) (word_of_int (NLM_F_REQUEST S) OR flags) seq
          family (case rid of None \<Rightarrow> 0 | Some r \<Rightarrow> r) [],
        w_headers = Some (length (w_buf w), length (w_buf w) + 16)\<rparr>"
proof -
  let ?h = "\<lambda>b. nlmsghdr_bytes S (msg_hdr (full_type S ty) (word_of_int (NLM_F_REQUEST S) OR flags) seq b)"
  have z: "nlmsghdr_of S (replicate 16 0) =
      \<lparr>nlmsg_len = 0, nlmsg_type = 0, nlmsg_flags = 0, nlmsg_seq = 0, nlmsg_pid = 0\<rparr>"
    using load_zero(1) [of "[]"] by simp
  have g: "nfgenmsg_of S (replicate 4 0) =
      \<lparr>nfgen_family = 0, genmsg_version = 0, genmsg_res_id = 0\<rparr>"
    using load_zero(2) [of "[]"] by simp
  show ?thesis
    using assms
    by (simp add: write_header_def Let_def pad_hdr add_data_zeroed_closed
        update_slice_middle [where pre = "w_buf w" and sl = "replicate 16 0" and post = "[]"]
        update_slice_middle [where pre = "w_buf w @ ?h []" and sl = "replicate 4 0" and post = "[]"]
        with_nlmsghdr_def with_nfgenmsg_def sizes z g message_def msg_hdr_def msg_gen_def
        full_type_def lengths usize_sub_Ok)
qed

lemma msg_hdr_len:
  "20 + length payload < 2 ^ 32 \<Longrightarrow> unat (nlmsg_len (msg_hdr ty flags seq payload)) = 20 + length payload"
  by (simp add: msg_hdr_def unat_small del: of_nat_add)

lemma add_data_zeroed_open:
  assumes w: "w = \<lparr>w_buf = pre @ message S ty flags seq family rid payload,
      w_headers = Some (length pre, j)\<rparr>"
    and small: "20 + length payload + pad S n < 2 ^ 32"
  shows "add_data_zeroed S w n =
    (Ok (w\<lparr>w_buf := pre @ message S ty flags seq family rid (payload @ replicate (pad S n) 0)\<rparr>,
         length pre + 20 + length payload, n) :: ('e, _) outcome)"
proof -
  let ?h = "msg_hdr ty flags seq payload" and ?z = "replicate (pad S n) (0 :: u8)"
  let ?w = "w\<lparr>w_buf := pre @ message S ty flags seq family rid payload @ ?z\<rparr>"
  have len: "unat (nlmsg_len ?h) = 20 + length payload"
    using small by (intro msg_hdr_len) simp
  have "unat (of_nat (pad S n) :: u32) = pad S n"
    using small by (intro unat_small) simp
  then have add: "checked_add_u32 (nlmsg_len ?h) (of_nat (pad S n)) =
      (Ok (nlmsg_len (msg_hdr ty flags seq (payload @ ?z))) :: ('e, _) outcome)"
    using small len by (simp add: checked_add_u32_def) (simp add: msg_hdr_def add.assoc)
  have upd: "update_slice ?w (length pre) (20 + (length payload + pad S n))
      (with_nlmsghdr S (\<lambda>hdr. bind (checked_add_u32 (nlmsg_len hdr) (of_nat (pad S n)))
         (\<lambda>len. Ok (hdr\<lparr>nlmsg_len := len\<rparr>)))) =
    (Ok (w\<lparr>w_buf := pre @ message S ty flags seq family rid (payload @ ?z)\<rparr>) :: ('e, _) outcome)"
    by (subst update_slice_middle [where pre = pre and post = "[]"
          and sl = "message S ty flags seq family rid payload @ ?z"])
      (simp_all add: length_message with_nlmsghdr_def sizes message_def load_store add lengths,
       simp add: msg_hdr_def)
  show ?thesis
    using upd pad_ge [of n]
    by (simp add: add_data_zeroed_def Let_def w slice_from_def length_message add.assoc
        slice_range_def)
qed

end

text \<open>The bytes that \<open>add_or_remove\<close> appends.\<close>

definition object_type :: "'a nf_object \<Rightarrow> MsgType \<Rightarrow> u16" where
  "object_type T msg_type = ucast (case msg_type of Add \<Rightarrow> MSG_TYPE_ADD T | Del \<Rightarrow> MSG_TYPE_DEL T)"

definition object_flags :: "sys \<Rightarrow> 'a nf_object \<Rightarrow> 'a \<Rightarrow> MsgType \<Rightarrow> u16" where
  "object_flags S T x msg_type =
     ucast ((case msg_type of Add \<Rightarrow> get_add_flags T x | Del \<Rightarrow> get_del_flags T x) OR NLM_F_ACK S)"

definition object_message :: "sys \<Rightarrow> 'a nf_object \<Rightarrow> 'a \<Rightarrow> MsgType \<Rightarrow> u32 \<Rightarrow> bytes" where
  "object_message S T x msg_type seq =
     message S (full_type S (object_type T msg_type))
       (word_of_int (NLM_F_REQUEST S) OR object_flags S T x msg_type) seq (get_family T x) 0
       (wire (as_attr T x))"

context netlink_abi
begin

lemma add_or_remove_eq:
  assumes closed: "w_headers w = None"
    and wr: "writes (as_attr T x) (wire (as_attr T x))"
    and aligned: "4 dvd get_size (as_attr T x)"
    and small: "20 + get_size (as_attr T x) < 2 ^ 32"
  shows "add_or_remove S T x w msg_type seq =
    Ok (w\<lparr>w_buf := w_buf w @ object_message S T x msg_type seq\<rparr>)"
proof -
  let ?n = "get_size (as_attr T x)"
  let ?m = "message S (full_type S (object_type T msg_type))
       (word_of_int (NLM_F_REQUEST S) OR object_flags S T x msg_type) seq (get_family T x) 0"
  let ?w1 = "\<lparr>w_buf = w_buf w @ ?m [], w_headers = Some (length (w_buf w), length (w_buf w) + 16)\<rparr>"
  let ?w2 = "?w1\<lparr>w_buf := w_buf w @ ?m (replicate ?n 0)\<rparr>"
  have data: "add_data_zeroed S ?w1 ?n =
      (Ok (?w2, length (w_buf w) + 20, ?n) :: (NfNetlinkWriter \<times> nat \<times> nat) decoded)"
    using add_data_zeroed_open [OF refl, where payload = "[]" and n = ?n] small aligned by simp
  have len: "length (wire (as_attr T x)) = ?n" by (rule length_wire [OF wr])
  have pay: "write_payload (as_attr T x) (replicate ?n 0) = Ok (wire (as_attr T x))"
    using writesD [OF wr, of ?n] len by simp
  have hdr: "msg_hdr ty fl sq (replicate ?n 0) = msg_hdr ty fl sq (wire (as_attr T x))" for ty fl sq
    by (simp add: msg_hdr_def len)
  have upd: "update_slice ?w2 (length (w_buf w) + 20) ?n (write_payload (as_attr T x)) =
      Ok (?w1\<lparr>w_buf := w_buf w @ ?m (wire (as_attr T x))\<rparr>)"
    by (subst update_slice_middle [where post = "[]" and sl = "replicate ?n 0"
          and pre = "w_buf w @ nlmsghdr_bytes S (msg_hdr (full_type S (object_type T msg_type))
            (word_of_int (NLM_F_REQUEST S) OR object_flags S T x msg_type) seq (replicate ?n 0)) @
            nfgenmsg_bytes S (msg_gen S (get_family T x) 0)"])
      (simp_all add: message_def lengths pay hdr)
  show ?thesis
    using data upd closed
    by (simp add: add_or_remove_def write_header_closed Let_def flip: object_type_def
        object_flags_def)
      (simp add: finalize_writing_object_def object_message_def)
qed

end

section \<open>What the parser reads\<close>

context message_abi
begin

lemma parse_nlmsg_reply:
  assumes len: "unat (nlmsg_len h) = 20 + length payload" and intr: "nlmsg_flags h AND 16 = 0"
    and ty: "16 \<le> nlmsg_type h" "nlmsg_type h = 16 \<or> nlmsg_type h = 17 \<or>
      get_subsystem_from_nlmsghdr_type (nlmsg_type h) = 10"
    and ver: "genmsg_version g = 0"
  shows "parse_nlmsg S (reply S h g payload @ rest) = Ok (h, NfGenMsg g payload)"
proof -
  let ?b = "reply S h g payload @ rest"
  have hdr: "get_nlmsghdr S ?b = Ok h"
    using len intr
    by (simp add: get_nlmsghdr_def Let_def reply_def abi slice_range_def
        load_store(1) [of _ "[]", simplified])
  have gen: "slice_range ?b 16 20 = (Ok (nfgenmsg_bytes S g) :: bytes decoded)"
    by (simp add: reply_def slice_range_def lengths)
  have raw: "slice_range ?b 20 (20 + length payload) = (Ok payload :: bytes decoded)"
    by (simp add: reply_def slice_range_def lengths)
  have load: "nfgenmsg_of S (nfgenmsg_bytes S g) = g"
    using load_store(2) [of g "[]"] by simp
  show ?thesis
    using ty gen raw
    by (auto simp: parse_nlmsg_def hdr Let_def abi load ver len length_reply not_less)
qed

lemma parse_nlmsg_message:
  assumes "20 + length payload < 2 ^ 32" and "flags AND 16 = 0"
    and "16 \<le> ty" "ty = 16 \<or> ty = 17 \<or> get_subsystem_from_nlmsghdr_type ty = 10"
  shows "parse_nlmsg S (message S ty flags seq family rid payload @ rest) =
    Ok (msg_hdr ty flags seq payload, NfGenMsg (msg_gen S family rid) payload)"
  unfolding message_reply
  using assms
  by (intro parse_nlmsg_reply) (simp_all add: msg_hdr_len, simp_all add: msg_hdr_def msg_gen_def abi)

sublocale family: nf_enum i32_attr i32_deserialize "ProtocolFamily_value S"
    ProtocolFamily_variants UnknownProtocolFamily
proof
  fix v :: ProtocolFamily
  show "v \<in> set ProtocolFamily_variants"
    by (cases v) (simp_all add: ProtocolFamily_variants_def)
qed (rule families_distinct)

lemma family_round_trip [simp]:
  "ProtocolFamily_try_from S (ucast (ucast (ProtocolFamily_value S family) :: u8)) = Ok family"
proof -
  let ?v = "ProtocolFamily_value S family"
  have "unat ?v < 256" using families_byte [of family] by (simp add: word_less_nat_alt)
  then have "unat (ucast (ucast ?v :: u8) :: i32) = unat ?v"
    by (simp add: unsigned_ucast_eq unsigned_take_bit_eq take_bit_nat_eq_self)
  then have "ucast (ucast ?v :: u8) = ?v" by (simp only: word_unat_eq_iff)
  then show ?thesis
    by (simp add: ProtocolFamily_try_from_def)
qed

end

section \<open>Objects survive the trip\<close>

lemma u32_less_16:
  assumes "t < (16 :: u32)"
  shows "t = 0 \<or> t = 1 \<or> t = 2 \<or> t = 3 \<or> t = 4 \<or> t = 5 \<or> t = 6 \<or> t = 7 \<or> t = 8 \<or> t = 9 \<or>
    t = 10 \<or> t = 11 \<or> t = 12 \<or> t = 13 \<or> t = 14 \<or> t = 15"
proof -
  have "unat t < 16" using assms by (simp add: word_less_nat_alt)
  then have "unat t = 0 \<or> unat t = 1 \<or> unat t = 2 \<or> unat t = 3 \<or> unat t = 4 \<or> unat t = 5 \<or>
    unat t = 6 \<or> unat t = 7 \<or> unat t = 8 \<or> unat t = 9 \<or> unat t = 10 \<or> unat t = 11 \<or>
    unat t = 12 \<or> unat t = 13 \<or> unat t = 14 \<or> unat t = 15"
    by arith
  then show ?thesis by (simp add: word_unat_eq_iff)
qed

context message_abi
begin

lemma full_type_small:
  assumes "t < (16 :: u32)"
  shows "16 \<le> full_type S (ucast t)"
    and "get_subsystem_from_nlmsghdr_type (full_type S (ucast t)) = 10"
    and "ucast (get_operation_from_nlmsghdr_type (full_type S (ucast t))) = t"
  using u32_less_16 [OF assms]
  by (auto simp: full_type_def abi get_subsystem_from_nlmsghdr_type_def
      get_operation_from_nlmsghdr_type_def)

end

text \<open>
  A message about an object: it has a type number of the object, its family and its attributes;
  and the header of the message that \<open>add_or_remove\<close> writes.
\<close>

definition object_reply ::
  "sys \<Rightarrow> 'a nf_object \<Rightarrow> 'a \<Rightarrow> MsgType \<Rightarrow> nlmsghdr \<Rightarrow> nfgenmsg \<Rightarrow> bool" where
  "object_reply S T x msg_type h g \<longleftrightarrow>
     unat (nlmsg_len h) = 20 + get_size (as_attr T x) \<and> nlmsg_flags h AND 16 = 0 \<and>
     nlmsg_type h = full_type S (object_type T msg_type) \<and>
     nfgen_family g = ucast (ProtocolFamily_value S (get_family T x)) \<and> genmsg_version g = 0"

text \<open>The same for a payload of \<open>n\<close> bytes that need not be the wire format of an object.\<close>

definition reply_header :: "sys \<Rightarrow> 'a nf_object \<Rightarrow> MsgType \<Rightarrow> nlmsghdr \<Rightarrow> nfgenmsg \<Rightarrow> nat \<Rightarrow> bool" where
  "reply_header S T msg_type h g n \<longleftrightarrow>
     unat (nlmsg_len h) = 20 + n \<and> nlmsg_flags h AND 16 = 0 \<and>
     nlmsg_type h = full_type S (object_type T msg_type) \<and> genmsg_version g = 0"

definition object_hdr :: "sys \<Rightarrow> 'a nf_object \<Rightarrow> 'a \<Rightarrow> MsgType \<Rightarrow> u32 \<Rightarrow> nlmsghdr" where
  "object_hdr S T x msg_type seq = msg_hdr (full_type S (object_type T msg_type))
     (word_of_int (NLM_F_REQUEST S) OR object_flags S T x msg_type) seq (wire (as_attr T x))"

text \<open>
  The contract of an object type: its attribute view can be written and has an aligned size,
  its message numbers lie in the nftables range, its flags do not collide with the interrupted
  dump flag, and the admissible objects are decoded from their wire format up to the family,
  which travels in the message header.
\<close>

locale nf_obj = message_abi +
  fixes T :: "'a nf_object"
    and ok :: "'a \<Rightarrow> bool"
  assumes obj_writes: "writes (as_attr T x) (wire (as_attr T x))"
    and obj_safe: "safe_write (as_attr T x)"
    and obj_aligned: "4 dvd get_size (as_attr T x)"
    and obj_types: "MSG_TYPE_ADD T < 16" "MSG_TYPE_DEL T < 16"
    and obj_flags: "get_add_flags T x AND 16 = 0" "get_del_flags T x AND 16 = 0"
    and obj_reads: "ok x \<Longrightarrow>
      \<exists>y. read_attributes S (decode_attribute T) (default_obj T) (wire (as_attr T x)) = Ok y \<and>
          set_family T y (get_family T x) = x"
begin

lemma length_object_message:
  "length (object_message S T x msg_type seq) = 20 + get_size (as_attr T x)"
  by (simp add: object_message_def length_message length_wire [OF obj_writes])

lemma object_type_full:
  shows "16 \<le> full_type S (object_type T msg_type)"
    and "get_subsystem_from_nlmsghdr_type (full_type S (object_type T msg_type)) = 10"
    and "ucast (get_operation_from_nlmsghdr_type (full_type S (object_type T msg_type))) =
      (case msg_type of Add \<Rightarrow> MSG_TYPE_ADD T | Del \<Rightarrow> MSG_TYPE_DEL T)"
  using full_type_small [OF obj_types(1)] full_type_small [OF obj_types(2)]
  by (cases msg_type; simp add: object_type_def)+

lemma object_flags_intr: "(word_of_int (NLM_F_REQUEST S) OR object_flags S T x msg_type) AND 16 = 0"
proof -
  have bit4: "w AND 16 = 0 \<longleftrightarrow> \<not> bit w 4" for w :: "'w::len word"
    by (simp add: bit_iff_and_push_bit_not_eq_0)
  have "\<not> bit (get_add_flags T x) 4" "\<not> bit (get_del_flags T x) 4"
    using obj_flags [of x] by (simp_all add: bit4)
  then show ?thesis
    unfolding bit4
    by (cases msg_type) (simp_all add: object_flags_def abi bit_simps)
qed

lemma object_reply_header:
  assumes "object_reply S T x msg_type h g"
  shows "reply_header S T msg_type h g (length (wire (as_attr T x)))"
  using assms length_wire [OF obj_writes, of x] by (simp add: object_reply_def reply_header_def)

lemma parse_nlmsg_payload:
  assumes "reply_header S T msg_type h g (length q)"
  shows "parse_nlmsg S (reply S h g q @ rest) = Ok (h, NfGenMsg g q)"
  using assms object_type_full(1,2) [of msg_type]
  by (intro parse_nlmsg_reply) (simp_all add: reply_header_def)

lemma parse_object_payload:
  assumes "reply_header S T msg_type h g (length q)" and "4 dvd length q"
  shows "parse_object S dec d (reply S h g q @ rest) (MSG_TYPE_ADD T) (MSG_TYPE_DEL T) =
    bind (read_attributes S dec d q) (\<lambda>r. Ok (r, g, rest))"
proof -
  have h: "unat (nlmsg_len h) = 20 + length q" "nlmsg_type h = full_type S (object_type T msg_type)"
    using assms(1) by (simp_all add: reply_header_def)
  have pad20: "pad S 20 = 20" "pad S (20 + length q) = 20 + length q"
    using assms(2) by simp_all
  have op: "ucast (get_operation_from_nlmsghdr_type (nlmsg_type h)) = MSG_TYPE_ADD T \<or>
      ucast (get_operation_from_nlmsghdr_type (nlmsg_type h)) = MSG_TYPE_DEL T"
    using object_type_full(3) [of msg_type] h(2) by (cases msg_type) simp_all
  have rest: "slice_from (reply S h g q @ rest) (20 + length q) = (Ok rest :: bytes decoded)"
    by (simp add: slice_from_def length_reply)
  show ?thesis
    using op rest
    by (auto simp: parse_object_def parse_nlmsg_payload [OF assms(1)] Let_def h(1) sizes pad20
        usize_sub_Ok slice_to_def)
qed

lemma parse_object_reply:
  assumes "object_reply S T x msg_type h g"
  shows "parse_object S dec d (reply S h g (wire (as_attr T x)) @ rest)
      (MSG_TYPE_ADD T) (MSG_TYPE_DEL T) =
    bind (read_attributes S dec d (wire (as_attr T x))) (\<lambda>r. Ok (r, g, rest))"
  using obj_aligned [of x] length_wire [OF obj_writes, of x]
  by (intro parse_object_payload [OF object_reply_header [OF assms]]) simp

lemma reply_round_trip:
  assumes "ok x" and "object_reply S T x msg_type h g"
  shows "object_deserialize S T (reply S h g (wire (as_attr T x)) @ rest) = Ok (x, rest)"
  using obj_reads [OF assms(1)] assms(2)
  by (auto simp: object_deserialize_def parse_object_reply [OF assms(2)] object_reply_def)

text \<open>The message that \<open>add_or_remove\<close> writes is a message about its object.\<close>

lemma object_message_reply:
  "object_message S T x msg_type seq =
     reply S (object_hdr S T x msg_type seq) (msg_gen S (get_family T x) 0) (wire (as_attr T x))"
  by (simp add: object_message_def message_reply object_hdr_def)

lemma object_reply_hdr:
  assumes "20 + get_size (as_attr T x) < 2 ^ 32"
  shows "object_reply S T x msg_type (object_hdr S T x msg_type seq) (msg_gen S (get_family T x) 0)"
  using assms msg_hdr_len [of "wire (as_attr T x)"] length_wire [OF obj_writes, of x]
    object_flags_intr [of x msg_type]
  by (simp add: object_reply_def object_hdr_def) (simp add: msg_hdr_def msg_gen_def abi)

lemma object_round_trip:
  assumes "ok x" and "20 + get_size (as_attr T x) < 2 ^ 32"
  shows "object_deserialize S T (object_message S T x msg_type seq @ rest) = Ok (x, rest)"
  unfolding object_message_reply
  by (rule reply_round_trip [OF assms(1) object_reply_hdr [OF assms(2)]])

lemma object_decode_error:
  assumes "read_attributes S (decode_attribute T) (default_obj T) (wire (as_attr T x)) = Err e"
    and "20 + get_size (as_attr T x) < 2 ^ 32"
  shows "object_deserialize S T (object_message S T x msg_type seq @ rest) = Err e"
  by (simp add: object_message_reply object_deserialize_def assms(1)
      parse_object_reply [OF object_reply_hdr [OF assms(2)]])

lemma object_write:
  assumes "w_headers w = None" and "20 + get_size (as_attr T x) < 2 ^ 32"
  shows "add_or_remove S T x w msg_type seq =
    Ok (w\<lparr>w_buf := w_buf w @ object_message S T x msg_type seq\<rparr>)"
  using assms obj_writes obj_aligned by (intro add_or_remove_eq)

lemma object_trip:
  assumes "ok x" and "20 + get_size (as_attr T x) < 2 ^ 32"
  shows "\<exists>w. add_or_remove S T x (writer_new []) msg_type seq = Ok w \<and>
    object_deserialize S T (w_buf w @ rest) = Ok (x, rest)"
  using object_write [of "writer_new []" x] object_round_trip [OF assms] assms(2)
  by (simp add: writer_new_def)

end

text \<open>
  Objects that are structures of the macro: the attributes are those of the fields, and the
  family is the only part of the object that is not an attribute.
\<close>

locale nf_struct_obj = message_abi S + nf_struct_codec S fs nested dflt base_ok
  for S fs nested and dflt :: 'a and base_ok +
  fixes T :: "'a nf_object"
    and obj_ok :: "'a \<Rightarrow> bool"
  assumes T_attr: "as_attr T = struct_attr S nested fs"
    and T_decode: "decode_attribute T = struct_decode_attribute fs"
    and T_default: "default_obj T = dflt"
    and T_types: "MSG_TYPE_ADD T < 16" "MSG_TYPE_DEL T < 16"
    and T_flags: "get_add_flags T x AND 16 = 0" "get_del_flags T x AND 16 = 0"
    and T_family: "set_family T (set_family T x FamUnspec) (get_family T x) = x"
    and T_present: "present fs (set_family T x FamUnspec) = present fs x"
    and T_ok: "obj_ok x \<Longrightarrow> base_ok (set_family T x FamUnspec) \<and> struct_fits fs x"
begin

lemma struct_obj_reads:
  assumes "obj_ok x"
  shows "\<exists>y. read_attributes S (decode_attribute T) (default_obj T) (wire (as_attr T x)) = Ok y \<and>
    set_family T y (get_family T x) = x"
proof -
  let ?y = "set_family T x FamUnspec"
  have "struct_fits fs ?y" using T_ok [OF assms] T_present [of x] by (simp add: struct_fits_def)
  then have "read_attributes S (struct_decode_attribute fs) dflt (tlvs S (present fs ?y)) = Ok ?y"
    using T_ok [OF assms] by (intro struct_read_attributes) simp_all
  then show ?thesis
    using T_present [of x] T_family [of x] by (simp add: T_attr T_decode T_default struct_wire)
qed

sublocale nf_obj S T obj_ok
proof
  fix x
  show "writes (as_attr T x) (wire (as_attr T x))" "safe_write (as_attr T x)"
    using writes_attr safe_attr by (simp_all add: T_attr)
  show "4 dvd get_size (as_attr T x)"
    by (simp add: T_attr) (simp add: struct_attr_def)
qed (use T_types T_flags struct_obj_reads in simp_all)

end

end
