(* ===== verification/Batch.thy ===== *)
theory Batch
  imports Objects
begin

text \<open>
  Model of \<open>src/batch.rs\<close> except \<open>Batch::send\<close>, which the theory of the queries models. A batch
  owns the vector its writer appends to, so the vector is the one inside the writer; the
  sequence number of the next message is a \<open>u32\<close> whose increment panics on overflow.
\<close>

record Batch =
  batch_writer :: NfNetlinkWriter
  batch_seq :: u32

definition default_batch_page_size :: "int \<Rightarrow> ('e, u32) outcome" where
  "default_batch_page_size pagesize =
     (let p = (word_of_int pagesize :: u32) in
      if unat p * 32 < 2 ^ 32 then Ok (p * 32) else Panic)"

definition batch_new :: "sys \<Rightarrow> int \<Rightarrow> Batch decoded" where
  "batch_new S pagesize =
     bind (default_batch_page_size pagesize) (\<lambda>capacity.
     let writer = writer_new []; seq = 0 in
     bind (write_header S writer (word_of_int (NFNL_MSG_BATCH_BEGIN S)) FamUnspec 0 seq
             (Some (word_of_int (NFNL_SUBSYS_NFTABLES S)))) (\<lambda>w.
     bind (checked_add_u32 seq 1) (\<lambda>seq'.
     Ok \<lparr>batch_writer = finalize_writing_object w, batch_seq = seq'\<rparr>)))"

definition batch_add :: "sys \<Rightarrow> 'a nf_object \<Rightarrow> Batch \<Rightarrow> 'a \<Rightarrow> MsgType \<Rightarrow> Batch decoded" where
  "batch_add S T b x msg_type =
     bind (add_or_remove S T x (batch_writer b) msg_type (batch_seq b)) (\<lambda>w.
     bind (checked_add_u32 (batch_seq b) 1) (\<lambda>seq.
     Ok (b\<lparr>batch_writer := w, batch_seq := seq\<rparr>)))"

fun batch_add_iter :: "sys \<Rightarrow> 'a nf_object \<Rightarrow> Batch \<Rightarrow> 'a list \<Rightarrow> MsgType \<Rightarrow> Batch decoded" where
  "batch_add_iter S T b [] msg_type = Ok b"
| "batch_add_iter S T b (x # xs) msg_type =
     bind (batch_add S T b x msg_type) (\<lambda>b'. batch_add_iter S T b' xs msg_type)"

definition batch_finalize :: "sys \<Rightarrow> Batch \<Rightarrow> bytes decoded" where
  "batch_finalize S b =
     bind (write_header S (batch_writer b) (word_of_int (NFNL_MSG_BATCH_END S)) FamUnspec 0
             (batch_seq b) (Some (word_of_int (NFNL_SUBSYS_NFTABLES S)))) (\<lambda>w.
     Ok (w_buf (finalize_writing_object w)))"

section \<open>The messages of a batch\<close>

text \<open>
  \<open>batch_inv ms b\<close>: the batch holds the begin message followed by the messages \<open>ms\<close>, no
  message is open, and the next sequence number counts the messages.
\<close>

definition begin_message :: "sys \<Rightarrow> bytes" where
  "begin_message S = message S 16 (word_of_int (NLM_F_REQUEST S)) 0 FamUnspec 10 []"

definition end_message :: "sys \<Rightarrow> u32 \<Rightarrow> bytes" where
  "end_message S seq = message S 17 (word_of_int (NLM_F_REQUEST S)) seq FamUnspec 10 []"

definition batch_inv :: "sys \<Rightarrow> bytes list \<Rightarrow> Batch \<Rightarrow> bool" where
  "batch_inv S ms b \<longleftrightarrow>
     batch_writer b = \<lparr>w_buf = begin_message S @ concat ms, w_headers = None\<rparr> \<and>
     batch_seq b = of_nat (1 + length ms) \<and> 1 + length ms < 2 ^ 32"

context message_abi
begin

lemma batch_new_inv:
  assumes "unat (word_of_int pagesize :: u32) * 32 < 2 ^ 32"
  shows "\<exists>b. batch_new S pagesize = Ok b \<and> batch_inv S [] b"
  using assms
  by (simp add: batch_new_def default_batch_page_size_def Let_def write_header_closed writer_new_def
      checked_add_u32_def batch_inv_def finalize_writing_object_def begin_message_def full_type_def
      abi)

lemma batch_finalize_inv:
  assumes "batch_inv S ms b"
  shows "batch_finalize S b = Ok (begin_message S @ concat ms @ end_message S (batch_seq b))"
  using assms
  by (simp add: batch_finalize_def batch_inv_def write_header_closed finalize_writing_object_def
      end_message_def full_type_def abi)

end

context nf_obj
begin

lemma batch_add_inv:
  assumes inv: "batch_inv S ms b" and small: "20 + get_size (as_attr T x) < 2 ^ 32"
    and room: "2 + length ms < 2 ^ 32"
  shows "\<exists>b'. batch_add S T b x msg_type = Ok b' \<and>
    batch_inv S (ms @ [object_message S T x msg_type (of_nat (1 + length ms))]) b'"
proof -
  have w: "batch_writer b = \<lparr>w_buf = begin_message S @ concat ms, w_headers = None\<rparr>"
    and seq: "batch_seq b = of_nat (1 + length ms)"
    using inv by (simp_all add: batch_inv_def)
  have "unat (batch_seq b) = 1 + length ms"
    using room unfolding seq by (intro unat_small) simp
  then have add: "checked_add_u32 (batch_seq b) 1 = (Ok (of_nat (2 + length ms)) :: u32 decoded)"
    using room by (simp add: checked_add_u32_def seq)
  have "add_or_remove S T x (batch_writer b) msg_type (batch_seq b) =
      Ok \<lparr>w_buf = begin_message S @ concat ms @ object_message S T x msg_type (batch_seq b),
          w_headers = None\<rparr>"
    using object_write [of "batch_writer b" x msg_type "batch_seq b"] small w by simp
  then show ?thesis
    using add room by (simp add: batch_add_def batch_inv_def seq)
qed

end

end
