(* ===== verification/Tables.thy ===== *)
theory Tables
  imports Batch
begin

text \<open>
  Model of \<open>src/table.rs\<close> (\<open>list_tables\<close> is in the theory of the queries): the structure, its
  fields, its object implementation and constructors. The locale \<open>table_abi\<close> states what it
  needs of the kernel constants; in it a table is shown to be an \<open>nf_struct_obj\<close>.
\<close>

record Table =
  table_family :: ProtocolFamily
  table_name :: "rust_string option"
  table_flags :: "u32 option"
  table_userdata :: "bytes option"

definition Table_default :: Table where
  "Table_default =
     \<lparr>table_family = ProtocolFamily_default, table_name = None, table_flags = None,
      table_userdata = None\<rparr>"

definition table_fields :: "sys \<Rightarrow> Table field list" where
  "table_fields S =
     [mk_field (NFTA_TABLE_NAME S) String_attr String_deserialize table_name table_name_update,
      mk_field (NFTA_TABLE_FLAGS S) u32_attr u32_deserialize table_flags table_flags_update] @
     optional_field (NFTA_TABLE_USERDATA S)
       (\<lambda>ty. mk_field ty bytes_attr bytes_deserialize table_userdata table_userdata_update)"

definition Table_new :: "ProtocolFamily \<Rightarrow> Table" where
  "Table_new family = Table_default\<lparr>table_family := family\<rparr>"

definition table_object :: "sys \<Rightarrow> Table nf_object" where
  "table_object S =
     \<lparr>MSG_TYPE_ADD = NFT_MSG_NEWTABLE S, MSG_TYPE_DEL = NFT_MSG_DELTABLE S,
      get_family = table_family, set_family = (\<lambda>t family. t\<lparr>table_family := family\<rparr>),
      get_add_flags = default_add_flags S, get_del_flags = default_del_flags,
      as_attr = struct_attr S False (table_fields S),
      decode_attribute = struct_decode_attribute (table_fields S),
      default_obj = Table_default\<rparr>"

definition table_add_to_batch :: "sys \<Rightarrow> Table \<Rightarrow> Batch \<Rightarrow> (Table \<times> Batch) decoded" where
  "table_add_to_batch S t b =
     bind (batch_add S (table_object S) b t Add) (\<lambda>b'. Ok (t, b'))"

section \<open>Tables are objects\<close>

locale table_abi = message_abi +
  assumes table_types: "attr_types_ok ([NFTA_TABLE_NAME S, NFTA_TABLE_FLAGS S] @
      (case NFTA_TABLE_USERDATA S of None \<Rightarrow> [] | Some ty \<Rightarrow> [ty]))"
    and table_msgs: "NFT_MSG_NEWTABLE S < 16" "NFT_MSG_DELTABLE S < 16"

text \<open>
  Admissible tables: the name is a string that does not end in NUL, and the user data is only
  used where the kernel headers declare it.
\<close>

definition table_base_ok :: "sys \<Rightarrow> Table \<Rightarrow> bool" where
  "table_base_ok S t \<longleftrightarrow>
     table_family t = FamUnspec \<and> pred_option string_ok (table_name t) \<and>
     (NFTA_TABLE_USERDATA S = None \<longrightarrow> table_userdata t = None)"

definition table_ok :: "sys \<Rightarrow> Table \<Rightarrow> bool" where
  "table_ok S t \<longleftrightarrow>
     table_base_ok S (t\<lparr>table_family := FamUnspec\<rparr>) \<and> struct_fits (table_fields S) t"

context table_abi
begin

sublocale table: nf_struct_obj S "table_fields S" False Table_default "table_base_ok S"
    "table_object S" "table_ok S"
  by unfold_locales
    (use table_types table_msgs in \<open>auto simp: table_fields_def optional_field_def table_base_ok_def
      table_ok_def table_object_def Table_default_def ProtocolFamily_default_def
      default_add_flags_def default_del_flags_def present_def struct_simps abi
      split: option.splits\<close>)

lemmas table_trip = table.object_trip

end

interpretation linux: table_abi linux_sys
  by unfold_locales (simp_all add: attr_types_ok_def)

end
