(* ===== verification/Verdicts.thy ===== *)
theory Verdicts
  imports Tables
begin

text \<open>
  Registers and verdicts (\<open>src/expr/register.rs\<close>, \<open>src/expr/verdict.rs\<close>) and the data container
  \<open>NfNetlinkData\<close> of \<open>src/parser_impls.rs\<close> that expressions and set elements carry: a value or
  a verdict. All of them are codecs under the locale \<open>verdict_abi\<close>.
\<close>

section \<open>Registers\<close>

datatype Register = RegVerdict | Reg1 | Reg2 | Reg3 | Reg4

fun Register_value :: "sys \<Rightarrow> Register \<Rightarrow> u32" where
  "Register_value S RegVerdict = word_of_int (NFT_REG_VERDICT S)"
| "Register_value S Reg1 = word_of_int (NFT_REG_1 S)"
| "Register_value S Reg2 = word_of_int (NFT_REG_2 S)"
| "Register_value S Reg3 = word_of_int (NFT_REG_3 S)"
| "Register_value S Reg4 = word_of_int (NFT_REG_4 S)"

definition Register_variants :: "Register list" where
  "Register_variants =
     [RegVerdict, Reg1, Reg2, Reg3, Reg4]"

definition Register_try_from :: "sys \<Rightarrow> u32 \<Rightarrow> Register decoded" where
  "Register_try_from S = enum_try_from (Register_value S) Register_variants UnknownRegister"

definition Register_attr :: "sys \<Rightarrow> Register \<Rightarrow> attr_obj" where
  "Register_attr S = enum_attr u32_attr (Register_value S)"

definition Register_deserialize :: "sys \<Rightarrow> bytes \<Rightarrow> (Register \<times> bytes) decoded" where
  "Register_deserialize S = enum_deserialize u32_deserialize (Register_try_from S)"

section \<open>Verdicts\<close>

datatype VerdictType = VtDrop | VtAccept | VtQueue | VtContinue | VtBreak | VtJump | VtGoto | VtReturn

fun VerdictType_value :: "sys \<Rightarrow> VerdictType \<Rightarrow> i32" where
  "VerdictType_value S VtDrop = word_of_int (NF_DROP S)"
| "VerdictType_value S VtAccept = word_of_int (NF_ACCEPT S)"
| "VerdictType_value S VtQueue = word_of_int (NF_QUEUE S)"
| "VerdictType_value S VtContinue = word_of_int (NFT_CONTINUE S)"
| "VerdictType_value S VtBreak = word_of_int (NFT_BREAK S)"
| "VerdictType_value S VtJump = word_of_int (NFT_JUMP S)"
| "VerdictType_value S VtGoto = word_of_int (NFT_GOTO S)"
| "VerdictType_value S VtReturn = word_of_int (NFT_RETURN S)"

definition VerdictType_variants :: "VerdictType list" where
  "VerdictType_variants =
     [VtDrop, VtAccept, VtQueue, VtContinue, VtBreak, VtJump, VtGoto, VtReturn]"

definition VerdictType_try_from :: "sys \<Rightarrow> i32 \<Rightarrow> VerdictType decoded" where
  "VerdictType_try_from S = enum_try_from (VerdictType_value S) VerdictType_variants UnknownVerdictType"

definition VerdictType_attr :: "sys \<Rightarrow> VerdictType \<Rightarrow> attr_obj" where
  "VerdictType_attr S = enum_attr i32_attr (VerdictType_value S)"

definition VerdictType_deserialize :: "sys \<Rightarrow> bytes \<Rightarrow> (VerdictType \<times> bytes) decoded" where
  "VerdictType_deserialize S = enum_deserialize i32_deserialize (VerdictType_try_from S)"

record Verdict =
  verdict_code :: "VerdictType option"
  verdict_chain :: "rust_string option"
  verdict_chain_id :: "u32 option"

definition Verdict_default :: Verdict where
  "Verdict_default = \<lparr>verdict_code = None, verdict_chain = None, verdict_chain_id = None\<rparr>"

definition verdict_fields :: "sys \<Rightarrow> Verdict field list" where
  "verdict_fields S =
     [mk_field (NFTA_VERDICT_CODE S) (VerdictType_attr S) (VerdictType_deserialize S) verdict_code verdict_code_update,
      mk_field (NFTA_VERDICT_CHAIN S) String_attr String_deserialize verdict_chain verdict_chain_update] @
     optional_field (NFTA_VERDICT_CHAIN_ID S)
       (\<lambda>ty. mk_field ty u32_attr u32_deserialize verdict_chain_id verdict_chain_id_update)"

definition Verdict_attr :: "sys \<Rightarrow> Verdict \<Rightarrow> attr_obj" where
  "Verdict_attr S = struct_attr S True (verdict_fields S)"

definition Verdict_deserialize :: "sys \<Rightarrow> bytes \<Rightarrow> (Verdict \<times> bytes) decoded" where
  "Verdict_deserialize S = struct_deserialize S (verdict_fields S) Verdict_default"

datatype VerdictKind =
    Drop
  | Accept
  | Queue
  | Continue
  | Break
  | Jump rust_string
  | Goto rust_string
  | Return

section \<open>The data container\<close>

record NfNetlinkData =
  data_value :: "bytes option"
  data_verdict :: "Verdict option"

definition NfNetlinkData_default :: NfNetlinkData where
  "NfNetlinkData_default = \<lparr>data_value = None, data_verdict = None\<rparr>"

definition data_fields :: "sys \<Rightarrow> NfNetlinkData field list" where
  "data_fields S =
     [mk_field (NFTA_DATA_VALUE S) bytes_attr bytes_deserialize data_value data_value_update,
      mk_field (NFTA_DATA_VERDICT S) (Verdict_attr S) (Verdict_deserialize S) data_verdict data_verdict_update]"

definition NfNetlinkData_attr :: "sys \<Rightarrow> NfNetlinkData \<Rightarrow> attr_obj" where
  "NfNetlinkData_attr S = struct_attr S True (data_fields S)"

definition NfNetlinkData_deserialize :: "sys \<Rightarrow> bytes \<Rightarrow> (NfNetlinkData \<times> bytes) decoded" where
  "NfNetlinkData_deserialize S = struct_deserialize S (data_fields S) NfNetlinkData_default"

section \<open>They are codecs\<close>

lemma all_Register: "v \<in> set Register_variants"
  by (cases v) (simp_all add: Register_variants_def)

lemma all_VerdictType: "v \<in> set VerdictType_variants"
  by (cases v) (simp_all add: VerdictType_variants_def)

definition Verdict_ok :: "sys \<Rightarrow> Verdict \<Rightarrow> bool" where
  "Verdict_ok S x \<longleftrightarrow> pred_option string_ok (verdict_chain x) \<and>
     (NFTA_VERDICT_CHAIN_ID S = None \<longrightarrow> verdict_chain_id x = None) \<and> struct_fits (verdict_fields S) x"

definition NfNetlinkData_ok :: "sys \<Rightarrow> NfNetlinkData \<Rightarrow> bool" where
  "NfNetlinkData_ok S x \<longleftrightarrow> pred_option (Verdict_ok S) (data_verdict x) \<and> struct_fits (data_fields S) x"

locale verdict_abi = message_abi +
  assumes registers: "distinct (map (Register_value S) Register_variants)"
    and verdicts: "distinct (map (VerdictType_value S) VerdictType_variants)"
    and verdict_types: "attr_types_ok ([NFTA_VERDICT_CODE S, NFTA_VERDICT_CHAIN S] @
      (case NFTA_VERDICT_CHAIN_ID S of None \<Rightarrow> [] | Some ty \<Rightarrow> [ty]))"
    and data_types: "attr_types_ok [NFTA_DATA_VALUE S, NFTA_DATA_VERDICT S]"
begin

sublocale register: codec "Register_attr S" "Register_deserialize S" "\<lambda>_. True"
  by (rule enum_codecI [OF u32.codec_axioms _ registers])
    (simp_all add: Register_attr_def Register_deserialize_def Register_try_from_def all_Register)

sublocale verdict_type: codec "VerdictType_attr S" "VerdictType_deserialize S" "\<lambda>_. True"
  by (rule enum_codecI [OF i32.codec_axioms _ verdicts])
    (simp_all add: VerdictType_attr_def VerdictType_deserialize_def VerdictType_try_from_def all_VerdictType)

sublocale verdict: codec "Verdict_attr S" "Verdict_deserialize S" "Verdict_ok S"
  by (rule struct_codecI [where fs = "verdict_fields S" and base = "\<lambda>x. pred_option string_ok (verdict_chain x) \<and>
      (NFTA_VERDICT_CHAIN_ID S = None \<longrightarrow> verdict_chain_id x = None)"])
    (use verdict_types netlink_abi_axioms in \<open>auto simp: verdict_fields_def optional_field_def Verdict_default_def
      Verdict_attr_def Verdict_deserialize_def Verdict_ok_def struct_simps split: option.splits\<close>)

sublocale data: codec "NfNetlinkData_attr S" "NfNetlinkData_deserialize S" "NfNetlinkData_ok S"
  by (rule struct_codecI [where fs = "data_fields S" and base = "\<lambda>x. pred_option (Verdict_ok S) (data_verdict x)"])
    (use data_types netlink_abi_axioms in \<open>auto simp: data_fields_def NfNetlinkData_default_def
      NfNetlinkData_attr_def NfNetlinkData_deserialize_def NfNetlinkData_ok_def struct_simps\<close>)

end

interpretation linux: verdict_abi linux_sys
  by unfold_locales
    (simp_all add: attr_types_ok_def Register_variants_def VerdictType_variants_def)

end
