(* ===== verification/Sets.thy ===== *)
theory Sets
  imports Verdicts
begin

text \<open>
  Model of \<open>src/set.rs\<close> and \<open>src/data_type.rs\<close>: named sets, their elements and the builder that
  keeps the two consistent. The addresses of \<open>std::net\<close> are words whose octets are in network
  order. The trait \<open>DataType\<close> is the record of its two constants and its method.
\<close>

section \<open>Data types of keys\<close>

type_synonym Ipv4Addr = "32 word"
type_synonym Ipv6Addr = "128 word"

datatype IpAddr = V4 Ipv4Addr | V6 Ipv6Addr

definition octets4 :: "Ipv4Addr \<Rightarrow> bytes" where
  "octets4 a = be_bytes 4 a"

definition octets6 :: "Ipv6Addr \<Rightarrow> bytes" where
  "octets6 a = be_bytes 16 a"

record 'k DataType =
  TYPE_CONST :: u32
  LEN_CONST :: u32
  key_bytes :: "'k \<Rightarrow> bytes"

definition Ipv4Addr_DataType :: "Ipv4Addr DataType" where
  "Ipv4Addr_DataType = \<lparr>TYPE_CONST = 7, LEN_CONST = 4, key_bytes = octets4\<rparr>"

definition Ipv6Addr_DataType :: "Ipv6Addr DataType" where
  "Ipv6Addr_DataType = \<lparr>TYPE_CONST = 8, LEN_CONST = 16, key_bytes = octets6\<rparr>"

text \<open>The arrays \<open>[u8; N]\<close>: byte sequences of length \<open>N\<close>.\<close>

definition array_DataType :: "nat \<Rightarrow> bytes DataType" where
  "array_DataType n = \<lparr>TYPE_CONST = 5, LEN_CONST = of_nat n, key_bytes = (\<lambda>a. a)\<rparr>"

fun ip_to_vec :: "IpAddr \<Rightarrow> bytes" where
  "ip_to_vec (V4 x) = octets4 x"
| "ip_to_vec (V6 x) = octets6 x"

section \<open>Sets\<close>

record Set =
  nfset_family :: ProtocolFamily
  nfset_table :: "rust_string option"
  nfset_name :: "rust_string option"
  nfset_flags :: "u32 option"
  nfset_key_type :: "u32 option"
  nfset_key_len :: "u32 option"
  nfset_id :: "u32 option"
  nfset_userdata :: "rust_string option"

definition Set_default :: Set where
  "Set_default =
     \<lparr>nfset_family = ProtocolFamily_default, nfset_table = None, nfset_name = None, nfset_flags = None, nfset_key_type = None, nfset_key_len = None, nfset_id = None, nfset_userdata = None\<rparr>"

definition nfset_fields :: "sys \<Rightarrow> Set field list" where
  "nfset_fields S =
     [mk_field (NFTA_SET_TABLE S) String_attr String_deserialize nfset_table nfset_table_update,
      mk_field (NFTA_SET_NAME S) String_attr String_deserialize nfset_name nfset_name_update,
      mk_field (NFTA_SET_FLAGS S) u32_attr u32_deserialize nfset_flags nfset_flags_update,
      mk_field (NFTA_SET_KEY_TYPE S) u32_attr u32_deserialize nfset_key_type nfset_key_type_update,
      mk_field (NFTA_SET_KEY_LEN S) u32_attr u32_deserialize nfset_key_len nfset_key_len_update,
      mk_field (NFTA_SET_ID S) u32_attr u32_deserialize nfset_id nfset_id_update,
      mk_field (NFTA_SET_USERDATA S) String_attr String_deserialize nfset_userdata nfset_userdata_update]"

definition set_object :: "sys \<Rightarrow> Set nf_object" where
  "set_object S =
     \<lparr>MSG_TYPE_ADD = NFT_MSG_NEWSET S, MSG_TYPE_DEL = NFT_MSG_DELSET S,
      get_family = nfset_family, set_family = (\<lambda>t family. t\<lparr>nfset_family := family\<rparr>),
      get_add_flags = default_add_flags S, get_del_flags = default_del_flags,
      as_attr = struct_attr S False (nfset_fields S),
      decode_attribute = struct_decode_attribute (nfset_fields S),
      default_obj = Set_default\<rparr>"

section \<open>Set elements\<close>

record SetElement =
  element_key :: "NfNetlinkData option"

definition SetElement_default :: SetElement where
  "SetElement_default = \<lparr>element_key = None\<rparr>"

definition element_fields :: "sys \<Rightarrow> SetElement field list" where
  "element_fields S =
     [mk_field (NFTA_SET_ELEM_KEY S) (NfNetlinkData_attr S) (NfNetlinkData_deserialize S) element_key element_key_update]"

definition SetElement_attr :: "sys \<Rightarrow> SetElement \<Rightarrow> attr_obj" where
  "SetElement_attr S = struct_attr S True (element_fields S)"

definition SetElement_deserialize :: "sys \<Rightarrow> bytes \<Rightarrow> (SetElement \<times> bytes) decoded" where
  "SetElement_deserialize S = struct_deserialize S (element_fields S) SetElement_default"

type_synonym SetElementListElements = "SetElement list"

record SetElementList =
  elements_table :: "rust_string option"
  elements_set :: "rust_string option"
  elements_elements :: "SetElementListElements option"

definition SetElementList_default :: SetElementList where
  "SetElementList_default =
     \<lparr>elements_table = None, elements_set = None, elements_elements = None\<rparr>"

definition elements_fields :: "sys \<Rightarrow> SetElementList field list" where
  "elements_fields S =
     [mk_field (NFTA_SET_ELEM_LIST_TABLE S) String_attr String_deserialize
        elements_table elements_table_update,
      mk_field (NFTA_SET_ELEM_LIST_SET S) String_attr String_deserialize
        elements_set elements_set_update,
      mk_field (NFTA_SET_ELEM_LIST_ELEMENTS S) (list_attr S (SetElement_attr S))
        (list_deserialize S (SetElement_deserialize S)) elements_elements elements_elements_update]"

definition elements_object :: "sys \<Rightarrow> SetElementList nf_object" where
  "elements_object S =
     \<lparr>MSG_TYPE_ADD = NFT_MSG_NEWSETELEM S, MSG_TYPE_DEL = NFT_MSG_DELSETELEM S,
      get_family = (\<lambda>_. FamUnspec), set_family = default_set_family,
      get_add_flags = default_add_flags S, get_del_flags = default_del_flags,
      as_attr = struct_attr S True (elements_fields S),
      decode_attribute = struct_decode_attribute (elements_fields S),
      default_obj = SetElementList_default\<rparr>"

section \<open>The builder\<close>

record SetBuilder =
  builder_inner :: Set
  builder_list :: SetElementList

definition SetBuilder_new ::
  "'k DataType \<Rightarrow> rust_string \<Rightarrow> Table \<Rightarrow> SetBuilder built" where
  "SetBuilder_new K set_name t =
     bind (ok_or (table_name t) MissingTableName) (\<lambda>tname.
     Ok \<lparr>builder_inner =
           set_field nfset_name_update set_name
          (set_field nfset_table_update tname
          (set_field nfset_key_len_update (LEN_CONST K)
          (set_field nfset_key_type_update (TYPE_CONST K) Set_default))),
         builder_list =
           \<lparr>elements_table = Some tname, elements_set = Some set_name,
            elements_elements = Some []\<rparr>\<rparr>)"

definition SetBuilder_add :: "'k DataType \<Rightarrow> SetBuilder \<Rightarrow> 'k \<Rightarrow> SetBuilder built" where
  "SetBuilder_add K b key =
     (case elements_elements (builder_list b) of
        None \<Rightarrow> Panic
      | Some objs \<Rightarrow>
          let e = \<lparr>element_key =
                Some (set_field data_value_update (key_bytes K key) NfNetlinkData_default)\<rparr> in
          Ok (b\<lparr>builder_list :=
                (builder_list b)\<lparr>elements_elements := Some (add_value objs e)\<rparr>\<rparr>))"

definition SetBuilder_finish :: "SetBuilder \<Rightarrow> Set \<times> SetElementList" where
  "SetBuilder_finish b = (builder_inner b, builder_list b)"

text \<open>A client that adds the keys of a list.\<close>

fun SetBuilder_add_all :: "'k DataType \<Rightarrow> SetBuilder \<Rightarrow> 'k list \<Rightarrow> SetBuilder built" where
  "SetBuilder_add_all K b [] = Ok b"
| "SetBuilder_add_all K b (k # ks) =
     bind (SetBuilder_add K b k) (\<lambda>b'. SetBuilder_add_all K b' ks)"

section \<open>Sets and their elements are objects\<close>

definition set_base_ok :: "Set \<Rightarrow> bool" where
  "set_base_ok t \<longleftrightarrow>
     nfset_family t = FamUnspec \<and> pred_option string_ok (nfset_table t) \<and>
     pred_option string_ok (nfset_name t) \<and> pred_option string_ok (nfset_userdata t)"

definition set_ok :: "sys \<Rightarrow> Set \<Rightarrow> bool" where
  "set_ok S t \<longleftrightarrow>
     set_base_ok (t\<lparr>nfset_family := FamUnspec\<rparr>) \<and> struct_fits (nfset_fields S) t"

definition SetElement_ok :: "sys \<Rightarrow> SetElement \<Rightarrow> bool" where
  "SetElement_ok S x \<longleftrightarrow> pred_option (NfNetlinkData_ok S) (element_key x) \<and> struct_fits (element_fields S) x"

definition elements_base_ok :: "sys \<Rightarrow> SetElementList \<Rightarrow> bool" where
  "elements_base_ok S x \<longleftrightarrow>
     pred_option string_ok (elements_table x) \<and> pred_option string_ok (elements_set x) \<and>
     pred_option (list_ok S (SetElement_attr S) (SetElement_ok S)) (elements_elements x)"

definition elements_ok :: "sys \<Rightarrow> SetElementList \<Rightarrow> bool" where
  "elements_ok S x \<longleftrightarrow> elements_base_ok S x \<and> struct_fits (elements_fields S) x"

locale set_abi = verdict_abi + table_abi +
  assumes set_types: "attr_types_ok [NFTA_SET_TABLE S, NFTA_SET_NAME S, NFTA_SET_FLAGS S,
      NFTA_SET_KEY_TYPE S, NFTA_SET_KEY_LEN S, NFTA_SET_ID S, NFTA_SET_USERDATA S]"
    and element_types: "attr_types_ok [NFTA_SET_ELEM_KEY S]"
    and elements_types: "attr_types_ok [NFTA_SET_ELEM_LIST_TABLE S, NFTA_SET_ELEM_LIST_SET S,
      NFTA_SET_ELEM_LIST_ELEMENTS S]"
    and list_elem_type: "NFTA_LIST_ELEM S < 0x4000"
    and set_msgs: "NFT_MSG_NEWSET S < 16" "NFT_MSG_DELSET S < 16" "NFT_MSG_NEWSETELEM S < 16"
      "NFT_MSG_DELSETELEM S < 16"
begin

sublocale nfset: nf_struct_obj S "nfset_fields S" False Set_default set_base_ok
    "set_object S" "set_ok S"
  by unfold_locales
    (use set_types set_msgs in \<open>auto simp: nfset_fields_def set_base_ok_def set_ok_def set_object_def
      Set_default_def ProtocolFamily_default_def default_add_flags_def default_del_flags_def
      present_def struct_simps abi\<close>)

sublocale element: codec "SetElement_attr S" "SetElement_deserialize S" "SetElement_ok S"
  by (rule struct_codecI [where fs = "element_fields S" and base = "\<lambda>x. pred_option (NfNetlinkData_ok S) (element_key x)"])
    (use element_types netlink_abi_axioms in \<open>auto simp: element_fields_def SetElement_default_def
      SetElement_attr_def SetElement_deserialize_def SetElement_ok_def struct_simps\<close>)

sublocale element_list: nf_list S "SetElement_attr S" "SetElement_deserialize S" "SetElement_ok S"
proof
  show "4 dvd get_size (SetElement_attr S v)" for v
    by (simp add: SetElement_attr_def struct_attr_def element_fields_def abi split: option.split)
qed (rule list_elem_type)

sublocale elements: nf_struct_obj S "elements_fields S" True SetElementList_default
    "elements_base_ok S" "elements_object S" "elements_ok S"
  by unfold_locales
    (use elements_types set_msgs in \<open>auto simp: elements_fields_def elements_base_ok_def
      elements_ok_def elements_object_def SetElementList_default_def default_add_flags_def
      default_del_flags_def default_set_family_def present_def struct_simps abi\<close>)

end

interpretation linux: set_abi linux_sys
  by unfold_locales (simp_all add: attr_types_ok_def)

end
