(* ===== verification/ExprTypes.thy ===== *)
theory ExprTypes
  imports Sets
begin

text \<open>
  The expression structures of \<open>src/expr/\<close> with their enumerations and constructors, one section
  per file; \<open>ExpressionRaw\<close> and \<open>RawExpression\<close> of \<open>src/expr/mod.rs\<close> and the header fields of
  \<open>src/expr/payload.rs\<close> have theories of their own. Under the locale \<open>expr_abi\<close> (the attribute
  numbers of each structure are distinct, and so are the values of each enumeration) all of
  them are codecs.
\<close>

section \<open>Bitwise\<close>

record Bitwise =
  bitwise_sreg :: "Register option"
  bitwise_dreg :: "Register option"
  bitwise_len :: "u32 option"
  bitwise_mask :: "NfNetlinkData option"
  bitwise_xor :: "NfNetlinkData option"

definition Bitwise_default :: Bitwise where
  "Bitwise_default =
     \<lparr>bitwise_sreg = None, bitwise_dreg = None, bitwise_len = None, bitwise_mask = None, bitwise_xor = None\<rparr>"

definition bitwise_fields :: "sys \<Rightarrow> Bitwise field list" where
  "bitwise_fields S =
     [mk_field (NFTA_BITWISE_SREG S) (Register_attr S) (Register_deserialize S)
        bitwise_sreg bitwise_sreg_update,
      mk_field (NFTA_BITWISE_DREG S) (Register_attr S) (Register_deserialize S)
        bitwise_dreg bitwise_dreg_update,
      mk_field (NFTA_BITWISE_LEN S) u32_attr u32_deserialize bitwise_len bitwise_len_update,
      mk_field (NFTA_BITWISE_MASK S) (NfNetlinkData_attr S) (NfNetlinkData_deserialize S)
        bitwise_mask bitwise_mask_update,
      mk_field (NFTA_BITWISE_XOR S) (NfNetlinkData_attr S) (NfNetlinkData_deserialize S)
        bitwise_xor bitwise_xor_update]"

definition Bitwise_attr :: "sys \<Rightarrow> Bitwise \<Rightarrow> attr_obj" where
  "Bitwise_attr S = struct_attr S False (bitwise_fields S)"

definition Bitwise_deserialize :: "sys \<Rightarrow> bytes \<Rightarrow> (Bitwise \<times> bytes) decoded" where
  "Bitwise_deserialize S = struct_deserialize S (bitwise_fields S) Bitwise_default"

definition Bitwise_get_name :: rust_string where
  [simp]: "Bitwise_get_name = str ''bitwise''"

definition Bitwise_new :: "bytes \<Rightarrow> bytes \<Rightarrow> Bitwise built" where
  "Bitwise_new msk xr =
     (if length msk \<noteq> length xr then Err IncompatibleLength
      else Ok
        (set_field bitwise_mask_update (set_field data_value_update msk NfNetlinkData_default)
        (set_field bitwise_xor_update (set_field data_value_update xr NfNetlinkData_default)
        (set_field bitwise_len_update (of_nat (length msk))
        (set_field bitwise_dreg_update Reg1
        (set_field bitwise_sreg_update Reg1 Bitwise_default))))))"

section \<open>Byte order\<close>

datatype ByteorderOp = NtoH | HtoN

fun ByteorderOp_value :: "sys \<Rightarrow> ByteorderOp \<Rightarrow> u32" where
  "ByteorderOp_value S NtoH = word_of_int (NFT_BYTEORDER_NTOH S)"
| "ByteorderOp_value S HtoN = word_of_int (NFT_BYTEORDER_HTON S)"

definition ByteorderOp_variants :: "ByteorderOp list" where
  "ByteorderOp_variants =
     [NtoH, HtoN]"

definition ByteorderOp_try_from :: "sys \<Rightarrow> u32 \<Rightarrow> ByteorderOp decoded" where
  "ByteorderOp_try_from S = enum_try_from (ByteorderOp_value S) ByteorderOp_variants UnknownByteorderOp"

definition ByteorderOp_attr :: "sys \<Rightarrow> ByteorderOp \<Rightarrow> attr_obj" where
  "ByteorderOp_attr S = enum_attr u32_attr (ByteorderOp_value S)"

definition ByteorderOp_deserialize :: "sys \<Rightarrow> bytes \<Rightarrow> (ByteorderOp \<times> bytes) decoded" where
  "ByteorderOp_deserialize S = enum_deserialize u32_deserialize (ByteorderOp_try_from S)"

record Byteorder =
  byteorder_sreg :: "Register option"
  byteorder_dreg :: "Register option"
  byteorder_op :: "ByteorderOp option"
  byteorder_len :: "u32 option"
  byteorder_siz :: "u32 option"

definition Byteorder_default :: Byteorder where
  "Byteorder_default =
     \<lparr>byteorder_sreg = None, byteorder_dreg = None, byteorder_op = None, byteorder_len = None, byteorder_siz = None\<rparr>"

definition byteorder_fields :: "sys \<Rightarrow> Byteorder field list" where
  "byteorder_fields S =
     [mk_field (NFTA_BYTEORDER_SREG S) (Register_attr S) (Register_deserialize S)
        byteorder_sreg byteorder_sreg_update,
      mk_field (NFTA_BYTEORDER_DREG S) (Register_attr S) (Register_deserialize S)
        byteorder_dreg byteorder_dreg_update,
      mk_field (NFTA_BYTEORDER_OP S) (ByteorderOp_attr S) (ByteorderOp_deserialize S)
        byteorder_op byteorder_op_update,
      mk_field (NFTA_BYTEORDER_LEN S) u32_attr u32_deserialize
        byteorder_len byteorder_len_update,
      mk_field (NFTA_BYTEORDER_SIZE S) u32_attr u32_deserialize
        byteorder_siz byteorder_siz_update]"

definition Byteorder_attr :: "sys \<Rightarrow> Byteorder \<Rightarrow> attr_obj" where
  "Byteorder_attr S = struct_attr S True (byteorder_fields S)"

definition Byteorder_deserialize :: "sys \<Rightarrow> bytes \<Rightarrow> (Byteorder \<times> bytes) decoded" where
  "Byteorder_deserialize S = struct_deserialize S (byteorder_fields S) Byteorder_default"

definition Byteorder_get_name :: rust_string where
  [simp]: "Byteorder_get_name = str ''byteorder''"

section \<open>Comparisons\<close>

datatype CmpOp = CmpEq | CmpNeq | CmpLt | CmpLte | CmpGt | CmpGte

fun CmpOp_value :: "sys \<Rightarrow> CmpOp \<Rightarrow> u32" where
  "CmpOp_value S CmpEq = word_of_int (NFT_CMP_EQ S)"
| "CmpOp_value S CmpNeq = word_of_int (NFT_CMP_NEQ S)"
| "CmpOp_value S CmpLt = word_of_int (NFT_CMP_LT S)"
| "CmpOp_value S CmpLte = word_of_int (NFT_CMP_LTE S)"
| "CmpOp_value S CmpGt = word_of_int (NFT_CMP_GT S)"
| "CmpOp_value S CmpGte = word_of_int (NFT_CMP_GTE S)"

definition CmpOp_variants :: "CmpOp list" where
  "CmpOp_variants =
     [CmpEq, CmpNeq, CmpLt, CmpLte, CmpGt, CmpGte]"

definition CmpOp_try_from :: "sys \<Rightarrow> u32 \<Rightarrow> CmpOp decoded" where
  "CmpOp_try_from S = enum_try_from (CmpOp_value S) CmpOp_variants UnknownCmpOp"

definition CmpOp_attr :: "sys \<Rightarrow> CmpOp \<Rightarrow> attr_obj" where
  "CmpOp_attr S = enum_attr u32_attr (CmpOp_value S)"

definition CmpOp_deserialize :: "sys \<Rightarrow> bytes \<Rightarrow> (CmpOp \<times> bytes) decoded" where
  "CmpOp_deserialize S = enum_deserialize u32_deserialize (CmpOp_try_from S)"

record Cmp =
  cmp_sreg :: "Register option"
  cmp_op :: "CmpOp option"
  cmp_data :: "NfNetlinkData option"

definition Cmp_default :: Cmp where
  "Cmp_default = \<lparr>cmp_sreg = None, cmp_op = None, cmp_data = None\<rparr>"

definition cmp_fields :: "sys \<Rightarrow> Cmp field list" where
  "cmp_fields S =
     [mk_field (NFTA_CMP_SREG S) (Register_attr S) (Register_deserialize S)
        cmp_sreg cmp_sreg_update,
      mk_field (NFTA_CMP_OP S) (CmpOp_attr S) (CmpOp_deserialize S) cmp_op cmp_op_update,
      mk_field (NFTA_CMP_DATA S) (NfNetlinkData_attr S) (NfNetlinkData_deserialize S)
        cmp_data cmp_data_update]"

definition Cmp_attr :: "sys \<Rightarrow> Cmp \<Rightarrow> attr_obj" where
  "Cmp_attr S = struct_attr S False (cmp_fields S)"

definition Cmp_deserialize :: "sys \<Rightarrow> bytes \<Rightarrow> (Cmp \<times> bytes) decoded" where
  "Cmp_deserialize S = struct_deserialize S (cmp_fields S) Cmp_default"

definition Cmp_get_name :: rust_string where
  [simp]: "Cmp_get_name = str ''cmp''"

definition Cmp_new :: "CmpOp \<Rightarrow> bytes \<Rightarrow> Cmp" where
  "Cmp_new op data =
     \<lparr>cmp_sreg = Some Reg1, cmp_op = Some op,
      cmp_data = Some (set_field data_value_update data NfNetlinkData_default)\<rparr>"

section \<open>Connection tracking\<close>

datatype ConntrackKey = CtState | CtMark

fun ConntrackKey_value :: "sys \<Rightarrow> ConntrackKey \<Rightarrow> u32" where
  "ConntrackKey_value S CtState = word_of_int (NFT_CT_STATE S)"
| "ConntrackKey_value S CtMark = word_of_int (NFT_CT_MARK S)"

definition ConntrackKey_variants :: "ConntrackKey list" where
  "ConntrackKey_variants =
     [CtState, CtMark]"

definition ConntrackKey_try_from :: "sys \<Rightarrow> u32 \<Rightarrow> ConntrackKey decoded" where
  "ConntrackKey_try_from S = enum_try_from (ConntrackKey_value S) ConntrackKey_variants UnknownConntrackKey"

definition ConntrackKey_attr :: "sys \<Rightarrow> ConntrackKey \<Rightarrow> attr_obj" where
  "ConntrackKey_attr S = enum_attr u32_attr (ConntrackKey_value S)"

definition ConntrackKey_deserialize :: "sys \<Rightarrow> bytes \<Rightarrow> (ConntrackKey \<times> bytes) decoded" where
  "ConntrackKey_deserialize S = enum_deserialize u32_deserialize (ConntrackKey_try_from S)"

record Conntrack =
  ct_dreg :: "Register option"
  ct_key :: "ConntrackKey option"
  ct_direction :: "u8 option"
  ct_sreg :: "Register option"

definition Conntrack_default :: Conntrack where
  "Conntrack_default =
     \<lparr>ct_dreg = None, ct_key = None, ct_direction = None, ct_sreg = None\<rparr>"

definition ct_fields :: "sys \<Rightarrow> Conntrack field list" where
  "ct_fields S =
     [mk_field (NFTA_CT_DREG S) (Register_attr S) (Register_deserialize S)
        ct_dreg ct_dreg_update,
      mk_field (NFTA_CT_KEY S) (ConntrackKey_attr S) (ConntrackKey_deserialize S)
        ct_key ct_key_update,
      mk_field (NFTA_CT_DIRECTION S) u8_attr u8_deserialize ct_direction ct_direction_update,
      mk_field (NFTA_CT_SREG S) (Register_attr S) (Register_deserialize S)
        ct_sreg ct_sreg_update]"

definition Conntrack_attr :: "sys \<Rightarrow> Conntrack \<Rightarrow> attr_obj" where
  "Conntrack_attr S = struct_attr S True (ct_fields S)"

definition Conntrack_deserialize :: "sys \<Rightarrow> bytes \<Rightarrow> (Conntrack \<times> bytes) decoded" where
  "Conntrack_deserialize S = struct_deserialize S (ct_fields S) Conntrack_default"

definition Conntrack_get_name :: rust_string where
  [simp]: "Conntrack_get_name = str ''ct''"

text \<open>
  The constants of the bit set \<open>ConnTrackState\<close>; \<open>bits\<close> of a set is the number itself.
\<close>

type_synonym ConnTrackState = u32

definition INVALID :: ConnTrackState where "INVALID = 1"
definition ESTABLISHED :: ConnTrackState where "ESTABLISHED = 2"
definition RELATED :: ConnTrackState where "RELATED = 4"
definition NEW :: ConnTrackState where "NEW = 8"
definition UNTRACKED :: ConnTrackState where "UNTRACKED = 64"

definition Conntrack_new :: "ConntrackKey \<Rightarrow> Conntrack" where
  "Conntrack_new key = set_field ct_key_update key (set_field ct_dreg_update Reg1 Conntrack_default)"

definition set_mark_value :: "Conntrack \<Rightarrow> Register \<Rightarrow> Conntrack" where
  "set_mark_value c reg = set_field ct_key_update CtMark (set_field ct_sreg_update reg c)"

definition with_mark_value :: "Conntrack \<Rightarrow> Register \<Rightarrow> Conntrack" where
  "with_mark_value c reg = set_mark_value c reg"

definition retrieve_value :: "Conntrack \<Rightarrow> ConntrackKey \<Rightarrow> Conntrack" where
  "retrieve_value c key = set_field ct_dreg_update Reg1 (set_field ct_key_update key c)"

definition with_retrieve_value :: "Conntrack \<Rightarrow> ConntrackKey \<Rightarrow> Conntrack" where
  "with_retrieve_value c key = retrieve_value c key"

section \<open>Counters\<close>

record Counter =
  counter_nb_bytes :: "u64 option"
  counter_nb_packets :: "u64 option"

definition Counter_default :: Counter where
  "Counter_default = \<lparr>counter_nb_bytes = None, counter_nb_packets = None\<rparr>"

definition counter_fields :: "sys \<Rightarrow> Counter field list" where
  "counter_fields S =
     [mk_field (NFTA_COUNTER_BYTES S) u64_attr u64_deserialize
        counter_nb_bytes counter_nb_bytes_update,
      mk_field (NFTA_COUNTER_PACKETS S) u64_attr u64_deserialize
        counter_nb_packets counter_nb_packets_update]"

definition Counter_attr :: "sys \<Rightarrow> Counter \<Rightarrow> attr_obj" where
  "Counter_attr S = struct_attr S False (counter_fields S)"

definition Counter_deserialize :: "sys \<Rightarrow> bytes \<Rightarrow> (Counter \<times> bytes) decoded" where
  "Counter_deserialize S = struct_deserialize S (counter_fields S) Counter_default"

definition Counter_get_name :: rust_string where
  [simp]: "Counter_get_name = str ''counter''"

section \<open>Extension headers\<close>

datatype ExtHdrOp = ExtHdrIPv6 | ExtHdrTCPOpt

fun ExtHdrOp_value :: "sys \<Rightarrow> ExtHdrOp \<Rightarrow> u32" where
  "ExtHdrOp_value S ExtHdrIPv6 = word_of_int (NFT_EXTHDR_OP_IPV6 S)"
| "ExtHdrOp_value S ExtHdrTCPOpt = word_of_int (NFT_EXTHDR_OP_TCPOPT S)"

definition ExtHdrOp_variants :: "ExtHdrOp list" where
  "ExtHdrOp_variants =
     [ExtHdrIPv6, ExtHdrTCPOpt]"

definition ExtHdrOp_try_from :: "sys \<Rightarrow> u32 \<Rightarrow> ExtHdrOp decoded" where
  "ExtHdrOp_try_from S = enum_try_from (ExtHdrOp_value S) ExtHdrOp_variants UnknownExtHdrOp"

definition ExtHdrOp_attr :: "sys \<Rightarrow> ExtHdrOp \<Rightarrow> attr_obj" where
  "ExtHdrOp_attr S = enum_attr u32_attr (ExtHdrOp_value S)"

definition ExtHdrOp_deserialize :: "sys \<Rightarrow> bytes \<Rightarrow> (ExtHdrOp \<times> bytes) decoded" where
  "ExtHdrOp_deserialize S = enum_deserialize u32_deserialize (ExtHdrOp_try_from S)"

record ExtHdr =
  exthdr_dreg :: "Register option"
  exthdr_typ :: "u8 option"
  exthdr_offset :: "u32 option"
  exthdr_len :: "u32 option"
  exthdr_flags :: "u32 option"
  exthdr_op :: "ExtHdrOp option"
  exthdr_sreg :: "Register option"

definition ExtHdr_default :: ExtHdr where
  "ExtHdr_default =
     \<lparr>exthdr_dreg = None, exthdr_typ = None, exthdr_offset = None, exthdr_len = None, exthdr_flags = None, exthdr_op = None, exthdr_sreg = None\<rparr>"

definition exthdr_fields :: "sys \<Rightarrow> ExtHdr field list" where
  "exthdr_fields S =
     [mk_field (NFTA_EXTHDR_DREG S) (Register_attr S) (Register_deserialize S)
        exthdr_dreg exthdr_dreg_update,
      mk_field (NFTA_EXTHDR_TYPE S) u8_attr u8_deserialize exthdr_typ exthdr_typ_update,
      mk_field (NFTA_EXTHDR_OFFSET S) u32_attr u32_deserialize
        exthdr_offset exthdr_offset_update,
      mk_field (NFTA_EXTHDR_LEN S) u32_attr u32_deserialize exthdr_len exthdr_len_update,
      mk_field (NFTA_EXTHDR_FLAGS S) u32_attr u32_deserialize exthdr_flags exthdr_flags_update,
      mk_field (NFTA_EXTHDR_OP S) (ExtHdrOp_attr S) (ExtHdrOp_deserialize S)
        exthdr_op exthdr_op_update,
      mk_field (NFTA_EXTHDR_SREG S) (Register_attr S) (Register_deserialize S)
        exthdr_sreg exthdr_sreg_update]"

definition ExtHdr_attr :: "sys \<Rightarrow> ExtHdr \<Rightarrow> attr_obj" where
  "ExtHdr_attr S = struct_attr S True (exthdr_fields S)"

definition ExtHdr_deserialize :: "sys \<Rightarrow> bytes \<Rightarrow> (ExtHdr \<times> bytes) decoded" where
  "ExtHdr_deserialize S = struct_deserialize S (exthdr_fields S) ExtHdr_default"

definition ExtHdr_get_name :: rust_string where
  [simp]: "ExtHdr_get_name = str ''exthdr''"

section \<open>Immediate data and verdicts\<close>

record Immediate =
  immediate_dreg :: "Register option"
  immediate_data :: "NfNetlinkData option"

definition Immediate_default :: Immediate where
  "Immediate_default = \<lparr>immediate_dreg = None, immediate_data = None\<rparr>"

definition immediate_fields :: "sys \<Rightarrow> Immediate field list" where
  "immediate_fields S =
     [mk_field (NFTA_IMMEDIATE_DREG S) (Register_attr S) (Register_deserialize S)
        immediate_dreg immediate_dreg_update,
      mk_field (NFTA_IMMEDIATE_DATA S) (NfNetlinkData_attr S) (NfNetlinkData_deserialize S)
        immediate_data immediate_data_update]"

definition Immediate_attr :: "sys \<Rightarrow> Immediate \<Rightarrow> attr_obj" where
  "Immediate_attr S = struct_attr S False (immediate_fields S)"

definition Immediate_deserialize :: "sys \<Rightarrow> bytes \<Rightarrow> (Immediate \<times> bytes) decoded" where
  "Immediate_deserialize S = struct_deserialize S (immediate_fields S) Immediate_default"

definition Immediate_get_name :: rust_string where
  [simp]: "Immediate_get_name = str ''immediate''"

definition Immediate_new_data :: "bytes \<Rightarrow> Register \<Rightarrow> Immediate" where
  "Immediate_new_data data register =
     set_field immediate_data_update (set_field data_value_update data NfNetlinkData_default)
     (set_field immediate_dreg_update register Immediate_default)"

definition Immediate_new_verdict :: "VerdictKind \<Rightarrow> Immediate" where
  "Immediate_new_verdict kind =
     (let code = (case kind of
            Drop \<Rightarrow> VtDrop | Accept \<Rightarrow> VtAccept | Queue \<Rightarrow> VtQueue | Continue \<Rightarrow> VtContinue
          | Break \<Rightarrow> VtBreak | Jump chain \<Rightarrow> VtJump | Goto chain \<Rightarrow> VtGoto | Return \<Rightarrow> VtReturn);
          data = set_field verdict_code_update code Verdict_default;
          data' = (case kind of
            Jump chain \<Rightarrow> set_field verdict_chain_update chain data
          | Goto chain \<Rightarrow> set_field verdict_chain_update chain data
          | _ \<Rightarrow> data) in
      set_field immediate_data_update (set_field data_verdict_update data' NfNetlinkData_default)
      (set_field immediate_dreg_update RegVerdict Immediate_default))"

section \<open>Logging\<close>

record Log =
  log_group :: "u16 option"
  log_prefix :: "rust_string option"

definition Log_default :: Log where
  "Log_default = \<lparr>log_group = None, log_prefix = None\<rparr>"

definition log_fields :: "sys \<Rightarrow> Log field list" where
  "log_fields S =
     [mk_field (NFTA_LOG_GROUP S) u16_attr u16_deserialize log_group log_group_update,
      mk_field (NFTA_LOG_PREFIX S) String_attr String_deserialize log_prefix log_prefix_update]"

definition Log_attr :: "sys \<Rightarrow> Log \<Rightarrow> attr_obj" where
  "Log_attr S = struct_attr S False (log_fields S)"

definition Log_deserialize :: "sys \<Rightarrow> bytes \<Rightarrow> (Log \<times> bytes) decoded" where
  "Log_deserialize S = struct_deserialize S (log_fields S) Log_default"

definition Log_get_name :: rust_string where
  [simp]: "Log_get_name = str ''log''"

definition Log_new :: "u16 option \<Rightarrow> rust_string option \<Rightarrow> Log built" where
  "Log_new grp pfx =
     (let res = (case grp of
            None \<Rightarrow> Log_default
          | Some g \<Rightarrow> set_field log_group_update g Log_default) in
      case pfx of
        None \<Rightarrow> Ok res
      | Some p \<Rightarrow>
          if length p > 127 then Err TooLongLogPrefix
          else Ok (set_field log_prefix_update p res))"

section \<open>Set lookups\<close>

record Lookup =
  lookup_set :: "rust_string option"
  lookup_sreg :: "Register option"
  lookup_dreg :: "Register option"
  lookup_set_id :: "u32 option"

definition Lookup_default :: Lookup where
  "Lookup_default =
     \<lparr>lookup_set = None, lookup_sreg = None, lookup_dreg = None, lookup_set_id = None\<rparr>"

definition lookup_fields :: "sys \<Rightarrow> Lookup field list" where
  "lookup_fields S =
     [mk_field (NFTA_LOOKUP_SET S) String_attr String_deserialize lookup_set lookup_set_update,
      mk_field (NFTA_LOOKUP_SREG S) (Register_attr S) (Register_deserialize S)
        lookup_sreg lookup_sreg_update,
      mk_field (NFTA_LOOKUP_DREG S) (Register_attr S) (Register_deserialize S)
        lookup_dreg lookup_dreg_update,
      mk_field (NFTA_LOOKUP_SET_ID S) u32_attr u32_deserialize
        lookup_set_id lookup_set_id_update]"

definition Lookup_attr :: "sys \<Rightarrow> Lookup \<Rightarrow> attr_obj" where
  "Lookup_attr S = struct_attr S False (lookup_fields S)"

definition Lookup_deserialize :: "sys \<Rightarrow> bytes \<Rightarrow> (Lookup \<times> bytes) decoded" where
  "Lookup_deserialize S = struct_deserialize S (lookup_fields S) Lookup_default"

definition Lookup_get_name :: rust_string where
  [simp]: "Lookup_get_name = str ''lookup''"

definition Lookup_new :: "Set \<Rightarrow> Lookup built" where
  "Lookup_new s =
     bind (ok_or (nfset_name s) MissingSetName) (\<lambda>name.
     let res = set_field lookup_sreg_update Reg1 (set_field lookup_set_update name Lookup_default) in
     Ok (case nfset_id s of None \<Rightarrow> res | Some i \<Rightarrow> set_field lookup_set_id_update i res))"

section \<open>Packet meta data\<close>

datatype MetaType =
    MetaProtocol
  | MetaMark
  | MetaIif
  | MetaOif
  | MetaIifName
  | MetaOifName
  | MetaIifType
  | MetaOifType
  | MetaSkUid
  | MetaSkGid
  | MetaNfProto
  | MetaL4Proto
  | MetaCgroup
  | MetaPRandom

fun MetaType_value :: "sys \<Rightarrow> MetaType \<Rightarrow> u32" where
  "MetaType_value S MetaProtocol = word_of_int (NFT_META_PROTOCOL S)"
| "MetaType_value S MetaMark = word_of_int (NFT_META_MARK S)"
| "MetaType_value S MetaIif = word_of_int (NFT_META_IIF S)"
| "MetaType_value S MetaOif = word_of_int (NFT_META_OIF S)"
| "MetaType_value S MetaIifName = word_of_int (NFT_META_IIFNAME S)"
| "MetaType_value S MetaOifName = word_of_int (NFT_META_OIFNAME S)"
| "MetaType_value S MetaIifType = word_of_int (NFT_META_IIFTYPE S)"
| "MetaType_value S MetaOifType = word_of_int (NFT_META_OIFTYPE S)"
| "MetaType_value S MetaSkUid = word_of_int (NFT_META_SKUID S)"
| "MetaType_value S MetaSkGid = word_of_int (NFT_META_SKGID S)"
| "MetaType_value S MetaNfProto = word_of_int (NFT_META_NFPROTO S)"
| "MetaType_value S MetaL4Proto = word_of_int (NFT_META_L4PROTO S)"
| "MetaType_value S MetaCgroup = word_of_int (NFT_META_CGROUP S)"
| "MetaType_value S MetaPRandom = word_of_int (NFT_META_PRANDOM S)"

definition MetaType_variants :: "MetaType list" where
  "MetaType_variants =
     [MetaProtocol, MetaMark, MetaIif, MetaOif, MetaIifName, MetaOifName, MetaIifType, MetaOifType, MetaSkUid, MetaSkGid, MetaNfProto, MetaL4Proto, MetaCgroup, MetaPRandom]"

definition MetaType_try_from :: "sys \<Rightarrow> u32 \<Rightarrow> MetaType decoded" where
  "MetaType_try_from S = enum_try_from (MetaType_value S) MetaType_variants UnknownMetaType"

definition MetaType_attr :: "sys \<Rightarrow> MetaType \<Rightarrow> attr_obj" where
  "MetaType_attr S = enum_attr u32_attr (MetaType_value S)"

definition MetaType_deserialize :: "sys \<Rightarrow> bytes \<Rightarrow> (MetaType \<times> bytes) decoded" where
  "MetaType_deserialize S = enum_deserialize u32_deserialize (MetaType_try_from S)"

record Meta =
  meta_dreg :: "Register option"
  meta_key :: "MetaType option"
  meta_sreg :: "Register option"

definition Meta_default :: Meta where
  "Meta_default = \<lparr>meta_dreg = None, meta_key = None, meta_sreg = None\<rparr>"

definition meta_fields :: "sys \<Rightarrow> Meta field list" where
  "meta_fields S =
     [mk_field (NFTA_META_DREG S) (Register_attr S) (Register_deserialize S)
        meta_dreg meta_dreg_update,
      mk_field (NFTA_META_KEY S) (MetaType_attr S) (MetaType_deserialize S)
        meta_key meta_key_update,
      mk_field (NFTA_META_SREG S) (Register_attr S) (Register_deserialize S)
        meta_sreg meta_sreg_update]"

definition Meta_attr :: "sys \<Rightarrow> Meta \<Rightarrow> attr_obj" where
  "Meta_attr S = struct_attr S False (meta_fields S)"

definition Meta_deserialize :: "sys \<Rightarrow> bytes \<Rightarrow> (Meta \<times> bytes) decoded" where
  "Meta_deserialize S = struct_deserialize S (meta_fields S) Meta_default"

definition Meta_get_name :: rust_string where
  [simp]: "Meta_get_name = str ''meta''"

definition Meta_new :: "MetaType \<Rightarrow> Meta" where
  "Meta_new ty = set_field meta_key_update ty (set_field meta_dreg_update Reg1 Meta_default)"

section \<open>Network address translation\<close>

datatype NatType = SNat | DNat

fun NatType_value :: "sys \<Rightarrow> NatType \<Rightarrow> i32" where
  "NatType_value S SNat = word_of_int (NFT_NAT_SNAT S)"
| "NatType_value S DNat = word_of_int (NFT_NAT_DNAT S)"

definition NatType_variants :: "NatType list" where
  "NatType_variants =
     [SNat, DNat]"

definition NatType_try_from :: "sys \<Rightarrow> i32 \<Rightarrow> NatType decoded" where
  "NatType_try_from S = enum_try_from (NatType_value S) NatType_variants UnknownNatType"

definition NatType_attr :: "sys \<Rightarrow> NatType \<Rightarrow> attr_obj" where
  "NatType_attr S = enum_attr i32_attr (NatType_value S)"

definition NatType_deserialize :: "sys \<Rightarrow> bytes \<Rightarrow> (NatType \<times> bytes) decoded" where
  "NatType_deserialize S = enum_deserialize i32_deserialize (NatType_try_from S)"

record Nat =
  nat_nat_type :: "NatType option"
  nat_family :: "ProtocolFamily option"
  nat_ip_register :: "Register option"
  nat_port_register :: "Register option"

definition Nat_default :: Nat where
  "Nat_default =
     \<lparr>nat_nat_type = None, nat_family = None, nat_ip_register = None, nat_port_register = None\<rparr>"

definition nat_fields :: "sys \<Rightarrow> Nat field list" where
  "nat_fields S =
     [mk_field (NFTA_NAT_TYPE S) (NatType_attr S) (NatType_deserialize S)
        nat_nat_type nat_nat_type_update,
      mk_field (NFTA_NAT_FAMILY S) (ProtocolFamily_attr S) (ProtocolFamily_deserialize S)
        nat_family nat_family_update,
      mk_field (NFTA_NAT_REG_ADDR_MIN S) (Register_attr S) (Register_deserialize S)
        nat_ip_register nat_ip_register_update,
      mk_field (NFTA_NAT_REG_PROTO_MIN S) (Register_attr S) (Register_deserialize S)
        nat_port_register nat_port_register_update]"

definition Nat_attr :: "sys \<Rightarrow> Nat \<Rightarrow> attr_obj" where
  "Nat_attr S = struct_attr S True (nat_fields S)"

definition Nat_deserialize :: "sys \<Rightarrow> bytes \<Rightarrow> (Nat \<times> bytes) decoded" where
  "Nat_deserialize S = struct_deserialize S (nat_fields S) Nat_default"

definition Nat_get_name :: rust_string where
  [simp]: "Nat_get_name = str ''nat''"

section \<open>Packet payload\<close>

record Payload =
  payload_dreg :: "Register option"
  payload_base :: "u32 option"
  payload_offset :: "u32 option"
  payload_len :: "u32 option"
  payload_sreg :: "Register option"

definition Payload_default :: Payload where
  "Payload_default =
     \<lparr>payload_dreg = None, payload_base = None, payload_offset = None, payload_len = None, payload_sreg = None\<rparr>"

definition payload_fields :: "sys \<Rightarrow> Payload field list" where
  "payload_fields S =
     [mk_field (NFTA_PAYLOAD_DREG S) (Register_attr S) (Register_deserialize S)
        payload_dreg payload_dreg_update,
      mk_field (NFTA_PAYLOAD_BASE S) u32_attr u32_deserialize payload_base payload_base_update,
      mk_field (NFTA_PAYLOAD_OFFSET S) u32_attr u32_deserialize
        payload_offset payload_offset_update,
      mk_field (NFTA_PAYLOAD_LEN S) u32_attr u32_deserialize payload_len payload_len_update,
      mk_field (NFTA_PAYLOAD_SREG S) (Register_attr S) (Register_deserialize S)
        payload_sreg payload_sreg_update]"

definition Payload_attr :: "sys \<Rightarrow> Payload \<Rightarrow> attr_obj" where
  "Payload_attr S = struct_attr S True (payload_fields S)"

definition Payload_deserialize :: "sys \<Rightarrow> bytes \<Rightarrow> (Payload \<times> bytes) decoded" where
  "Payload_deserialize S = struct_deserialize S (payload_fields S) Payload_default"

definition Payload_get_name :: rust_string where
  [simp]: "Payload_get_name = str ''payload''"

section \<open>Rejection\<close>

datatype RejectType = IcmpUnreach | TcpRst | IcmpxUnreach

fun RejectType_value :: "sys \<Rightarrow> RejectType \<Rightarrow> u32" where
  "RejectType_value S IcmpUnreach = word_of_int (NFT_REJECT_ICMP_UNREACH S)"
| "RejectType_value S TcpRst = word_of_int (NFT_REJECT_TCP_RST S)"
| "RejectType_value S IcmpxUnreach = word_of_int (NFT_REJECT_ICMPX_UNREACH S)"

definition RejectType_variants :: "RejectType list" where
  "RejectType_variants =
     [IcmpUnreach, TcpRst, IcmpxUnreach]"

definition RejectType_try_from :: "sys \<Rightarrow> u32 \<Rightarrow> RejectType decoded" where
  "RejectType_try_from S = enum_try_from (RejectType_value S) RejectType_variants UnknownRejectType"

definition RejectType_attr :: "sys \<Rightarrow> RejectType \<Rightarrow> attr_obj" where
  "RejectType_attr S = enum_attr u32_attr (RejectType_value S)"

definition RejectType_deserialize :: "sys \<Rightarrow> bytes \<Rightarrow> (RejectType \<times> bytes) decoded" where
  "RejectType_deserialize S = enum_deserialize u32_deserialize (RejectType_try_from S)"

datatype IcmpCode = NoRoute | PortUnreach | HostUnreach | AdminProhibited

fun IcmpCode_value :: "sys \<Rightarrow> IcmpCode \<Rightarrow> u8" where
  "IcmpCode_value S NoRoute = word_of_int (NFT_REJECT_ICMPX_NO_ROUTE S)"
| "IcmpCode_value S PortUnreach = word_of_int (NFT_REJECT_ICMPX_PORT_UNREACH S)"
| "IcmpCode_value S HostUnreach = word_of_int (NFT_REJECT_ICMPX_HOST_UNREACH S)"
| "IcmpCode_value S AdminProhibited = word_of_int (NFT_REJECT_ICMPX_ADMIN_PROHIBITED S)"

definition IcmpCode_variants :: "IcmpCode list" where
  "IcmpCode_variants =
     [NoRoute, PortUnreach, HostUnreach, AdminProhibited]"

definition IcmpCode_try_from :: "sys \<Rightarrow> u8 \<Rightarrow> IcmpCode decoded" where
  "IcmpCode_try_from S = enum_try_from (IcmpCode_value S) IcmpCode_variants UnknownIcmpCode"

definition IcmpCode_attr :: "sys \<Rightarrow> IcmpCode \<Rightarrow> attr_obj" where
  "IcmpCode_attr S = enum_attr u8_attr (IcmpCode_value S)"

definition IcmpCode_deserialize :: "sys \<Rightarrow> bytes \<Rightarrow> (IcmpCode \<times> bytes) decoded" where
  "IcmpCode_deserialize S = enum_deserialize u8_deserialize (IcmpCode_try_from S)"

record Reject =
  reject_reject_type :: "RejectType option"
  reject_icmp_code :: "IcmpCode option"

definition Reject_default :: Reject where
  "Reject_default = \<lparr>reject_reject_type = None, reject_icmp_code = None\<rparr>"

definition reject_fields :: "sys \<Rightarrow> Reject field list" where
  "reject_fields S =
     [mk_field (NFTA_REJECT_TYPE S) (RejectType_attr S) (RejectType_deserialize S)
        reject_reject_type reject_reject_type_update,
      mk_field (NFTA_REJECT_ICMP_CODE S) (IcmpCode_attr S) (IcmpCode_deserialize S)
        reject_icmp_code reject_icmp_code_update]"

definition Reject_attr :: "sys \<Rightarrow> Reject \<Rightarrow> attr_obj" where
  "Reject_attr S = struct_attr S False (reject_fields S)"

definition Reject_deserialize :: "sys \<Rightarrow> bytes \<Rightarrow> (Reject \<times> bytes) decoded" where
  "Reject_deserialize S = struct_deserialize S (reject_fields S) Reject_default"

definition Reject_get_name :: rust_string where
  [simp]: "Reject_get_name = str ''reject''"

section \<open>Routing information\<close>

datatype RtKey = ClassID | NextHop4 | NextHop6 | TCPMSS

fun RtKey_value :: "sys \<Rightarrow> RtKey \<Rightarrow> u32" where
  "RtKey_value S ClassID = word_of_int (NFT_RT_CLASSID S)"
| "RtKey_value S NextHop4 = word_of_int (NFT_RT_NEXTHOP4 S)"
| "RtKey_value S NextHop6 = word_of_int (NFT_RT_NEXTHOP6 S)"
| "RtKey_value S TCPMSS = word_of_int (NFT_RT_TCPMSS S)"

definition RtKey_variants :: "RtKey list" where
  "RtKey_variants =
     [ClassID, NextHop4, NextHop6, TCPMSS]"

definition RtKey_try_from :: "sys \<Rightarrow> u32 \<Rightarrow> RtKey decoded" where
  "RtKey_try_from S = enum_try_from (RtKey_value S) RtKey_variants UnknownRtKey"

definition RtKey_attr :: "sys \<Rightarrow> RtKey \<Rightarrow> attr_obj" where
  "RtKey_attr S = enum_attr u32_attr (RtKey_value S)"

definition RtKey_deserialize :: "sys \<Rightarrow> bytes \<Rightarrow> (RtKey \<times> bytes) decoded" where
  "RtKey_deserialize S = enum_deserialize u32_deserialize (RtKey_try_from S)"

record Rt =
  rt_dreg :: "Register option"
  rt_key :: "RtKey option"

definition Rt_default :: Rt where
  "Rt_default = \<lparr>rt_dreg = None, rt_key = None\<rparr>"

definition rt_fields :: "sys \<Rightarrow> Rt field list" where
  "rt_fields S =
     [mk_field (NFTA_RT_DREG S) (Register_attr S) (Register_deserialize S)
        rt_dreg rt_dreg_update,
      mk_field (NFTA_RT_KEY S) (RtKey_attr S) (RtKey_deserialize S) rt_key rt_key_update]"

definition Rt_attr :: "sys \<Rightarrow> Rt \<Rightarrow> attr_obj" where
  "Rt_attr S = struct_attr S True (rt_fields S)"

definition Rt_deserialize :: "sys \<Rightarrow> bytes \<Rightarrow> (Rt \<times> bytes) decoded" where
  "Rt_deserialize S = struct_deserialize S (rt_fields S) Rt_default"

definition Rt_get_name :: rust_string where
  [simp]: "Rt_get_name = str ''rt''"

section \<open>Masquerading\<close>

text \<open>A structure without fields.\<close>

datatype Masquerade = Masquerade

definition masquerade_fields :: "Masquerade field list" where
  "masquerade_fields = []"

definition Masquerade_attr :: "sys \<Rightarrow> Masquerade \<Rightarrow> attr_obj" where
  "Masquerade_attr S = struct_attr S True masquerade_fields"

definition Masquerade_deserialize :: "sys \<Rightarrow> bytes \<Rightarrow> (Masquerade \<times> bytes) decoded" where
  "Masquerade_deserialize S = struct_deserialize S masquerade_fields Masquerade"

definition Masquerade_get_name :: rust_string where
  [simp]: "Masquerade_get_name = str ''masq''"

section \<open>They are codecs\<close>

text \<open>Admissible values: strings and data are admissible, and the attributes fit.\<close>

definition Bitwise_ok :: "sys \<Rightarrow> Bitwise \<Rightarrow> bool" where
  "Bitwise_ok S x \<longleftrightarrow> pred_option (NfNetlinkData_ok S) (bitwise_mask x) \<and>
     pred_option (NfNetlinkData_ok S) (bitwise_xor x) \<and> struct_fits (bitwise_fields S) x"

definition Byteorder_ok :: "sys \<Rightarrow> Byteorder \<Rightarrow> bool" where
  "Byteorder_ok S x \<longleftrightarrow> struct_fits (byteorder_fields S) x"

definition Cmp_ok :: "sys \<Rightarrow> Cmp \<Rightarrow> bool" where
  "Cmp_ok S x \<longleftrightarrow> pred_option (NfNetlinkData_ok S) (cmp_data x) \<and> struct_fits (cmp_fields S) x"

definition Conntrack_ok :: "sys \<Rightarrow> Conntrack \<Rightarrow> bool" where
  "Conntrack_ok S x \<longleftrightarrow> struct_fits (ct_fields S) x"

definition Counter_ok :: "sys \<Rightarrow> Counter \<Rightarrow> bool" where
  "Counter_ok S x \<longleftrightarrow> struct_fits (counter_fields S) x"

definition ExtHdr_ok :: "sys \<Rightarrow> ExtHdr \<Rightarrow> bool" where
  "ExtHdr_ok S x \<longleftrightarrow> struct_fits (exthdr_fields S) x"

definition Immediate_ok :: "sys \<Rightarrow> Immediate \<Rightarrow> bool" where
  "Immediate_ok S x \<longleftrightarrow> pred_option (NfNetlinkData_ok S) (immediate_data x) \<and> struct_fits (immediate_fields S) x"

definition Log_ok :: "sys \<Rightarrow> Log \<Rightarrow> bool" where
  "Log_ok S x \<longleftrightarrow> pred_option string_ok (log_prefix x) \<and> struct_fits (log_fields S) x"

definition Lookup_ok :: "sys \<Rightarrow> Lookup \<Rightarrow> bool" where
  "Lookup_ok S x \<longleftrightarrow> pred_option string_ok (lookup_set x) \<and> struct_fits (lookup_fields S) x"

definition Meta_ok :: "sys \<Rightarrow> Meta \<Rightarrow> bool" where
  "Meta_ok S x \<longleftrightarrow> struct_fits (meta_fields S) x"

definition Nat_ok :: "sys \<Rightarrow> Nat \<Rightarrow> bool" where
  "Nat_ok S x \<longleftrightarrow> struct_fits (nat_fields S) x"

definition Payload_ok :: "sys \<Rightarrow> Payload \<Rightarrow> bool" where
  "Payload_ok S x \<longleftrightarrow> struct_fits (payload_fields S) x"

definition Reject_ok :: "sys \<Rightarrow> Reject \<Rightarrow> bool" where
  "Reject_ok S x \<longleftrightarrow> struct_fits (reject_fields S) x"

definition Rt_ok :: "sys \<Rightarrow> Rt \<Rightarrow> bool" where
  "Rt_ok S x \<longleftrightarrow> struct_fits (rt_fields S) x"

lemma all_ByteorderOp: "v \<in> set ByteorderOp_variants"
  by (cases v) (simp_all add: ByteorderOp_variants_def)

lemma all_CmpOp: "v \<in> set CmpOp_variants"
  by (cases v) (simp_all add: CmpOp_variants_def)

lemma all_ConntrackKey: "v \<in> set ConntrackKey_variants"
  by (cases v) (simp_all add: ConntrackKey_variants_def)

lemma all_ExtHdrOp: "v \<in> set ExtHdrOp_variants"
  by (cases v) (simp_all add: ExtHdrOp_variants_def)

lemma all_MetaType: "v \<in> set MetaType_variants"
  by (cases v) (simp_all add: MetaType_variants_def)

lemma all_NatType: "v \<in> set NatType_variants"
  by (cases v) (simp_all add: NatType_variants_def)

lemma all_RejectType: "v \<in> set RejectType_variants"
  by (cases v) (simp_all add: RejectType_variants_def)

lemma all_IcmpCode: "v \<in> set IcmpCode_variants"
  by (cases v) (simp_all add: IcmpCode_variants_def)

lemma all_RtKey: "v \<in> set RtKey_variants"
  by (cases v) (simp_all add: RtKey_variants_def)

lemma Masquerade_only: "(Masquerade = s) = True"
  by (cases s) simp

locale expr_abi = set_abi +
  assumes byteorder_ops: "distinct (map (ByteorderOp_value S) ByteorderOp_variants)"
    and cmp_ops: "distinct (map (CmpOp_value S) CmpOp_variants)"
    and ct_keys: "distinct (map (ConntrackKey_value S) ConntrackKey_variants)"
    and exthdr_ops: "distinct (map (ExtHdrOp_value S) ExtHdrOp_variants)"
    and meta_keys: "distinct (map (MetaType_value S) MetaType_variants)"
    and nat_kinds: "distinct (map (NatType_value S) NatType_variants)"
    and reject_kinds: "distinct (map (RejectType_value S) RejectType_variants)"
    and icmp_codes: "distinct (map (IcmpCode_value S) IcmpCode_variants)"
    and rt_keys: "distinct (map (RtKey_value S) RtKey_variants)"
    and bitwise_attr_types: "attr_types_ok [NFTA_BITWISE_SREG S, NFTA_BITWISE_DREG S, NFTA_BITWISE_LEN S,
      NFTA_BITWISE_MASK S, NFTA_BITWISE_XOR S]"
    and byteorder_attr_types: "attr_types_ok [NFTA_BYTEORDER_SREG S, NFTA_BYTEORDER_DREG S,
      NFTA_BYTEORDER_OP S, NFTA_BYTEORDER_LEN S,
      NFTA_BYTEORDER_SIZE S]"
    and cmp_attr_types: "attr_types_ok [NFTA_CMP_SREG S, NFTA_CMP_OP S, NFTA_CMP_DATA S]"
    and ct_attr_types: "attr_types_ok [NFTA_CT_DREG S, NFTA_CT_KEY S, NFTA_CT_DIRECTION S,
      NFTA_CT_SREG S]"
    and counter_attr_types: "attr_types_ok [NFTA_COUNTER_BYTES S, NFTA_COUNTER_PACKETS S]"
    and exthdr_attr_types: "attr_types_ok [NFTA_EXTHDR_DREG S, NFTA_EXTHDR_TYPE S, NFTA_EXTHDR_OFFSET S,
      NFTA_EXTHDR_LEN S, NFTA_EXTHDR_FLAGS S, NFTA_EXTHDR_OP S,
      NFTA_EXTHDR_SREG S]"
    and immediate_attr_types: "attr_types_ok [NFTA_IMMEDIATE_DREG S, NFTA_IMMEDIATE_DATA S]"
    and log_attr_types: "attr_types_ok [NFTA_LOG_GROUP S, NFTA_LOG_PREFIX S]"
    and lookup_attr_types: "attr_types_ok [NFTA_LOOKUP_SET S, NFTA_LOOKUP_SREG S, NFTA_LOOKUP_DREG S,
      NFTA_LOOKUP_SET_ID S]"
    and meta_attr_types: "attr_types_ok [NFTA_META_DREG S, NFTA_META_KEY S, NFTA_META_SREG S]"
    and nat_attr_types: "attr_types_ok [NFTA_NAT_TYPE S, NFTA_NAT_FAMILY S, NFTA_NAT_REG_ADDR_MIN S,
      NFTA_NAT_REG_PROTO_MIN S]"
    and payload_attr_types: "attr_types_ok [NFTA_PAYLOAD_DREG S, NFTA_PAYLOAD_BASE S,
      NFTA_PAYLOAD_OFFSET S, NFTA_PAYLOAD_LEN S,
      NFTA_PAYLOAD_SREG S]"
    and reject_attr_types: "attr_types_ok [NFTA_REJECT_TYPE S, NFTA_REJECT_ICMP_CODE S]"
    and rt_attr_types: "attr_types_ok [NFTA_RT_DREG S, NFTA_RT_KEY S]"
begin

sublocale byteorder_op: codec "ByteorderOp_attr S" "ByteorderOp_deserialize S" "\<lambda>_. True"
  by (rule enum_codecI [OF u32.codec_axioms _ byteorder_ops])
    (simp_all add: ByteorderOp_attr_def ByteorderOp_deserialize_def ByteorderOp_try_from_def all_ByteorderOp)

sublocale cmp_op: codec "CmpOp_attr S" "CmpOp_deserialize S" "\<lambda>_. True"
  by (rule enum_codecI [OF u32.codec_axioms _ cmp_ops])
    (simp_all add: CmpOp_attr_def CmpOp_deserialize_def CmpOp_try_from_def all_CmpOp)

sublocale ct_key: codec "ConntrackKey_attr S" "ConntrackKey_deserialize S" "\<lambda>_. True"
  by (rule enum_codecI [OF u32.codec_axioms _ ct_keys])
    (simp_all add: ConntrackKey_attr_def ConntrackKey_deserialize_def ConntrackKey_try_from_def all_ConntrackKey)

sublocale exthdr_op: codec "ExtHdrOp_attr S" "ExtHdrOp_deserialize S" "\<lambda>_. True"
  by (rule enum_codecI [OF u32.codec_axioms _ exthdr_ops])
    (simp_all add: ExtHdrOp_attr_def ExtHdrOp_deserialize_def ExtHdrOp_try_from_def all_ExtHdrOp)

sublocale meta_type: codec "MetaType_attr S" "MetaType_deserialize S" "\<lambda>_. True"
  by (rule enum_codecI [OF u32.codec_axioms _ meta_keys])
    (simp_all add: MetaType_attr_def MetaType_deserialize_def MetaType_try_from_def all_MetaType)

sublocale nat_type: codec "NatType_attr S" "NatType_deserialize S" "\<lambda>_. True"
  by (rule enum_codecI [OF i32.codec_axioms _ nat_kinds])
    (simp_all add: NatType_attr_def NatType_deserialize_def NatType_try_from_def all_NatType)

sublocale reject_type: codec "RejectType_attr S" "RejectType_deserialize S" "\<lambda>_. True"
  by (rule enum_codecI [OF u32.codec_axioms _ reject_kinds])
    (simp_all add: RejectType_attr_def RejectType_deserialize_def RejectType_try_from_def all_RejectType)

sublocale icmp_code: codec "IcmpCode_attr S" "IcmpCode_deserialize S" "\<lambda>_. True"
  by (rule enum_codecI [OF u8.codec_axioms _ icmp_codes])
    (simp_all add: IcmpCode_attr_def IcmpCode_deserialize_def IcmpCode_try_from_def all_IcmpCode)

sublocale rt_key: codec "RtKey_attr S" "RtKey_deserialize S" "\<lambda>_. True"
  by (rule enum_codecI [OF u32.codec_axioms _ rt_keys])
    (simp_all add: RtKey_attr_def RtKey_deserialize_def RtKey_try_from_def all_RtKey)

sublocale protocol_family: codec "ProtocolFamily_attr S" "ProtocolFamily_deserialize S" "\<lambda>_. True"
  by (rule enum_codecI [OF i32.codec_axioms family.all_variants families_distinct])
    (simp_all add: ProtocolFamily_attr_def ProtocolFamily_deserialize_def
      ProtocolFamily_try_from_def)

sublocale bitwise_expr: codec "Bitwise_attr S" "Bitwise_deserialize S" "Bitwise_ok S"
  by (rule struct_codecI [where fs = "bitwise_fields S" and base = "\<lambda>x. pred_option (NfNetlinkData_ok S) (bitwise_mask x) \<and>
      pred_option (NfNetlinkData_ok S) (bitwise_xor x)"])
    (use bitwise_attr_types netlink_abi_axioms in \<open>auto simp: bitwise_fields_def Bitwise_default_def
      Bitwise_attr_def Bitwise_deserialize_def Bitwise_ok_def struct_simps\<close>)

sublocale byteorder_expr: codec "Byteorder_attr S" "Byteorder_deserialize S" "Byteorder_ok S"
  by (rule struct_codecI [where fs = "byteorder_fields S" and base = "\<lambda>_. True"])
    (use byteorder_attr_types netlink_abi_axioms in \<open>auto simp: byteorder_fields_def Byteorder_default_def
      Byteorder_attr_def Byteorder_deserialize_def Byteorder_ok_def struct_simps\<close>)

sublocale cmp_expr: codec "Cmp_attr S" "Cmp_deserialize S" "Cmp_ok S"
  by (rule struct_codecI [where fs = "cmp_fields S" and base = "\<lambda>x. pred_option (NfNetlinkData_ok S) (cmp_data x)"])
    (use cmp_attr_types netlink_abi_axioms in \<open>auto simp: cmp_fields_def Cmp_default_def
      Cmp_attr_def Cmp_deserialize_def Cmp_ok_def struct_simps\<close>)

sublocale ct_expr: codec "Conntrack_attr S" "Conntrack_deserialize S" "Conntrack_ok S"
  by (rule struct_codecI [where fs = "ct_fields S" and base = "\<lambda>_. True"])
    (use ct_attr_types netlink_abi_axioms in \<open>auto simp: ct_fields_def Conntrack_default_def
      Conntrack_attr_def Conntrack_deserialize_def Conntrack_ok_def struct_simps\<close>)

sublocale counter_expr: codec "Counter_attr S" "Counter_deserialize S" "Counter_ok S"
  by (rule struct_codecI [where fs = "counter_fields S" and base = "\<lambda>_. True"])
    (use counter_attr_types netlink_abi_axioms in \<open>auto simp: counter_fields_def Counter_default_def
      Counter_attr_def Counter_deserialize_def Counter_ok_def struct_simps\<close>)

sublocale exthdr_expr: codec "ExtHdr_attr S" "ExtHdr_deserialize S" "ExtHdr_ok S"
  by (rule struct_codecI [where fs = "exthdr_fields S" and base = "\<lambda>_. True"])
    (use exthdr_attr_types netlink_abi_axioms in \<open>auto simp: exthdr_fields_def ExtHdr_default_def
      ExtHdr_attr_def ExtHdr_deserialize_def ExtHdr_ok_def struct_simps\<close>)

sublocale immediate_expr: codec "Immediate_attr S" "Immediate_deserialize S" "Immediate_ok S"
  by (rule struct_codecI [where fs = "immediate_fields S" and base = "\<lambda>x. pred_option (NfNetlinkData_ok S) (immediate_data x)"])
    (use immediate_attr_types netlink_abi_axioms in \<open>auto simp: immediate_fields_def Immediate_default_def
      Immediate_attr_def Immediate_deserialize_def Immediate_ok_def struct_simps\<close>)

sublocale log_expr: codec "Log_attr S" "Log_deserialize S" "Log_ok S"
  by (rule struct_codecI [where fs = "log_fields S" and base = "\<lambda>x. pred_option string_ok (log_prefix x)"])
    (use log_attr_types netlink_abi_axioms in \<open>auto simp: log_fields_def Log_default_def
      Log_attr_def Log_deserialize_def Log_ok_def struct_simps\<close>)

sublocale lookup_expr: codec "Lookup_attr S" "Lookup_deserialize S" "Lookup_ok S"
  by (rule struct_codecI [where fs = "lookup_fields S" and base = "\<lambda>x. pred_option string_ok (lookup_set x)"])
    (use lookup_attr_types netlink_abi_axioms in \<open>auto simp: lookup_fields_def Lookup_default_def
      Lookup_attr_def Lookup_deserialize_def Lookup_ok_def struct_simps\<close>)

sublocale meta_expr: codec "Meta_attr S" "Meta_deserialize S" "Meta_ok S"
  by (rule struct_codecI [where fs = "meta_fields S" and base = "\<lambda>_. True"])
    (use meta_attr_types netlink_abi_axioms in \<open>auto simp: meta_fields_def Meta_default_def
      Meta_attr_def Meta_deserialize_def Meta_ok_def struct_simps\<close>)

sublocale nat_expr: codec "Nat_attr S" "Nat_deserialize S" "Nat_ok S"
  by (rule struct_codecI [where fs = "nat_fields S" and base = "\<lambda>_. True"])
    (use nat_attr_types netlink_abi_axioms in \<open>auto simp: nat_fields_def Nat_default_def
      Nat_attr_def Nat_deserialize_def Nat_ok_def struct_simps\<close>)

sublocale payload_expr: codec "Payload_attr S" "Payload_deserialize S" "Payload_ok S"
  by (rule struct_codecI [where fs = "payload_fields S" and base = "\<lambda>_. True"])
    (use payload_attr_types netlink_abi_axioms in \<open>auto simp: payload_fields_def Payload_default_def
      Payload_attr_def Payload_deserialize_def Payload_ok_def struct_simps\<close>)

sublocale reject_expr: codec "Reject_attr S" "Reject_deserialize S" "Reject_ok S"
  by (rule struct_codecI [where fs = "reject_fields S" and base = "\<lambda>_. True"])
    (use reject_attr_types netlink_abi_axioms in \<open>auto simp: reject_fields_def Reject_default_def
      Reject_attr_def Reject_deserialize_def Reject_ok_def struct_simps\<close>)

sublocale rt_expr: codec "Rt_attr S" "Rt_deserialize S" "Rt_ok S"
  by (rule struct_codecI [where fs = "rt_fields S" and base = "\<lambda>_. True"])
    (use rt_attr_types netlink_abi_axioms in \<open>auto simp: rt_fields_def Rt_default_def
      Rt_attr_def Rt_deserialize_def Rt_ok_def struct_simps\<close>)

sublocale masquerade_expr: codec "Masquerade_attr S" "Masquerade_deserialize S" "\<lambda>_. True"
  by (rule struct_codecI [where fs = masquerade_fields and base = "\<lambda>_. True"])
    (use netlink_abi_axioms in \<open>auto simp: masquerade_fields_def Masquerade_attr_def
      Masquerade_deserialize_def attr_types_ok_def struct_fits_def ends_nonempty_def
      Masquerade_only\<close>)

end

interpretation linux: expr_abi linux_sys
  by unfold_locales
    (simp_all add: attr_types_ok_def ByteorderOp_variants_def CmpOp_variants_def ConntrackKey_variants_def ExtHdrOp_variants_def MetaType_variants_def NatType_variants_def RejectType_variants_def IcmpCode_variants_def RtKey_variants_def)

end
