(* ===== verification/Payloads.thy ===== *)
theory Payloads
  imports ExprTypes
begin

text \<open>
  The header fields of \<open>src/expr/payload.rs\<close>: where each field of a protocol header lies, the
  payload expression that loads it, and the inverse functions that recognise a field from an
  offset and a length. The lemmas say that these functions are inverse to each other, and
  that the fields of one header do not overlap.
\<close>

section \<open>Header fields\<close>

datatype LLHeaderField = LLDaddr | LLSaddr | LLEtherType

fun LLHeaderField_offset :: "LLHeaderField \<Rightarrow> u32" where
  "LLHeaderField_offset LLDaddr = 0"
| "LLHeaderField_offset LLSaddr = 6"
| "LLHeaderField_offset LLEtherType = 12"

fun LLHeaderField_len :: "LLHeaderField \<Rightarrow> u32" where
  "LLHeaderField_len LLDaddr = 6"
| "LLHeaderField_len LLSaddr = 6"
| "LLHeaderField_len LLEtherType = 2"

definition LLHeaderField_from_raw_data :: "u32 \<Rightarrow> u32 \<Rightarrow> LLHeaderField decoded" where
  "LLHeaderField_from_raw_data offset len =
     (if (offset, len) = (0, 6) then Ok LLDaddr
      else if (offset, len) = (6, 6) then Ok LLSaddr
      else if (offset, len) = (12, 2) then Ok LLEtherType
      else Err (UnknownLinkLayerHeaderField offset len))"

datatype IPv4HeaderField = IPv4Ttl | IPv4Protocol | IPv4Saddr | IPv4Daddr

fun IPv4HeaderField_offset :: "IPv4HeaderField \<Rightarrow> u32" where
  "IPv4HeaderField_offset IPv4Ttl = 8"
| "IPv4HeaderField_offset IPv4Protocol = 9"
| "IPv4HeaderField_offset IPv4Saddr = 12"
| "IPv4HeaderField_offset IPv4Daddr = 16"

fun IPv4HeaderField_len :: "IPv4HeaderField \<Rightarrow> u32" where
  "IPv4HeaderField_len IPv4Ttl = 1"
| "IPv4HeaderField_len IPv4Protocol = 1"
| "IPv4HeaderField_len IPv4Saddr = 4"
| "IPv4HeaderField_len IPv4Daddr = 4"

definition IPv4HeaderField_from_raw_data :: "u32 \<Rightarrow> u32 \<Rightarrow> IPv4HeaderField decoded" where
  "IPv4HeaderField_from_raw_data offset len =
     (if (offset, len) = (8, 1) then Ok IPv4Ttl
      else if (offset, len) = (9, 1) then Ok IPv4Protocol
      else if (offset, len) = (12, 4) then Ok IPv4Saddr
      else if (offset, len) = (16, 4) then Ok IPv4Daddr
      else Err (UnknownIPv4HeaderField offset len))"

datatype IPv6HeaderField = IPv6NextHeader | IPv6HopLimit | IPv6Saddr | IPv6Daddr

fun IPv6HeaderField_offset :: "IPv6HeaderField \<Rightarrow> u32" where
  "IPv6HeaderField_offset IPv6NextHeader = 6"
| "IPv6HeaderField_offset IPv6HopLimit = 7"
| "IPv6HeaderField_offset IPv6Saddr = 8"
| "IPv6HeaderField_offset IPv6Daddr = 24"

fun IPv6HeaderField_len :: "IPv6HeaderField \<Rightarrow> u32" where
  "IPv6HeaderField_len IPv6NextHeader = 1"
| "IPv6HeaderField_len IPv6HopLimit = 1"
| "IPv6HeaderField_len IPv6Saddr = 16"
| "IPv6HeaderField_len IPv6Daddr = 16"

definition IPv6HeaderField_from_raw_data :: "u32 \<Rightarrow> u32 \<Rightarrow> IPv6HeaderField decoded" where
  "IPv6HeaderField_from_raw_data offset len =
     (if (offset, len) = (6, 1) then Ok IPv6NextHeader
      else if (offset, len) = (7, 1) then Ok IPv6HopLimit
      else if (offset, len) = (8, 16) then Ok IPv6Saddr
      else if (offset, len) = (24, 16) then Ok IPv6Daddr
      else Err (UnknownIPv6HeaderField offset len))"

datatype NetworkHeaderField = NetIPv4 IPv4HeaderField | NetIPv6 IPv6HeaderField

fun NetworkHeaderField_offset :: "NetworkHeaderField \<Rightarrow> u32" where
  "NetworkHeaderField_offset (NetIPv4 f) = IPv4HeaderField_offset f"
| "NetworkHeaderField_offset (NetIPv6 f) = IPv6HeaderField_offset f"

fun NetworkHeaderField_len :: "NetworkHeaderField \<Rightarrow> u32" where
  "NetworkHeaderField_len (NetIPv4 f) = IPv4HeaderField_len f"
| "NetworkHeaderField_len (NetIPv6 f) = IPv6HeaderField_len f"

datatype TCPHeaderField = TCPSport | TCPDport

fun TCPHeaderField_offset :: "TCPHeaderField \<Rightarrow> u32" where
  "TCPHeaderField_offset TCPSport = 0"
| "TCPHeaderField_offset TCPDport = 2"

fun TCPHeaderField_len :: "TCPHeaderField \<Rightarrow> u32" where
  "TCPHeaderField_len TCPSport = 2"
| "TCPHeaderField_len TCPDport = 2"

definition TCPHeaderField_from_raw_data :: "u32 \<Rightarrow> u32 \<Rightarrow> TCPHeaderField decoded" where
  "TCPHeaderField_from_raw_data offset len =
     (if (offset, len) = (0, 2) then Ok TCPSport
      else if (offset, len) = (2, 2) then Ok TCPDport
      else Err (UnknownTCPHeaderField offset len))"

datatype UDPHeaderField = UDPSport | UDPDport | UDPLen

fun UDPHeaderField_offset :: "UDPHeaderField \<Rightarrow> u32" where
  "UDPHeaderField_offset UDPSport = 0"
| "UDPHeaderField_offset UDPDport = 2"
| "UDPHeaderField_offset UDPLen = 4"

fun UDPHeaderField_len :: "UDPHeaderField \<Rightarrow> u32" where
  "UDPHeaderField_len UDPSport = 2"
| "UDPHeaderField_len UDPDport = 2"
| "UDPHeaderField_len UDPLen = 2"

definition UDPHeaderField_from_raw_data :: "u32 \<Rightarrow> u32 \<Rightarrow> UDPHeaderField decoded" where
  "UDPHeaderField_from_raw_data offset len =
     (if (offset, len) = (0, 2) then Ok UDPSport
      else if (offset, len) = (2, 2) then Ok UDPDport
      else if (offset, len) = (4, 2) then Ok UDPLen
      else Err (UnknownUDPHeaderField offset len))"

datatype ICMPv6HeaderField = ICMPv6Type | ICMPv6Code | ICMPv6Checksum

fun ICMPv6HeaderField_offset :: "ICMPv6HeaderField \<Rightarrow> u32" where
  "ICMPv6HeaderField_offset ICMPv6Type = 0"
| "ICMPv6HeaderField_offset ICMPv6Code = 1"
| "ICMPv6HeaderField_offset ICMPv6Checksum = 2"

fun ICMPv6HeaderField_len :: "ICMPv6HeaderField \<Rightarrow> u32" where
  "ICMPv6HeaderField_len ICMPv6Type = 1"
| "ICMPv6HeaderField_len ICMPv6Code = 1"
| "ICMPv6HeaderField_len ICMPv6Checksum = 2"

definition ICMPv6HeaderField_from_raw_data :: "u32 \<Rightarrow> u32 \<Rightarrow> ICMPv6HeaderField decoded" where
  "ICMPv6HeaderField_from_raw_data offset len =
     (if (offset, len) = (0, 1) then Ok ICMPv6Type
      else if (offset, len) = (1, 1) then Ok ICMPv6Code
      else if (offset, len) = (2, 2) then Ok ICMPv6Checksum
      else Err (UnknownICMPv6HeaderField offset len))"

datatype TransportHeaderField =
    TransTcp TCPHeaderField
  | TransUdp UDPHeaderField
  | TransICMPv6 ICMPv6HeaderField

fun TransportHeaderField_offset :: "TransportHeaderField \<Rightarrow> u32" where
  "TransportHeaderField_offset (TransTcp f) = TCPHeaderField_offset f"
| "TransportHeaderField_offset (TransUdp f) = UDPHeaderField_offset f"
| "TransportHeaderField_offset (TransICMPv6 f) = ICMPv6HeaderField_offset f"

fun TransportHeaderField_len :: "TransportHeaderField \<Rightarrow> u32" where
  "TransportHeaderField_len (TransTcp f) = TCPHeaderField_len f"
| "TransportHeaderField_len (TransUdp f) = UDPHeaderField_len f"
| "TransportHeaderField_len (TransICMPv6 f) = ICMPv6HeaderField_len f"

section \<open>Payload expressions of header fields\<close>

datatype HighLevelPayload =
    HlLinkLayer LLHeaderField
  | HlNetwork NetworkHeaderField
  | HlTransport TransportHeaderField

definition HighLevelPayload_build :: "sys \<Rightarrow> HighLevelPayload \<Rightarrow> Payload" where
  "HighLevelPayload_build S p =
     set_field payload_dreg_update Reg1
       (case p of
          HlLinkLayer f \<Rightarrow>
            set_field payload_len_update (LLHeaderField_len f)
            (set_field payload_offset_update (LLHeaderField_offset f)
            (set_field payload_base_update (NFT_PAYLOAD_LL_HEADER S) Payload_default))
        | HlNetwork f \<Rightarrow>
            set_field payload_len_update (NetworkHeaderField_len f)
            (set_field payload_offset_update (NetworkHeaderField_offset f)
            (set_field payload_base_update (NFT_PAYLOAD_NETWORK_HEADER S) Payload_default))
        | HlTransport f \<Rightarrow>
            set_field payload_len_update (TransportHeaderField_len f)
            (set_field payload_offset_update (TransportHeaderField_offset f)
            (set_field payload_base_update (NFT_PAYLOAD_TRANSPORT_HEADER S) Payload_default)))"

datatype PayloadType = PtLinkLayer LLHeaderField | PtNetwork | PtTransport

definition parse_from_payload :: "sys \<Rightarrow> Payload \<Rightarrow> PayloadType decoded" where
  "parse_from_payload S raw =
     (if payload_base raw = None then Err PayloadMissingBase
      else if payload_len raw = None then Err PayloadMissingLen
      else if payload_offset raw = None then Err PayloadMissingOffset
      else case payload_base raw of
        Some v \<Rightarrow>
          if v = NFT_PAYLOAD_LL_HEADER S then
            (case (payload_offset raw, payload_len raw) of
               (Some offset, Some len) \<Rightarrow>
                 bind (LLHeaderField_from_raw_data offset len) (\<lambda>f. Ok (PtLinkLayer f))
             | _ \<Rightarrow> Panic)
          else if v = NFT_PAYLOAD_NETWORK_HEADER S then Ok PtNetwork
          else if v = NFT_PAYLOAD_TRANSPORT_HEADER S then Ok PtTransport
          else Err (UnknownPayloadType v)
      | None \<Rightarrow> Err PayloadMissingBase)"

section \<open>A header description and its inverse\<close>

text \<open>
  The contract that all header field types share: \<open>from_raw_data\<close> recognises exactly the
  offsets and lengths of the fields, so that it is the inverse of \<open>offset\<close> and \<open>len\<close>, and two
  different fields of a header occupy disjoint bytes of it.
\<close>

locale header_field =
  fixes offset :: "'f \<Rightarrow> u32" and len :: "'f \<Rightarrow> u32"
    and from_raw :: "u32 \<Rightarrow> u32 \<Rightarrow> 'f decoded" and unknown :: "u32 \<Rightarrow> u32 \<Rightarrow> DecodeError"
  assumes from_raw_field: "from_raw (offset f) (len f) = Ok f"
    and from_raw_sound: "from_raw off n = Ok f \<Longrightarrow> off = offset f \<and> n = len f"
    and from_raw_total: "(\<exists>f. from_raw off n = Ok f) \<or> from_raw off n = Err (unknown off n)"
    and disjoint: "f \<noteq> g \<Longrightarrow> unat (offset f) + unat (len f) \<le> unat (offset g) \<or>
      unat (offset g) + unat (len g) \<le> unat (offset f)"
begin

lemma from_raw_iff: "from_raw off n = Ok f \<longleftrightarrow> off = offset f \<and> n = len f"
  using from_raw_field from_raw_sound by blast

lemma from_raw_Err_iff:
  "from_raw off n = Err e \<longleftrightarrow> e = unknown off n \<and> (\<forall>f. (off, n) \<noteq> (offset f, len f))"
  using from_raw_total [of off n] from_raw_iff [of off n]
  by (metis outcome.distinct(1) outcome.inject(2) prod.inject)

lemma field_of_byte:
  assumes "unat (offset f) \<le> i" "i < unat (offset f) + unat (len f)"
    and "unat (offset g) \<le> i" "i < unat (offset g) + unat (len g)"
  shows "f = g"
  using disjoint [of f g] assms by fastforce

end

text \<open>
  It suffices that \<open>from_raw_data\<close> searches a list of all fields in which each field ends before
  the next one starts.
\<close>

definition before :: "('f \<Rightarrow> u32) \<Rightarrow> ('f \<Rightarrow> u32) \<Rightarrow> 'f \<Rightarrow> 'f \<Rightarrow> bool" where
  "before offset len f g \<longleftrightarrow> unat (offset f) + unat (len f) \<le> unat (offset g)"

lemma header_fieldI:
  assumes all: "set fs = UNIV" and pos: "\<forall>f\<in>set fs. 0 < unat (len f)"
    and ordered: "sorted_wrt (before offset len) fs"
    and raw: "\<And>off n. from_raw off n =
      (case find (\<lambda>f. off = offset f \<and> n = len f) fs of
         Some f \<Rightarrow> Ok f | None \<Rightarrow> Err (unknown off n))"
  shows "header_field offset len from_raw unknown"
proof -
  have apart: "before offset len f g \<or> before offset len g f" if "f \<noteq> g" for f g
    proof -
    have "f \<in> set fs" "g \<in> set fs" by (simp_all add: all)
    then show ?thesis using ordered that by (induction fs) auto
  qed
  have inj: "f = g" if "offset f = offset g" "len f = len g" for f g
    proof (rule ccontr)
    assume "f \<noteq> g"
    moreover have "0 < unat (len g)" using pos by (simp add: all)
    ultimately show False using apart [of f g] that by (simp add: before_def)
  qed
  show ?thesis
  proof
    fix f g off n
    show "from_raw (offset f) (len f) = Ok f"
      using all inj
      by (auto simp: raw find_None_iff split: option.splits dest!: find_Some_iff [THEN iffD1])
    show "from_raw off n = Ok f \<Longrightarrow> off = offset f \<and> n = len f"
      by (auto simp: raw split: option.splits dest!: find_Some_iff [THEN iffD1])
    show "(\<exists>f. from_raw off n = Ok f) \<or> from_raw off n = Err (unknown off n)"
      by (simp add: raw split: option.splits)
    show "f \<noteq> g \<Longrightarrow> unat (offset f) + unat (len f) \<le> unat (offset g) \<or>
        unat (offset g) + unat (len g) \<le> unat (offset f)"
      using apart by (simp add: before_def)
  qed
qed

interpretation ll: header_field LLHeaderField_offset LLHeaderField_len
    LLHeaderField_from_raw_data UnknownLinkLayerHeaderField
  by (rule header_fieldI [of "[LLDaddr, LLSaddr, LLEtherType]"])
    (auto simp: before_def LLHeaderField_from_raw_data_def intro: LLHeaderField.exhaust)

interpretation ipv4: header_field IPv4HeaderField_offset IPv4HeaderField_len
    IPv4HeaderField_from_raw_data UnknownIPv4HeaderField
  by (rule header_fieldI [of "[IPv4Ttl, IPv4Protocol, IPv4Saddr, IPv4Daddr]"])
    (auto simp: before_def IPv4HeaderField_from_raw_data_def intro: IPv4HeaderField.exhaust)

interpretation ipv6: header_field IPv6HeaderField_offset IPv6HeaderField_len
    IPv6HeaderField_from_raw_data UnknownIPv6HeaderField
  by (rule header_fieldI [of "[IPv6NextHeader, IPv6HopLimit, IPv6Saddr, IPv6Daddr]"])
    (auto simp: before_def IPv6HeaderField_from_raw_data_def intro: IPv6HeaderField.exhaust)

interpretation tcp: header_field TCPHeaderField_offset TCPHeaderField_len
    TCPHeaderField_from_raw_data UnknownTCPHeaderField
  by (rule header_fieldI [of "[TCPSport, TCPDport]"])
    (auto simp: before_def TCPHeaderField_from_raw_data_def intro: TCPHeaderField.exhaust)

interpretation udp: header_field UDPHeaderField_offset UDPHeaderField_len
    UDPHeaderField_from_raw_data UnknownUDPHeaderField
  by (rule header_fieldI [of "[UDPSport, UDPDport, UDPLen]"])
    (auto simp: before_def UDPHeaderField_from_raw_data_def intro: UDPHeaderField.exhaust)

interpretation icmpv6: header_field ICMPv6HeaderField_offset ICMPv6HeaderField_len
    ICMPv6HeaderField_from_raw_data UnknownICMPv6HeaderField
  by (rule header_fieldI [of "[ICMPv6Type, ICMPv6Code, ICMPv6Checksum]"])
    (auto simp: before_def ICMPv6HeaderField_from_raw_data_def intro: ICMPv6HeaderField.exhaust)

end
