(* ===== verification/Expressions.thy ===== *)
theory Expressions
  imports Payloads
begin

text \<open>
  Model of \<open>src/expr/mod.rs\<close>: the sum of all expressions, the named expression that travels in a
  rule, its decoder, which chooses the decoder of the data from the name decoded before it, and
  lists of expressions.
\<close>

section \<open>Expressions of unknown kind\<close>

datatype ExpressionRaw = ExpressionRaw bytes

fun raw_bytes :: "ExpressionRaw \<Rightarrow> bytes" where
  "raw_bytes (ExpressionRaw v) = v"

definition ExpressionRaw_attr :: "ExpressionRaw \<Rightarrow> attr_obj" where
  "ExpressionRaw_attr e =
     \<lparr>is_nested = False, get_size = get_size (bytes_attr (raw_bytes e)),
      write_payload = write_payload (bytes_attr (raw_bytes e))\<rparr>"

definition ExpressionRaw_deserialize :: "bytes \<Rightarrow> (ExpressionRaw \<times> bytes) decoded" where
  "ExpressionRaw_deserialize b = Ok (ExpressionRaw b, [])"

definition ExpressionRaw_get_name :: rust_string where
  [simp]: "ExpressionRaw_get_name = str ''unknown_expression''"

section \<open>The sum of all expressions\<close>

datatype (plugins only: code size) ExpressionVariant =
    ExprBitwise Bitwise
  | ExprByteorder Byteorder
  | ExprCmp Cmp
  | ExprConntrack Conntrack
  | ExprCounter Counter
  | ExprExpressionRaw ExpressionRaw
  | ExprExtHdr ExtHdr
  | ExprImmediate Immediate
  | ExprLog Log
  | ExprLookup Lookup
  | ExprMasquerade Masquerade
  | ExprMeta Meta
  | ExprNat Nat
  | ExprPayload Payload
  | ExprReject Reject
  | ExprRt Rt

text \<open>The name of the type of an expression, \<open>T::get_name()\<close>.\<close>

fun expr_name :: "ExpressionVariant \<Rightarrow> rust_string" where
  "expr_name (ExprBitwise _) = Bitwise_get_name"
| "expr_name (ExprByteorder _) = Byteorder_get_name"
| "expr_name (ExprCmp _) = Cmp_get_name"
| "expr_name (ExprConntrack _) = Conntrack_get_name"
| "expr_name (ExprCounter _) = Counter_get_name"
| "expr_name (ExprExpressionRaw _) = ExpressionRaw_get_name"
| "expr_name (ExprExtHdr _) = ExtHdr_get_name"
| "expr_name (ExprImmediate _) = Immediate_get_name"
| "expr_name (ExprLog _) = Log_get_name"
| "expr_name (ExprLookup _) = Lookup_get_name"
| "expr_name (ExprMasquerade _) = Masquerade_get_name"
| "expr_name (ExprMeta _) = Meta_get_name"
| "expr_name (ExprNat _) = Nat_get_name"
| "expr_name (ExprPayload _) = Payload_get_name"
| "expr_name (ExprReject _) = Reject_get_name"
| "expr_name (ExprRt _) = Rt_get_name"

fun expr_attr :: "sys \<Rightarrow> ExpressionVariant \<Rightarrow> attr_obj" where
  "expr_attr S (ExprBitwise val) = Bitwise_attr S val"
| "expr_attr S (ExprByteorder val) = Byteorder_attr S val"
| "expr_attr S (ExprCmp val) = Cmp_attr S val"
| "expr_attr S (ExprConntrack val) = Conntrack_attr S val"
| "expr_attr S (ExprCounter val) = Counter_attr S val"
| "expr_attr S (ExprExpressionRaw val) = ExpressionRaw_attr val"
| "expr_attr S (ExprExtHdr val) = ExtHdr_attr S val"
| "expr_attr S (ExprImmediate val) = Immediate_attr S val"
| "expr_attr S (ExprLog val) = Log_attr S val"
| "expr_attr S (ExprLookup val) = Lookup_attr S val"
| "expr_attr S (ExprMasquerade val) = Masquerade_attr S val"
| "expr_attr S (ExprMeta val) = Meta_attr S val"
| "expr_attr S (ExprNat val) = Nat_attr S val"
| "expr_attr S (ExprPayload val) = Payload_attr S val"
| "expr_attr S (ExprReject val) = Reject_attr S val"
| "expr_attr S (ExprRt val) = Rt_attr S val"

definition ExpressionVariant_attr :: "sys \<Rightarrow> ExpressionVariant \<Rightarrow> attr_obj" where
  "ExpressionVariant_attr S e =
     \<lparr>is_nested = True, get_size = get_size (expr_attr S e),
      write_payload = write_payload (expr_attr S e)\<rparr>"

section \<open>Named expressions\<close>

record RawExpression =
  expression_name :: "rust_string option"
  expression_data :: "ExpressionVariant option"

definition RawExpression_default :: RawExpression where
  "RawExpression_default = \<lparr>expression_name = None, expression_data = None\<rparr>"

definition RawExpression_from :: "ExpressionVariant \<Rightarrow> RawExpression" where
  "RawExpression_from e =
     set_field expression_data_update e
     (set_field expression_name_update (expr_name e) RawExpression_default)"

text \<open>
  The attribute view is the generated one. No decoder is generated (\<open>derive_decoder = false\<close>), so
  the decoders of the field descriptions are never called.
\<close>

definition expression_fields :: "sys \<Rightarrow> RawExpression field list" where
  "expression_fields S =
     [\<lparr>netlink_type = NFTA_EXPR_NAME S,
       field_attr = (\<lambda>e. map_option String_attr (expression_name e)),
       field_decode = (\<lambda>b. Panic)\<rparr>,
      \<lparr>netlink_type = NFTA_EXPR_DATA S,
       field_attr = (\<lambda>e. map_option (ExpressionVariant_attr S) (expression_data e)),
       field_decode = (\<lambda>b. Panic)\<rparr>]"

definition RawExpression_attr :: "sys \<Rightarrow> RawExpression \<Rightarrow> attr_obj" where
  "RawExpression_attr S = struct_attr S True (expression_fields S)"

text \<open>One arm of the match on the name.\<close>

definition expr_arm ::
  "(bytes \<Rightarrow> ('v \<times> bytes) decoded) \<Rightarrow> ('v \<Rightarrow> ExpressionVariant) \<Rightarrow> bytes \<Rightarrow>
   ExpressionVariant decoded" where
  "expr_arm deser variant b =
     bind (deser b) (\<lambda>(res, remaining).
     if length remaining \<noteq> 0 then Err InvalidDataSize else Ok (variant res))"

definition expr_decode :: "sys \<Rightarrow> rust_string \<Rightarrow> bytes \<Rightarrow> ExpressionVariant decoded" where
  "expr_decode S name b =
     (if name = Bitwise_get_name then expr_arm (Bitwise_deserialize S) ExprBitwise b
      else if name = Byteorder_get_name then expr_arm (Byteorder_deserialize S) ExprByteorder b
      else if name = Cmp_get_name then expr_arm (Cmp_deserialize S) ExprCmp b
      else if name = Conntrack_get_name then expr_arm (Conntrack_deserialize S) ExprConntrack b
      else if name = Counter_get_name then expr_arm (Counter_deserialize S) ExprCounter b
      else if name = ExpressionRaw_get_name then
        expr_arm ExpressionRaw_deserialize ExprExpressionRaw b
      else if name = ExtHdr_get_name then expr_arm (ExtHdr_deserialize S) ExprExtHdr b
      else if name = Immediate_get_name then expr_arm (Immediate_deserialize S) ExprImmediate b
      else if name = Log_get_name then expr_arm (Log_deserialize S) ExprLog b
      else if name = Lookup_get_name then expr_arm (Lookup_deserialize S) ExprLookup b
      else if name = Masquerade_get_name then expr_arm (Masquerade_deserialize S) ExprMasquerade b
      else if name = Meta_get_name then expr_arm (Meta_deserialize S) ExprMeta b
      else if name = Nat_get_name then expr_arm (Nat_deserialize S) ExprNat b
      else if name = Payload_get_name then expr_arm (Payload_deserialize S) ExprPayload b
      else if name = Reject_get_name then expr_arm (Reject_deserialize S) ExprReject b
      else if name = Rt_get_name then expr_arm (Rt_deserialize S) ExprRt b
      else bind (ExpressionRaw_deserialize b) (\<lambda>(res, remaining). Ok (ExprExpressionRaw res)))"

definition expression_decode_attribute ::
  "sys \<Rightarrow> RawExpression \<Rightarrow> u16 \<Rightarrow> bytes \<Rightarrow> RawExpression decoded" where
  "expression_decode_attribute S e attr_type b =
     (if attr_type = NFTA_EXPR_NAME S then
        bind (String_deserialize b) (\<lambda>(val, remaining).
        if length remaining \<noteq> 0 then Err InvalidDataSize
        else Ok (e\<lparr>expression_name := Some val\<rparr>))
      else if attr_type = NFTA_EXPR_DATA S then
        bind (ok_or (expression_name e) MissingExpressionName) (\<lambda>name.
        bind (expr_decode S name b) (\<lambda>data.
        Ok (e\<lparr>expression_data := Some data\<rparr>)))
      else Err (UnsupportedAttributeType attr_type))"

definition RawExpression_deserialize :: "sys \<Rightarrow> bytes \<Rightarrow> (RawExpression \<times> bytes) decoded" where
  "RawExpression_deserialize S b =
     bind (read_attributes S (expression_decode_attribute S) RawExpression_default b)
       (\<lambda>e. Ok (e, []))"

type_synonym ExpressionList = "RawExpression list"

definition ExpressionList_attr :: "sys \<Rightarrow> ExpressionList \<Rightarrow> attr_obj" where
  "ExpressionList_attr S = list_attr S (RawExpression_attr S)"

definition ExpressionList_deserialize :: "sys \<Rightarrow> bytes \<Rightarrow> (ExpressionList \<times> bytes) decoded" where
  "ExpressionList_deserialize S = list_deserialize S (RawExpression_deserialize S)"

section \<open>Named expressions are codecs\<close>

definition known_names :: "rust_string list" where
  "known_names =
     [Bitwise_get_name, Byteorder_get_name, Cmp_get_name, Conntrack_get_name, Counter_get_name,
      ExtHdr_get_name, Immediate_get_name, Log_get_name, Lookup_get_name, Masquerade_get_name,
      Meta_get_name, Nat_get_name, Payload_get_name, Reject_get_name, Rt_get_name]"

text \<open>Admissible values of the sum.\<close>

fun expr_ok :: "sys \<Rightarrow> ExpressionVariant \<Rightarrow> bool" where
  "expr_ok S (ExprBitwise val) = Bitwise_ok S val"
| "expr_ok S (ExprByteorder val) = Byteorder_ok S val"
| "expr_ok S (ExprCmp val) = Cmp_ok S val"
| "expr_ok S (ExprConntrack val) = Conntrack_ok S val"
| "expr_ok S (ExprCounter val) = Counter_ok S val"
| "expr_ok S (ExprExpressionRaw val) = True"
| "expr_ok S (ExprExtHdr val) = ExtHdr_ok S val"
| "expr_ok S (ExprImmediate val) = Immediate_ok S val"
| "expr_ok S (ExprLog val) = Log_ok S val"
| "expr_ok S (ExprLookup val) = Lookup_ok S val"
| "expr_ok S (ExprMasquerade val) = True"
| "expr_ok S (ExprMeta val) = Meta_ok S val"
| "expr_ok S (ExprNat val) = Nat_ok S val"
| "expr_ok S (ExprPayload val) = Payload_ok S val"
| "expr_ok S (ExprReject val) = Reject_ok S val"
| "expr_ok S (ExprRt val) = Rt_ok S val"

text \<open>
  The name belongs to the data. An expression of unknown kind may have every name that is not
  the name of a known kind; without data every name is admissible, but data need a name.
\<close>

definition name_matches :: "RawExpression \<Rightarrow> bool" where
  "name_matches e \<longleftrightarrow>
     (case expression_data e of
        None \<Rightarrow> True
      | Some (ExprExpressionRaw _) \<Rightarrow>
          (\<exists>n. expression_name e = Some n \<and> n \<notin> set known_names)
      | Some d \<Rightarrow> expression_name e = Some (expr_name d))"

definition RawExpression_ok :: "sys \<Rightarrow> RawExpression \<Rightarrow> bool" where
  "RawExpression_ok S e \<longleftrightarrow>
     pred_option string_ok (expression_name e) \<and> pred_option (expr_ok S) (expression_data e) \<and>
     name_matches e \<and> struct_fits (expression_fields S) e"

lemma wire_ExpressionVariant: "wire (ExpressionVariant_attr S e) = wire (expr_attr S e)"
  by (simp add: wire_def ExpressionVariant_attr_def)

interpretation raw_expr: codec ExpressionRaw_attr ExpressionRaw_deserialize "\<lambda>_. True"
proof (rule copy_codec [of _ False raw_bytes])
  show "ExpressionRaw_deserialize (raw_bytes v) = Ok (v, [])" for v
    by (cases v) (simp add: ExpressionRaw_deserialize_def)
qed (simp add: ExpressionRaw_attr_def bytes_attr_def)

lemma codec_arm:
  assumes "codec attr deser ok" and "ok v"
  shows "expr_arm deser variant (wire (attr v)) = Ok (variant v)"
  using codec.read_back [OF assms] by (simp add: expr_arm_def)

locale expression_abi = expr_abi +
  assumes expression_types: "attr_types_ok [NFTA_EXPR_NAME S, NFTA_EXPR_DATA S]"
begin

lemmas expr_writes = bitwise_expr.writes_attr
  byteorder_expr.writes_attr
  cmp_expr.writes_attr
  ct_expr.writes_attr
  counter_expr.writes_attr
  raw_expr.writes_attr
  exthdr_expr.writes_attr
  immediate_expr.writes_attr
  log_expr.writes_attr
  lookup_expr.writes_attr
  masquerade_expr.writes_attr
  meta_expr.writes_attr
  nat_expr.writes_attr
  payload_expr.writes_attr
  reject_expr.writes_attr
  rt_expr.writes_attr

lemmas expr_safe = bitwise_expr.safe_attr
  byteorder_expr.safe_attr
  cmp_expr.safe_attr
  ct_expr.safe_attr
  counter_expr.safe_attr
  raw_expr.safe_attr
  exthdr_expr.safe_attr
  immediate_expr.safe_attr
  log_expr.safe_attr
  lookup_expr.safe_attr
  masquerade_expr.safe_attr
  meta_expr.safe_attr
  nat_expr.safe_attr
  payload_expr.safe_attr
  reject_expr.safe_attr
  rt_expr.safe_attr

lemmas expr_arms = codec_arm [OF bitwise_expr.codec_axioms]
  codec_arm [OF byteorder_expr.codec_axioms]
  codec_arm [OF cmp_expr.codec_axioms]
  codec_arm [OF ct_expr.codec_axioms]
  codec_arm [OF counter_expr.codec_axioms]
  codec_arm [OF raw_expr.codec_axioms]
  codec_arm [OF exthdr_expr.codec_axioms]
  codec_arm [OF immediate_expr.codec_axioms]
  codec_arm [OF log_expr.codec_axioms]
  codec_arm [OF lookup_expr.codec_axioms]
  codec_arm [OF masquerade_expr.codec_axioms]
  codec_arm [OF meta_expr.codec_axioms]
  codec_arm [OF nat_expr.codec_axioms]
  codec_arm [OF payload_expr.codec_axioms]
  codec_arm [OF reject_expr.codec_axioms]
  codec_arm [OF rt_expr.codec_axioms]

sublocale variant: attribute "ExpressionVariant_attr S"
proof
  fix e
  have "writes (expr_attr S e) (wire (expr_attr S e))" "safe_write (expr_attr S e)"
    by (cases e; simp add: expr_writes expr_safe)+
  then show "writes (ExpressionVariant_attr S e) (wire (ExpressionVariant_attr S e))"
    and "safe_write (ExpressionVariant_attr S e)"
    by (simp_all add: wire_ExpressionVariant) (simp_all add: writes_def safe_write_def
      ExpressionVariant_attr_def)
qed

lemma expr_decode_back:
  assumes "RawExpression_ok S e" and "expression_data e = Some d" and "expression_name e = Some n"
  shows "expr_decode S n (wire (ExpressionVariant_attr S d)) = Ok d"
  using assms
  by (cases d) (auto simp: RawExpression_ok_def name_matches_def wire_ExpressionVariant
      expr_decode_def expr_arms known_names_def raw_expr.read_back)

sublocale expression: nf_struct S "expression_fields S" True
  by unfold_locales (auto simp: expression_fields_def field_writable_def
      rstring.writes_attr rstring.safe_attr variant.writes_attr variant.safe_attr)

lemma expression_decode_all:
  assumes "RawExpression_ok S e"
  shows "decode_all (expression_decode_attribute S) (present (expression_fields S) e)
    RawExpression_default = Ok e"
proof -
  have "NFTA_EXPR_DATA S \<noteq> NFTA_EXPR_NAME S"
    using expression_types by (auto simp: attr_types_ok_def)
  moreover have "String_deserialize (wire (String_attr n)) = Ok (n, [])"
    if "expression_name e = Some n" for n
    using assms that by (intro rstring.read_back) (simp add: RawExpression_ok_def)
  moreover have "expression_name e \<noteq> None" if "expression_data e = Some d" for d
    using assms that by (cases d) (auto simp: RawExpression_ok_def name_matches_def)
  ultimately show ?thesis
    using expr_decode_back [OF assms]
    by (cases "expression_name e"; cases "expression_data e")
      (auto simp: expression_fields_def expression_decode_attribute_def RawExpression_default_def
        ok_or_def)
qed

lemma expression_fits:
  assumes "RawExpression_ok S e"
  shows "\<forall>p\<in>set (present (expression_fields S) e). attr_fits p"
  using assms expression_types expression.present_writes [of _ e]
  by (auto simp: attr_fits_def RawExpression_ok_def struct_fits_def list_all_iff
      expression_fields_def attr_types_ok_def split: option.splits)

sublocale named: codec "RawExpression_attr S" "RawExpression_deserialize S"
    "RawExpression_ok S"
proof
  fix e
  show "writes (RawExpression_attr S e) (wire (RawExpression_attr S e))"
    "safe_write (RawExpression_attr S e)"
    by (simp_all add: RawExpression_attr_def expression.writes_attr expression.safe_attr)
  assume ok: "RawExpression_ok S e"
  then have "read_attributes S (expression_decode_attribute S) RawExpression_default
      (tlvs S (present (expression_fields S) e)) = Ok e"
    by (intro read_attributes_tlvs expression_fits expression_decode_all)
      (simp_all add: RawExpression_ok_def struct_fits_def)
  then show "RawExpression_deserialize S (wire (RawExpression_attr S e)) = Ok (e, [])"
    by (simp add: RawExpression_deserialize_def RawExpression_attr_def expression.struct_wire)
qed

sublocale expression_list: nf_list S "RawExpression_attr S" "RawExpression_deserialize S"
    "RawExpression_ok S"
proof
  show "4 dvd get_size (RawExpression_attr S e)" for e
    using expression.struct_size_dvd [of e] by (simp add: RawExpression_attr_def struct_attr_def)
qed (rule list_elem_type)

end

interpretation linux: expression_abi linux_sys
  by unfold_locales (simp add: attr_types_ok_def)

end
