(* ===== verification/Chains.thy ===== *)
theory Chains
  imports Expressions
begin

text \<open>
  Model of \<open>src/chain.rs\<close> (\<open>list_chains_for_table\<close> is in the theory of the queries). The decoder of
  chain policies maps both kernel values to \<open>Accept\<close>, so a policy is only read back when it is
  \<open>Accept\<close>; \<open>policy_decoded\<close> is what the decoder makes of a policy.
\<close>

type_synonym ChainPriority = i32

datatype HookClass = PreRouting | In | Forward | Out | PostRouting

fun HookClass_value :: "sys \<Rightarrow> HookClass \<Rightarrow> i32" where
  "HookClass_value S PreRouting = word_of_int (NF_INET_PRE_ROUTING S)"
| "HookClass_value S In = word_of_int (NF_INET_LOCAL_IN S)"
| "HookClass_value S Forward = word_of_int (NF_INET_FORWARD S)"
| "HookClass_value S Out = word_of_int (NF_INET_LOCAL_OUT S)"
| "HookClass_value S PostRouting = word_of_int (NF_INET_POST_ROUTING S)"

record Hook =
  hook_class :: "u32 option"
  hook_priority :: "u32 option"

definition Hook_default :: Hook where
  "Hook_default = \<lparr>hook_class = None, hook_priority = None\<rparr>"

definition hook_fields :: "sys \<Rightarrow> Hook field list" where
  "hook_fields S =
     [mk_field (NFTA_HOOK_HOOKNUM S) u32_attr u32_deserialize hook_class hook_class_update,
      mk_field (NFTA_HOOK_PRIORITY S) u32_attr u32_deserialize hook_priority hook_priority_update]"

definition Hook_attr :: "sys \<Rightarrow> Hook \<Rightarrow> attr_obj" where
  "Hook_attr S = struct_attr S True (hook_fields S)"

definition Hook_deserialize :: "sys \<Rightarrow> bytes \<Rightarrow> (Hook \<times> bytes) decoded" where
  "Hook_deserialize S = struct_deserialize S (hook_fields S) Hook_default"

definition Hook_new :: "sys \<Rightarrow> HookClass \<Rightarrow> ChainPriority \<Rightarrow> Hook" where
  "Hook_new S class priority =
     set_field hook_priority_update priority
     (set_field hook_class_update (HookClass_value S class) Hook_default)"

section \<open>Policies and types\<close>

datatype ChainPolicy = PolicyAccept | PolicyDrop

fun ChainPolicy_value :: "sys \<Rightarrow> ChainPolicy \<Rightarrow> i32" where
  "ChainPolicy_value S PolicyAccept = word_of_int (NF_ACCEPT S)"
| "ChainPolicy_value S PolicyDrop = word_of_int (NF_DROP S)"

definition ChainPolicy_attr :: "sys \<Rightarrow> ChainPolicy \<Rightarrow> attr_obj" where
  "ChainPolicy_attr S p =
     \<lparr>is_nested = False, get_size = get_size (i32_attr (ChainPolicy_value S p)),
      write_payload = write_payload (i32_attr (ChainPolicy_value S p))\<rparr>"

definition ChainPolicy_deserialize :: "sys \<Rightarrow> bytes \<Rightarrow> (ChainPolicy \<times> bytes) decoded" where
  "ChainPolicy_deserialize S b =
     bind (i32_deserialize b) (\<lambda>(v, remaining_data).
     if v = word_of_int (NF_ACCEPT S) then Ok (PolicyAccept, remaining_data)
     else if v = word_of_int (NF_DROP S) then Ok (PolicyAccept, remaining_data)
     else Err UnknownChainPolicy)"

datatype ChainType = TypeFilter | TypeRoute | TypeNat

fun ChainType_as_str :: "ChainType \<Rightarrow> rust_string" where
  "ChainType_as_str TypeFilter = str ''filter''"
| "ChainType_as_str TypeRoute = str ''route''"
| "ChainType_as_str TypeNat = str ''nat''"

definition ChainType_attr :: "ChainType \<Rightarrow> attr_obj" where
  "ChainType_attr t =
     \<lparr>is_nested = False, get_size = length (ChainType_as_str t),
      write_payload = write_payload (String_attr (ChainType_as_str t))\<rparr>"

definition ChainType_deserialize :: "bytes \<Rightarrow> (ChainType \<times> bytes) decoded" where
  "ChainType_deserialize b =
     bind (String_deserialize b) (\<lambda>(s, remaining_data).
     if s = str ''filter'' then Ok (TypeFilter, remaining_data)
     else if s = str ''route'' then Ok (TypeRoute, remaining_data)
     else if s = str ''nat'' then Ok (TypeNat, remaining_data)
     else Err UnknownChainType)"

section \<open>Chains\<close>

record Chain =
  chain_family :: ProtocolFamily
  chain_table :: "rust_string option"
  chain_name :: "rust_string option"
  chain_hook :: "Hook option"
  chain_policy :: "ChainPolicy option"
  chain_type :: "ChainType option"
  chain_flags :: "u32 option"
  chain_userdata :: "bytes option"

definition Chain_default :: Chain where
  "Chain_default =
     \<lparr>chain_family = ProtocolFamily_default, chain_table = None, chain_name = None,
      chain_hook = None, chain_policy = None, chain_type = None, chain_flags = None,
      chain_userdata = None\<rparr>"

definition chain_fields :: "sys \<Rightarrow> Chain field list" where
  "chain_fields S =
     [mk_field (NFTA_CHAIN_TABLE S) String_attr String_deserialize chain_table chain_table_update,
      mk_field (NFTA_CHAIN_NAME S) String_attr String_deserialize chain_name chain_name_update,
      mk_field (NFTA_CHAIN_HOOK S) (Hook_attr S) (Hook_deserialize S) chain_hook chain_hook_update,
      mk_field (NFTA_CHAIN_POLICY S) (ChainPolicy_attr S) (ChainPolicy_deserialize S)
        chain_policy chain_policy_update,
      mk_field (NFTA_CHAIN_TYPE S) ChainType_attr ChainType_deserialize
        chain_type chain_type_update,
      mk_field (NFTA_CHAIN_FLAGS S) u32_attr u32_deserialize chain_flags chain_flags_update] @
     optional_field (NFTA_CHAIN_USERDATA S)
       (\<lambda>ty. mk_field ty bytes_attr bytes_deserialize chain_userdata chain_userdata_update)"

definition Chain_new :: "Table \<Rightarrow> Chain" where
  "Chain_new t =
     (let chain = Chain_default\<lparr>chain_family := table_family t\<rparr> in
      case table_name t of
        None \<Rightarrow> chain
      | Some name \<Rightarrow> set_field chain_table_update name chain)"

definition chain_object :: "sys \<Rightarrow> Chain nf_object" where
  "chain_object S =
     \<lparr>MSG_TYPE_ADD = NFT_MSG_NEWCHAIN S, MSG_TYPE_DEL = NFT_MSG_DELCHAIN S,
      get_family = chain_family, set_family = (\<lambda>c family. c\<lparr>chain_family := family\<rparr>),
      get_add_flags = default_add_flags S, get_del_flags = default_del_flags,
      as_attr = struct_attr S False (chain_fields S),
      decode_attribute = struct_decode_attribute (chain_fields S),
      default_obj = Chain_default\<rparr>"

definition chain_add_to_batch :: "sys \<Rightarrow> Chain \<Rightarrow> Batch \<Rightarrow> (Chain \<times> Batch) decoded" where
  "chain_add_to_batch S c b =
     bind (batch_add S (chain_object S) b c Add) (\<lambda>b'. Ok (c, b'))"

section \<open>Chains are objects\<close>

definition Hook_ok :: "sys \<Rightarrow> Hook \<Rightarrow> bool" where
  "Hook_ok S x \<longleftrightarrow> struct_fits (hook_fields S) x"

definition chain_base_ok :: "sys \<Rightarrow> Chain \<Rightarrow> bool" where
  "chain_base_ok S c \<longleftrightarrow>
     chain_family c = FamUnspec \<and> pred_option string_ok (chain_table c) \<and>
     pred_option string_ok (chain_name c) \<and> pred_option (Hook_ok S) (chain_hook c) \<and>
     pred_option (\<lambda>p. p \<noteq> PolicyDrop) (chain_policy c) \<and>
     (NFTA_CHAIN_USERDATA S = None \<longrightarrow> chain_userdata c = None)"

definition chain_ok :: "sys \<Rightarrow> Chain \<Rightarrow> bool" where
  "chain_ok S c \<longleftrightarrow>
     chain_base_ok S (c\<lparr>chain_family := FamUnspec\<rparr>) \<and> struct_fits (chain_fields S) c"

lemma ChainPolicy_wire: "wire (ChainPolicy_attr S p) = wire (i32_attr (ChainPolicy_value S p))"
  by (simp add: wire_def ChainPolicy_attr_def)

lemma ChainPolicy_decoded:
  "ChainPolicy_deserialize S (wire (ChainPolicy_attr S p)) = Ok (PolicyAccept, [])"
  by (cases p) (simp_all add: ChainPolicy_deserialize_def ChainPolicy_wire i32.read_back)

interpretation policy: codec "ChainPolicy_attr S" "ChainPolicy_deserialize S"
    "\<lambda>p. p \<noteq> PolicyDrop" for S
proof
  fix p
  show "writes (ChainPolicy_attr S p) (wire (ChainPolicy_attr S p))"
    using i32.writes_attr [of "ChainPolicy_value S p"]
    by (simp add: ChainPolicy_wire) (simp add: writes_def ChainPolicy_attr_def)
  show "safe_write (ChainPolicy_attr S p)"
    using i32.safe_attr [of "ChainPolicy_value S p"]
    by (simp add: safe_write_def ChainPolicy_attr_def)
  show "p \<noteq> PolicyDrop \<Longrightarrow>
      ChainPolicy_deserialize S (wire (ChainPolicy_attr S p)) = Ok (p, [])"
    by (cases p) (simp_all add: ChainPolicy_decoded)
qed

lemma ChainType_string:
  "String_deserialize (str ''filter'') = Ok (str ''filter'', [])"
  "String_deserialize (str ''route'') = Ok (str ''route'', [])"
  "String_deserialize (str ''nat'') = Ok (str ''nat'', [])"
  by (rule String_deserialize_ok, simp add: string_ok_def str_def utf8_valid_ascii)+

interpretation ctype: codec ChainType_attr ChainType_deserialize "\<lambda>_. True"
proof (rule copy_codec [of _ False ChainType_as_str])
  show "ChainType_deserialize (ChainType_as_str t) = Ok (t, [])" for t
    by (cases t) (simp_all add: ChainType_deserialize_def ChainType_string)
qed (simp add: ChainType_attr_def String_attr_def)

locale chain_abi = table_abi +
  assumes hook_types: "attr_types_ok [NFTA_HOOK_HOOKNUM S, NFTA_HOOK_PRIORITY S]"
    and chain_types: "attr_types_ok ([NFTA_CHAIN_TABLE S, NFTA_CHAIN_NAME S, NFTA_CHAIN_HOOK S,
      NFTA_CHAIN_POLICY S, NFTA_CHAIN_TYPE S, NFTA_CHAIN_FLAGS S] @
      (case NFTA_CHAIN_USERDATA S of None \<Rightarrow> [] | Some ty \<Rightarrow> [ty]))"
    and chain_msgs: "NFT_MSG_NEWCHAIN S < 16" "NFT_MSG_DELCHAIN S < 16"
begin

sublocale hook: codec "Hook_attr S" "Hook_deserialize S" "Hook_ok S"
  by (rule struct_codecI [where fs = "hook_fields S" and base = "\<lambda>_. True"])
    (use hook_types netlink_abi_axioms in \<open>auto simp: hook_fields_def Hook_default_def
      Hook_attr_def Hook_deserialize_def Hook_ok_def struct_simps\<close>)

sublocale chain: nf_struct_obj S "chain_fields S" False Chain_default "chain_base_ok S"
    "chain_object S" "chain_ok S"
  by unfold_locales
    (use chain_types chain_msgs in \<open>auto simp: chain_fields_def optional_field_def
      chain_base_ok_def chain_ok_def chain_object_def Chain_default_def ProtocolFamily_default_def
      default_add_flags_def default_del_flags_def present_def struct_simps abi
      split: option.splits\<close>)

end

interpretation linux: chain_abi linux_sys
  by unfold_locales (simp_all add: attr_types_ok_def)

end
