(* ===== verification/Rules.thy ===== *)
theory Rules
  imports Chains
begin

text \<open>
  Model of \<open>src/rule.rs\<close> (\<open>list_rules_for_chain\<close> is in the theory of the queries): rules, how
  expressions are appended to them, and that admissible rules are objects.
\<close>

record Rule =
  rule_family :: ProtocolFamily
  rule_table :: "rust_string option"
  rule_chain :: "rust_string option"
  rule_handle :: "u64 option"
  rule_expressions :: "ExpressionList option"
  rule_position :: "u64 option"
  rule_userdata :: "bytes option"
  rule_id :: "u32 option"

definition Rule_default :: Rule where
  "Rule_default =
     \<lparr>rule_family = ProtocolFamily_default, rule_table = None, rule_chain = None,
      rule_handle = None, rule_expressions = None, rule_position = None, rule_userdata = None,
      rule_id = None\<rparr>"

definition rule_fields :: "sys \<Rightarrow> Rule field list" where
  "rule_fields S =
     [mk_field (NFTA_RULE_TABLE S) String_attr String_deserialize rule_table rule_table_update,
      mk_field (NFTA_RULE_CHAIN S) String_attr String_deserialize rule_chain rule_chain_update,
      mk_field (NFTA_RULE_HANDLE S) u64_attr u64_deserialize rule_handle rule_handle_update,
      mk_field (NFTA_RULE_EXPRESSIONS S) (ExpressionList_attr S) (ExpressionList_deserialize S)
        rule_expressions rule_expressions_update,
      mk_field (NFTA_RULE_POSITION S) u64_attr u64_deserialize rule_position rule_position_update,
      mk_field (NFTA_RULE_USERDATA S) bytes_attr bytes_deserialize
        rule_userdata rule_userdata_update,
      mk_field (NFTA_RULE_ID S) u32_attr u32_deserialize rule_id rule_id_update]"

text \<open>The trait implementation replaces the flags for adding: append instead of prepend.\<close>

definition rule_get_add_flags :: "sys \<Rightarrow> Rule \<Rightarrow> u32" where
  "rule_get_add_flags S r = NLM_F_CREATE S OR NLM_F_APPEND S"

definition rule_object :: "sys \<Rightarrow> Rule nf_object" where
  "rule_object S =
     \<lparr>MSG_TYPE_ADD = NFT_MSG_NEWRULE S, MSG_TYPE_DEL = NFT_MSG_DELRULE S,
      get_family = rule_family, set_family = (\<lambda>r family. r\<lparr>rule_family := family\<rparr>),
      get_add_flags = rule_get_add_flags S, get_del_flags = default_del_flags,
      as_attr = struct_attr S False (rule_fields S),
      decode_attribute = struct_decode_attribute (rule_fields S),
      default_obj = Rule_default\<rparr>"

definition Rule_new :: "sys \<Rightarrow> Chain \<Rightarrow> Rule built" where
  "Rule_new S c =
     (let r = with_family (rule_object S) Rule_default (chain_family c) in
      bind (ok_or (chain_table c) MissingChainInformationError) (\<lambda>tname.
      let r1 = set_field rule_table_update tname r in
      bind (ok_or (chain_name c) MissingChainInformationError) (\<lambda>cname.
      Ok (set_field rule_chain_update cname r1))))"

definition add_expr :: "Rule \<Rightarrow> RawExpression \<Rightarrow> Rule" where
  "add_expr r e =
     (case rule_expressions r of
        Some x \<Rightarrow> r\<lparr>rule_expressions := Some (add_value x e)\<rparr>
      | None \<Rightarrow> (set_field rule_expressions_update [] r)\<lparr>rule_expressions := Some (add_value [] e)\<rparr>)"

definition with_expr :: "Rule \<Rightarrow> RawExpression \<Rightarrow> Rule" where
  "with_expr r e = add_expr r e"

definition rule_add_to_batch :: "sys \<Rightarrow> Rule \<Rightarrow> Batch \<Rightarrow> (Rule \<times> Batch) decoded" where
  "rule_add_to_batch S r b =
     bind (batch_add S (rule_object S) b r Add) (\<lambda>b'. Ok (r, b'))"

section \<open>Appending expressions\<close>

text \<open>The expressions of a rule as a list; a rule without the attribute has none.\<close>

definition exprs_of :: "Rule \<Rightarrow> ExpressionList" where
  "exprs_of r = (case rule_expressions r of None \<Rightarrow> [] | Some es \<Rightarrow> es)"

definition add_exprs :: "Rule \<Rightarrow> ExpressionList \<Rightarrow> Rule" where
  "add_exprs r es = (if es = [] then r else r\<lparr>rule_expressions := Some (exprs_of r @ es)\<rparr>)"

lemma add_expr_eq: "add_expr r e = add_exprs r [e]"
  by (simp add: add_expr_def add_exprs_def exprs_of_def add_value_def set_field_def
      split: option.splits)

lemma exprs_of_update [simp]: "exprs_of (r\<lparr>rule_expressions := Some es\<rparr>) = es"
  by (simp add: exprs_of_def)

lemma add_exprs_append [simp]: "add_exprs (add_exprs r es) es' = add_exprs r (es @ es')"
  by (simp add: add_exprs_def)

lemma exprs_of_add [simp]: "exprs_of (add_exprs r es) = exprs_of r @ es"
  by (simp add: add_exprs_def)

lemma add_exprs_same [simp]:
  "rule_family (add_exprs r es) = rule_family r" "rule_table (add_exprs r es) = rule_table r"
  "rule_chain (add_exprs r es) = rule_chain r" "rule_handle (add_exprs r es) = rule_handle r"
  "rule_position (add_exprs r es) = rule_position r"
  "rule_userdata (add_exprs r es) = rule_userdata r" "rule_id (add_exprs r es) = rule_id r"
  by (simp_all add: add_exprs_def)

section \<open>Rules are objects\<close>

definition ExpressionList_ok :: "sys \<Rightarrow> ExpressionList \<Rightarrow> bool" where
  "ExpressionList_ok S = list_ok S (RawExpression_attr S) (RawExpression_ok S)"

definition rule_base_ok :: "sys \<Rightarrow> Rule \<Rightarrow> bool" where
  "rule_base_ok S r \<longleftrightarrow>
     rule_family r = FamUnspec \<and> pred_option string_ok (rule_table r) \<and>
     pred_option string_ok (rule_chain r) \<and> pred_option (ExpressionList_ok S) (rule_expressions r)"

definition rule_ok :: "sys \<Rightarrow> Rule \<Rightarrow> bool" where
  "rule_ok S r \<longleftrightarrow>
     rule_base_ok S (r\<lparr>rule_family := FamUnspec\<rparr>) \<and> struct_fits (rule_fields S) r"

locale rule_abi = expression_abi + chain_abi +
  assumes rule_types: "attr_types_ok [NFTA_RULE_TABLE S, NFTA_RULE_CHAIN S, NFTA_RULE_HANDLE S,
      NFTA_RULE_EXPRESSIONS S, NFTA_RULE_POSITION S, NFTA_RULE_USERDATA S, NFTA_RULE_ID S]"
    and rule_msgs: "NFT_MSG_NEWRULE S < 16" "NFT_MSG_DELRULE S < 16"
begin

sublocale expressions: codec "ExpressionList_attr S" "ExpressionList_deserialize S"
    "ExpressionList_ok S"
  using expression_list.codec_axioms
  by (simp add: ExpressionList_attr_def ExpressionList_deserialize_def ExpressionList_ok_def)

sublocale rule: nf_struct_obj S "rule_fields S" False Rule_default "rule_base_ok S"
    "rule_object S" "rule_ok S"
  by unfold_locales
    (use rule_types rule_msgs in \<open>auto simp: rule_fields_def rule_base_ok_def rule_ok_def
      rule_object_def Rule_default_def ProtocolFamily_default_def rule_get_add_flags_def
      default_del_flags_def present_def struct_simps abi\<close>)

end

interpretation linux: rule_abi linux_sys
  by unfold_locales (simp_all add: attr_types_ok_def)

end
