(* ===== verification/RuleMethods.thy ===== *)
theory RuleMethods
  imports Rules
begin

text \<open>
  Model of \<open>src/rule_methods.rs\<close>: the builder methods of a rule. Two things are not code of the
  repository and are parameters: the type \<open>IpNetwork\<close> of the crate \<open>ipnetwork\<close> (the record
  \<open>IpNetwork\<close> of the functions the code uses, with their documented behaviour in the locale
  \<open>ip_network\<close> of the theory \<open>BuiltRules\<close>) and the C function \<open>if_nametoindex\<close>.

  Every method only appends expressions. The theory \<open>BuiltRules\<close> shows that each of them is
  admissible and that the rules that can be built with the methods survive the trip through a
  message; the theory \<open>RuleSemantics\<close> shows what they mean.
\<close>

datatype Protocol = TCP | UDP

record 'n IpNetwork =
  net_is_v4 :: "'n \<Rightarrow> bool"
  net_mask :: "'n \<Rightarrow> IpAddr"
  net_network :: "'n \<Rightarrow> IpAddr"

abbreviation expr :: "ExpressionVariant \<Rightarrow> RawExpression" where
  "expr e \<equiv> RawExpression_from e"

section \<open>Methods\<close>

definition protocol :: "sys \<Rightarrow> Rule \<Rightarrow> Protocol \<Rightarrow> Rule" where
  "protocol S r p =
     (let r1 = add_expr r (expr (ExprMeta (Meta_new MetaL4Proto))) in
      add_expr r1 (expr (ExprCmp (Cmp_new CmpEq
        [word_of_int (case p of TCP \<Rightarrow> IPPROTO_TCP S | UDP \<Rightarrow> IPPROTO_UDP S)]))))"

definition match_port :: "sys \<Rightarrow> Rule \<Rightarrow> u16 \<Rightarrow> Protocol \<Rightarrow> bool \<Rightarrow> Rule" where
  "match_port S r port p source =
     (let r1 = protocol S r p;
          r2 = add_expr r1 (expr (ExprPayload (HighLevelPayload_build S (HlTransport
            (case p of
               TCP \<Rightarrow> TransTcp (if source then TCPSport else TCPDport)
             | UDP \<Rightarrow> TransUdp (if source then UDPSport else UDPDport)))))) in
      add_expr r2 (expr (ExprCmp (Cmp_new CmpEq (be_bytes 2 port)))))"

definition match_ip :: "sys \<Rightarrow> Rule \<Rightarrow> IpAddr \<Rightarrow> bool \<Rightarrow> Rule" where
  "match_ip S r ip source =
     (let r1 = add_expr r (expr (ExprMeta (Meta_new MetaNfProto))) in
      case ip of
        V4 addr \<Rightarrow>
          let r2 = add_expr r1 (expr (ExprCmp (Cmp_new CmpEq [word_of_int (NFPROTO_IPV4 S)])));
              r3 = add_expr r2 (expr (ExprPayload (HighLevelPayload_build S (HlNetwork (NetIPv4
                (if source then IPv4Saddr else IPv4Daddr)))))) in
          add_expr r3 (expr (ExprCmp (Cmp_new CmpEq (octets4 addr))))
      | V6 addr \<Rightarrow>
          let r2 = add_expr r1 (expr (ExprCmp (Cmp_new CmpEq [word_of_int (NFPROTO_IPV6 S)])));
              r3 = add_expr r2 (expr (ExprPayload (HighLevelPayload_build S (HlNetwork (NetIPv6
                (if source then IPv6Saddr else IPv6Daddr)))))) in
          add_expr r3 (expr (ExprCmp (Cmp_new CmpEq (octets6 addr)))))"

definition match_network :: "sys \<Rightarrow> 'n IpNetwork \<Rightarrow> Rule \<Rightarrow> 'n \<Rightarrow> bool \<Rightarrow> Rule built" where
  "match_network S N r net source =
     (let r1 = add_expr r (expr (ExprMeta (Meta_new MetaNfProto))) in
      bind
        (if net_is_v4 N net then
           let r2 = add_expr r1 (expr (ExprCmp (Cmp_new CmpEq [word_of_int (NFPROTO_IPV4 S)])));
               r3 = add_expr r2 (expr (ExprPayload (HighLevelPayload_build S (HlNetwork (NetIPv4
                 (if source then IPv4Saddr else IPv4Daddr)))))) in
           bind (Bitwise_new (ip_to_vec (net_mask N net)) (be_bytes 4 (0 :: u32))) (\<lambda>b.
           Ok (add_expr r3 (expr (ExprBitwise b))))
         else
           let r2 = add_expr r1 (expr (ExprCmp (Cmp_new CmpEq [word_of_int (NFPROTO_IPV6 S)])));
               r3 = add_expr r2 (expr (ExprPayload (HighLevelPayload_build S (HlNetwork (NetIPv6
                 (if source then IPv6Saddr else IPv6Daddr)))))) in
           bind (Bitwise_new (ip_to_vec (net_mask N net)) (be_bytes 16 (0 :: 128 word))) (\<lambda>b.
           Ok (add_expr r3 (expr (ExprBitwise b)))))
        (\<lambda>r4. Ok (add_expr r4 (expr (ExprCmp (Cmp_new CmpEq (ip_to_vec (net_network N net))))))))"

definition icmp :: "sys \<Rightarrow> Rule \<Rightarrow> Rule" where
  "icmp S r =
     (let r1 = add_expr r (expr (ExprMeta (Meta_new MetaL4Proto))) in
      add_expr r1 (expr (ExprCmp (Cmp_new CmpEq [word_of_int (IPPROTO_ICMP S)]))))"

definition icmpv6_rule :: "sys \<Rightarrow> Rule \<Rightarrow> Rule" where
  "icmpv6_rule S r =
     (let r1 = add_expr r (expr (ExprMeta (Meta_new MetaL4Proto))) in
      add_expr r1 (expr (ExprCmp (Cmp_new CmpEq [word_of_int (IPPROTO_ICMPV6 S)]))))"

definition igmp :: "sys \<Rightarrow> Rule \<Rightarrow> Rule" where
  "igmp S r =
     (let r1 = add_expr r (expr (ExprMeta (Meta_new MetaL4Proto))) in
      add_expr r1 (expr (ExprCmp (Cmp_new CmpEq [word_of_int (IPPROTO_IGMP S)]))))"

definition ip6in4 :: "sys \<Rightarrow> Rule \<Rightarrow> Rule" where
  "ip6in4 S r =
     (let r1 = add_expr r (expr (ExprMeta (Meta_new MetaNfProto)));
          r2 = add_expr r1 (expr (ExprCmp (Cmp_new CmpEq [word_of_int (NFPROTO_IPV4 S)])));
          r3 = add_expr r2
            (expr (ExprPayload (HighLevelPayload_build S (HlNetwork (NetIPv4 IPv4Protocol))))) in
      add_expr r3 (expr (ExprCmp (Cmp_new CmpEq [41]))))"

definition sport :: "sys \<Rightarrow> Rule \<Rightarrow> u16 \<Rightarrow> Protocol \<Rightarrow> Rule" where
  "sport S r port p = match_port S r port p False"

definition dport :: "sys \<Rightarrow> Rule \<Rightarrow> u16 \<Rightarrow> Protocol \<Rightarrow> Rule" where
  "dport S r port p = match_port S r port p False"

definition established :: "Rule \<Rightarrow> Rule built" where
  "established r =
     (let allowed_states = ESTABLISHED;
          r1 = add_expr r (expr (ExprConntrack (Conntrack_new CtState))) in
      bind (Bitwise_new (le_bytes 4 allowed_states) (be_bytes 4 (0 :: u32))) (\<lambda>b.
      let r2 = add_expr r1 (expr (ExprBitwise b)) in
      Ok (add_expr r2 (expr (ExprCmp (Cmp_new CmpNeq (be_bytes 4 (0 :: u32))))))))"

definition iface_id :: "Rule \<Rightarrow> u32 \<Rightarrow> Rule" where
  "iface_id r iface_index =
     (let r1 = add_expr r (expr (ExprMeta (Meta_new MetaIif))) in
      add_expr r1 (expr (ExprCmp (Cmp_new CmpEq (be_bytes 4 iface_index)))))"

definition iface :: "sys \<Rightarrow> Rule \<Rightarrow> rust_string \<Rightarrow> Rule built" where
  "iface S r iface_name =
     (if length iface_name \<ge> IFNAMSIZ S then Err InterfaceNameTooLong
      else
        let iface_vec = iface_name @ [0];
            r1 = add_expr r (expr (ExprMeta (Meta_new MetaIifName))) in
        Ok (add_expr r1 (expr (ExprCmp (Cmp_new CmpEq iface_vec)))))"

definition oface_id :: "Rule \<Rightarrow> u32 \<Rightarrow> Rule" where
  "oface_id r oface_index =
     (let r1 = add_expr r (expr (ExprMeta (Meta_new MetaOif))) in
      add_expr r1 (expr (ExprCmp (Cmp_new CmpEq (be_bytes 4 oface_index)))))"

definition oface :: "sys \<Rightarrow> Rule \<Rightarrow> rust_string \<Rightarrow> Rule built" where
  "oface S r oface_name =
     (if length oface_name \<ge> IFNAMSIZ S then Err InterfaceNameTooLong
      else
        let oface_vec = oface_name @ [0];
            r1 = add_expr r (expr (ExprMeta (Meta_new MetaOifName))) in
        Ok (add_expr r1 (expr (ExprCmp (Cmp_new CmpEq oface_vec)))))"

definition saddr :: "sys \<Rightarrow> Rule \<Rightarrow> IpAddr \<Rightarrow> Rule" where
  "saddr S r ip = match_ip S r ip True"

definition daddr :: "sys \<Rightarrow> Rule \<Rightarrow> IpAddr \<Rightarrow> Rule" where
  "daddr S r ip = match_ip S r ip False"

definition snetwork :: "sys \<Rightarrow> 'n IpNetwork \<Rightarrow> Rule \<Rightarrow> 'n \<Rightarrow> Rule built" where
  "snetwork S N r net = match_network S N r net True"

definition dnetwork :: "sys \<Rightarrow> 'n IpNetwork \<Rightarrow> Rule \<Rightarrow> 'n \<Rightarrow> Rule built" where
  "dnetwork S N r net = match_network S N r net False"

definition accept :: "Rule \<Rightarrow> Rule" where
  "accept r = add_expr r (expr (ExprImmediate (Immediate_new_verdict Accept)))"

definition drop_packet :: "Rule \<Rightarrow> Rule" where
  "drop_packet r = add_expr r (expr (ExprImmediate (Immediate_new_verdict Drop)))"

definition masquerade :: "Rule \<Rightarrow> Rule" where
  "masquerade r = add_expr r (expr (ExprMasquerade Masquerade))"

definition dnat :: "Rule \<Rightarrow> IpAddr \<Rightarrow> u16 option \<Rightarrow> Rule" where
  "dnat r dst port =
     (let r1 = add_expr r (expr (ExprImmediate (Immediate_new_data (ip_to_vec dst) Reg1)));
          r2 = (case port of
            None \<Rightarrow> r1
          | Some p \<Rightarrow> add_expr r1 (expr (ExprImmediate (Immediate_new_data (be_bytes 2 p) Reg2)))) in
      add_expr r2 (expr (ExprNat
        \<lparr>nat_nat_type = Some DNat, nat_family = Some FamIpv4, nat_ip_register = Some Reg1,
         nat_port_register = map_option (\<lambda>_. Reg2) port\<rparr>)))"

definition tcp_mss_option :: ExtHdr where
  "tcp_mss_option =
     set_field exthdr_op_update ExtHdrTCPOpt
     (set_field exthdr_len_update 2
     (set_field exthdr_offset_update 2
     (set_field exthdr_typ_update 2
     (set_field exthdr_sreg_update Reg1 ExtHdr_default))))"

definition set_mss :: "Rule \<Rightarrow> u16 \<Rightarrow> Rule" where
  "set_mss r mss =
     (let r1 = add_expr r (expr (ExprImmediate (Immediate_new_data (be_bytes 2 mss) Reg1))) in
      add_expr r1 (expr (ExprExtHdr tcp_mss_option)))"

definition clamp_mss_to_pmtu :: "Rule \<Rightarrow> Rule" where
  "clamp_mss_to_pmtu r =
     (let r1 = add_expr r (expr (ExprRt
            (set_field rt_key_update TCPMSS (set_field rt_dreg_update Reg1 Rt_default))));
          r2 = add_expr r1 (expr (ExprByteorder
            (set_field byteorder_siz_update 2
            (set_field byteorder_len_update 2
            (set_field byteorder_op_update HtoN
            (set_field byteorder_dreg_update Reg1
            (set_field byteorder_sreg_update Reg1 Byteorder_default))))))) in
      add_expr r2 (expr (ExprExtHdr tcp_mss_option)))"

definition syn :: "sys \<Rightarrow> Rule \<Rightarrow> Rule built" where
  "syn S r =
     (let r1 = add_expr r (expr (ExprPayload
            (set_field payload_dreg_update Reg1
            (set_field payload_len_update 1
            (set_field payload_offset_update 13
            (set_field payload_base_update (NFT_PAYLOAD_TRANSPORT_HEADER S) Payload_default)))))) in
      bind (Bitwise_new (be_bytes 1 (2 :: u8)) (be_bytes 1 (0 :: u8))) (\<lambda>b.
      let r2 = add_expr r1 (expr (ExprBitwise b)) in
      Ok (add_expr r2 (expr (ExprCmp (Cmp_new CmpNeq (be_bytes 1 (0 :: u8))))))))"

text \<open>
  \<open>iface_index\<close>: the parameter is the C function, which gives the index (0 on failure) and the
  error number it leaves.
\<close>

datatype IoError = NulInName | OsError errno

definition iface_index ::
  "(bytes \<Rightarrow> u32 \<times> errno) \<Rightarrow> rust_string \<Rightarrow> (IoError, u32) outcome" where
  "iface_index if_nametoindex name =
     (if 0 \<in> set name then Err NulInName
      else
        let (index, last_os_error) = if_nametoindex (name @ [0]) in
        if index = 0 then Err (OsError last_os_error) else Ok index)"

end
