(* ===== verification/Queries.thy ===== *)
theory Queries
  imports RuleMethods
begin

text \<open>
  Model of \<open>src/query.rs\<close>, of \<open>Batch::send\<close> and of the three listing functions
  (\<open>list_tables\<close>, \<open>list_chains_for_table\<close>, \<open>list_rules_for_chain\<close>).

  The operating system is a parameter, the record \<open>kernel\<close>: what \<open>socket\<close>, \<open>bind\<close> and \<open>close\<close>
  return, and the results of the successive calls of \<open>send\<close> and \<open>recv\<close>. A call for which the
  list of results is exhausted blocks for ever and is \<open>Diverge\<close>. The functions that use a
  socket return, besides their result, the list of the system calls that they made.

  The buffer of \<open>recv_and_process\<close> is the explicit state \<open>recv_state\<close>; one round of its outer
  loop is \<open>recv_round\<close>, the inner loop is \<open>process_messages\<close>.
\<close>

section \<open>Receiving\<close>

datatype recv_result = Received bytes | RecvError errno

record 't recv_state =
  msg_buffer :: bytes
  buf_start :: nat
  end_pos :: nat
  working_data :: 't

text \<open>How a loop goes on: return with the working data, or continue with a new state.\<close>

datatype ('t, 's) progress = Finished 't | Next 's

text \<open>The match on the kind of a message; \<open>None\<close> is the end of the stream.\<close>

fun handle_message ::
  "(bytes \<Rightarrow> 't \<Rightarrow> 't queried) option \<Rightarrow> bytes \<Rightarrow> nlmsghdr \<Rightarrow> NlMsg \<Rightarrow> 't \<Rightarrow> 't option queried" where
  "handle_message cb b hdr NlDone data = Ok None"
| "handle_message cb b hdr (NlError e) data =
     (if nlmsgerr_error e \<noteq> 0 then Err (NetlinkError e) else Ok (Some data))"
| "handle_message cb b hdr NlNoop data = Ok (Some data)"
| "handle_message cb b hdr (NfGenMsg genmsg content) data =
     (case cb of
        None \<Rightarrow> Ok (Some data)
      | Some f \<Rightarrow>
          bind (slice_range b 0 (unat (nlmsg_len hdr))) (\<lambda>m.
          bind (f m data) (\<lambda>data'. Ok (Some data'))))"

text \<open>One round of the inner loop; \<open>Next\<close> carries the number of bytes to skip.\<close>

definition process_message ::
  "sys \<Rightarrow> u32 option \<Rightarrow> (bytes \<Rightarrow> 't \<Rightarrow> 't queried) option \<Rightarrow> bytes \<Rightarrow> 't \<Rightarrow>
   ('t, nat \<times> 't) progress queried" where
  "process_message S max_seq cb b data =
     bind (map_err ProcessNetlinkError (parse_nlmsg S b)) (\<lambda>(hdr, m).
     bind (handle_message cb b hdr m data) (\<lambda>handled.
     case handled of
       None \<Rightarrow> Ok (Finished data)
     | Some data' \<Rightarrow>
         if max_seq = None \<and> nlmsg_flags hdr AND word_of_int (NLM_F_MULTI S) = 0
         then Err UndecidableMessageTermination
         else if (case max_seq of None \<Rightarrow> False | Some limit \<Rightarrow> limit \<le> nlmsg_seq hdr)
         then Ok (Finished data')
         else Ok (Next (pad_netlink_object_with_variable_size S (unat (nlmsg_len hdr)), data'))))"

function process_messages ::
  "sys \<Rightarrow> u32 option \<Rightarrow> (bytes \<Rightarrow> 't \<Rightarrow> 't queried) option \<Rightarrow> bytes \<Rightarrow> nat \<Rightarrow> nat \<Rightarrow> 't \<Rightarrow>
   ('t, nat \<times> 't) progress queried" where
  "process_messages S max_seq cb buffer start stop data =
     bind (slice_range buffer start stop) (\<lambda>b.
     if length b = 0 then Ok (Next (start, data))
     else
       bind (process_message S max_seq cb b data) (\<lambda>p. case p of
         Finished data' \<Rightarrow> Ok (Finished data')
       | Next (aligned_length, data') \<Rightarrow>
           if 0 < aligned_length
           then process_messages S max_seq cb buffer (start + aligned_length) stop data'
           else Diverge))"
  by pat_completeness auto
termination
  by (relation "measure (\<lambda>(S, max_seq, cb, buffer, start, stop, data). length buffer - start)")
    (auto simp: slice_range_eq_Ok)

declare process_messages.simps [simp del]

text \<open>
  \<open>recv\<close> into the free part of the buffer: a datagram that does not fit is cut.
\<close>

definition recv_into :: "bytes \<Rightarrow> nat \<Rightarrow> bytes \<Rightarrow> bytes \<times> nat" where
  "recv_into buffer pos datagram =
     (let n = min (length datagram) (length buffer - pos) in
      (take pos buffer @ take n datagram @ drop (pos + n) buffer, n))"

text \<open>\<open>buffer.copy_within(start..stop, 0)\<close>\<close>

definition copy_within :: "bytes \<Rightarrow> nat \<Rightarrow> nat \<Rightarrow> bytes queried" where
  "copy_within buffer start stop =
     bind (slice_range buffer start stop) (\<lambda>src. Ok (src @ drop (length src) buffer))"

text \<open>The end of a round: make room for the largest message.\<close>

definition make_room :: "nat \<Rightarrow> bytes \<Rightarrow> nat \<Rightarrow> nat \<Rightarrow> 't \<Rightarrow> 't recv_state queried" where
  "make_room maxsize buffer start stop data =
     (if stop \<ge> maxsize then
        bind (if start < stop then copy_within buffer start stop else Ok buffer) (\<lambda>buffer'.
        bind (usize_sub stop start) (\<lambda>stop'.
        Ok \<lparr>msg_buffer = buffer', buf_start = 0, end_pos = stop', working_data = data\<rparr>))
      else
        Ok \<lparr>msg_buffer = buffer, buf_start = start, end_pos = stop, working_data = data\<rparr>)"

definition recv_round ::
  "sys \<Rightarrow> nat \<Rightarrow> u32 option \<Rightarrow> (bytes \<Rightarrow> 't \<Rightarrow> 't queried) option \<Rightarrow> 't recv_state \<Rightarrow>
   recv_result \<Rightarrow> ('t, 't recv_state) progress queried" where
  "recv_round S maxsize max_seq cb st r =
     bind (slice_from (msg_buffer st) (end_pos st)) (\<lambda>_.
     case r of
       RecvError e \<Rightarrow> Err (NetlinkRecvError e)
     | Received datagram \<Rightarrow>
         let (buffer, nb_recv) = recv_into (msg_buffer st) (end_pos st) datagram in
         if nb_recv \<le> 0 then Ok (Finished (working_data st))
         else
           let stop = end_pos st + nb_recv in
           bind (process_messages S max_seq cb buffer (buf_start st) stop (working_data st))
             (\<lambda>p. case p of
                Finished data \<Rightarrow> Ok (Finished data)
              | Next (start, data) \<Rightarrow>
                  bind (make_room maxsize buffer start stop data) (\<lambda>st'. Ok (Next st'))))"

fun recv_loop ::
  "sys \<Rightarrow> nat \<Rightarrow> u32 option \<Rightarrow> (bytes \<Rightarrow> 't \<Rightarrow> 't queried) option \<Rightarrow> recv_result list \<Rightarrow>
   't recv_state \<Rightarrow> 't queried" where
  "recv_loop S maxsize max_seq cb [] st = Diverge"
| "recv_loop S maxsize max_seq cb (r # rs) st =
     bind (recv_round S maxsize max_seq cb st r) (\<lambda>p. case p of
       Finished data \<Rightarrow> Ok data
     | Next st' \<Rightarrow> recv_loop S maxsize max_seq cb rs st')"

definition recv_and_process ::
  "sys \<Rightarrow> int \<Rightarrow> recv_result list \<Rightarrow> u32 option \<Rightarrow> (bytes \<Rightarrow> 't \<Rightarrow> 't queried) option \<Rightarrow> 't \<Rightarrow>
   't queried" where
  "recv_and_process S pagesize recvs max_seq cb data =
     bind (nft_nlmsg_maxsize pagesize) (\<lambda>maxsize.
     recv_loop S (unat maxsize) max_seq cb recvs
       \<lparr>msg_buffer = replicate (2 * unat maxsize) 0, buf_start = 0, end_pos = 0,
        working_data = data\<rparr>)"

section \<open>Sockets\<close>

record kernel =
  open_result :: "errno + nat"
  bind_result :: "errno option"
  send_results :: "(errno + nat) list"
  recv_results :: "recv_result list"
  close_result :: "errno option"

datatype syscall = Socket nat | Bind nat | Send nat bytes | Close nat

definition socket_close_wrapper ::
  "kernel \<Rightarrow> nat \<Rightarrow> 't queried \<Rightarrow> 't queried \<times> syscall list" where
  "socket_close_wrapper K sock ret =
     (case ret of
        Panic \<Rightarrow> (Panic, []) | UB \<Rightarrow> (UB, []) | Diverge \<Rightarrow> (Diverge, [])
      | _ \<Rightarrow>
          (case close_result K of
             Some e \<Rightarrow> (Err (CloseFailed e), [Close sock])
           | None \<Rightarrow> (ret, [Close sock])))"

definition get_list_of_objects :: "sys \<Rightarrow> u16 \<Rightarrow> u32 \<Rightarrow> attr_obj option \<Rightarrow> bytes queried" where
  "get_list_of_objects S msg_type seq flt =
     bind (write_header S (writer_new []) msg_type FamUnspec (word_of_int (NLM_F_DUMP S)) seq None)
       (\<lambda>w1.
     bind (case flt of
             None \<Rightarrow> Ok w1
           | Some obj \<Rightarrow>
               bind (add_data_zeroed S w1 (get_size obj)) (\<lambda>(w2, start, n).
               map_err ProcessNetlinkError (update_slice w2 start n (write_payload obj))))
       (\<lambda>w3.
     Ok (w_buf (finalize_writing_object w3))))"

definition list_objects_with_data ::
  "sys \<Rightarrow> int \<Rightarrow> kernel \<Rightarrow> 'o nf_object \<Rightarrow> u16 \<Rightarrow> ('o \<Rightarrow> 't \<Rightarrow> 't queried) \<Rightarrow> 'o option \<Rightarrow> 't \<Rightarrow>
   't queried \<times> syscall list" where
  "list_objects_with_data S pagesize K T data_type cb flt data =
     (case open_result K of
        Inl e \<Rightarrow> (Err (NetlinkOpenError e), [])
      | Inr sock \<Rightarrow>
          (case get_list_of_objects S data_type 0 (map_option (as_attr T) flt) of
             Ok chains_buf \<Rightarrow>
               (case send_results K of
                  [] \<Rightarrow> (Diverge, [Socket sock])
                | Inl e # _ \<Rightarrow> (Err (NetlinkSendError e), [Socket sock])
                | Inr n # _ \<Rightarrow>
                    let (res, calls) = socket_close_wrapper K sock
                          (recv_and_process S pagesize (recv_results K) None
                             (Some (\<lambda>b d.
                                bind (map_err ProcessNetlinkError (object_deserialize S T b))
                                  (\<lambda>(obj, _). cb obj d))) data) in
                    (res, Socket sock # Send sock (take n chains_buf) # calls))
           | Err e \<Rightarrow> (Err e, [Socket sock])
           | Panic \<Rightarrow> (Panic, [Socket sock])
           | UB \<Rightarrow> (UB, [Socket sock])
           | Diverge \<Rightarrow> (Diverge, [Socket sock])))"

section \<open>Listing\<close>

definition list_tables :: "sys \<Rightarrow> int \<Rightarrow> kernel \<Rightarrow> Table list queried \<times> syscall list" where
  "list_tables S pagesize K =
     list_objects_with_data S pagesize K (table_object S) (word_of_int (NFT_MSG_GETTABLE S))
       (\<lambda>t tables. Ok (tables @ [t])) None []"

definition list_chains_for_table ::
  "sys \<Rightarrow> int \<Rightarrow> kernel \<Rightarrow> Table \<Rightarrow> Chain list queried \<times> syscall list" where
  "list_chains_for_table S pagesize K t =
     list_objects_with_data S pagesize K (chain_object S) (word_of_int (NFT_MSG_GETCHAIN S))
       (\<lambda>c chains. if chain_table c = table_name t then Ok (chains @ [c]) else Ok chains) None []"

definition list_rules_for_chain ::
  "sys \<Rightarrow> int \<Rightarrow> kernel \<Rightarrow> Chain \<Rightarrow> Rule list queried \<times> syscall list" where
  "list_rules_for_chain S pagesize K c =
     (case map_err BuilderErr (Rule_new S c) of
        Ok flt \<Rightarrow>
          list_objects_with_data S pagesize K (rule_object S) (word_of_int (NFT_MSG_GETRULE S))
            (\<lambda>r rules. Ok (rules @ [r])) (Some flt) []
      | Err e \<Rightarrow> (Err e, [])
      | Panic \<Rightarrow> (Panic, []) | UB \<Rightarrow> (UB, []) | Diverge \<Rightarrow> (Diverge, []))"

section \<open>Sending a batch\<close>

fun send_loop ::
  "nat \<Rightarrow> (errno + nat) list \<Rightarrow> bytes \<Rightarrow> nat \<Rightarrow> unit queried \<times> syscall list" where
  "send_loop sock rs to_send sent =
     (if sent = length to_send then (Ok (), [])
      else if sent > length to_send then (Panic, [])
      else
        (case rs of
           [] \<Rightarrow> (Diverge, [])
         | Inl e # _ \<Rightarrow> (Err (NetlinkSendError e), [])
         | Inr n # rs' \<Rightarrow>
             let (res, calls) = send_loop sock rs' to_send (sent + n) in
             (res, Send sock (take n (drop sent to_send)) # calls)))"

declare send_loop.simps [simp del]

definition batch_send ::
  "sys \<Rightarrow> int \<Rightarrow> kernel \<Rightarrow> Batch \<Rightarrow> unit queried \<times> syscall list" where
  "batch_send S pagesize K b =
     (case open_result K of
        Inl e \<Rightarrow> (Err (NetlinkOpenError e), [])
      | Inr sock \<Rightarrow>
          if batch_seq b = 0 then (Panic, [Socket sock])
          else
            let max_seq = batch_seq b - 1 in
            case bind_result K of
              Some e \<Rightarrow> (Panic, [Socket sock])
            | None \<Rightarrow>
                (case batch_finalize S b of
                   Ok to_send \<Rightarrow>
                     let (sent, calls) = send_loop sock (send_results K) to_send 0 in
                     (case sent of
                        Ok _ \<Rightarrow>
                          let (res, calls') = socket_close_wrapper K sock
                                (recv_and_process S pagesize (recv_results K) (Some max_seq)
                                   None ()) in
                          (res, Socket sock # Bind sock # calls @ calls')
                      | _ \<Rightarrow> (sent, Socket sock # Bind sock # calls))
                 | Err e \<Rightarrow> (Err (ProcessNetlinkError e), [Socket sock, Bind sock])
                 | Panic \<Rightarrow> (Panic, [Socket sock, Bind sock])
                 | UB \<Rightarrow> (UB, [Socket sock, Bind sock])
                 | Diverge \<Rightarrow> (Diverge, [Socket sock, Bind sock])))"

end
