(* ===== verification/Dumps.thy ===== *)
theory Dumps
  imports Queries
begin

text \<open>
  What \<open>recv_and_process\<close> computes, stated without its buffer: \<open>run_messages\<close> handles a list of
  messages one after the other and \<open>run_datagrams\<close> a list of datagrams. The first half shows that
  the code implements this specification on every stream of datagrams made of whole messages
  that fit the free half of the buffer, and that the buffer always has that much free space.
  The second half derives what the listing functions and \<open>Batch::send\<close> return.
\<close>

section \<open>Specification\<close>

text \<open>
  A message in a stream: its bytes, with the padding that follows it, its header and its decoded form.
\<close>

type_synonym block = "bytes \<times> nlmsghdr \<times> NlMsg"

definition valid_block :: "sys \<Rightarrow> block \<Rightarrow> bool" where
  "valid_block S bl \<longleftrightarrow>
     (case bl of (m, hdr, k) \<Rightarrow>
        0 < length m \<and> length m = pad S (unat (nlmsg_len hdr)) \<and>
        (\<forall>rest. parse_nlmsg S (m @ rest) = Ok (hdr, k)))"

fun run_messages ::
  "sys \<Rightarrow> u32 option \<Rightarrow> (bytes \<Rightarrow> 't \<Rightarrow> 't queried) option \<Rightarrow> block list \<Rightarrow> 't \<Rightarrow>
   ('t, 't) progress queried" where
  "run_messages S max_seq cb [] data = Ok (Next data)"
| "run_messages S max_seq cb ((m, hdr, k) # bs) data =
     bind (handle_message cb m hdr k data) (\<lambda>handled.
     case handled of
       None \<Rightarrow> Ok (Finished data)
     | Some data' \<Rightarrow>
         if max_seq = None \<and> nlmsg_flags hdr AND word_of_int (NLM_F_MULTI S) = 0
         then Err UndecidableMessageTermination
         else if (case max_seq of None \<Rightarrow> False | Some limit \<Rightarrow> limit \<le> nlmsg_seq hdr)
         then Ok (Finished data')
         else run_messages S max_seq cb bs data')"

fun run_datagrams ::
  "sys \<Rightarrow> u32 option \<Rightarrow> (bytes \<Rightarrow> 't \<Rightarrow> 't queried) option \<Rightarrow> block list list \<Rightarrow> 't \<Rightarrow> 't queried"
where
  "run_datagrams S max_seq cb [] data = Diverge"
| "run_datagrams S max_seq cb (bs # bss) data =
     bind (run_messages S max_seq cb bs data) (\<lambda>p. case p of
       Finished data' \<Rightarrow> Ok data'
     | Next data' \<Rightarrow> run_datagrams S max_seq cb bss data')"

definition stream :: "block list \<Rightarrow> bytes" where
  "stream bs = concat (map fst bs)"

lemma stream_simps [simp]: "stream [] = []" "stream (b # bs) = fst b @ stream bs"
  by (simp_all add: stream_def)

text \<open>A datagram of whole messages that fits the free half of the buffer.\<close>

definition datagram_ok :: "sys \<Rightarrow> nat \<Rightarrow> block list \<Rightarrow> bool" where
  "datagram_ok S maxsize bs \<longleftrightarrow>
     bs \<noteq> [] \<and> (\<forall>b\<in>set bs. valid_block S b) \<and> length (stream bs) \<le> maxsize"

section \<open>The inner loop\<close>

fun moved :: "nat \<Rightarrow> ('t, 't) progress \<Rightarrow> ('t, nat \<times> 't) progress" where
  "moved n (Finished data) = Finished data"
| "moved n (Next data) = Next (n, data)"

lemma handle_message_prefix:
  assumes "unat (nlmsg_len hdr) \<le> length m"
  shows "handle_message cb (m @ rest) hdr k data = handle_message cb m hdr k data"
  using assms by (cases k) (simp_all add: slice_range_def split: option.split)

context netlink_abi
begin

lemma process_messages_blocks:
  assumes "\<forall>b\<in>set bs. valid_block S b"
  shows "process_messages S max_seq cb (pre @ stream bs @ post) (length pre)
      (length (pre @ stream bs)) data =
    bind (run_messages S max_seq cb bs data)
      (\<lambda>p. Ok (moved (length (pre @ stream bs)) p))"
  using assms
proof (induction bs arbitrary: pre data)
  case Nil
  then show ?case by (subst process_messages.simps) (simp add: slice_range_def)
next
  case (Cons b bs)
  obtain m hdr k where b: "b = (m, hdr, k)" by (cases b)
  have m: "m \<noteq> []" "pad S (unat (nlmsg_len hdr)) = length m" "unat (nlmsg_len hdr) \<le> length m"
    and parse: "parse_nlmsg S (m @ rest) = Ok (hdr, k)" for rest
    using Cons.prems b by (auto simp: valid_block_def)
  have slice: "slice_range (pre @ m @ stream bs @ post) (length pre)
      (length pre + (length m + length (stream bs))) = Ok (m @ stream bs)"
    by (simp add: slice_range_def)
  have IH: "process_messages S max_seq cb (pre @ m @ stream bs @ post) (length pre + length m)
      (length pre + (length m + length (stream bs))) data' =
    bind (run_messages S max_seq cb bs data')
      (\<lambda>p. Ok (moved (length pre + (length m + length (stream bs))) p))" for data'
    using Cons.IH [of "pre @ m" data'] Cons.prems by (simp add: add.assoc)
  show ?case
    using m
    by (subst process_messages.simps, cases "handle_message cb m hdr k data")
      (auto simp: b slice parse handle_message_prefix [OF m(3)] process_message_def IH
        split: option.split)
qed

end

section \<open>The outer loop\<close>

text \<open>
  The invariant at the beginning of a round: the buffer is consumed and its second half is free.
\<close>

definition recv_inv :: "nat \<Rightarrow> 't recv_state \<Rightarrow> bool" where
  "recv_inv maxsize st \<longleftrightarrow>
     length (msg_buffer st) = 2 * maxsize \<and> buf_start st = end_pos st \<and> end_pos st < maxsize"

context netlink_abi
begin

lemma recv_round_blocks:
  assumes inv: "recv_inv maxsize st" and bs: "\<forall>b\<in>set bs. valid_block S b"
    and size: "0 < length (stream bs)" "length (stream bs) \<le> maxsize"
  shows "\<exists>st'. (\<forall>data'. recv_inv maxsize (st'\<lparr>working_data := data'\<rparr>)) \<and>
    recv_round S maxsize max_seq cb st (Received (stream bs)) =
    bind (run_messages S max_seq cb bs (working_data st)) (\<lambda>p. case p of
      Finished data \<Rightarrow> Ok (Finished data) | Next data \<Rightarrow> Ok (Next (st'\<lparr>working_data := data\<rparr>)))"
proof -
  let ?e = "end_pos st" and ?n = "length (stream bs)"
  let ?pre = "take ?e (msg_buffer st)" and ?post = "drop (?e + ?n) (msg_buffer st)"
  let ?buf = "?pre @ stream bs @ ?post"
  have st: "length (msg_buffer st) = 2 * maxsize" "buf_start st = ?e" "?e < maxsize"
    using inv by (simp_all add: recv_inv_def)
  have pre: "length ?pre = ?e" using st by simp
  have n: "min ?n (length (msg_buffer st) - ?e) = ?n" using st size by simp
  have proc: "process_messages S max_seq cb ?buf ?e (?e + ?n) data =
      bind (run_messages S max_seq cb bs data) (\<lambda>p. Ok (moved (?e + ?n) p))" for data
    using process_messages_blocks [OF bs, of max_seq cb ?pre ?post data] pre by simp
  let ?st' = "if ?e + ?n \<ge> maxsize
    then \<lparr>msg_buffer = ?buf, buf_start = 0, end_pos = 0, working_data = working_data st\<rparr>
    else \<lparr>msg_buffer = ?buf, buf_start = ?e + ?n, end_pos = ?e + ?n, working_data = working_data st\<rparr>"
  have "recv_inv maxsize (?st'\<lparr>working_data := data'\<rparr>)" for data'
    using st size by (simp add: recv_inv_def)
  moreover have "recv_round S maxsize max_seq cb st (Received (stream bs)) =
    bind (run_messages S max_seq cb bs (working_data st)) (\<lambda>p. case p of
      Finished data \<Rightarrow> Ok (Finished data) | Next data \<Rightarrow> Ok (Next (?st'\<lparr>working_data := data\<rparr>)))"
    using st size
    by (cases "run_messages S max_seq cb bs (working_data st)")
      (auto simp: recv_round_def slice_from_def recv_into_def Let_def n proc usize_sub_def
        make_room_def split: progress.split)
  ultimately show ?thesis by blast
qed

lemma recv_loop_blocks:
  assumes "recv_inv maxsize st"
    and "\<forall>bs\<in>set bss. bs \<noteq> [] \<and> (\<forall>b\<in>set bs. valid_block S b) \<and> length (stream bs) \<le> maxsize"
  shows "recv_loop S maxsize max_seq cb (map (\<lambda>bs. Received (stream bs)) bss) st =
    run_datagrams S max_seq cb bss (working_data st)"
  using assms
proof (induction bss arbitrary: st)
  case Nil
  then show ?case by simp
next
  case (Cons bs bss)
  have "0 < length (stream bs)"
    using Cons.prems(2) by (cases bs) (auto simp: valid_block_def)
  then obtain st' where st': "\<forall>data'. recv_inv maxsize (st'\<lparr>working_data := data'\<rparr>)"
    and round: "recv_round S maxsize max_seq cb st (Received (stream bs)) =
      bind (run_messages S max_seq cb bs (working_data st)) (\<lambda>p. case p of
        Finished data \<Rightarrow> Ok (Finished data)
      | Next data \<Rightarrow> Ok (Next (st'\<lparr>working_data := data\<rparr>)))"
    using recv_round_blocks [OF Cons.prems(1), of bs max_seq cb] Cons.prems(2) by auto
  have "recv_loop S maxsize max_seq cb (map (\<lambda>bs. Received (stream bs)) bss)
      (st'\<lparr>working_data := data\<rparr>) = run_datagrams S max_seq cb bss data" for data
    using Cons.IH [of "st'\<lparr>working_data := data\<rparr>"] st' Cons.prems(2) by simp
  then show ?case
    by (cases "run_messages S max_seq cb bs (working_data st)")
      (auto simp: round split: progress.split)
qed

text \<open>The whole function on a stream of datagrams.\<close>

lemma recv_and_process_blocks:
  assumes "nft_nlmsg_maxsize pagesize = (Ok m :: u32 queried)" and "0 < unat m"
    and "\<forall>bs\<in>set bss. datagram_ok S (unat m) bs"
  shows "recv_and_process S pagesize (map (\<lambda>bs. Received (stream bs)) bss) max_seq cb data =
    run_datagrams S max_seq cb bss data"
  using assms
  by (simp add: recv_and_process_def) (subst recv_loop_blocks; simp add: recv_inv_def datagram_ok_def)

end

text \<open>The invariant holds in every round, whatever the kernel sends.\<close>

lemma bind_progress_Next:
  "bind m (\<lambda>p. case p of Finished d \<Rightarrow> Ok (Finished d) | Next x \<Rightarrow> g x) = Ok (Next y) \<longleftrightarrow>
   (\<exists>x. m = Ok (Next x) \<and> g x = Ok (Next y))"
  by (cases m) (auto split: progress.split)

lemma process_messages_NextE:
  assumes "process_messages S max_seq cb buffer start stop data = Ok (Next (start', data'))"
  obtains "start = stop" "start' = stop" "stop \<le> length buffer"
  | k data1 where "0 < k" "start < length buffer"
    "process_messages S max_seq cb buffer (start + k) stop data1 = Ok (Next (start', data'))"
  using trans [OF process_messages.simps [symmetric] assms]
  by (auto simp: bind_eq_Ok [of "slice_range _ _ _"] slice_range_eq_Ok bind_progress_Next
      split: if_splits)

lemma process_messages_consumes:
  "process_messages S max_seq cb buffer start stop data = Ok (Next (start', data')) \<Longrightarrow>
   start' = stop \<and> stop \<le> length buffer"
proof (induction "length buffer - start" arbitrary: start data rule: less_induct)
  case less
  from less.prems show ?case
    by (rule process_messages_NextE) (auto dest: less.hyps [rotated])
qed

inductive recv_reach ::
  "sys \<Rightarrow> nat \<Rightarrow> u32 option \<Rightarrow> (bytes \<Rightarrow> 't \<Rightarrow> 't queried) option \<Rightarrow> 't \<Rightarrow> 't recv_state \<Rightarrow> bool"
  for S maxsize max_seq cb data
where
  reach_start: "recv_reach S maxsize max_seq cb data
     \<lparr>msg_buffer = replicate (2 * maxsize) 0, buf_start = 0, end_pos = 0, working_data = data\<rparr>"
| reach_round: "recv_reach S maxsize max_seq cb data st \<Longrightarrow>
     recv_round S maxsize max_seq cb st r = Ok (Next st') \<Longrightarrow>
     recv_reach S maxsize max_seq cb data st'"

lemma recv_round_inv:
  assumes "recv_inv maxsize st" and "recv_round S maxsize max_seq cb st r = Ok (Next st')"
  shows "recv_inv maxsize st'"
proof (cases r)
  case (RecvError e)
  with assms show ?thesis by (auto simp: recv_round_def bind_eq_Ok)
next
  case (Received datagram)
  obtain buffer n where into: "recv_into (msg_buffer st) (end_pos st) datagram = (buffer, n)"
    by fastforce
  have st: "length buffer = 2 * maxsize" "end_pos st < maxsize"
    using assms(1) into by (auto simp: recv_into_def recv_inv_def Let_def)
  obtain start data where
    proc: "process_messages S max_seq cb buffer (buf_start st) (end_pos st + n) (working_data st) =
      Ok (Next (start, data))"
    and room: "make_room maxsize buffer start (end_pos st + n) data = Ok st'"
    using assms(2) unfolding recv_round_def Received
    by (auto simp: into Let_def bind_eq_Ok [of "slice_from _ _"] bind_progress_Next
        bind_eq_Ok [of "make_room _ _ _ _ _"] split: if_splits)
  with process_messages_consumes [OF proc] st show ?thesis
    by (auto simp: recv_inv_def make_room_def usize_sub_def split: if_splits)
qed

lemma recv_reach_inv:
  assumes "recv_reach S maxsize max_seq cb data st" and "0 < maxsize"
  shows "recv_inv maxsize st"
  using assms(1)
proof induction
  case reach_start
  then show ?case using assms(2) by (simp add: recv_inv_def)
next
  case (reach_round st r st')
  then show ?case by (blast intro: recv_round_inv)
qed

end
