(* ===== verification/Replies.thy ===== *)
theory Replies
  imports Queries
begin

text \<open>
  Messages of the kernel about objects. The kernel is not bound to the format that this crate writes:
  it ends strings with a NUL byte, sends its attributes in an order of its own and adds attributes that
  the crate does not know. A reply is therefore a header, a family and a list of attributes with
  arbitrary types and arbitrary contents, laid out as the netlink protocol says. \<open>attrs_value\<close> says,
  without buffers and positions, what such a list means for a structure, errors included, and
  \<open>read_attributes\<close> is shown to compute it.
\<close>

section \<open>Decoders that ignore what they do not support\<close>

text \<open>A decoder that ignores the attributes it does not support, as the loop does.\<close>

definition lenient :: "('t \<Rightarrow> u16 \<Rightarrow> bytes \<Rightarrow> 't decoded) \<Rightarrow> 't \<Rightarrow> u16 \<Rightarrow> bytes \<Rightarrow> 't decoded" where
  "lenient decode res ty b =
     (case decode res ty b of Err (UnsupportedAttributeType t) \<Rightarrow> Ok res | r \<Rightarrow> r)"

lemma step_lenient: "read_attribute_step S (lenient decode) b pos n res = read_attribute_step S decode b pos n res"
proof -
  have "(case lenient decode res ty p of Err (UnsupportedAttributeType t) \<Rightarrow> Ok res | r \<Rightarrow> r) =
      (case decode res ty p of Err (UnsupportedAttributeType t) \<Rightarrow> Ok res | r \<Rightarrow> r)" for ty p
    by (simp add: lenient_def split: outcome.split DecodeError.split)
  then show ?thesis by (simp only: read_attribute_step_def)
qed

lemma loop_lenient:
  "read_attributes_loop S (lenient decode) b pos n res = read_attributes_loop S decode b pos n res"
proof (induction S decode b pos n res rule: read_attributes_loop.induct)
  case (1 S decode b pos n res)
  have "(case q of (pos', n', res') \<Rightarrow>
        if n' < n then read_attributes_loop S (lenient decode) b pos' n' res' else Diverge) =
      (case q of (pos', n', res') \<Rightarrow>
        if n' < n then read_attributes_loop S decode b pos' n' res' else Diverge)"
    if "n > pad_netlink_object S size_of_nlattr"
      and "read_attribute_step S decode b pos n res = Ok q" for q
    using 1 [OF that(1,2)] by (cases q) auto
  then show ?case
    by (subst (1 2) read_attributes_loop.simps)
      (auto simp: step_lenient intro!: bind_cong)
qed

lemma read_lenient: "read_attributes S (lenient decode) dflt b = read_attributes S decode dflt b"
  by (simp add: read_attributes_def loop_lenient)

lemma decode_all_lenient:
  "decode_all (lenient (struct_decode_attribute fs)) ps t =
     decode_all (lenient (struct_decode_attribute fs))
       (filter (\<lambda>p. fst p \<in> netlink_type ` set fs) ps) t"
proof (induction ps arbitrary: t)
  case (Cons p ps)
  obtain ty obj where p: "p = (ty, obj)" by (cases p)
  have "lenient (struct_decode_attribute fs) t ty b = Ok t" if "ty \<notin> netlink_type ` set fs" for b
    using that by (simp add: lenient_def struct_decode_attribute_unknown)
  with Cons show ?case by (cases "lenient (struct_decode_attribute fs) t ty (wire obj)") (auto simp: p)
qed simp

lemma decode_all_ok_lenient:
  "decode_all decode ps t = Ok r \<Longrightarrow> decode_all (lenient decode) ps t = Ok r"
  by (induction ps arbitrary: t) (auto simp: bind_eq_Ok lenient_def)

section \<open>Attributes of the kernel\<close>

text \<open>
  An attribute: its type, whether the kernel marks it as nested, and its contents. On the wire it is
  the header with the unpadded length, the contents, and zero bytes up to a multiple of four.
\<close>

type_synonym kattr = "u16 \<times> bool \<times> bytes"

definition kernel_attr :: "sys \<Rightarrow> kattr \<Rightarrow> bytes" where
  "kernel_attr S a =
     (case a of (ty, nested, v) \<Rightarrow>
        nlattr_bytes S
          \<lparr>nla_len = of_nat (4 + length v),
           nla_type = (if nested then ty OR word_of_int (NLA_F_NESTED S) else ty)\<rparr> @
        v @ replicate (pad S (length v) - length v) 0)"

definition kernel_attrs :: "sys \<Rightarrow> kattr list \<Rightarrow> bytes" where
  "kernel_attrs S as = concat (map (kernel_attr S) as)"

text \<open>The type number has 14 bits and the length field 16.\<close>

definition kattr_ok :: "kattr \<Rightarrow> bool" where
  "kattr_ok a \<longleftrightarrow> (case a of (ty, nested, v) \<Rightarrow> ty < 0x4000 \<and> 4 + length v < 65536)"

text \<open>
  What a list of attributes means for a structure with the fields \<open>fs\<close>: attributes of unknown types
  count for nothing; an attribute of a field is decoded as a value of the field, which has to use all of
  its contents; an inner attribute that is reported as unsupported makes the field count for nothing;
  any other failure is the result. An attribute without contents must not be the last one.
\<close>

fun attrs_value :: "'s field list \<Rightarrow> kattr list \<Rightarrow> 's \<Rightarrow> 's decoded" where
  "attrs_value fs [] s = Ok s"
| "attrs_value fs ((ty, nested, v) # as) s =
     (if as = [] \<and> v = [] then Err InvalidDataSize
      else
        (case find (\<lambda>f. netlink_type f = ty) fs of
           None \<Rightarrow> attrs_value fs as s
         | Some f \<Rightarrow>
             (case field_decode f v of
                Ok (upd, remaining) \<Rightarrow>
                  if remaining = [] then attrs_value fs as (upd s) else Err InvalidDataSize
              | Err (UnsupportedAttributeType t) \<Rightarrow> attrs_value fs as s
              | Err e \<Rightarrow> Err e
              | Panic \<Rightarrow> Panic
              | UB \<Rightarrow> UB
              | Diverge \<Rightarrow> Diverge)))"

lemma kernel_attrs_simps [simp]:
  "kernel_attrs S [] = []" "kernel_attrs S (a # as) = kernel_attr S a @ kernel_attrs S as"
  by (simp_all add: kernel_attrs_def)

lemma struct_decode_find:
  "struct_decode_attribute fs s ty b =
     (case find (\<lambda>f. netlink_type f = ty) fs of
        None \<Rightarrow> Err (UnsupportedAttributeType ty)
      | Some f \<Rightarrow> bind (field_decode f b) (\<lambda>(set, remaining).
          if length remaining \<noteq> 0 then Err InvalidDataSize else Ok (set s)))"
  by (induction fs) auto

lemma attrs_value_Cons:
  assumes "as \<noteq> [] \<or> v \<noteq> []"
  shows "attrs_value fs ((ty, nested, v) # as) s =
    bind (lenient (struct_decode_attribute fs) s ty v) (attrs_value fs as)"
  using assms
  by (auto simp: lenient_def struct_decode_find split: option.split outcome.split DecodeError.split
      prod.split)

text \<open>The attribute as an object that is written: its contents are its wire format.\<close>

abbreviation raw_attr :: "bool \<Rightarrow> bytes \<Rightarrow> attr_obj" where
  "raw_attr nested v \<equiv> \<lparr>is_nested = nested, get_size = length v, write_payload = copy_to_front v\<rparr>"

lemma raw_writes [simp]: "writes (raw_attr nested v) v" "wire (raw_attr nested v) = v"
  using copy_writes(1) [OF refl, of nested v] by (simp_all add: wire_eqI)

lemma kernel_attr_tlv: "kernel_attr S (ty, nested, v) = tlv S ty (raw_attr nested v)"
  by (simp add: kernel_attr_def tlv_def attr_header_def)

context netlink_abi
begin

lemma length_kernel_attr: "length (kernel_attr S (ty, nested, v)) = 4 + pad S (length v)"
  by (simp add: kernel_attr_tlv length_tlv)

lemma kernel_attr_nonempty [simp]: "kernel_attr S a \<noteq> []"
  by (cases a) (simp add: kernel_attr_tlv)

lemma kernel_attrs_dvd [simp]: "4 dvd length (kernel_attrs S as)"
  by (induction as) (auto simp: length_kernel_attr)

lemma step_kernel_attr:
  assumes "kattr_ok (ty, nested, v)"
  shows "read_attribute_step S decode (pre @ kernel_attr S (ty, nested, v) @ post) (length pre)
      (length (kernel_attr S (ty, nested, v)) + r) res =
    bind (lenient decode res ty v)
      (\<lambda>res'. Ok (length pre + length (kernel_attr S (ty, nested, v)), r, res'))"
proof -
  let ?a = "raw_attr nested v" and ?t = "kernel_attr S (ty, nested, v)"
  let ?b = "pre @ ?t @ post"
  have fits: "ty < 0x4000" "4 + get_size ?a < 65536" using assms by (simp_all add: kattr_ok_def)
  have tail: "slice_from ?b (length pre) = (Ok (?t @ post) :: bytes decoded)"
    by (simp add: slice_from_def)
  have hdr: "nlattr_of S (?t @ post) = attr_header S ty ?a"
    by (simp add: kernel_attr_tlv tlv_def load_store)
  have payload: "slice_range ?b (length pre + 4) (length pre + (4 + length v)) = (Ok v :: bytes decoded)"
    by (simp add: kernel_attr_tlv tlv_def slice_range_def lengths)
  have pads: "pad S (4 + length v) = 4 + pad S (length v)"
    by (rule pad_add_dvd) simp
  show ?thesis
    using header_type [OF fits(1), of ?a] header_len [OF fits(2), of ty]
    by (simp add: read_attribute_step_def tail hdr abi Let_def usize_sub_Ok payload
        length_kernel_attr pads add.assoc flip: lenient_def)
qed

lemma loop_kernel_attrs:
  assumes "\<forall>a\<in>set as. kattr_ok a"
  shows "read_attributes_loop S (struct_decode_attribute fs) (pre @ kernel_attrs S as) (length pre)
      (length (kernel_attrs S as)) s = attrs_value fs as s"
  using assms
proof (induction as arbitrary: pre s)
  case Nil
  then show ?case by (subst read_attributes_loop.simps) simp
next
  case (Cons a as)
  obtain ty nested v where a: "a = (ty, nested, v)" by (cases a)
  let ?t = "kernel_attr S a"
  have len: "length ?t = 4 + pad S (length v)" by (simp add: a length_kernel_attr)
  show ?case
  proof (cases "as = [] \<and> v = []")
    case True
    then show ?thesis using len by (subst read_attributes_loop.simps) (simp add: a abi)
  next
    case False
    then have "0 < length v \<or> 0 < length (kernel_attrs S as)" by (cases as) auto
    then have "0 < pad S (length v) + length (kernel_attrs S as)"
      using pad_ge [of "length v"] by linarith
    then have more: "4 < length (kernel_attrs S (a # as))" using len by simp
    have IH: "read_attributes_loop S (struct_decode_attribute fs) (pre @ ?t @ kernel_attrs S as)
        (length pre + (4 + pad S (length v))) (length (kernel_attrs S as)) = attrs_value fs as"
      using Cons.IH [of "pre @ ?t"] Cons.prems len by (simp add: fun_eq_iff)
    have step: "read_attribute_step S (struct_decode_attribute fs) (pre @ ?t @ kernel_attrs S as)
        (length pre) (length ?t + length (kernel_attrs S as)) s =
      bind (lenient (struct_decode_attribute fs) s ty v)
        (\<lambda>s'. Ok (length pre + length ?t, length (kernel_attrs S as), s'))"
      unfolding a using Cons.prems by (intro step_kernel_attr) (simp add: a)
    show ?thesis
      using False more len step
      by (subst read_attributes_loop.simps)
        (simp add: abi IH [unfolded a] a attrs_value_Cons del: attrs_value.simps)
  qed
qed

lemma read_kernel_attrs:
  assumes "\<forall>a\<in>set as. kattr_ok a"
  shows "read_attributes S (struct_decode_attribute fs) dflt (kernel_attrs S as) = attrs_value fs as dflt"
  using loop_kernel_attrs [OF assms, of fs "[]"] by (simp add: read_attributes_def)

end

text \<open>A property of structures that decoding any field keeps is kept by decoding attributes.\<close>

lemma find_in_set: "find P xs = Some x \<Longrightarrow> x \<in> set xs"
  by (auto simp: find_Some_iff)

lemma attrs_value_keeps:
  assumes "\<And>f v u r s. f \<in> set fs \<Longrightarrow> field_decode f v = Ok (u, r) \<Longrightarrow> P s \<Longrightarrow> P (u s)"
    and "P s" and "attrs_value fs as s = Ok s'"
  shows "P s'"
  using assms(2,3)
proof (induction as arbitrary: s)
  case (Cons a as)
  obtain ty nested v where a: "a = (ty, nested, v)" by (cases a)
  from Cons.prems(2) consider "attrs_value fs as s = Ok s'"
    | f u where "f \<in> set fs" "field_decode f v = Ok (u, [])" "attrs_value fs as (u s) = Ok s'"
    by (auto simp: a split: if_splits option.splits outcome.splits DecodeError.splits
        dest: find_in_set)
  then show ?case using Cons.IH Cons.prems(1) assms(1) by cases blast+
qed simp

end
