(* ===== verification/Listings.thy ===== *)
theory Listings
  imports Dumps Replies
begin

text \<open>
  What the listing functions and \<open>Batch::send\<close> return when the kernel answers as the netlink
  protocol says: a dump is a sequence of messages about objects, each with the multi-part flag and
  with the attributes that the kernel chooses to send, ended by a done message; a batch is answered
  by acknowledgements and errors.
\<close>

section \<open>Messages of the kernel\<close>

text \<open>A control message: a header and a payload without family.\<close>

definition control_message :: "sys \<Rightarrow> nlmsghdr \<Rightarrow> bytes \<Rightarrow> bytes" where
  "control_message S h p = nlmsghdr_bytes S h @ p"

definition done_block :: "sys \<Rightarrow> nlmsghdr \<Rightarrow> bytes \<Rightarrow> block" where
  "done_block S h p = (control_message S h p, h, NlDone)"

definition error_block :: "sys \<Rightarrow> nlmsghdr \<Rightarrow> bytes \<Rightarrow> nlmsgerr \<Rightarrow> block" where
  "error_block S h p e = (control_message S h p, h, NlError e)"

definition control_ok :: "nlmsghdr \<Rightarrow> bytes \<Rightarrow> bool" where
  "control_ok h p \<longleftrightarrow> unat (nlmsg_len h) = 16 + length p \<and> 4 dvd length p \<and>
     nlmsg_flags h AND 16 = 0"

definition reply_block :: "sys \<Rightarrow> nlmsghdr \<Rightarrow> nfgenmsg \<Rightarrow> bytes \<Rightarrow> block" where
  "reply_block S h g q = (reply S h g q, h, NfGenMsg g q)"

text \<open>
  An entry of a dump: the message about one object, with the multi-part flag and any attributes.
\<close>

type_synonym entry = "nlmsghdr \<times> nfgenmsg \<times> kattr list"

definition entry_block :: "sys \<Rightarrow> entry \<Rightarrow> block" where
  "entry_block S en = (case en of (h, g, as) \<Rightarrow> reply_block S h g (kernel_attrs S as))"

definition dump_entry :: "sys \<Rightarrow> 'a nf_object \<Rightarrow> entry \<Rightarrow> bool" where
  "dump_entry S T en \<longleftrightarrow>
     (case en of (h, g, as) \<Rightarrow> reply_header S T Add h g (length (kernel_attrs S as)) \<and>
        nlmsg_flags h AND 2 \<noteq> 0 \<and> (\<forall>a\<in>set as. kattr_ok a))"

text \<open>The object that an entry describes: the attributes give all but the family.\<close>

definition entry_value :: "sys \<Rightarrow> 'a nf_object \<Rightarrow> 'a field list \<Rightarrow> entry \<Rightarrow> 'a decoded" where
  "entry_value S T fs en =
     (case en of (h, g, as) \<Rightarrow>
        bind (attrs_value fs as (default_obj T)) (\<lambda>x.
        bind (ProtocolFamily_try_from S (ucast (nfgen_family g))) (\<lambda>family.
        Ok (set_family T x family))))"

context message_abi
begin

lemma get_nlmsghdr_control:
  assumes "control_ok h p"
  shows "get_nlmsghdr S (control_message S h p @ rest) = Ok h"
  using assms
  by (simp add: control_ok_def get_nlmsghdr_def Let_def control_message_def abi slice_range_def
      load_store(1) [of _ "[]", simplified])

lemma length_control: "length (control_message S h p) = 16 + length p"
  by (simp add: control_message_def lengths)

lemma messages_nonempty [simp]: "control_message S h p \<noteq> []" "reply S h g q \<noteq> []"
  using length_control [of h p] length_reply [of h g q] by auto

lemma done_block_valid:
  assumes "control_ok h p" and "nlmsg_type h = 3"
  shows "valid_block S (done_block S h p)"
  using assms get_nlmsghdr_control [OF assms(1)]
  by (simp add: valid_block_def done_block_def parse_nlmsg_def Let_def abi length_control)
    (simp add: control_ok_def)

lemma error_block_valid:
  assumes "control_ok h p" and "nlmsg_type h = 2" and "20 \<le> length p"
    and e: "i32_abs (nlmsgerr_error (nlmsgerr_of S (take 20 p))) = (Ok a :: i32 decoded)"
  shows "valid_block S (error_block S h p ((nlmsgerr_of S (take 20 p))\<lparr>nlmsgerr_error := a\<rparr>))"
proof -
  have slice: "slice_range (control_message S h p @ rest) 16 36 = (Ok (take 20 p) :: bytes decoded)"
    for rest
    using assms(3) by (simp add: control_message_def slice_range_def lengths)
  show ?thesis
    using assms get_nlmsghdr_control [OF assms(1)]
    by (simp add: valid_block_def error_block_def parse_nlmsg_def Let_def abi slice length_control)
      (simp add: control_ok_def)
qed

end

section \<open>Listing objects\<close>

context nf_obj
begin

lemma reply_block_valid:
  assumes "reply_header S T msg_type h g (length q)" and "4 dvd length q"
  shows "valid_block S (reply_block S h g q)"
  using assms parse_nlmsg_payload [OF assms(1)]
  by (simp add: valid_block_def reply_block_def length_reply) (simp add: reply_header_def)

lemma entry_block_valid: "dump_entry S T en \<Longrightarrow> valid_block S (entry_block S en)"
  by (cases en) (auto simp: dump_entry_def entry_block_def intro: reply_block_valid)

end

context nf_struct_obj
begin

abbreviation decoding :: "('a \<Rightarrow> 't \<Rightarrow> 't queried) \<Rightarrow> bytes \<Rightarrow> 't \<Rightarrow> 't queried" where
  "decoding cb \<equiv> (\<lambda>b d.
     bind (map_err ProcessNetlinkError (object_deserialize S T b)) (\<lambda>(obj, _). cb obj d))"

abbreviation entry_values :: "entry list \<Rightarrow> 'a list queried" where
  "entry_values es \<equiv> map_err ProcessNetlinkError (traverse (entry_value S T fs) es)"

lemma entry_deserialize:
  assumes "dump_entry S T (h, g, as)"
  shows "object_deserialize S T (reply S h g (kernel_attrs S as)) =
    bind (entry_value S T fs (h, g, as)) (\<lambda>x. Ok (x, []))"
  using assms parse_object_payload [of Add h g "kernel_attrs S as" "struct_decode_attribute fs" dflt "[]"]
  by (simp add: dump_entry_def object_deserialize_def entry_value_def T_decode T_default read_kernel_attrs)

lemma run_messages_entries:
  assumes "\<forall>en\<in>set es. dump_entry S T en"
  shows "run_messages S None (Some (decoding (\<lambda>x d. Ok (f x d)))) (map (entry_block S) es @ bs) data =
    bind (entry_values es)
      (\<lambda>xs. run_messages S None (Some (decoding (\<lambda>x d. Ok (f x d)))) bs (fold f xs data))"
  using assms
proof (induction es arbitrary: data)
  case Nil
  then show ?case by simp
next
  case (Cons en es)
  obtain h g as where en: "en = (h, g, as)" by (cases en)
  have x: "dump_entry S T (h, g, as)" "nlmsg_flags h AND 2 \<noteq> 0"
    "unat (nlmsg_len h) = length (reply S h g (kernel_attrs S as))"
    using Cons.prems en by (simp_all add: dump_entry_def reply_header_def length_reply)
  have "slice_range (reply S h g (kernel_attrs S as)) 0 (unat (nlmsg_len h)) =
      (Ok (reply S h g (kernel_attrs S as)) :: bytes queried)"
    by (simp add: slice_range_def x(3))
  then show ?case
    using Cons x(2)
    by (cases "entry_value S T fs en")
      (simp_all add: en entry_block_def reply_block_def abi entry_deserialize [OF x(1)] map_err_bind)
qed

lemma run_datagrams_entries:
  assumes "\<forall>en\<in>set (concat ess @ es). dump_entry S T en"
  shows "run_datagrams S None (Some (decoding (\<lambda>x d. Ok (f x d))))
      (map (map (entry_block S)) ess @ [map (entry_block S) es @ [done_block S h p]]) data =
    bind (entry_values (concat ess @ es)) (\<lambda>xs. Ok (fold f xs data))"
  using assms
proof (induction ess arbitrary: data)
  case Nil
  then show ?case by (simp add: run_messages_entries done_block_def)
next
  case (Cons es' ess)
  then show ?case
    using run_messages_entries [of es' f "[]" data]
    by (simp add: traverse_append map_err_bind)
qed

end

text \<open>The decoder of policies makes \<open>Accept\<close> of every policy.\<close>

lemma chain_value_policy:
  assumes "entry_value S (chain_object S) (chain_fields S) en = Ok c"
  shows "chain_policy c \<noteq> Some PolicyDrop"
proof -
  obtain h g as where en: "en = (h, g, as)" by (cases en)
  have keeps: "chain_policy (u s) \<noteq> Some PolicyDrop"
    if "f \<in> set (chain_fields S)" "field_decode f v = Ok (u, r)" "chain_policy s \<noteq> Some PolicyDrop"
    for f v u r s
    using that
    by (auto simp: chain_fields_def optional_field_def mk_field_def set_field_def bind_eq_Ok
        ChainPolicy_deserialize_def split: option.splits if_splits prod.splits)
  obtain x where "attrs_value (chain_fields S) as Chain_default = Ok x" "chain_policy c = chain_policy x"
    using assms by (auto simp: en entry_value_def chain_object_def bind_eq_Ok)
  then show ?thesis
    using attrs_value_keeps [of "chain_fields S" "\<lambda>s. chain_policy s \<noteq> Some PolicyDrop" Chain_default as x]
      keeps
    by (simp add: Chain_default_def)
qed

lemma chain_values_policy:
  "traverse (entry_value S (chain_object S) (chain_fields S)) es = Ok cs \<Longrightarrow> c \<in> set cs \<Longrightarrow>
   chain_policy c \<noteq> Some PolicyDrop"
  by (induction es arbitrary: cs) (auto simp: bind_eq_Ok dest: chain_value_policy)

text \<open>The request, with the attributes of the filter.\<close>

definition dump_request :: "sys \<Rightarrow> u16 \<Rightarrow> u32 \<Rightarrow> bytes \<Rightarrow> bytes" where
  "dump_request S ty seq payload =
     message S (full_type S ty) (word_of_int (NLM_F_REQUEST S) OR word_of_int (NLM_F_DUMP S)) seq
       FamUnspec 0 payload"

context netlink_abi
begin

lemma get_list_of_objects_none: "get_list_of_objects S ty seq None = Ok (dump_request S ty seq [])"
  by (simp add: get_list_of_objects_def write_header_closed writer_new_def
      finalize_writing_object_def dump_request_def)

lemma get_list_of_objects_filter:
  assumes wr: "writes obj (wire obj)" and aligned: "4 dvd get_size obj"
    and small: "20 + get_size obj < 2 ^ 32"
  shows "get_list_of_objects S ty seq (Some obj) = Ok (dump_request S ty seq (wire obj))"
proof -
  let ?n = "get_size obj"
  let ?m = "message S (full_type S ty) (word_of_int (NLM_F_REQUEST S) OR word_of_int (NLM_F_DUMP S))
    seq FamUnspec 0"
  let ?w1 = "\<lparr>w_buf = ?m [], w_headers = Some (0, 16)\<rparr>"
  have header: "write_header S (writer_new []) ty FamUnspec (word_of_int (NLM_F_DUMP S)) seq None =
      (Ok ?w1 :: NfNetlinkWriter queried)"
    by (simp add: write_header_closed writer_new_def)
  have data: "add_data_zeroed S ?w1 ?n =
      (Ok (?w1\<lparr>w_buf := ?m (replicate ?n 0)\<rparr>, 20, ?n) :: (NfNetlinkWriter \<times> nat \<times> nat) queried)"
    using small aligned
    by (subst add_data_zeroed_open [where pre = "[]" and payload = "[]" and j = 16]) simp_all
  have len: "length (wire obj) = ?n" by (rule length_wire [OF wr])
  have pay: "write_payload obj (replicate ?n 0) = Ok (wire obj)"
    using writesD [OF wr, of ?n] len by simp
  have hdr: "msg_hdr t fl sq (replicate ?n 0) = msg_hdr t fl sq (wire obj)" for t fl sq
    by (simp add: msg_hdr_def len)
  have upd: "update_slice (?w1\<lparr>w_buf := ?m (replicate ?n 0)\<rparr>) 20 ?n (write_payload obj) =
      Ok (?w1\<lparr>w_buf := ?m (wire obj)\<rparr>)"
    by (subst update_slice_middle [where post = "[]" and sl = "replicate ?n 0" and
          pre = "nlmsghdr_bytes S (msg_hdr (full_type S ty)
            (word_of_int (NLM_F_REQUEST S) OR word_of_int (NLM_F_DUMP S)) seq (replicate ?n 0)) @
            nfgenmsg_bytes S (msg_gen S FamUnspec 0)"])
      (simp_all add: message_def lengths pay hdr)
  show ?thesis
    using upd by (simp add: get_list_of_objects_def header data finalize_writing_object_def
        dump_request_def)
qed

end

text \<open>
  A kernel that takes the whole request \<open>req\<close> and answers it with a dump: the entries \<open>ess\<close> and \<open>es\<close>,
  one datagram for each list, and the end mark in the last datagram.
\<close>

definition dump_datagrams ::
  "sys \<Rightarrow> entry list list \<Rightarrow> entry list \<Rightarrow> nlmsghdr \<Rightarrow> bytes \<Rightarrow> block list list" where
  "dump_datagrams S ess es h p =
     map (map (entry_block S)) ess @ [map (entry_block S) es @ [done_block S h p]]"

definition dump_answer ::
  "sys \<Rightarrow> int \<Rightarrow> 'a nf_object \<Rightarrow> kernel \<Rightarrow> nat \<Rightarrow> bytes \<Rightarrow> entry list list \<Rightarrow> entry list \<Rightarrow>
   nlmsghdr \<Rightarrow> bytes \<Rightarrow> bool" where
  "dump_answer S pagesize T K sock req ess es h p \<longleftrightarrow>
     open_result K = Inr sock \<and> (\<exists>ns. send_results K = Inr (length req) # ns) \<and>
     close_result K = None \<and>
     recv_results K = map (\<lambda>bs. Received (stream bs)) (dump_datagrams S ess es h p) \<and>
     (\<forall>en\<in>set (concat ess @ es). dump_entry S T en) \<and> (\<forall>es\<in>set ess. es \<noteq> []) \<and>
     control_ok h p \<and> nlmsg_type h = 3 \<and>
     (\<forall>bs\<in>set (dump_datagrams S ess es h p). length (stream bs) \<le> 65535) \<and>
     65535 + unat (word_of_int pagesize :: u32) < 2 ^ 32"

context nf_struct_obj
begin

lemma dump_answer_recv:
  assumes "dump_answer S pagesize T K sock req ess es h p"
  shows "recv_and_process S pagesize (recv_results K) None (Some (decoding (\<lambda>x d. Ok (f x d)))) data =
    bind (entry_values (concat ess @ es)) (\<lambda>xs. Ok (fold f xs data))"
proof -
  let ?bss = "dump_datagrams S ess es h p"
  let ?m = "65535 + word_of_int pagesize :: u32"
  have "unat ?m = 65535 + unat (word_of_int pagesize :: u32)"
    using assms by (simp add: dump_answer_def unat_word_ariths)
  then have max: "nft_nlmsg_maxsize pagesize = (Ok ?m :: u32 queried)" "0 < unat ?m" "65535 \<le> unat ?m"
    using assms by (simp_all add: dump_answer_def nft_nlmsg_maxsize_def checked_add_u32_def)
  have entries: "\<forall>en\<in>set (concat ess @ es). dump_entry S T en"
    and ess: "\<forall>es\<in>set ess. es \<noteq> []" and "valid_block S (done_block S h p)"
    and sizes: "\<forall>bs\<in>set ?bss. length (stream bs) \<le> 65535"
    using assms by (simp_all add: dump_answer_def done_block_valid)
  then have "\<forall>bs\<in>set ?bss. bs \<noteq> [] \<and> (\<forall>b\<in>set bs. valid_block S b)"
    by (auto simp: dump_datagrams_def intro: entry_block_valid)
  with sizes max(3) have all: "\<forall>bs\<in>set ?bss. datagram_ok S (unat ?m) bs"
    by (fastforce simp: datagram_ok_def)
  have recv: "recv_results K = map (\<lambda>bs. Received (stream bs)) ?bss"
    using assms unfolding dump_answer_def by blast
  show ?thesis
    unfolding recv recv_and_process_blocks [OF max(1,2) all] unfolding dump_datagrams_def
    by (rule run_datagrams_entries [OF entries])
qed

lemma list_objects_dump:
  assumes answer: "dump_answer S pagesize T K sock req ess es h p"
    and req: "get_list_of_objects S ty 0 (map_option (as_attr T) flt) = Ok req"
    and res: "res = bind (entry_values (concat ess @ es)) (\<lambda>xs. Ok (fold f xs data))"
  shows "list_objects_with_data S pagesize K T ty (\<lambda>x d. Ok (f x d)) flt data =
    (res, [Socket sock, Send sock req] @ (if returned res then [Close sock] else []))"
  using answer dump_answer_recv [OF answer, of f data]
  by (cases res)
    (auto simp: list_objects_with_data_def req dump_answer_def socket_close_wrapper_def simp flip: res)

end

section \<open>Sending a batch\<close>

text \<open>
  However the kernel cuts the batch into pieces, the calls of \<open>send\<close> together send it once and in
  order.
\<close>

lemma send_loop_all:
  assumes "sent \<le> length to_send" and "sum_list ns = length to_send - sent" and "\<forall>n\<in>set ns. 0 < n"
  shows "\<exists>cs. send_loop sock (map Inr ns @ rs) to_send sent = (Ok (), map (Send sock) cs) \<and>
    concat cs = drop sent to_send"
  using assms
proof (induction ns arbitrary: sent)
  case Nil
  then show ?case by (simp add: send_loop.simps)
next
  case (Cons n ns)
  have le: "sent + n \<le> length to_send" and less: "sent < length to_send"
    and sum: "sum_list ns = length to_send - (sent + n)"
    using Cons.prems by auto
  obtain cs where cs: "send_loop sock (map Inr ns @ rs) to_send (sent + n) =
      (Ok (), map (Send sock) cs)" "concat cs = drop (sent + n) to_send"
    using Cons.IH [OF le sum] Cons.prems(3) by auto
  have "take n (drop sent to_send) @ drop (sent + n) to_send = drop sent to_send"
    by (metis append_take_drop_id drop_drop add.commute)
  then show ?case
    using cs less
    by (intro exI [of _ "take n (drop sent to_send) # cs"]) (subst send_loop.simps, simp)
qed

text \<open>An acknowledgement: header, payload and the error structure in it, whose error is 0.\<close>

type_synonym ack = "nlmsghdr \<times> bytes \<times> nlmsgerr"

definition ack_block :: "sys \<Rightarrow> ack \<Rightarrow> block" where
  "ack_block S a = (case a of (h, p, e) \<Rightarrow> error_block S h p e)"

definition ack_ok :: "sys \<Rightarrow> ack \<Rightarrow> bool" where
  "ack_ok S a \<longleftrightarrow>
     (case a of (h, p, e) \<Rightarrow> control_ok h p \<and> nlmsg_type h = 2 \<and> 20 \<le> length p \<and>
        sint (nlmsgerr_error (nlmsgerr_of S (take 20 p))) \<noteq> - (2 ^ 31) \<and>
        e = (nlmsgerr_of S (take 20 p))\<lparr>nlmsgerr_error :=
          (let n = nlmsgerr_error (nlmsgerr_of S (take 20 p)) in if sint n < 0 then - n else n)\<rparr>)"

context message_abi
begin

lemma ack_valid: "ack_ok S a \<Longrightarrow> valid_block S (ack_block S a)"
  using error_block_valid [of _ _ "let n = nlmsgerr_error (nlmsgerr_of S (take 20 (fst (snd a)))) in
      if sint n < 0 then - n else n"]
  by (cases a) (simp add: ack_ok_def ack_block_def i32_abs_def Let_def)

end

lemma run_acks:
  assumes "\<forall>(h, p, e)\<in>set as. nlmsgerr_error e = 0 \<and> nlmsg_seq h < limit"
  shows "run_messages S (Some limit) None (map (ack_block S) as @ bs) data =
    run_messages S (Some limit) None bs data"
  using assms
  by (induction as) (auto simp: ack_block_def error_block_def not_le [symmetric])

text \<open>
  A kernel that takes the batch of messages \<open>ms\<close> in the pieces \<open>ns\<close> and answers with the
  datagrams \<open>bss\<close>.
\<close>

definition batch_answer ::
  "sys \<Rightarrow> int \<Rightarrow> kernel \<Rightarrow> nat \<Rightarrow> bytes list \<Rightarrow> nat list \<Rightarrow> block list list \<Rightarrow> bool" where
  "batch_answer S pagesize K sock ms ns bss \<longleftrightarrow>
     open_result K = Inr sock \<and> bind_result K = None \<and> close_result K = None \<and>
     send_results K = map Inr ns \<and> sum_list ns = 40 + length (concat ms) \<and> (\<forall>n\<in>set ns. 0 < n) \<and>
     recv_results K = map (\<lambda>bs. Received (stream bs)) bss \<and>
     (\<forall>bs\<in>set bss. datagram_ok S 65535 bs) \<and>
     65535 + unat (word_of_int pagesize :: u32) < 2 ^ 32"

context message_abi
begin

lemma batch_send_answer:
  assumes inv: "batch_inv S ms b" and answer: "batch_answer S pagesize K sock ms ns bss"
    and res: "run_datagrams S (Some (of_nat (length ms))) None bss () = res"
      "res = Ok () \<or> (\<exists>e. res = Err e)"
  shows "\<exists>cs. batch_send S pagesize K b =
      (res, Socket sock # Bind sock # map (Send sock) cs @ [Close sock]) \<and>
    concat cs = begin_message S @ concat ms @ end_message S (of_nat (1 + length ms))"
proof -
  let ?out = "begin_message S @ concat ms @ end_message S (batch_seq b)"
  let ?m = "65535 + word_of_int pagesize :: u32"
  have seq: "batch_seq b = of_nat (1 + length ms)" and small: "1 + length ms < 2 ^ 32"
    using inv by (simp_all add: batch_inv_def)
  have "unat (batch_seq b) = 1 + length ms"
    unfolding seq using small by (intro unat_small) simp
  then have nz: "batch_seq b \<noteq> 0" by auto
  have max_seq: "batch_seq b - 1 = of_nat (length ms)" by (simp add: seq)
  have len: "length ?out = 40 + length (concat ms)"
    by (simp add: begin_message_def end_message_def length_message)
  have "sum_list ns = length ?out - 0" "\<forall>n\<in>set ns. 0 < n"
    using answer len by (simp_all add: batch_answer_def)
  then obtain cs where cs: "send_loop sock (map Inr ns) ?out 0 = (Ok (), map (Send sock) cs)"
    "concat cs = ?out"
    using send_loop_all [of 0 ?out ns sock "[]"] by auto
  have unat_m: "unat ?m = 65535 + unat (word_of_int pagesize :: u32)"
    using answer by (simp add: batch_answer_def unat_word_ariths)
  then have max: "nft_nlmsg_maxsize pagesize = (Ok ?m :: u32 queried)" "0 < unat ?m"
    using answer by (simp_all add: batch_answer_def nft_nlmsg_maxsize_def checked_add_u32_def)
  have all: "\<forall>bs\<in>set bss. datagram_ok S (unat ?m) bs"
    using answer unat_m by (auto simp: batch_answer_def datagram_ok_def)
  have recv: "recv_and_process S pagesize (recv_results K) (Some (of_nat (length ms))) None () = res"
    using answer res(1) by (simp add: batch_answer_def recv_and_process_blocks [OF max all])
  have K: "open_result K = Inr sock" "bind_result K = None" "close_result K = None"
    "send_results K = map Inr ns"
    using answer by (simp_all add: batch_answer_def)
  have "batch_send S pagesize K b =
      (res, Socket sock # Bind sock # map (Send sock) cs @ [Close sock])"
    using res(2)
    by (auto simp: batch_send_def K nz max_seq batch_finalize_inv [OF inv] cs recv Let_def
        socket_close_wrapper_def)
  then show ?thesis using cs(2) by (auto simp: seq)
qed

end

end
