(* ===== verification/Batches.thy ===== *)
theory Batches
  imports Listings
begin

text \<open>
  Batches of objects of different types. \<open>Batch::add\<close> is generic, so a client may add tables,
  chains, rules, sets and set elements to the same batch; \<open>item\<close> is the sum of these types. The
  bytes of the finished batch are shown to be a stream of valid messages, numbered from 0.
\<close>

datatype (plugins only: code size) item =
    TableItem Table
  | ChainItem Chain
  | RuleItem Rule
  | SetItem Set
  | ElementsItem SetElementList

fun add_item :: "sys \<Rightarrow> Batch \<Rightarrow> item \<Rightarrow> MsgType \<Rightarrow> Batch decoded" where
  "add_item S b (TableItem x) msg_type = batch_add S (table_object S) b x msg_type"
| "add_item S b (ChainItem x) msg_type = batch_add S (chain_object S) b x msg_type"
| "add_item S b (RuleItem x) msg_type = batch_add S (rule_object S) b x msg_type"
| "add_item S b (SetItem x) msg_type = batch_add S (set_object S) b x msg_type"
| "add_item S b (ElementsItem x) msg_type = batch_add S (elements_object S) b x msg_type"

fun add_items :: "sys \<Rightarrow> Batch \<Rightarrow> (item \<times> MsgType) list \<Rightarrow> Batch decoded" where
  "add_items S b [] = Ok b"
| "add_items S b ((x, msg_type) # xs) = bind (add_item S b x msg_type) (\<lambda>b'. add_items S b' xs)"

fun item_message :: "sys \<Rightarrow> item \<Rightarrow> MsgType \<Rightarrow> u32 \<Rightarrow> bytes" where
  "item_message S (TableItem x) = object_message S (table_object S) x"
| "item_message S (ChainItem x) = object_message S (chain_object S) x"
| "item_message S (RuleItem x) = object_message S (rule_object S) x"
| "item_message S (SetItem x) = object_message S (set_object S) x"
| "item_message S (ElementsItem x) = object_message S (elements_object S) x"

fun item_size :: "sys \<Rightarrow> item \<Rightarrow> nat" where
  "item_size S (TableItem x) = get_size (as_attr (table_object S) x)"
| "item_size S (ChainItem x) = get_size (as_attr (chain_object S) x)"
| "item_size S (RuleItem x) = get_size (as_attr (rule_object S) x)"
| "item_size S (SetItem x) = get_size (as_attr (set_object S) x)"
| "item_size S (ElementsItem x) = get_size (as_attr (elements_object S) x)"

text \<open>The messages of a list of items, numbered from \<open>n\<close>.\<close>

fun item_messages :: "sys \<Rightarrow> nat \<Rightarrow> (item \<times> MsgType) list \<Rightarrow> bytes list" where
  "item_messages S n [] = []"
| "item_messages S n ((x, msg_type) # xs) =
     item_message S x msg_type (of_nat n) # item_messages S (Suc n) xs"

lemma length_item_messages [simp]: "length (item_messages S n xs) = length xs"
  by (induction xs arbitrary: n) auto

context rule_abi
begin

lemma add_item_inv:
  assumes "batch_inv S ms b" and "20 + item_size S x < 2 ^ 32" and "2 + length ms < 2 ^ 32"
  shows "\<exists>b'. add_item S b x msg_type = Ok b' \<and>
    batch_inv S (ms @ [item_message S x msg_type (of_nat (1 + length ms))]) b'"
  using assms table.batch_add_inv chain.batch_add_inv rule.batch_add_inv nfset.batch_add_inv
    elements.batch_add_inv
  by (cases x) (simp_all del: of_nat_add of_nat_Suc)

lemma add_items_inv:
  assumes "batch_inv S ms b" and "\<forall>(x, msg_type)\<in>set xs. 20 + item_size S x < 2 ^ 32"
    and "1 + length ms + length xs < 2 ^ 32"
  shows "\<exists>b'. add_items S b xs = Ok b' \<and> batch_inv S (ms @ item_messages S (1 + length ms) xs) b'"
  using assms
proof (induction xs arbitrary: ms b)
  case Nil
  then show ?case by simp
next
  case (Cons p xs)
  obtain x msg_type where p: "p = (x, msg_type)" by (cases p)
  let ?m = "item_message S x msg_type (of_nat (1 + length ms))"
  obtain b1 where b1: "add_item S b x msg_type = Ok b1" "batch_inv S (ms @ [?m]) b1"
    using add_item_inv [OF Cons.prems(1), of x msg_type] Cons.prems(2,3) p by auto
  obtain b2 where "add_items S b1 xs = Ok b2"
    "batch_inv S ((ms @ [?m]) @ item_messages S (1 + length (ms @ [?m])) xs) b2"
    using Cons.IH [OF b1(2)] Cons.prems(2,3) by auto
  then show ?case using b1(1) by (simp add: p)
qed

end

section \<open>The stream of a finished batch\<close>

text \<open>The bytes \<open>m\<close> are one valid message of that length with the sequence number \<open>seq\<close>.\<close>

definition numbered :: "sys \<Rightarrow> bytes \<Rightarrow> u32 \<Rightarrow> bool" where
  "numbered S m seq \<longleftrightarrow> (\<exists>hdr k. valid_block S (m, hdr, k) \<and> unat (nlmsg_len hdr) = length m \<and>
     nlmsg_seq hdr = seq)"

context nf_obj
begin

lemma object_message_numbered:
  assumes "20 + get_size (as_attr T x) < 2 ^ 32"
  shows "numbered S (object_message S T x msg_type seq) seq"
proof -
  have "nlmsg_seq (object_hdr S T x msg_type seq) = seq" by (simp add: object_hdr_def msg_hdr_def)
  moreover have "unat (nlmsg_len (object_hdr S T x msg_type seq)) =
      length (reply S (object_hdr S T x msg_type seq) (msg_gen S (get_family T x) 0) (wire (as_attr T x)))"
    using object_reply_hdr [OF assms, of msg_type seq] length_wire [OF obj_writes, of x]
    by (simp add: object_reply_def length_reply)
  moreover have "4 dvd length (wire (as_attr T x))"
    using obj_aligned [of x] length_wire [OF obj_writes, of x] by simp
  ultimately show ?thesis
    using reply_block_valid [OF object_reply_header [OF object_reply_hdr [OF assms]], of msg_type seq]
    unfolding numbered_def reply_block_def object_message_reply by auto
qed

end

context message_abi
begin

lemma batch_marks_numbered:
  "numbered S (begin_message S) 0" "numbered S (end_message S seq) seq"
proof -
  have mark: "numbered S (message S ty 1 sq FamUnspec rid []) sq" if "ty = 16 \<or> ty = 17" for ty sq rid
  proof -
    have "message S ty 1 sq FamUnspec rid [] \<noteq> []"
      using length_message [of ty 1 sq FamUnspec rid "[]"] by auto
    moreover have "parse_nlmsg S (message S ty 1 sq FamUnspec rid [] @ rest) =
        Ok (msg_hdr ty 1 sq [], NfGenMsg (msg_gen S FamUnspec rid) [])" for rest
      using that by (intro parse_nlmsg_message) auto
    ultimately have "valid_block S (message S ty 1 sq FamUnspec rid [], msg_hdr ty 1 sq [],
        NfGenMsg (msg_gen S FamUnspec rid) [])"
      using msg_hdr_len [of "[]" ty 1 sq] by (simp add: valid_block_def length_message)
    moreover have "unat (nlmsg_len (msg_hdr ty 1 sq [])) = length (message S ty 1 sq FamUnspec rid [])"
      using msg_hdr_len [of "[]" ty 1 sq] by (simp add: length_message)
    moreover have "nlmsg_seq (msg_hdr ty 1 sq []) = sq" by (simp add: msg_hdr_def)
    ultimately show ?thesis unfolding numbered_def by blast
  qed
  show "numbered S (begin_message S) 0" "numbered S (end_message S seq) seq"
    by (simp_all add: begin_message_def end_message_def abi mark)
qed

end

context rule_abi
begin

lemma item_message_numbered:
  "20 + item_size S x < 2 ^ 32 \<Longrightarrow> numbered S (item_message S x msg_type seq) seq"
  by (cases x) (simp_all add: table.object_message_numbered chain.object_message_numbered
      rule.object_message_numbered nfset.object_message_numbered elements.object_message_numbered)

lemma item_messages_numbered:
  assumes "\<forall>(x, msg_type)\<in>set xs. 20 + item_size S x < 2 ^ 32"
  shows "list_all2 (numbered S) (item_messages S n xs) (map of_nat [n..<n + length xs])"
  using assms
proof (induction xs arbitrary: n)
  case Nil
  then show ?case by simp
next
  case (Cons p xs)
  obtain x msg_type where p: "p = (x, msg_type)" by (cases p)
  have "[n..<n + length (p # xs)] = n # [Suc n..<n + length (p # xs)]"
    by (rule upt_conv_Cons) simp
  then have up: "[n..<n + length (p # xs)] = n # [Suc n..<Suc n + length xs]"
    by (simp del: upt_Suc)
  show ?case
    unfolding up using Cons.IH [of "Suc n"] Cons.prems
    by (simp add: p item_message_numbered del: upt_Suc)
qed

end

section \<open>Building and sending a batch\<close>

text \<open>The messages of the batch of the items \<open>xs\<close>, marks included.\<close>

definition batch_messages :: "sys \<Rightarrow> (item \<times> MsgType) list \<Rightarrow> bytes list" where
  "batch_messages S xs =
     begin_message S # item_messages S 1 xs @ [end_message S (of_nat (1 + length xs))]"

text \<open>Acknowledgements without error for messages before the last one do not end the exchange.\<close>

definition quiet_ack :: "u32 \<Rightarrow> ack \<Rightarrow> bool" where
  "quiet_ack limit a \<longleftrightarrow> (case a of (h, p, e) \<Rightarrow> nlmsgerr_error e = 0 \<and> nlmsg_seq h < limit)"

lemma run_quiet_acks:
  assumes "\<forall>a\<in>set (concat ass @ as). quiet_ack limit a"
  shows "run_datagrams S (Some limit) None
      (map (map (ack_block S)) ass @ [map (ack_block S) as @ bs]) data =
    run_datagrams S (Some limit) None [bs] data"
  using assms
proof (induction ass)
  case Nil
  then have "\<forall>(h, p, e)\<in>set as. nlmsgerr_error e = 0 \<and> nlmsg_seq h < limit"
    by (auto simp: quiet_ack_def)
  then show ?case by (simp add: run_acks)
next
  case (Cons as' ass)
  have "\<forall>(h, p, e)\<in>set as'. nlmsgerr_error e = 0 \<and> nlmsg_seq h < limit"
    using Cons.prems by (auto simp: quiet_ack_def)
  then have "run_messages S (Some limit) None (map (ack_block S) as') data = Ok (Next data)"
    using run_acks [of as' limit S "[]" data] by simp
  then show ?case using Cons by simp
qed

context rule_abi
begin

lemma batch_build:
  assumes "unat (word_of_int pagesize :: u32) * 32 < 2 ^ 32"
    and "\<forall>(x, msg_type)\<in>set xs. 20 + item_size S x < 2 ^ 32" and "1 + length xs < 2 ^ 32"
  shows "\<exists>b0 b. batch_new S pagesize = Ok b0 \<and> add_items S b0 xs = Ok b \<and>
    batch_inv S (item_messages S 1 xs) b"
proof -
  obtain b0 where b0: "batch_new S pagesize = Ok b0" "batch_inv S [] b0"
    using batch_new_inv [OF assms(1)] by blast
  then show ?thesis using add_items_inv [OF b0(2) assms(2)] assms(3) by auto
qed

lemma batch_messages_numbered:
  assumes "\<forall>(x, msg_type)\<in>set xs. 20 + item_size S x < 2 ^ 32"
  shows "list_all2 (numbered S) (batch_messages S xs) (map of_nat [0..<length xs + 2])"
proof -
  have "[0..<Suc (Suc (length xs))] = 0 # [Suc 0..<Suc (Suc (length xs))]"
    by (rule upt_conv_Cons) simp
  moreover have "[Suc 0..<Suc (Suc (length xs))] = [Suc 0..<Suc (length xs)] @ [Suc (length xs)]"
    by (rule upt_Suc_append) simp
  ultimately have up: "[0..<length xs + 2] = 0 # [1..<1 + length xs] @ [1 + length xs]"
    by (simp only: add_2_eq_Suc' One_nat_def add_Suc add_0)
  show ?thesis
    unfolding up batch_messages_def
    using item_messages_numbered [OF assms, of 1] batch_marks_numbered
    by (simp add: list_all2_append del: upt_Suc)
qed

lemma batch_exchange:
  assumes "unat (word_of_int pagesize :: u32) * 32 < 2 ^ 32"
    and "\<forall>(x, msg_type)\<in>set xs. 20 + item_size S x < 2 ^ 32" and "1 + length xs < 2 ^ 32"
    and answer: "batch_answer S pagesize K sock (item_messages S 1 xs) ns
      (map (map (ack_block S)) ass @ [map (ack_block S) as @ ack_block S (h, p, e) # bs])"
    and quiet: "\<forall>a\<in>set (concat ass @ as). quiet_ack (of_nat (length xs)) a"
    and last: "nlmsgerr_error e = 0 \<longrightarrow> of_nat (length xs) \<le> nlmsg_seq h"
  shows "\<exists>b0 b cs. batch_new S pagesize = Ok b0 \<and> add_items S b0 xs = Ok b \<and>
    batch_send S pagesize K b =
      (if nlmsgerr_error e = 0 then Ok () else Err (NetlinkError e),
       Socket sock # Bind sock # map (Send sock) cs @ [Close sock]) \<and>
    concat cs = concat (batch_messages S xs)"
proof -
  let ?bss = "map (map (ack_block S)) ass @ [map (ack_block S) as @ ack_block S (h, p, e) # bs]"
  let ?res = "if nlmsgerr_error e = 0 then Ok () else Err (NetlinkError e) :: unit queried"
  obtain b0 b where b: "batch_new S pagesize = Ok b0" "add_items S b0 xs = Ok b"
    "batch_inv S (item_messages S 1 xs) b"
    using batch_build [OF assms(1-3)] by blast
  have "run_datagrams S (Some (of_nat (length xs))) None ?bss () = ?res"
    using last by (simp add: run_quiet_acks [OF quiet] ack_block_def error_block_def)
  then have "\<exists>cs. batch_send S pagesize K b =
      (?res, Socket sock # Bind sock # map (Send sock) cs @ [Close sock]) \<and>
    concat cs = begin_message S @ concat (item_messages S 1 xs) @
      end_message S (of_nat (1 + length xs))"
    using batch_send_answer [OF b(3) answer, of ?res] by simp
  then show ?thesis using b(1,2) by (simp add: batch_messages_def)
qed

end

end
