(* ===== verification/BuiltRules.thy ===== *)
theory BuiltRules
  imports RuleMethods
begin

text \<open>
  What the builder methods of \<open>src/rule_methods.rs\<close> build. A method appends a list of
  expressions and touches nothing else; every expression that a method makes is admissible and
  small (\<open>fit_expr\<close>), except the masquerading one, whose data are empty. \<open>built\<close> is the set of
  rules that can be reached from \<open>Rule::new\<close> by calling methods.
\<close>

section \<open>The crate \<open>ipnetwork\<close>\<close>

text \<open>
  Documented behaviour: the mask and the network address of a network are addresses of the
  version of the network.
\<close>

locale ip_network =
  fixes N :: "'n IpNetwork"
  assumes v4_network: "net_is_v4 N net \<Longrightarrow> \<exists>m a. net_mask N net = V4 m \<and> net_network N net = V4 a"
    and v6_network: "\<not> net_is_v4 N net \<Longrightarrow> \<exists>m a. net_mask N net = V6 m \<and> net_network N net = V6 a"

text \<open>Networks as an address and a prefix length.\<close>

definition cidr :: "(IpAddr \<times> nat) IpNetwork" where
  "cidr =
     \<lparr>net_is_v4 = (\<lambda>(a, p). case a of V4 _ \<Rightarrow> True | V6 _ \<Rightarrow> False),
      net_mask = (\<lambda>(a, p). case a of
         V4 _ \<Rightarrow> V4 (NOT (mask (32 - p))) | V6 _ \<Rightarrow> V6 (NOT (mask (128 - p)))),
      net_network = (\<lambda>(a, p). case a of
         V4 x \<Rightarrow> V4 (x AND NOT (mask (32 - p))) | V6 x \<Rightarrow> V6 (x AND NOT (mask (128 - p))))\<rparr>"

interpretation cidr_net: ip_network cidr
  by unfold_locales (auto simp: cidr_def split: IpAddr.splits)

section \<open>Admissible small expressions\<close>

definition fit_expr :: "sys \<Rightarrow> RawExpression \<Rightarrow> bool" where
  "fit_expr S e \<longleftrightarrow>
     RawExpression_ok S e \<and> 0 < get_size (RawExpression_attr S e) \<and>
     get_size (RawExpression_attr S e) \<le> 128"

abbreviation value_data :: "bytes \<Rightarrow> NfNetlinkData" where
  "value_data v \<equiv> set_field data_value_update v NfNetlinkData_default"

lemma struct_attr_size [simp]: "get_size (struct_attr S nested fs s) = struct_get_size S fs s"
  by (simp add: struct_attr_def)

lemma enum_sizes [simp]:
  "get_size (Register_attr S a) = 4" "get_size (MetaType_attr S b) = 4"
  "get_size (CmpOp_attr S c) = 4" "get_size (ConntrackKey_attr S d) = 4"
  "get_size (NatType_attr S e) = 4" "get_size (ProtocolFamily_attr S f) = 4"
  "get_size (ExtHdrOp_attr S g) = 4" "get_size (RtKey_attr S h) = 4"
  "get_size (ByteorderOp_attr S i) = 4" "get_size (VerdictType_attr S j) = 4"
  by (simp_all add: Register_attr_def MetaType_attr_def CmpOp_attr_def ConntrackKey_attr_def
      NatType_attr_def ProtocolFamily_attr_def ExtHdrOp_attr_def RtKey_attr_def
      ByteorderOp_attr_def VerdictType_attr_def enum_attr_def)

lemma expr_name_ok: "string_ok (expr_name d)" "0 < length (expr_name d)" "length (expr_name d) \<le> 18"
  by (cases d; simp add: string_ok_def str_def utf8_valid_ascii)+

lemma name_matches_from: "name_matches (expr d)"
  by (cases d)
    (simp_all add: name_matches_def RawExpression_from_def set_field_def RawExpression_default_def
      known_names_def)

locale builder_abi = rule_abi +
  assumes ifnamsiz: "IFNAMSIZ S = 16"
begin

lemma pad_le: "n \<le> m \<Longrightarrow> 4 dvd m \<Longrightarrow> pad S n \<le> m"
  unfolding pad_eq by (elim dvdE) simp

lemma expression_size:
  "get_size (RawExpression_attr S (expr d)) =
     8 + pad S (length (expr_name d)) + pad S (get_size (expr_attr S d))"
  by (simp add: RawExpression_attr_def expression_fields_def RawExpression_from_def set_field_def
      RawExpression_default_def abi ExpressionVariant_attr_def)

lemma fit_exprI:
  assumes "expr_ok S d" and "0 < get_size (expr_attr S d)" and "get_size (expr_attr S d) \<le> 96"
  shows "fit_expr S (expr d)"
proof -
  have pads: "pad S (length (expr_name d)) \<le> 20" "pad S (get_size (expr_attr S d)) \<le> 96"
    using expr_name_ok(3) [of d] assms(3) by (simp_all add: pad_le)
  have "struct_fits (expression_fields S) (expr d)"
    using assms(2,3) expr_name_ok [of d]
    by (simp add: struct_fits_def expression_fields_def RawExpression_from_def set_field_def
        RawExpression_default_def ends_nonempty_def ExpressionVariant_attr_def)
  then show ?thesis
    using assms(1) pads expr_name_ok(1) name_matches_from
    by (simp add: fit_expr_def RawExpression_ok_def expression_size)
      (simp add: RawExpression_from_def set_field_def RawExpression_default_def)
qed

lemma value_data_ok:
  assumes "0 < length v" and "length v \<le> 16"
  shows "NfNetlinkData_ok S (value_data v)"
    and "0 < get_size (NfNetlinkData_attr S (value_data v))"
    and "get_size (NfNetlinkData_attr S (value_data v)) \<le> 20"
  using assms pad_le [of "length v" 16]
  by (simp_all add: NfNetlinkData_ok_def NfNetlinkData_attr_def set_field_def
      NfNetlinkData_default_def struct_fits_def data_fields_def ends_nonempty_def abi)

lemma verdict_data_ok:
  assumes "d = set_field data_verdict_update (set_field verdict_code_update c Verdict_default)
    NfNetlinkData_default"
  shows "NfNetlinkData_ok S d" and "get_size (NfNetlinkData_attr S d) = 12"
  by (cases "NFTA_VERDICT_CHAIN_ID S";
      simp add: assms NfNetlinkData_ok_def NfNetlinkData_attr_def set_field_def
        NfNetlinkData_default_def Verdict_default_def Verdict_ok_def Verdict_attr_def
        verdict_fields_def data_fields_def struct_fits_def ends_nonempty_def abi)+

section \<open>The expressions of the methods\<close>

lemma meta_fit: "fit_expr S (expr (ExprMeta (Meta_new ty)))"
  by (rule fit_exprI) (simp_all add: Meta_ok_def Meta_attr_def Meta_new_def set_field_def
      Meta_default_def meta_fields_def struct_fits_def ends_nonempty_def abi)

lemma cmp_fit:
  assumes "0 < length v" and "length v \<le> 16"
  shows "fit_expr S (expr (ExprCmp (Cmp_new op v)))"
  using value_data_ok [OF assms] pad_le [of "get_size (NfNetlinkData_attr S (value_data v))" 20]
  by (intro fit_exprI) (simp_all add: Cmp_ok_def Cmp_attr_def Cmp_new_def
      cmp_fields_def struct_fits_def ends_nonempty_def abi)

lemma bitwise_fit:
  assumes "Bitwise_new m x = Ok b" and "0 < length m" and "length m \<le> 16"
  shows "fit_expr S (expr (ExprBitwise b))"
proof -
  have x: "0 < length x" "length x \<le> 16" and b: "b =
    \<lparr>bitwise_sreg = Some Reg1, bitwise_dreg = Some Reg1, bitwise_len = Some (of_nat (length m)),
     bitwise_mask = Some (value_data m), bitwise_xor = Some (value_data x)\<rparr>"
    using assms by (auto simp: Bitwise_new_def set_field_def Bitwise_default_def split: if_splits)
  show ?thesis
    using value_data_ok [OF assms(2,3)] value_data_ok [OF x] 
      pad_le [of "get_size (NfNetlinkData_attr S (value_data m))" 20]
      pad_le [of "get_size (NfNetlinkData_attr S (value_data x))" 20]
    by (intro fit_exprI) (simp_all add: b Bitwise_ok_def Bitwise_attr_def
        bitwise_fields_def struct_fits_def ends_nonempty_def abi)
qed

lemma payload_fit: "fit_expr S (expr (ExprPayload \<lparr>payload_dreg = Some d, payload_base = Some b,
    payload_offset = Some off, payload_len = Some n, payload_sreg = None\<rparr>))"
  by (rule fit_exprI) (simp_all add: Payload_ok_def Payload_attr_def payload_fields_def
      struct_fits_def ends_nonempty_def abi)

lemma immediate_fit:
  assumes "0 < length v" and "length v \<le> 16"
  shows "fit_expr S (expr (ExprImmediate (Immediate_new_data v reg)))"
  using value_data_ok [OF assms] pad_le [of "get_size (NfNetlinkData_attr S (value_data v))" 20]
  by (intro fit_exprI) (simp_all add: Immediate_ok_def Immediate_attr_def Immediate_new_data_def
      set_field_def [of immediate_data_update] set_field_def [of immediate_dreg_update]
      Immediate_default_def immediate_fields_def struct_fits_def ends_nonempty_def abi)

lemma verdict_fit:
  assumes "\<forall>chain. kind \<noteq> Jump chain \<and> kind \<noteq> Goto chain"
  shows "fit_expr S (expr (ExprImmediate (Immediate_new_verdict kind)))"
proof -
  obtain c where "Immediate_new_verdict kind =
      \<lparr>immediate_dreg = Some RegVerdict, immediate_data = Some (set_field data_verdict_update
         (set_field verdict_code_update c Verdict_default) NfNetlinkData_default)\<rparr>"
    using assms by (cases kind) (auto simp: Immediate_new_verdict_def
      set_field_def [of immediate_data_update] set_field_def [of immediate_dreg_update]
      Immediate_default_def)
  then show ?thesis
    using verdict_data_ok [OF refl, of c]
    by (intro fit_exprI) (simp_all add: Immediate_ok_def Immediate_attr_def
        immediate_fields_def struct_fits_def ends_nonempty_def abi)
qed

lemma conntrack_fit: "fit_expr S (expr (ExprConntrack (Conntrack_new key)))"
  by (rule fit_exprI) (simp_all add: Conntrack_ok_def Conntrack_attr_def Conntrack_new_def
      set_field_def Conntrack_default_def ct_fields_def struct_fits_def ends_nonempty_def abi)

lemma nat_fit: "fit_expr S (expr (ExprNat \<lparr>nat_nat_type = Some t, nat_family = Some f,
    nat_ip_register = Some i, nat_port_register = p\<rparr>))"
  by (rule fit_exprI; cases p) (simp_all add: Nat_ok_def Nat_attr_def nat_fields_def
      struct_fits_def ends_nonempty_def abi)

lemma mss_fit: "fit_expr S (expr (ExprExtHdr tcp_mss_option))"
  by (rule fit_exprI) (simp_all add: ExtHdr_ok_def ExtHdr_attr_def tcp_mss_option_def
      set_field_def ExtHdr_default_def exthdr_fields_def struct_fits_def ends_nonempty_def abi pad_eq)

lemma log_fit:
  assumes "g \<noteq> None \<or> q \<noteq> None" and "pred_option (\<lambda>s. string_ok s \<and> 0 < length s \<and> length s \<le> 80) q"
  shows "fit_expr S (expr (ExprLog \<lparr>log_group = g, log_prefix = q\<rparr>))"
proof (cases q)
  case None
  with assms(1) obtain x where "g = Some x" by auto
  with None show ?thesis
    by (intro fit_exprI) (simp_all add: Log_ok_def Log_attr_def log_fields_def
        struct_fits_def ends_nonempty_def abi pad_eq)
next
  case (Some t)
  with assms(2) have "string_ok t" "0 < length t" "length t \<le> 80" "pad S (length t) \<le> 80"
    "pad S 2 \<le> 4"
    by (simp_all add: pad_le)
  with Some show ?thesis
    by (intro fit_exprI; cases g) (simp_all add: Log_ok_def Log_attr_def log_fields_def
        struct_fits_def ends_nonempty_def abi)
qed

lemma rt_fit:
  "fit_expr S (expr (ExprRt (set_field rt_key_update k (set_field rt_dreg_update d Rt_default))))"
  by (rule fit_exprI) (simp_all add: Rt_ok_def Rt_attr_def set_field_def Rt_default_def
      rt_fields_def struct_fits_def ends_nonempty_def abi)

lemma byteorder_fit: "fit_expr S (expr (ExprByteorder \<lparr>byteorder_sreg = Some s,
    byteorder_dreg = Some d, byteorder_op = Some p, byteorder_len = Some n,
    byteorder_siz = Some z\<rparr>))"
  by (rule fit_exprI) (simp_all add: Byteorder_ok_def Byteorder_attr_def byteorder_fields_def
      struct_fits_def ends_nonempty_def abi)

end

section \<open>What a method appends\<close>

abbreviation masquerade_expr :: RawExpression where
  "masquerade_expr \<equiv> expr (ExprMasquerade Masquerade)"

text \<open>
  An expression whose data have no attributes cannot be read back; the masquerading one never has any.
\<close>

context rule_abi
begin

lemma empty_expression_unreadable:
  assumes "get_size (expr_attr S d) = 0"
  shows "RawExpression_deserialize S (wire (RawExpression_attr S (expr d))) = Err InvalidDataSize"
proof -
  let ?name = "(NFTA_EXPR_NAME S, String_attr (expr_name d))"
  let ?data = "(NFTA_EXPR_DATA S, ExpressionVariant_attr S d)"
  have present: "present (expression_fields S) (expr d) = [?name] @ [?data]"
    by (simp add: expression_fields_def RawExpression_from_def set_field_def
        RawExpression_default_def)
  have decode: "decode_all (expression_decode_attribute S) [?name] RawExpression_default =
      Ok (RawExpression_default\<lparr>expression_name := Some (expr_name d)\<rparr>)"
    using expr_name_ok(1) [of d] by (simp add: expression_decode_attribute_def rstring.read_back)
  have "\<forall>p\<in>set [?name]. attr_fits p"
    using expression_types rstring.writes_attr expr_name_ok(3) [of d]
    by (simp add: attr_fits_def attr_types_ok_def)
  then have "read_attributes S (expression_decode_attribute S) RawExpression_default
      (tlvs S ([?name] @ [?data])) = Err InvalidDataSize"
    by (rule read_attributes_trailing_empty [OF _ decode])
      (simp_all add: variant.writes_attr assms, simp add: ExpressionVariant_attr_def assms)
  then show ?thesis
    by (simp only: RawExpression_deserialize_def RawExpression_attr_def expression.struct_wire
        present bind.simps)
qed

lemma masquerade_size: "get_size (expr_attr S (ExprMasquerade Masquerade)) = 0"
  by (simp add: Masquerade_attr_def masquerade_fields_def struct_attr_def)

lemmas masquerade_unreadable = empty_expression_unreadable [OF masquerade_size]

end

definition extends :: "sys \<Rightarrow> Rule \<Rightarrow> Rule \<Rightarrow> bool" where
  "extends S r r' \<longleftrightarrow>
     (\<exists>es. r' = add_exprs r es \<and> (\<forall>e\<in>set es. fit_expr S e \<or> e = masquerade_expr))"

lemma extends_refl: "extends S r r"
  unfolding extends_def by (rule exI [of _ "[]"]) (simp add: add_exprs_def)

lemma extends_trans: "extends S r r1 \<Longrightarrow> extends S r1 r2 \<Longrightarrow> extends S r r2"
  unfolding extends_def
  by (elim exE conjE, rule_tac x = "es @ esa" in exI) auto

lemma extends_add:
  "extends S r r1 \<Longrightarrow> fit_expr S e \<or> e = masquerade_expr \<Longrightarrow> extends S r (add_expr r1 e)"
  by (erule extends_trans) (auto simp: extends_def add_expr_eq)

lemmas extends_fit = extends_add [OF _ disjI1] and extends_masquerade = extends_add [OF _ disjI2]

context builder_abi
begin

lemmas fits = meta_fit cmp_fit bitwise_fit payload_fit immediate_fit verdict_fit conntrack_fit
  nat_fit mss_fit rt_fit byteorder_fit

lemma build_fit: "fit_expr S (expr (ExprPayload (HighLevelPayload_build S p)))"
  by (cases p) (simp_all add: HighLevelPayload_build_def set_field_def Payload_default_def payload_fit)

lemma octets_length [simp]: "length (octets4 a) = 4" "length (octets6 b) = 16"
  by (simp_all add: octets4_def octets6_def)

lemma ip_to_vec_length [simp]: "length (ip_to_vec ip) \<le> 16"
  by (cases ip) simp_all

lemma bytes_nonempty [simp]:
  "be_bytes n w = [] \<longleftrightarrow> n = 0" "le_bytes n w = [] \<longleftrightarrow> n = 0" "ip_to_vec ip \<noteq> []"
  by (metis length_be_bytes length_0_conv, metis length_le_bytes length_0_conv,
      metis ip_to_vec.elims length_0_conv octets_length zero_neq_numeral)

lemma extends_protocol: "extends S r (protocol S r p)"
  by (simp add: protocol_def Let_def) (intro extends_fit extends_refl fits; simp)

lemma extends_l4:
  "extends S r (icmp S r)" "extends S r (icmpv6_rule S r)" "extends S r (igmp S r)"
  "extends S r (ip6in4 S r)"
  by (simp add: icmp_def icmpv6_rule_def igmp_def ip6in4_def Let_def,
      intro extends_fit extends_refl fits build_fit; simp)+

lemma extends_port: "extends S r (sport S r port p)" "extends S r (dport S r port p)"
  by (simp add: sport_def dport_def match_port_def Let_def,
      intro extends_fit extends_protocol fits build_fit; simp)+

lemma extends_iface_id: "extends S r (iface_id r i)" "extends S r (oface_id r i)"
  by (simp add: iface_id_def oface_id_def Let_def, intro extends_fit extends_refl fits; simp)+

lemma extends_ip: "extends S r (match_ip S r ip source)"
  by (cases ip; simp add: match_ip_def Let_def;
      intro conjI impI extends_fit extends_refl fits build_fit; simp)

lemma extends_verdict: "extends S r (accept r)" "extends S r (drop_packet r)"
  "extends S r (masquerade r)"
  by (simp add: accept_def drop_packet_def masquerade_def,
      intro extends_fit extends_masquerade extends_refl fits; simp)+

lemma extends_dnat: "extends S r (dnat r dst port)"
  by (cases port; simp add: dnat_def Let_def;
      intro extends_fit extends_refl fits; simp)

lemma extends_mss: "extends S r (set_mss r mss)" "extends S r (clamp_mss_to_pmtu r)"
  by (simp add: set_mss_def clamp_mss_to_pmtu_def Let_def,
      (intro extends_fit extends_refl fits byteorder_fit [unfolded set_field_def];
       simp add: set_field_def Byteorder_default_def byteorder_fit))+

lemma extends_iface:
  "iface S r name = Ok r' \<Longrightarrow> extends S r r'" "oface S r name = Ok r' \<Longrightarrow> extends S r r'"
  by (auto simp: iface_def oface_def Let_def ifnamsiz split: if_splits
      intro!: extends_fit extends_refl fits)

lemma Bitwise_new_length: "Bitwise_new m x = Ok b \<Longrightarrow> length m = length x"
  by (simp add: Bitwise_new_def split: if_splits)

lemma extends_network: "match_network S N r net source = Ok r' \<Longrightarrow> extends S r r'"
  by (auto simp: match_network_def Let_def bind_eq_Ok split: if_splits dest: Bitwise_new_length
      intro!: extends_fit extends_refl meta_fit cmp_fit build_fit elim!: bitwise_fit)

lemma extends_established: "established r = Ok r' \<Longrightarrow> extends S r r'"
  by (auto simp: established_def Let_def bind_eq_Ok
      intro!: extends_fit extends_refl conntrack_fit cmp_fit elim!: bitwise_fit)

lemma extends_syn: "syn S r = Ok r' \<Longrightarrow> extends S r r'"
  by (auto simp: syn_def Let_def bind_eq_Ok set_field_def Payload_default_def
      intro!: extends_fit extends_refl payload_fit cmp_fit elim!: bitwise_fit)

lemmas extends_methods = extends_protocol extends_l4 extends_port extends_iface_id extends_ip
  extends_verdict extends_dnat extends_mss extends_iface extends_network extends_established
  extends_syn

end

section \<open>The rules that can be built\<close>

inductive built :: "sys \<Rightarrow> 'n IpNetwork \<Rightarrow> Chain \<Rightarrow> Rule \<Rightarrow> bool" for S N c where
  built_new: "Rule_new S c = Ok r \<Longrightarrow> built S N c r"
| built_icmp: "built S N c r \<Longrightarrow> built S N c (icmp S r)"
| built_icmpv6_rule: "built S N c r \<Longrightarrow> built S N c (icmpv6_rule S r)"
| built_igmp: "built S N c r \<Longrightarrow> built S N c (igmp S r)"
| built_ip6in4: "built S N c r \<Longrightarrow> built S N c (ip6in4 S r)"
| built_protocol: "built S N c r \<Longrightarrow> built S N c (protocol S r p)"
| built_sport: "built S N c r \<Longrightarrow> built S N c (sport S r port p)"
| built_dport: "built S N c r \<Longrightarrow> built S N c (dport S r port p)"
| built_iface_id: "built S N c r \<Longrightarrow> built S N c (iface_id r i)"
| built_oface_id: "built S N c r \<Longrightarrow> built S N c (oface_id r i)"
| built_match_ip: "built S N c r \<Longrightarrow> built S N c (match_ip S r ip source)"
| built_saddr: "built S N c r \<Longrightarrow> built S N c (saddr S r ip)"
| built_daddr: "built S N c r \<Longrightarrow> built S N c (daddr S r ip)"
| built_accept: "built S N c r \<Longrightarrow> built S N c (accept r)"
| built_drop: "built S N c r \<Longrightarrow> built S N c (drop_packet r)"
| built_masquerade: "built S N c r \<Longrightarrow> built S N c (masquerade r)"
| built_dnat: "built S N c r \<Longrightarrow> built S N c (dnat r dst port)"
| built_set_mss: "built S N c r \<Longrightarrow> built S N c (set_mss r mss)"
| built_clamp: "built S N c r \<Longrightarrow> built S N c (clamp_mss_to_pmtu r)"
| built_established: "built S N c r \<Longrightarrow> established r = Ok r' \<Longrightarrow> built S N c r'"
| built_iface: "built S N c r \<Longrightarrow> iface S r name = Ok r' \<Longrightarrow> built S N c r'"
| built_oface: "built S N c r \<Longrightarrow> oface S r name = Ok r' \<Longrightarrow> built S N c r'"
| built_match_network: "built S N c r \<Longrightarrow> match_network S N r net source = Ok r' \<Longrightarrow> built S N c r'"
| built_snetwork: "built S N c r \<Longrightarrow> snetwork S N r net = Ok r' \<Longrightarrow> built S N c r'"
| built_dnetwork: "built S N c r \<Longrightarrow> dnetwork S N r net = Ok r' \<Longrightarrow> built S N c r'"
| built_syn: "built S N c r \<Longrightarrow> syn S r = Ok r' \<Longrightarrow> built S N c r'"
| built_with_expr: "built S N c r \<Longrightarrow> fit_expr S (expr d) \<Longrightarrow> built S N c (with_expr r (expr d))"

context builder_abi
begin

lemma built_extends:
  assumes "built S N c r"
  shows "\<exists>r0. Rule_new S c = Ok r0 \<and> extends S r0 r"
  using assms
  by induction (auto intro: extends_refl extends_trans extends_methods extends_fit
    simp: saddr_def daddr_def snetwork_def dnetwork_def with_expr_def)

text \<open>A list of small admissible expressions is admissible, and its size is bounded.\<close>

lemma fit_exprs:
  assumes "\<forall>e\<in>set es. fit_expr S e"
  shows "ExpressionList_ok S es" and "get_size (ExpressionList_attr S es) \<le> 132 * length es"
    and "es \<noteq> [] \<Longrightarrow> 0 < get_size (ExpressionList_attr S es)"
proof -
  have "list_all (\<lambda>e. RawExpression_ok S e \<and> 4 + get_size (RawExpression_attr S e) < 65536) es"
    using assms by (auto simp: list_all_iff fit_expr_def)
  moreover have "ends_nonempty (list_items S (RawExpression_attr S) es)"
    using assms last_in_set [of es]
    by (cases "es = []") (auto simp: ends_nonempty_def list_items_def last_map fit_expr_def)
  ultimately show "ExpressionList_ok S es" by (simp add: ExpressionList_ok_def list_ok_def)
  have "length (tlvs S (list_items S (RawExpression_attr S) es)) \<le> 132 * length es"
    using assms by (induction es) (auto simp: expression_list.elem_tlv(2) fit_expr_def)
  then show "get_size (ExpressionList_attr S es) \<le> 132 * length es"
    by (simp add: ExpressionList_attr_def list_attr_def expression_list.list_size)
  show "es \<noteq> [] \<Longrightarrow> 0 < get_size (ExpressionList_attr S es)"
    by (cases es) (simp_all add: ExpressionList_attr_def list_attr_def expression_list.list_size)
qed

lemma built_rule_ok:
  assumes "built S N c r" and "masquerade_expr \<notin> set (exprs_of r)"
    and "length (exprs_of r) \<le> 400"
    and names: "pred_option string_ok (chain_table c)" "pred_option string_ok (chain_name c)"
      "pred_option (\<lambda>n. length n \<le> 256) (chain_table c)"
      "pred_option (\<lambda>n. n \<noteq> [] \<and> length n \<le> 256) (chain_name c)"
  shows "rule_ok S r" and "20 + get_size (as_attr (rule_object S) r) < 2 ^ 32"
proof -
  obtain r0 es where r0: "Rule_new S c = Ok r0" and r: "r = add_exprs r0 es"
    and es: "\<forall>e\<in>set es. fit_expr S e \<or> e = masquerade_expr"
    using built_extends [OF assms(1)] by (auto simp: extends_def)
  then obtain t n where c: "chain_table c = Some t" "chain_name c = Some n"
    and r0': "r0 = Rule_default\<lparr>rule_family := chain_family c, rule_table := Some t,
      rule_chain := Some n\<rparr>"
    by (cases "chain_table c"; cases "chain_name c")
      (auto simp: Rule_new_def with_family_def rule_object_def set_field_def Let_def)
  have none: "exprs_of r0 = []" by (simp add: r0' exprs_of_def Rule_default_def)
  then have fit: "\<forall>e\<in>set es. fit_expr S e" using es assms(2) r by auto
  have small: "get_size (ExpressionList_attr S es) \<le> 52800"
    using fit_exprs(2) [OF fit] assms(3) r none by simp
  have pads: "pad S (length t) \<le> 256" "pad S (length n) \<le> 256"
    "pad S (get_size (ExpressionList_attr S es)) \<le> 52800"
    using names(3,4) c small by (simp_all add: pad_le)
  note defs = r r0' add_exprs_def none exprs_of_def rule_fields_def Rule_default_def
  show "rule_ok S r"
    using names c small fit_exprs [OF fit]
    by (cases "es = []") (simp_all add: rule_ok_def rule_base_ok_def struct_fits_def
        ends_nonempty_def defs)
  show "20 + get_size (as_attr (rule_object S) r) < 2 ^ 32"
    using pads by (cases "es = []") (simp_all add: rule_object_def defs abi)
qed

text \<open>Rules with a masquerading expression cannot be read back.\<close>

lemma masquerade_list_unreadable:
  assumes "\<forall>e\<in>set xs. RawExpression_ok S e \<and> 4 + get_size (RawExpression_attr S e) < 65536"
  shows "ExpressionList_deserialize S
    (wire (ExpressionList_attr S (xs @ masquerade_expr # ys))) = Err InvalidDataSize"
proof -
  have "get_size (RawExpression_attr S masquerade_expr) = 12"
    by (simp add: expression_size Masquerade_attr_def masquerade_fields_def str_def pad_eq)
  then show ?thesis
    using assms expression_list.list_read_error [OF _ _ _ masquerade_unreadable, of xs "[]" ys "[]"]
    by (simp add: list_all_iff ExpressionList_deserialize_def ExpressionList_attr_def
        list_deserialize_def expression_list.list_wire)
qed

lemma element_in_list:
  "e \<in> set es \<Longrightarrow> 4 + get_size (RawExpression_attr S e) \<le> get_size (ExpressionList_attr S es)"
  by (induction es)
    (auto simp: ExpressionList_attr_def list_attr_def expression_list.list_size
      expression_list.elem_tlv(2))

lemma masquerade_rule_unreadable:
  assumes es: "rule_expressions r = Some (xs @ masquerade_expr # ys)" "\<forall>e\<in>set xs. RawExpression_ok S e"
    and fits: "struct_fits (rule_fields S) r" and names: "pred_option string_ok (rule_table r)"
      "pred_option string_ok (rule_chain r)"
    and small: "20 + get_size (as_attr (rule_object S) r) < 2 ^ 32"
  shows "object_deserialize S (rule_object S)
    (object_message S (rule_object S) r msg_type seq @ rest) = Err InvalidDataSize"
proof -
  let ?before = "take 3 (rule_fields S)" and ?after = "drop 4 (rule_fields S)"
  let ?obj = "ExpressionList_attr S (xs @ masquerade_expr # ys)"
  have split: "present (rule_fields S) r =
      present ?before r @ (NFTA_RULE_EXPRESSIONS S, ?obj) # present ?after r"
    using es(1) by (simp add: rule_fields_def)
  have all_fit: "\<forall>p\<in>set (present (rule_fields S) r). attr_fits p"
    by (rule rule.present_fits [OF fits])
  have reads: "\<forall>f\<in>set ?before. field_reads r f"
    using names by (auto simp: rule_fields_def struct_simps)
  have "distinct (map netlink_type (rule_fields S))"
    using rule.types by (simp add: attr_types_ok_def)
  then have dec: "decode_all (struct_decode_attribute (rule_fields S)) (present ?before r)
      Rule_default = Ok (fold (field_upd r) ?before Rule_default)"
    using reads by (rule decode_all_present) (rule set_take_subset)
  have "0 < get_size ?obj"
    by (cases xs) (simp_all add: ExpressionList_attr_def list_attr_def expression_list.list_size)
  moreover have "4 + get_size ?obj < 65536"
    using all_fit unfolding split by (simp add: attr_fits_def)
  then have "\<forall>e\<in>set xs. RawExpression_ok S e \<and> 4 + get_size (RawExpression_attr S e) < 65536"
    using es(2) element_in_list [of _ "xs @ masquerade_expr # ys"] by fastforce
  then have "struct_decode_attribute (rule_fields S) s (NFTA_RULE_EXPRESSIONS S) (wire ?obj) =
      Err InvalidDataSize" for s
    using rule_types masquerade_list_unreadable [of xs ys]
    by (auto simp: rule_fields_def attr_types_ok_def) (simp add: mk_field_def)
  ultimately have "read_attributes S (struct_decode_attribute (rule_fields S)) Rule_default
      (tlvs S (present (rule_fields S) r)) = Err InvalidDataSize"
    using all_fit unfolding split by (intro read_attributes_error [OF _ dec]) auto
  then show ?thesis
    using small by (intro rule.object_decode_error)
      (simp_all add: rule.struct_wire rule_object_def)
qed

end

interpretation linux: builder_abi linux_sys
  by unfold_locales simp

end
