(* ===== verification/BuiltSets.thy ===== *)
theory BuiltSets
  imports BuiltRules
begin

text \<open>
  The sets that \<open>SetBuilder\<close> builds: what \<open>new\<close>, \<open>add\<close> and \<open>finish\<close> produce together, and that the
  results are admissible, so that the messages about them can be read back.
\<close>

text \<open>The element of a key.\<close>

definition key_element :: "bytes \<Rightarrow> SetElement" where
  "key_element v = \<lparr>element_key = Some (value_data v)\<rparr>"

text \<open>The set and the element list of a builder that was given the keys \<open>ks\<close>.\<close>

definition built_set :: "'k DataType \<Rightarrow> rust_string \<Rightarrow> rust_string \<Rightarrow> Set" where
  "built_set K n t =
     Set_default\<lparr>nfset_table := Some t, nfset_name := Some n, nfset_key_type := Some (TYPE_CONST K),
       nfset_key_len := Some (LEN_CONST K)\<rparr>"

definition built_elements ::
  "'k DataType \<Rightarrow> rust_string \<Rightarrow> rust_string \<Rightarrow> 'k list \<Rightarrow> SetElementList" where
  "built_elements K n t ks =
     \<lparr>elements_table = Some t, elements_set = Some n,
      elements_elements = Some (map (\<lambda>k. key_element (key_bytes K k)) ks)\<rparr>"

lemma add_all_elements:
  assumes "elements_elements (builder_list b) = Some es"
  shows "SetBuilder_add_all K b ks =
    Ok (b\<lparr>builder_list := (builder_list b)\<lparr>elements_elements :=
          Some (es @ map (\<lambda>k. key_element (key_bytes K k)) ks)\<rparr>\<rparr>)"
  using assms
  by (induction ks arbitrary: b es)
    (simp_all add: SetBuilder_add_def add_value_def key_element_def Let_def)

lemma builder_result:
  assumes "table_name t = Some tn"
  shows "\<exists>b0 b. SetBuilder_new K n t = Ok b0 \<and> SetBuilder_add_all K b0 ks = Ok b \<and>
    SetBuilder_finish b = (built_set K n tn, built_elements K n tn ks)"
  using assms
  by (simp add: SetBuilder_new_def add_all_elements SetBuilder_finish_def built_set_def
      built_elements_def set_field_def Set_default_def)

context builder_abi
begin

lemma key_element_ok:
  assumes "0 < length v" and "length v \<le> 16"
  shows "SetElement_ok S (key_element v)"
    and "0 < get_size (SetElement_attr S (key_element v))"
    and "get_size (SetElement_attr S (key_element v)) \<le> 24"
  using value_data_ok [OF assms] pad_le [of "get_size (NfNetlinkData_attr S (value_data v))" 20]
  by (simp_all add: SetElement_ok_def SetElement_attr_def key_element_def element_fields_def
      struct_fits_def ends_nonempty_def abi)

lemma elements_size:
  assumes "\<forall>k\<in>set vs. 0 < length k \<and> length k \<le> 16"
  shows "length (tlvs S (list_items S (SetElement_attr S) (map key_element vs))) \<le> 28 * length vs"
  using assms
proof (induction vs)
  case (Cons v vs)
  then show ?case using key_element_ok(3) [of v] by (simp add: element_list.elem_tlv(2))
qed simp

lemma keys_ok:
  assumes "\<forall>k\<in>set vs. 0 < length k \<and> length k \<le> 16" and "vs \<noteq> []"
  shows "list_ok S (SetElement_attr S) (SetElement_ok S) (map key_element vs)"
proof -
  have "SetElement_ok S (key_element v) \<and> 4 + get_size (SetElement_attr S (key_element v)) < 65536"
    if "v \<in> set vs" for v
    using key_element_ok [of v] assms(1) that by auto
  moreover have "ends_nonempty (list_items S (SetElement_attr S) (map key_element vs))"
    using assms key_element_ok(2) [of "last vs"]
    by (simp add: ends_nonempty_def list_items_def last_map)
  ultimately show ?thesis by (simp add: list_ok_def list_all_iff)
qed

lemma built_set_ok:
  assumes names: "string_ok n" "0 < length n" "length n \<le> 256" "string_ok t" "length t \<le> 256"
  shows "set_ok S (built_set K n t)"
    and "20 + get_size (as_attr (set_object S) (built_set K n t)) < 2 ^ 32"
  using names pad_le [of "length n" 256] pad_le [of "length t" 256]
  by (simp_all add: set_ok_def set_base_ok_def built_set_def Set_default_def struct_fits_def
      nfset_fields_def ends_nonempty_def set_object_def abi)

lemma built_elements_ok:
  assumes names: "string_ok n" "length n \<le> 256" "string_ok t" "length t \<le> 256"
    and keys: "\<forall>k\<in>set ks. 0 < length (key_bytes K k) \<and> length (key_bytes K k) \<le> 16"
      "ks \<noteq> []" "length ks \<le> 2000"
  shows "elements_ok S (built_elements K n t ks)"
    and "20 + get_size (as_attr (elements_object S) (built_elements K n t ks)) < 2 ^ 32"
proof -
  define vs where "vs = map (key_bytes K) ks"
  define size where "size = get_size (list_attr S (SetElement_attr S) (map key_element vs))"
  have es: "built_elements K n t ks =
      \<lparr>elements_table = Some t, elements_set = Some n, elements_elements = Some (map key_element vs)\<rparr>"
    by (simp add: built_elements_def vs_def)
  have vs: "\<forall>v\<in>set vs. 0 < length v \<and> length v \<le> 16" "vs \<noteq> []" "length vs \<le> 2000"
    using keys by (simp_all add: vs_def)
  have ok: "list_ok S (SetElement_attr S) (SetElement_ok S) (map key_element vs)"
    using vs by (intro keys_ok)
  have small: "size \<le> 56000"
    using elements_size [OF vs(1)] vs(3) by (simp add: size_def list_attr_def element_list.list_size)
  have pos: "0 < size"
    using vs(2) by (cases vs) (simp_all add: size_def list_attr_def element_list.list_size)
  show "elements_ok S (built_elements K n t ks)"
    unfolding es elements_ok_def elements_base_ok_def
    using ok small pos names
    by (simp add: struct_fits_def elements_fields_def ends_nonempty_def flip: size_def)
  show "20 + get_size (as_attr (elements_object S) (built_elements K n t ks)) < 2 ^ 32"
    unfolding es
    using names pad_le [of "length n" 256] pad_le [of "length t" 256] pad_le [OF small]
    by (simp add: elements_object_def elements_fields_def abi flip: size_def)
qed

end

text \<open>
  A list without elements, which the builder makes when no key is added, ends with an attribute
  without payload and cannot be read back.
\<close>

context set_abi
begin

lemma empty_elements_unreadable:
  assumes es: "elements_elements es = Some []" and small: "20 + get_size (as_attr (elements_object S) es) < 2 ^ 32"
    and table: "pred_option (\<lambda>n. string_ok n \<and> 4 + length n < 65536) (elements_table es)"
    and nfset: "pred_option (\<lambda>n. string_ok n \<and> 4 + length n < 65536) (elements_set es)"
  shows "object_deserialize S (elements_object S)
    (object_message S (elements_object S) es msg_type seq @ rest) = Err InvalidDataSize"
proof -
  let ?before = "take 2 (elements_fields S)" and ?obj = "list_attr S (SetElement_attr S) []"
  have split: "present (elements_fields S) es =
      present ?before es @ [(NFTA_SET_ELEM_LIST_ELEMENTS S, ?obj)]"
    using es by (simp add: elements_fields_def)
  have fits: "\<forall>p\<in>set (present ?before es). attr_fits p"
    using table nfset elements_types rstring.writes_attr
    by (cases "elements_table es"; cases "elements_set es")
      (auto simp: elements_fields_def attr_fits_def attr_types_ok_def)
  have reads: "\<forall>f\<in>set ?before. field_reads es f"
    using table nfset
    by (cases "elements_table es"; cases "elements_set es") (auto simp: elements_fields_def struct_simps)
  have "distinct (map netlink_type (elements_fields S))"
    using elements.types by (simp add: attr_types_ok_def)
  then have "decode_all (struct_decode_attribute (elements_fields S)) (present ?before es)
      SetElementList_default = Ok (fold (field_upd es) ?before SetElementList_default)"
    using reads by (rule decode_all_present) (rule set_take_subset)
  then have "read_attributes S (struct_decode_attribute (elements_fields S)) SetElementList_default
      (tlvs S (present (elements_fields S) es)) = Err InvalidDataSize"
    unfolding split by (rule read_attributes_trailing_empty [OF fits])
      (rule element_list.writes_attr, simp add: list_attr_def list_get_size_def)
  then show ?thesis
    using small by (intro elements.object_decode_error)
      (simp_all add: elements.struct_wire elements_object_def)
qed

lemma empty_elements_trip:
  assumes es: "elements_elements es = Some []"
    and table: "pred_option (\<lambda>n. string_ok n \<and> 4 + length n < 65536) (elements_table es)"
    and nfset: "pred_option (\<lambda>n. string_ok n \<and> 4 + length n < 65536) (elements_set es)"
  shows "\<exists>w. add_or_remove S (elements_object S) es (writer_new []) msg_type seq = Ok w \<and>
    object_deserialize S (elements_object S) (w_buf w @ rest) = Err InvalidDataSize"
proof -
  have "pad S (length n) \<le> 65535" if "4 + length n < 65536" for n :: rust_string
    using that by (simp add: pad_eq)
  then have "pred_option (\<lambda>n. pad S (length n) \<le> 65535) (elements_table es)"
    "pred_option (\<lambda>n. pad S (length n) \<le> 65535) (elements_set es)"
    using table nfset by (auto elim!: option.pred_mono_strong)
  then have "get_size (as_attr (elements_object S) es) \<le> 140000"
    using es
    by (cases "elements_table es"; cases "elements_set es")
      (simp_all add: elements_object_def elements_fields_def struct_attr_def list_attr_def
        list_get_size_def abi)
  then have small: "20 + get_size (as_attr (elements_object S) es) < 2 ^ 32" by simp
  then show ?thesis
    using elements.object_write [of "writer_new []" es] empty_elements_unreadable [OF es _ table nfset]
    by (simp add: writer_new_def)
qed

lemma emptied_elements_trip:
  assumes "elements_ok S es"
  shows "\<exists>w. add_or_remove S (elements_object S) (es\<lparr>elements_elements := Some []\<rparr>) (writer_new [])
      msg_type seq = Ok w \<and>
    object_deserialize S (elements_object S) (w_buf w @ rest) = Err InvalidDataSize"
proof -
  have "pred_option (\<lambda>n. string_ok n \<and> 4 + length n < 65536) (elements_table es)"
    "pred_option (\<lambda>n. string_ok n \<and> 4 + length n < 65536) (elements_set es)"
    using assms
    by (cases "elements_table es"; cases "elements_set es";
        simp add: elements_ok_def elements_base_ok_def struct_fits_def elements_fields_def)+
  then show ?thesis by (intro empty_elements_trip) simp_all
qed

end

end
