(* ===== verification/Soundness.thy ===== *)
theory Soundness
  imports RuleMethods
begin

text \<open>
  Decoding arbitrary bytes is sound: none of the raw pointer reads of \<open>src/parser.rs\<close> and
  \<open>src/parser_impls.rs\<close> leaves its buffer and every loop ends, whatever the input is. A malformed
  input may still make a checked slice index or subtraction panic.

  Soundness is compositional: a decoder that is sound on every input (\<open>total_dec\<close>) gives a sound
  field, sound fields give a sound structure, sound elements a sound list.
\<close>

definition total_dec :: "(bytes \<Rightarrow> ('e, 'a) outcome) \<Rightarrow> bool" where
  "total_dec deser \<longleftrightarrow> (\<forall>b. sound (deser b))"

definition sound_field :: "'s field \<Rightarrow> bool" where
  "sound_field f \<longleftrightarrow> total_dec (field_decode f)"

named_theorems sound_intros \<open>total decoders and sound fields\<close>

lemma totalI: "(\<And>b. sound (deser b)) \<Longrightarrow> total_dec deser"
  by (simp add: total_dec_def)

lemma totalD: "total_dec deser \<Longrightarrow> sound (deser b)"
  by (simp add: total_dec_def)

lemma sound_if [intro]: "(c \<Longrightarrow> sound x) \<Longrightarrow> (\<not> c \<Longrightarrow> sound y) \<Longrightarrow> sound (if c then x else y)"
  by simp

section \<open>Loops\<close>

context netlink_abi
begin

lemma step_keeps_end:
  assumes "read_attribute_step S decode b pos r s = Ok (pos', r', s')" and "pos + r = length b"
  shows "pos' + r' = length b" and "r' < r"
proof -
  from assms(1) obtain len p where len: "4 \<le> len" "pad S len \<le> r" "r' = r - pad S len"
    and pos': "pos' = pos + 4 + pad S (len - 4)"
    by (auto simp: read_attribute_step_def Let_def bind_eq_Ok usize_sub_eq_Ok abi split: if_splits)
  have "pad S len = 4 + pad S (len - 4)"
    using pad_add_dvd [of 4 "len - 4"] len(1) by simp
  then show "pos' + r' = length b" "r' < r" using assms(2) len pos' by simp_all
qed

lemma step_sound:
  assumes "\<And>s ty p. sound (decode s ty p)" and "pos + r = length b" and "4 < r"
  shows "sound (read_attribute_step S decode b pos r s)"
proof -
  have "sound (case decode s ty p of Err (UnsupportedAttributeType t) \<Rightarrow> Ok s | r \<Rightarrow> r)" for ty p
    using assms(1) [of s ty p] by (auto split: outcome.splits DecodeError.splits)
  then show ?thesis
    using assms(2,3)
    by (auto simp: read_attribute_step_def Let_def sizes slice_from_eq_Ok intro!: sound_bind)
qed

lemma read_attributes_loop_sound:
  assumes "\<And>s ty p. sound (decode s ty p)" and "pos + r = length b"
  shows "sound (read_attributes_loop S decode b pos r s)"
  using assms(2)
proof (induction r arbitrary: pos s rule: less_induct)
  case (less r)
  show ?case
  proof (cases "4 < r")
    case True
    have "sound (read_attribute_step S decode b pos r s)"
      by (rule step_sound [OF assms(1) less.prems True])
    moreover have "sound (read_attributes_loop S decode b pos' r' s')"
      if "read_attribute_step S decode b pos r s = Ok (pos', r', s')" for pos' r' s'
      using less.IH step_keeps_end [OF that less.prems] by simp
    ultimately show ?thesis
      by (subst read_attributes_loop.simps)
        (auto simp: abi True intro!: sound_bind dest: step_keeps_end [OF _ less.prems])
  next
    case False
    then show ?thesis by (subst read_attributes_loop.simps) (simp add: abi)
  qed
qed

lemma read_attributes_sound:
  "(\<And>s ty p. sound (decode s ty p)) \<Longrightarrow> sound (read_attributes S decode d b)"
  by (simp add: read_attributes_def read_attributes_loop_sound)

lemma list_loop_sound:
  assumes "total_dec deser"
  shows "sound (list_deserialize_loop S deser b pos objs)"
proof (induction "length b - pos" arbitrary: pos objs rule: less_induct)
  case less
  have progress: "0 < pad S (unat (nla_len a))"
    if "slice_range b (pos + 4) (pos + unat (nla_len a)) = (Ok p :: bytes decoded)"
    for a :: nlattr and p
  proof -
    from that have "4 \<le> unat (nla_len a)" by (simp add: slice_range_eq_Ok)
    then show ?thesis using pad_ge [of "unat (nla_len a)"] by linarith
  qed
  have IH: "sound (list_deserialize_loop S deser b (pos + k) objs')"
    if "0 < k" "4 < length b - pos" for k objs'
    using that by (intro less) simp
  show ?case
    using progress
    by (subst list_deserialize_loop.simps)
      (auto simp: Let_def abi usize_sub_eq_Ok slice_from_eq_Ok totalD [OF assms] IH
        intro!: sound_bind)
qed

lemma list_total [sound_intros]: "total_dec deser \<Longrightarrow> total_dec (list_deserialize S deser)"
  by (simp add: total_dec_def list_deserialize_def list_loop_sound [unfolded total_dec_def])

section \<open>Messages\<close>

lemma get_nlmsghdr_sound: "sound (get_nlmsghdr S b)"
  by (auto simp: get_nlmsghdr_def Let_def intro!: sound_bind)

lemma parse_nlmsg_sound: "sound (parse_nlmsg S b)"
  by (auto simp: parse_nlmsg_def Let_def i32_abs_def intro!: sound_bind get_nlmsghdr_sound)

lemma parse_object_sound:
  assumes "\<And>s ty p. sound (decode s ty p)"
  shows "sound (parse_object S decode d b add_obj del_obj)"
  by (auto simp: parse_object_def Let_def split: NlMsg.splits
      intro!: sound_bind parse_nlmsg_sound read_attributes_sound assms)

end

section \<open>Generated code\<close>

lemma enum_try_from_sound: "sound (enum_try_from val variants unknown v)"
  by (simp add: enum_try_from_def split: option.splits)

lemma enum_total: "total_dec repr \<Longrightarrow> total_dec (enum_deserialize repr (enum_try_from val variants unknown))"
  by (auto simp: total_dec_def enum_deserialize_def enum_try_from_sound intro!: sound_bind)

lemma mk_field_sound [sound_intros]: "total_dec deser \<Longrightarrow> sound_field (mk_field ty attr deser get upd)"
  by (auto simp: sound_field_def total_dec_def mk_field_def intro!: sound_bind)

lemma struct_decode_sound:
  "list_all sound_field fs \<Longrightarrow> sound (struct_decode_attribute fs s ty b)"
  by (induction fs) (auto simp: sound_field_def total_dec_def intro!: sound_bind)

lemma optional_sound [sound_intros]:
  "(\<And>ty. sound_field (mk ty)) \<Longrightarrow> list_all sound_field (optional_field t mk)"
  by (simp add: optional_field_def split: option.splits)

lemma leaf_total [sound_intros]:
  "total_dec u8_deserialize" "total_dec u16_deserialize" "total_dec i32_deserialize" "total_dec u32_deserialize"
  "total_dec u64_deserialize" "total_dec String_deserialize" "total_dec bytes_deserialize"
  by (auto simp: total_dec_def u8_deserialize_def u16_deserialize_def i32_deserialize_def
      u32_deserialize_def u64_deserialize_def be_read_def String_deserialize_def from_utf8_def
      bytes_deserialize_def Let_def intro!: sound_bind)

context netlink_abi
begin

lemma struct_total [sound_intros]:
  "list_all sound_field fs \<Longrightarrow> total_dec (struct_deserialize S fs d)"
  by (auto simp: total_dec_def struct_deserialize_def
      intro!: sound_bind read_attributes_sound struct_decode_sound)

section \<open>The types of the crate\<close>

lemma enums_total [sound_intros]:
  "total_dec (Register_deserialize S)"
  "total_dec (VerdictType_deserialize S)"
  "total_dec (ByteorderOp_deserialize S)"
  "total_dec (CmpOp_deserialize S)"
  "total_dec (ConntrackKey_deserialize S)"
  "total_dec (ExtHdrOp_deserialize S)"
  "total_dec (MetaType_deserialize S)"
  "total_dec (NatType_deserialize S)"
  "total_dec (RejectType_deserialize S)"
  "total_dec (IcmpCode_deserialize S)"
  "total_dec (RtKey_deserialize S)"
  "total_dec (ProtocolFamily_deserialize S)"
  by (simp_all add: enum_total leaf_total Register_deserialize_def Register_try_from_def VerdictType_deserialize_def VerdictType_try_from_def ByteorderOp_deserialize_def ByteorderOp_try_from_def CmpOp_deserialize_def CmpOp_try_from_def ConntrackKey_deserialize_def ConntrackKey_try_from_def ExtHdrOp_deserialize_def ExtHdrOp_try_from_def MetaType_deserialize_def MetaType_try_from_def NatType_deserialize_def NatType_try_from_def RejectType_deserialize_def RejectType_try_from_def IcmpCode_deserialize_def IcmpCode_try_from_def RtKey_deserialize_def RtKey_try_from_def ProtocolFamily_deserialize_def ProtocolFamily_try_from_def)

lemma data_total [sound_intros]:
  "total_dec (Verdict_deserialize S)" "total_dec (NfNetlinkData_deserialize S)"
  "total_dec (SetElement_deserialize S)" "total_dec (Hook_deserialize S)"
  by (simp_all add: Verdict_deserialize_def verdict_fields_def NfNetlinkData_deserialize_def
      data_fields_def SetElement_deserialize_def element_fields_def Hook_deserialize_def
      hook_fields_def sound_intros)

lemma exprs_total [sound_intros]:
  "total_dec (Bitwise_deserialize S)"
  "total_dec (Byteorder_deserialize S)"
  "total_dec (Cmp_deserialize S)"
  "total_dec (Conntrack_deserialize S)"
  "total_dec (Counter_deserialize S)"
  "total_dec (ExtHdr_deserialize S)"
  "total_dec (Immediate_deserialize S)"
  "total_dec (Log_deserialize S)"
  "total_dec (Lookup_deserialize S)"
  "total_dec (Masquerade_deserialize S)"
  "total_dec (Meta_deserialize S)"
  "total_dec (Nat_deserialize S)"
  "total_dec (Payload_deserialize S)"
  "total_dec (Reject_deserialize S)"
  "total_dec (Rt_deserialize S)"
  by (simp_all add: sound_intros Bitwise_deserialize_def bitwise_fields_def Byteorder_deserialize_def byteorder_fields_def Cmp_deserialize_def cmp_fields_def Conntrack_deserialize_def ct_fields_def Counter_deserialize_def counter_fields_def ExtHdr_deserialize_def exthdr_fields_def Immediate_deserialize_def immediate_fields_def Log_deserialize_def log_fields_def Lookup_deserialize_def lookup_fields_def Masquerade_deserialize_def masquerade_fields_def Meta_deserialize_def meta_fields_def Nat_deserialize_def nat_fields_def Payload_deserialize_def payload_fields_def Reject_deserialize_def reject_fields_def Rt_deserialize_def rt_fields_def)

lemma expr_decode_sound: "sound (expr_decode S name b)"
  by (auto simp: expr_decode_def expr_arm_def ExpressionRaw_deserialize_def
      intro!: sound_bind exprs_total [THEN totalD])

lemma RawExpression_total [sound_intros]: "total_dec (RawExpression_deserialize S)"
proof (rule totalI)
  have "sound (expression_decode_attribute S e ty b)" for e ty b
    by (auto simp: expression_decode_attribute_def ok_or_def split: option.splits
        intro!: sound_bind expr_decode_sound leaf_total [THEN totalD])
  then show "sound (RawExpression_deserialize S b)" for b
    by (auto simp: RawExpression_deserialize_def intro!: sound_bind read_attributes_sound)
qed

lemma chain_total [sound_intros]:
  "total_dec (ChainPolicy_deserialize S)" "total_dec ChainType_deserialize"
  by (auto simp: total_dec_def ChainPolicy_deserialize_def ChainType_deserialize_def
      intro!: sound_bind leaf_total [THEN totalD])

lemma object_total:
  assumes "decode_attribute T = struct_decode_attribute fs" and "list_all sound_field fs"
  shows "sound (object_deserialize S T b)"
  by (auto simp: object_deserialize_def assms(1) ProtocolFamily_try_from_def
      intro!: sound_bind parse_object_sound struct_decode_sound assms(2) enum_try_from_sound)

lemma objects_total:
  "sound (object_deserialize S (table_object S) b)"
  "sound (object_deserialize S (chain_object S) b)"
  "sound (object_deserialize S (rule_object S) b)"
  "sound (object_deserialize S (set_object S) b)"
  "sound (object_deserialize S (elements_object S) b)"
  by (rule object_total, simp add: table_object_def chain_object_def rule_object_def
      set_object_def elements_object_def, simp add: table_fields_def chain_fields_def
      rule_fields_def nfset_fields_def elements_fields_def ExpressionList_deserialize_def
      sound_intros)+

end

end
