(* ===== verification/Witnesses.thy ===== *)
theory Witnesses
  imports Batches BuiltSets Soundness
begin

text \<open>
  Facts of the components under names that can be used outside their locales, and the concrete
  objects and kernels at which the properties are evaluated: the table, chain and rule of the unit
  tests, and kernels that answer a dump request or a batch.
\<close>

section \<open>Facts of the components\<close>

text \<open>
  A kernel that takes a request of \<open>n\<close> bytes and answers with a dump, and the messages of its dumps:
  Linux sends them with its port number, the generation of the rule set and the multi-part flag.
\<close>

definition done_hdr :: nlmsghdr where
  "done_hdr = \<lparr>nlmsg_len = 20, nlmsg_type = 3, nlmsg_flags = 2, nlmsg_seq = 0, nlmsg_pid = 0\<rparr>"

definition dump_kernel :: "sys \<Rightarrow> nat \<Rightarrow> entry list list \<Rightarrow> entry list \<Rightarrow> kernel" where
  "dump_kernel S n ess es =
     \<lparr>open_result = Inr 3, bind_result = None, send_results = [Inr n],
      recv_results = map (\<lambda>bs. Received (stream bs)) (dump_datagrams S ess es done_hdr (replicate 4 0)),
      close_result = None\<rparr>"

definition dumped :: "sys \<Rightarrow> 'a nf_object \<Rightarrow> ProtocolFamily \<Rightarrow> kattr list \<Rightarrow> entry" where
  "dumped S T family as =
     (\<lparr>nlmsg_len = of_nat (20 + length (kernel_attrs S as)),
       nlmsg_type = full_type S (object_type T Add), nlmsg_flags = 2, nlmsg_seq = 0,
       nlmsg_pid = 0x1A2B\<rparr>,
      \<lparr>nfgen_family = ucast (ProtocolFamily_value S family), genmsg_version = 0,
       genmsg_res_id = 0x0700\<rparr>, as)"

lemma done_ok: "control_ok done_hdr (replicate 4 0)" "nlmsg_type done_hdr = 3"
  by (simp_all add: control_ok_def done_hdr_def)

lemma dump_kernel_answers:
  assumes "list_all (dump_entry S T) (concat ess @ es)" and "list_all (\<lambda>es. es \<noteq> []) ess"
    and "list_all (\<lambda>bs. length (stream bs) \<le> 65535) (dump_datagrams S ess es done_hdr (replicate 4 0))"
    and "length req = n"
  shows "dump_answer S 4096 T (dump_kernel S n ess es) 3 req ess es done_hdr (replicate 4 0)"
  using assms done_ok by (simp add: dump_answer_def dump_kernel_def list_all_iff)

lemmas dump_sizes = dump_datagrams_def entry_block_def reply_block_def done_block_def
  linux.length_reply linux.length_control linux.length_kernel_attr linux.pad_eq str_def

lemmas dump_entries = dump_entry_def dumped_def reply_header_def kattr_ok_def

text \<open>
  The attributes that Linux sends for a table, a chain with the policy \<open>Drop\<close> and a rule with one
  expression: strings end with NUL, and the number of uses and the handles of tables and chains are
  attributes that the crate does not know.
\<close>

definition linux_table :: "bytes \<Rightarrow> kattr list" where
  "linux_table name =
     [(1, False, name @ [0]), (2, False, [0, 0, 0, 0]), (3, False, [0, 0, 0, 2]),
      (4, False, [0, 0, 0, 0, 0, 0, 0, 9])]"

definition linux_chain :: "bytes \<Rightarrow> bytes \<Rightarrow> kattr list" where
  "linux_chain table name =
     [(1, False, table @ [0]), (2, False, [0, 0, 0, 0, 0, 0, 0, 1]), (3, False, name @ [0]),
      (4, True, kernel_attrs linux_sys [(1, False, [0, 0, 0, 1]), (2, False, [0, 0, 0, 0])]),
      (5, False, [0, 0, 0, 0]), (7, False, str ''filter'' @ [0]), (6, False, [0, 0, 0, 3])]"

definition linux_rule :: "bytes \<Rightarrow> kattr list \<Rightarrow> kattr list" where
  "linux_rule name as =
     [(1, False, str ''mocktable'' @ [0]), (2, False, str ''mockchain'' @ [0]),
      (3, False, [0, 0, 0, 0, 0, 0, 0, 5]),
      (4, True, kernel_attrs linux_sys
        [(1, True, kernel_attrs linux_sys
           [(1, False, name @ [0]), (2, True, kernel_attrs linux_sys as)])])]"

context rule_abi
begin

lemmas rule_trip = rule.object_trip
lemmas chain_trip = chain.object_trip
lemmas nfset_trip = nfset.object_trip
lemmas elements_trip = elements.object_trip
lemmas empty_elements = empty_elements_trip
lemmas emptied_elements = emptied_elements_trip
lemmas named_back = named.read_back
lemmas rule_write = rule.object_write
lemmas batch_finish = batch_finalize_inv
lemmas table_message_length = table.length_object_message
lemmas length_rule_wire = length_wire [OF rule.obj_writes]
lemmas tables_dump = table.list_objects_dump
lemmas chains_dump = chain.list_objects_dump
lemmas rules_dump = rule.list_objects_dump
lemmas request_none = get_list_of_objects_none
lemmas request_filter = get_list_of_objects_filter [OF rule.obj_writes rule.obj_aligned]

end

text \<open>A chain that names its table and itself with valid short strings.\<close>

definition chain_named :: "Chain \<Rightarrow> bool" where
  "chain_named c \<longleftrightarrow>
     (\<exists>t n. chain_table c = Some t \<and> chain_name c = Some n \<and> string_ok t \<and> string_ok n \<and>
        length t \<le> 256 \<and> 0 < length n \<and> length n \<le> 256)"

lemma fold_append_singleton: "fold (\<lambda>x xs. xs @ [x]) ys xs = xs @ ys"
  by (induction ys arbitrary: xs) simp_all

lemma fold_append_filter:
  "fold (\<lambda>x xs. if P x then xs @ [x] else xs) ys xs = xs @ filter P ys"
  by (induction ys arbitrary: xs) simp_all

section \<open>Concrete objects for the witnesses\<close>

definition example_table :: Table where
  "example_table = (Table_new FamInet)\<lparr>table_name := Some (str ''mocktable'')\<rparr>"

definition example_chain :: Chain where
  "example_chain = (Chain_new example_table)\<lparr>chain_name := Some (str ''mockchain'')\<rparr>"

definition example_rule :: Rule where
  "example_rule =
     (case Rule_new linux_sys example_chain of
        Ok r \<Rightarrow> accept (dport linux_sys r 80 TCP) | _ \<Rightarrow> Rule_default)"

lemmas example_defs = example_table_def example_chain_def Table_new_def Table_default_def
  Chain_new_def Chain_default_def ProtocolFamily_default_def set_field_def

lemma example_names:
  "string_ok (str ''mocktable'')" "string_ok (str ''mockchain'')"
  by (simp_all add: string_ok_def str_def utf8_valid_ascii)

lemma example_chain_named: "chain_named example_chain"
  using example_names by (simp add: chain_named_def example_defs) (simp add: str_def)

lemma example_rule_built: "built linux_sys cidr example_chain example_rule"
proof -
  obtain r where r: "Rule_new linux_sys example_chain = Ok r"
    by (simp add: Rule_new_def example_defs Let_def)
  then have "example_rule = accept (dport linux_sys r 80 TCP)" by (simp add: example_rule_def)
  then show ?thesis using r by (metis built.built_accept built.built_dport built.built_new)
qed

lemma example_rule_exprs:
  "masquerade_expr \<notin> set (exprs_of example_rule)" "length (exprs_of example_rule) \<le> 400"
  by (simp_all add: example_rule_def Rule_new_def example_defs Let_def accept_def dport_def
      match_port_def protocol_def add_expr_eq RawExpression_from_def RawExpression_default_def
      with_family_def rule_object_def Rule_default_def exprs_of_def add_exprs_def)

lemma example_rule_ok:
  "rule_ok linux_sys example_rule"
  "20 + get_size (as_attr (rule_object linux_sys) example_rule) < 2 ^ 32"
  using linux.built_rule_ok [OF example_rule_built example_rule_exprs] example_names
  by (simp_all add: example_defs) (simp_all add: str_def)

lemma example_ok: "table_ok linux_sys example_table" "chain_ok linux_sys example_chain"
  using example_names
  by (simp_all add: table_ok_def table_base_ok_def chain_ok_def chain_base_ok_def example_defs
      table_fields_def chain_fields_def struct_fits_def ends_nonempty_def, simp_all add: str_def)

lemma example_rule_size: "get_size (as_attr (rule_object linux_sys) example_rule) \<le> 60000"
  by (simp add: rule_object_def rule_fields_def example_rule_def Rule_new_def example_defs Let_def
      accept_def dport_def match_port_def protocol_def add_expr_eq add_exprs_def exprs_of_def
      with_family_def Rule_default_def linux.pad_eq pad_netlink_object_def
      str_def ExpressionList_attr_def list_attr_def list_get_size_def linux.expression_size
      Meta_attr_def meta_fields_def Cmp_attr_def cmp_fields_def Payload_attr_def payload_fields_def
      Immediate_attr_def immediate_fields_def Meta_new_def Cmp_new_def HighLevelPayload_build_def
      Immediate_new_verdict_def NfNetlinkData_attr_def data_fields_def Verdict_attr_def
      verdict_fields_def Meta_default_def Payload_default_def Immediate_default_def
      NfNetlinkData_default_def Verdict_default_def)

end
