(* ===== verification/WireProps.thy ===== *)
theory WireProps
  imports Witnesses
begin

text \<open>
  Properties of the wire format: the exact layout of a message, what decoders make of unknown
  attributes, unknown numbers and strings, alignment, the width of the length field, and the values
  that do not survive a round trip.
\<close>

section \<open>Decoding in general\<close>

context nf_struct_codec
begin

lemma read_with_unknown:
  assumes "ok s" and "filter (\<lambda>p. fst p \<in> netlink_type ` set fs) ps = present fs s"
    and "\<forall>p\<in>set ps. attr_fits p" and "ends_nonempty ps"
  shows "read_attributes S (struct_decode_attribute fs) dflt (tlvs S ps) = Ok s"
proof -
  have "decode_all (lenient (struct_decode_attribute fs)) ps dflt = Ok s"
    using decode_all_lenient [of fs ps dflt] assms(1,2) struct_decode_all
    by (simp add: decode_all_ok_lenient)
  then have "read_attributes S (lenient (struct_decode_attribute fs)) dflt (tlvs S ps) = Ok s"
    using assms(3,4) by (intro read_attributes_tlvs)
  then show ?thesis by (simp only: read_lenient)
qed

end

text \<open>The field of the policy, whose decoder returns \<open>Accept\<close> for both policies.\<close>

lemma policy_field:
  "field_reads s (mk_field ty (ChainPolicy_attr S) (ChainPolicy_deserialize S) get upd)"
  "field_upd s (mk_field ty (ChainPolicy_attr S) (ChainPolicy_deserialize S) get upd) =
     (case get s of None \<Rightarrow> id | Some _ \<Rightarrow> upd (\<lambda>_. Some PolicyAccept))"
  by (auto simp: field_reads_def field_upd_def mk_field_def ChainPolicy_decoded set_field_def
      fun_eq_iff split: option.splits)

lemma struct_fits_sizes:
  "struct_fits fs s \<longleftrightarrow>
     (let ns = map (get_size \<circ> snd) (present fs s) in
      list_all (\<lambda>n. 4 + n < 65536) ns \<and> (ns = [] \<or> last ns \<noteq> 0))"
  by (cases "present fs s = []")
    (simp_all add: struct_fits_def ends_nonempty_def Let_def list.pred_map last_map comp_def)

lemma enum_exact:
  assumes "distinct (map val_of variants)" and "\<And>v. v \<in> set variants"
  shows "enum_try_from val_of variants unknown n = Ok v \<longleftrightarrow> n = val_of v"
proof
  show "n = val_of v" if "enum_try_from val_of variants unknown n = Ok v"
    using that by (auto simp: enum_try_from_def find_Some_iff split: option.splits)
  have "find (\<lambda>u. val_of v = val_of u) variants = Some v"
    using assms(1) assms(2) [of v] by (induction variants) (auto simp: rev_image_eqI)
  then show "enum_try_from val_of variants unknown n = Ok v" if "n = val_of v"
    using that by (simp add: enum_try_from_def)
qed

context rule_abi
begin

lemmas enums_exact =
  enum_exact [OF registers all_Register] enum_exact [OF verdicts all_VerdictType]
  enum_exact [OF byteorder_ops all_ByteorderOp] enum_exact [OF cmp_ops all_CmpOp]
  enum_exact [OF ct_keys all_ConntrackKey] enum_exact [OF exthdr_ops all_ExtHdrOp]
  enum_exact [OF meta_keys all_MetaType] enum_exact [OF nat_kinds all_NatType]
  enum_exact [OF reject_kinds all_RejectType] enum_exact [OF icmp_codes all_IcmpCode]
  enum_exact [OF rt_keys all_RtKey] enum_exact [OF families_distinct family.all_variants]

lemmas rule_unknown = rule.read_with_unknown
lemmas objects_safe = table.obj_safe chain.obj_safe rule.obj_safe nfset.obj_safe elements.obj_safe
lemmas rule_struct_wire = rule.struct_wire
lemmas table_struct_wire = table.struct_wire

end

context rule_abi
begin

lemma policy_read:
  assumes ok: "chain_ok S (c\<lparr>chain_policy := Some PolicyAccept\<rparr>)"
    and small: "20 + get_size (as_attr (chain_object S) (c\<lparr>chain_policy := Some PolicyDrop\<rparr>)) < 2 ^ 32"
  shows "object_deserialize S (chain_object S)
      (object_message S (chain_object S) (c\<lparr>chain_policy := Some PolicyDrop\<rparr>) msg_type seq @ rest) =
    Ok (c\<lparr>chain_policy := Some PolicyAccept\<rparr>, rest)"
proof -
  let ?d = "c\<lparr>chain_policy := Some PolicyDrop\<rparr>" and ?fs = "chain_fields S"
  have reads: "\<forall>f\<in>set ?fs. field_reads ?d f"
    and all: "fold (field_upd ?d) ?fs Chain_default =
      c\<lparr>chain_policy := Some PolicyAccept, chain_family := FamUnspec\<rparr>"
    using ok
    by (auto simp: chain_ok_def chain_base_ok_def chain_fields_def struct_simps policy_field
        Chain_default_def ProtocolFamily_default_def optional_field_def split: option.splits)
  have "map (get_size \<circ> snd) (present ?fs ?d) =
      map (get_size \<circ> snd) (present ?fs (c\<lparr>chain_policy := Some PolicyAccept\<rparr>))"
    by (cases "NFTA_CHAIN_USERDATA S") (simp_all add: chain_fields_def ChainPolicy_attr_def)
  then have fits: "struct_fits ?fs ?d"
    using ok by (simp add: chain_ok_def struct_fits_sizes)
  have "distinct (map netlink_type ?fs)" using chain.types by (simp add: attr_types_ok_def)
  then have "decode_all (struct_decode_attribute ?fs) (present ?fs ?d) Chain_default =
      Ok (c\<lparr>chain_policy := Some PolicyAccept, chain_family := FamUnspec\<rparr>)"
    using decode_all_present [OF _ reads subset_refl, of Chain_default] all by simp
  then have "read_attributes S (struct_decode_attribute ?fs) Chain_default (tlvs S (present ?fs ?d)) =
      Ok (c\<lparr>chain_policy := Some PolicyAccept, chain_family := FamUnspec\<rparr>)"
    using chain.present_fits [OF fits] fits by (intro read_attributes_tlvs) (auto simp: struct_fits_def)
  then have "read_attributes S (decode_attribute (chain_object S)) (default_obj (chain_object S))
      (wire (as_attr (chain_object S) ?d)) =
    Ok (c\<lparr>chain_policy := Some PolicyAccept, chain_family := FamUnspec\<rparr>)"
    by (simp add: chain_object_def chain.struct_wire)
  then have "object_deserialize S (chain_object S)
      (object_message S (chain_object S) ?d msg_type seq @ rest) =
    Ok (set_family (chain_object S) (c\<lparr>chain_policy := Some PolicyAccept, chain_family := FamUnspec\<rparr>)
      (get_family (chain_object S) ?d), rest)"
    by (simp add: object_deserialize_def chain.object_message_reply msg_gen_def
        chain.parse_object_reply [OF chain.object_reply_hdr [OF small], unfolded msg_gen_def])
  then show ?thesis by (simp add: chain_object_def)
qed

end

section \<open>Messages and decoders\<close>

text \<open>
  C15. The exact message of a rule: \<open>add_or_remove\<close> appends to the buffer a header whose length
  field counts the whole message, with the message number of the nftables subsystem, the flags
  (creation, appending and acknowledgement for additions) and the sequence number; the family of
  the rule; and one attribute for each field that is set, in the order of the declaration. It leaves
  the writer ready for the next message.
\<close>

theorem rule_message_layout:
  assumes "rule_abi S" and "w_headers w = None"
    and "20 + get_size (as_attr (rule_object S) r) < 2 ^ 32"
  shows "add_or_remove S (rule_object S) r w msg_type seq =
    Ok (w\<lparr>w_buf := w_buf w @
      nlmsghdr_bytes S
        \<lparr>nlmsg_len = of_nat (20 + length (tlvs S (present (rule_fields S) r))),
         nlmsg_type = full_type S (ucast (case msg_type of
           Add \<Rightarrow> NFT_MSG_NEWRULE S | Del \<Rightarrow> NFT_MSG_DELRULE S)),
         nlmsg_flags = word_of_int (NLM_F_REQUEST S) OR ucast ((case msg_type of
           Add \<Rightarrow> NLM_F_CREATE S OR NLM_F_APPEND S | Del \<Rightarrow> 0) OR NLM_F_ACK S),
         nlmsg_seq = seq, nlmsg_pid = 0\<rparr> @
      nfgenmsg_bytes S
        \<lparr>nfgen_family = ucast (ProtocolFamily_value S (rule_family r)),
         genmsg_version = word_of_int (NFNETLINK_V0 S), genmsg_res_id = 0\<rparr> @
      tlvs S (present (rule_fields S) r)\<rparr>)"
  using rule_abi.rule_write [OF assms, of msg_type seq] rule_abi.rule_struct_wire [OF assms(1), of r]
  by (cases msg_type) (simp_all add: object_message_def message_def msg_hdr_def msg_gen_def
      object_type_def object_flags_def rule_object_def rule_get_add_flags_def default_del_flags_def)

theorem rule_message_layout_witness:
  "add_or_remove linux_sys (rule_object linux_sys) example_rule (writer_new [1]) Add 5 =
    Ok ((writer_new [1])\<lparr>w_buf := [1] @
      linux_nlmsghdr_bytes
        \<lparr>nlmsg_len = of_nat (20 + length (tlvs linux_sys (present (rule_fields linux_sys) example_rule))),
         nlmsg_type = 0x0A06, nlmsg_flags = 0x0C05, nlmsg_seq = 5, nlmsg_pid = 0\<rparr> @
      [1, 0, 0, 0] @ tlvs linux_sys (present (rule_fields linux_sys) example_rule)\<rparr>)"
proof -
  have "rule_family example_rule = FamInet"
    by (simp add: example_rule_def Rule_new_def example_defs Let_def accept_def dport_def
        match_port_def protocol_def add_expr_eq add_exprs_def with_family_def rule_object_def)
  moreover have "linux_nfgenmsg_bytes \<lparr>nfgen_family = 1, genmsg_version = 0, genmsg_res_id = 0\<rparr> =
      [1, 0, 0, 0]"
    by code_simp
  ultimately show ?thesis
    using rule_message_layout [OF linux.rule_abi_axioms _ example_rule_ok(2), of "writer_new [1]" Add 5]
    by (simp add: writer_new_def full_type_def)
qed

text \<open>
  C16. Expressions round trip: a named expression whose data are admissible for their kind is decoded
  from its wire format to itself, the kind being chosen by the name that was decoded first. Admissible
  data have at least one attribute: an expression, of whatever kind, whose data are encoded to no bytes
  is decoded to the error \<open>InvalidDataSize\<close>. Of the sixteen kinds, the masquerade expression never
  has data and so can never be read back.
\<close>

theorem expression_round_trip:
  assumes "rule_abi S"
  shows "(RawExpression_ok S e \<and> 0 < get_size (RawExpression_attr S e) \<longrightarrow>
      RawExpression_deserialize S (wire (RawExpression_attr S e)) = Ok (e, [])) \<and>
    (get_size (expr_attr S d) = 0 \<longrightarrow>
      RawExpression_deserialize S (wire (RawExpression_attr S (expr d))) = Err InvalidDataSize) \<and>
    get_size (expr_attr S (ExprMasquerade Masquerade)) = 0"
  using rule_abi.named_back [OF assms] rule_abi.empty_expression_unreadable [OF assms]
    rule_abi.masquerade_size [OF assms]
  by blast

theorem expression_round_trip_witness:
  "RawExpression_deserialize linux_sys
      (wire (RawExpression_attr linux_sys (expr (ExprMeta (Meta_new MetaL4Proto))))) =
    Ok (expr (ExprMeta (Meta_new MetaL4Proto)), []) \<and>
   RawExpression_deserialize linux_sys
      (wire (RawExpression_attr linux_sys (expr (ExprMasquerade Masquerade)))) = Err InvalidDataSize"
  using expression_round_trip [OF linux.rule_abi_axioms, of "expr (ExprMeta (Meta_new MetaL4Proto))"
      "ExprMasquerade Masquerade"] linux.meta_fit [of MetaL4Proto]
  by (simp add: fit_expr_def)



text \<open>
  C18. Enumerations are decoded exactly: for each of the twelve enumerations of the crate, a number
  is accepted as a variant if and only if it is the number of that variant; so unknown numbers are
  errors and no two variants are confused.
\<close>

theorem enums_decoded_exactly:
  assumes "rule_abi S"
  shows "(Register_try_from S a = Ok register \<longleftrightarrow> a = Register_value S register) \<and>
    (VerdictType_try_from S b = Ok verdict \<longleftrightarrow> b = VerdictType_value S verdict) \<and>
    (ByteorderOp_try_from S c = Ok byteorder \<longleftrightarrow> c = ByteorderOp_value S byteorder) \<and>
    (CmpOp_try_from S d = Ok cmp \<longleftrightarrow> d = CmpOp_value S cmp) \<and>
    (ConntrackKey_try_from S e = Ok key \<longleftrightarrow> e = ConntrackKey_value S key) \<and>
    (ExtHdrOp_try_from S f = Ok exthdr \<longleftrightarrow> f = ExtHdrOp_value S exthdr) \<and>
    (MetaType_try_from S g = Ok meta \<longleftrightarrow> g = MetaType_value S meta) \<and>
    (NatType_try_from S h = Ok nt \<longleftrightarrow> h = NatType_value S nt) \<and>
    (RejectType_try_from S i = Ok reject \<longleftrightarrow> i = RejectType_value S reject) \<and>
    (IcmpCode_try_from S j = Ok code \<longleftrightarrow> j = IcmpCode_value S code) \<and>
    (RtKey_try_from S k = Ok rt \<longleftrightarrow> k = RtKey_value S rt) \<and>
    (ProtocolFamily_try_from S l = Ok family \<longleftrightarrow> l = ProtocolFamily_value S family)"
  by (simp only: Register_try_from_def VerdictType_try_from_def ByteorderOp_try_from_def
      CmpOp_try_from_def ConntrackKey_try_from_def ExtHdrOp_try_from_def MetaType_try_from_def
      NatType_try_from_def RejectType_try_from_def IcmpCode_try_from_def RtKey_try_from_def
      ProtocolFamily_try_from_def rule_abi.enums_exact [OF assms])

theorem enums_decoded_exactly_witness:
  "(Register_try_from linux_sys 2 = Ok Reg2) \<and> (MetaType_try_from linux_sys 16 \<noteq> Ok MetaIif)"
  using enums_decoded_exactly [OF linux.rule_abi_axioms, of 2 Reg2 _ _ _ _ _ _ _ _ _ _ 16 MetaIif]
  by simp

text \<open>
  C19. Strings: decoding succeeds exactly on valid UTF-8 and gives the bytes of the attribute, less
  one trailing NUL if there is one; nothing of the attribute is left over.
\<close>

theorem string_decoded:
  "String_deserialize b = Ok (s, rest) \<longleftrightarrow>
     rest = [] \<and> utf8_valid s \<and> (if b \<noteq> [] \<and> last b = 0 then b = s @ [0] else b = s)"
proof -
  have "butlast b = s \<longleftrightarrow> b = s @ [0]" if "b \<noteq> []" "last b = 0"
    using that by (metis append_butlast_last_id butlast_snoc)
  then show ?thesis
    by (auto simp: String_deserialize_def from_utf8_def slice_to_def index_def last_conv_nth
        butlast_conv_take bind_eq_Ok Let_def split: if_splits)
qed

text \<open>
  C20. Writing an object never fails: whatever the object and whatever the buffer holds, a buffer
  with room for \<open>get_size\<close> bytes is accepted without a panic or an access out of bounds, and keeps
  its length.
\<close>

theorem objects_written_safely:
  assumes "rule_abi S"
  shows "safe_write (as_attr (table_object S) t) \<and> safe_write (as_attr (chain_object S) c) \<and>
    safe_write (as_attr (rule_object S) r) \<and> safe_write (as_attr (set_object S) s) \<and>
    safe_write (as_attr (elements_object S) es)"
  using rule_abi.objects_safe [OF assms] by blast

theorem objects_written_safely_witness:
  "\<exists>b'. write_payload (as_attr (rule_object linux_sys) example_rule) (replicate 60000 170) = Ok b' \<and>
    length b' = 60000"
proof -
  have "safe_write (as_attr (rule_object linux_sys) example_rule)"
    using objects_written_safely [OF linux.rule_abi_axioms] by blast
  from safe_writeD [OF this, of "replicate 60000 170"] example_rule_size show ?thesis by simp
qed

text \<open>
  C21. Alignment: \<open>pad_netlink_object_with_variable_size\<close> gives the least multiple of four that is
  not smaller than its argument.
\<close>

theorem pad_least:
  assumes "netlink_abi S"
  shows "4 dvd pad_netlink_object_with_variable_size S n \<and>
    n \<le> pad_netlink_object_with_variable_size S n \<and>
    (\<forall>k. 4 dvd k \<and> n \<le> k \<longrightarrow> pad_netlink_object_with_variable_size S n \<le> k)"
proof -
  have "(n + 3) div 4 * 4 \<le> k" if "4 dvd k" "n \<le> k" for k
    using that by (elim dvdE) simp
  then show ?thesis
    using netlink_abi.pad_dvd [OF assms] netlink_abi.pad_ge [OF assms]
    by (simp add: netlink_abi.pad_eq [OF assms])
qed

theorem pad_least_witness:
  "pad_netlink_object_with_variable_size linux_sys 13 = 16"
proof -
  have "pad_netlink_object_with_variable_size linux_sys 13 \<le> 16"
    "4 dvd pad_netlink_object_with_variable_size linux_sys 13"
    "13 \<le> pad_netlink_object_with_variable_size linux_sys 13"
    using pad_least [OF linux.netlink_abi_axioms, of 13] by simp_all
  then show ?thesis by presburger
qed

section \<open>Values that do not survive\<close>

text \<open>
  C22. The length field of an attribute is the length of header and payload modulo \<open>2 ^ 16\<close>: an
  attribute with a payload of 65532 bytes or more is written with a wrong length, without an error.
\<close>

theorem attribute_length_wraps:
  assumes "netlink_abi S" and "write_attribute S ty obj b = Ok out"
  shows "unat (nla_len (nlattr_of S out)) = (4 + get_size obj) mod 65536"
proof -
  have "4 \<le> length b"
    using assms(2) netlink_abi.sizes [OF assms(1)]
    by (auto simp: write_attribute_def Let_def split: if_splits)
  then obtain t where "out = nlattr_bytes S (attr_header S ty obj) @ t"
    using assms(2) by (auto simp: netlink_abi.write_attribute_eq [OF assms(1)] bind_eq_Ok)
  then have "nla_len (nlattr_of S out) = of_nat (4 + get_size obj)"
    by (simp add: netlink_abi.load_store [OF assms(1)] attr_header_def)
  then show ?thesis by (simp add: unat_of_nat del: of_nat_add)
qed

theorem attribute_length_wraps_witness:
  "\<exists>out. write_attribute linux_sys 1 (bytes_attr (replicate 65532 7)) (replicate 65536 0) = Ok out \<and>
    unat (nla_len (linux_nlattr_of out)) = 0"
proof -
  let ?o = "bytes_attr (replicate 65532 7)"
  obtain out where "write_attribute linux_sys 1 ?o (replicate 65536 0) = Ok out"
    using linux.write_attribute_zeros [OF vec.writes_attr, of "replicate 65532 7" 65536 1] by simp
  with attribute_length_wraps [OF linux.netlink_abi_axioms this] show ?thesis by simp
qed

text \<open>
  C23. A structure whose last attribute has no payload cannot be decoded: the loop of
  \<open>read_attributes\<close> stops when no more than a header is left and takes it for excess data.
\<close>

theorem trailing_empty_attribute:
  assumes "netlink_abi S" and "\<forall>p\<in>set ps. attr_fits p" and "decode_all decode ps dflt = Ok res"
    and "writes obj (wire obj)" and "get_size obj = 0"
  shows "read_attributes S decode dflt (tlvs S (ps @ [(ty, obj)])) = Err InvalidDataSize"
  by (rule netlink_abi.read_attributes_trailing_empty [OF assms])

text \<open>A table with flags whose user data are empty.\<close>

theorem trailing_empty_attribute_witness:
  "read_attributes linux_sys (decode_attribute (table_object linux_sys)) Table_default
      (wire (as_attr (table_object linux_sys)
        (example_table\<lparr>table_userdata := Some []\<rparr>))) = Err InvalidDataSize"
proof -
  let ?name = "(NFTA_TABLE_NAME linux_sys, String_attr (str ''mocktable''))"
  have "wire (as_attr (table_object linux_sys) (example_table\<lparr>table_userdata := Some []\<rparr>)) =
      tlvs linux_sys ([?name] @ [(6, bytes_attr [])])"
    using linux.table_struct_wire [of "example_table\<lparr>table_userdata := Some []\<rparr>"]
    by (simp add: table_object_def) (simp add: table_fields_def example_defs)
  moreover have "attr_fits ?name"
    using rstring.writes_attr by (simp add: attr_fits_def str_def)
  moreover have "decode_all (decode_attribute (table_object linux_sys)) [?name] Table_default =
      Ok (Table_default\<lparr>table_name := Some (str ''mocktable'')\<rparr>)"
    using rstring.read_back [OF example_names(1)]
    by (simp add: table_object_def table_fields_def) (simp add: mk_field_def set_field_def)
  ultimately show ?thesis
    using trailing_empty_attribute [OF linux.netlink_abi_axioms, of "[?name]"
        "decode_attribute (table_object linux_sys)" Table_default _ "bytes_attr []" 6]
      vec.writes_attr [of "[]"]
    by simp
qed

text \<open>
  C24. A rule that masquerades cannot be read back: decoding its message fails with \<open>InvalidDataSize\<close>,
  for every rule with valid names and attributes that fit the format in whose list of expressions a
  masquerade expression is preceded by readable expressions only. What follows that expression is
  arbitrary, further masquerade expressions included, and so are the handle, the position, the user
  data and the identifier of the rule.
\<close>

theorem masquerade_unreadable_rule:
  assumes "builder_abi S" and "rule_expressions r = Some (xs @ masquerade_expr # ys)"
    and "\<forall>e\<in>set xs. RawExpression_ok S e" and "struct_fits (rule_fields S) r"
    and "pred_option string_ok (rule_table r)" and "pred_option string_ok (rule_chain r)"
    and "20 + get_size (as_attr (rule_object S) r) < 2 ^ 32"
  shows "object_deserialize S (rule_object S) (object_message S (rule_object S) r msg_type seq @ rest) =
    Err InvalidDataSize"
  by (rule builder_abi.masquerade_rule_unreadable [OF assms])

text \<open>A rule with a handle and user data that masquerades twice, as the builder methods make it.\<close>

definition masquerading_rule :: Rule where
  "masquerading_rule =
     (masquerade (masquerade (with_expr
        (Rule_default\<lparr>rule_table := Some (str ''mocktable''), rule_chain := Some (str ''mockchain'')\<rparr>)
        (expr (ExprMeta (Meta_new MetaOif))))))\<lparr>rule_handle := Some 5, rule_userdata := Some [1, 2]\<rparr>"

lemma masquerading_rule_eq:
  "masquerading_rule =
     \<lparr>rule_family = FamUnspec, rule_table = Some (str ''mocktable''), rule_chain = Some (str ''mockchain''),
      rule_handle = Some 5, rule_expressions =
        Some ([expr (ExprMeta (Meta_new MetaOif))] @ masquerade_expr # [masquerade_expr]),
      rule_position = None, rule_userdata = Some [1, 2], rule_id = None\<rparr>"
  by (simp add: masquerading_rule_def masquerade_def with_expr_def add_expr_eq add_exprs_def exprs_of_def
      Rule_default_def ProtocolFamily_default_def)

lemma masquerading_rule_sizes:
  "struct_fits (rule_fields linux_sys) masquerading_rule"
  "20 + get_size (as_attr (rule_object linux_sys) masquerading_rule) < 2 ^ 32"
  by (simp_all add: masquerading_rule_eq rule_object_def rule_fields_def struct_fits_def ends_nonempty_def
      linux.pad_eq pad_netlink_object_def str_def ExpressionList_attr_def list_attr_def list_get_size_def
      linux.expression_size Meta_attr_def meta_fields_def Meta_new_def Meta_default_def set_field_def
      Masquerade_attr_def masquerade_fields_def)

theorem masquerade_unreadable_rule_witness:
  "object_deserialize linux_sys (rule_object linux_sys)
      (object_message linux_sys (rule_object linux_sys) masquerading_rule Add 1 @ [7]) =
    Err InvalidDataSize"
proof (rule masquerade_unreadable_rule [OF linux.builder_abi_axioms _ _ masquerading_rule_sizes(1)
      _ _ masquerading_rule_sizes(2)])
  show "rule_expressions masquerading_rule =
      Some ([expr (ExprMeta (Meta_new MetaOif))] @ masquerade_expr # [masquerade_expr])"
    by (simp add: masquerading_rule_eq)
  show "\<forall>e\<in>set [expr (ExprMeta (Meta_new MetaOif))]. RawExpression_ok linux_sys e"
    using linux.meta_fit [of MetaOif] by (simp add: fit_expr_def)
qed (simp_all add: masquerading_rule_eq example_names)

text \<open>
  C25. The policy \<open>Drop\<close> of a chain is lost: the message of a chain with that policy is decoded to a
  chain with the policy \<open>Accept\<close>, all else being equal.
\<close>

theorem drop_policy_lost:
  assumes "rule_abi S" and "chain_ok S (c\<lparr>chain_policy := Some PolicyAccept\<rparr>)"
    and "20 + get_size (as_attr (chain_object S) (c\<lparr>chain_policy := Some PolicyDrop\<rparr>)) < 2 ^ 32"
  shows "object_deserialize S (chain_object S)
      (object_message S (chain_object S) (c\<lparr>chain_policy := Some PolicyDrop\<rparr>) msg_type seq @ rest) =
    Ok (c\<lparr>chain_policy := Some PolicyAccept\<rparr>, rest)"
  by (rule rule_abi.policy_read [OF assms])

theorem drop_policy_lost_witness:
  "object_deserialize linux_sys (chain_object linux_sys)
      (object_message linux_sys (chain_object linux_sys)
        (example_chain\<lparr>chain_policy := Some PolicyDrop\<rparr>) Add 1 @ []) =
    Ok (example_chain\<lparr>chain_policy := Some PolicyAccept\<rparr>, [])"
  using example_names
  by (intro drop_policy_lost [OF linux.rule_abi_axioms])
    (simp_all add: chain_ok_def chain_base_ok_def example_defs chain_fields_def struct_fits_def
      ends_nonempty_def ChainPolicy_attr_def chain_object_def pad_netlink_object_def linux.pad_eq,
     simp_all add: str_def)

end
