(* ===== verification/RuleSemantics.thy ===== *)
theory RuleSemantics
  imports BuiltRules
begin

text \<open>
  What the rules that the builder methods make say about packets. The evaluation of expressions
  happens in the kernel; it is a parameter, the function \<open>step\<close> of the locale \<open>nft_machine\<close>, whose
  assumptions state what the documentation of the expressions and the comments of the example
  programs say: \<open>Meta\<close>, \<open>Payload\<close> and \<open>Conntrack\<close> load data into a register, \<open>Bitwise\<close> masks and
  flips the bits of a register, \<open>Cmp\<close> compares as many bytes of a register as it has data and ends
  the evaluation of the rule when the comparison fails, and \<open>Immediate\<close> with a verdict decides.

  A rule is evaluated from its first to its last expression. \<open>passes\<close> says that no comparison fails;
  every method is shown to add exactly the condition its documentation promises.
\<close>

section \<open>Evaluation\<close>

type_synonym registers = "Register \<Rightarrow> bytes"

datatype step_result = Go registers | Stop | Decide VerdictType

text \<open>The contents of a packet: metadata, connection tracking data and bytes of its headers.\<close>

record packet =
  packet_meta :: "MetaType \<Rightarrow> bytes"
  packet_ct :: "ConntrackKey \<Rightarrow> bytes"
  packet_header :: "u32 \<Rightarrow> u32 \<Rightarrow> u32 \<Rightarrow> bytes"

definition bitwise_bytes :: "bytes \<Rightarrow> bytes \<Rightarrow> bytes \<Rightarrow> bytes" where
  "bitwise_bytes v m x = map2 (XOR) (map2 (AND) v m) x"

locale nft_machine =
  fixes step :: "packet \<Rightarrow> ExpressionVariant \<Rightarrow> registers \<Rightarrow> step_result"
  assumes load_meta: "meta_dreg my = Some d \<Longrightarrow> meta_key my = Some k \<Longrightarrow> meta_sreg my = None \<Longrightarrow>
      step p (ExprMeta my) regs = Go (regs(d := packet_meta p k))"
    and load_payload: "payload_dreg y = Some d \<Longrightarrow> payload_base y = Some base \<Longrightarrow>
      payload_offset y = Some off \<Longrightarrow> payload_len y = Some n \<Longrightarrow> payload_sreg y = None \<Longrightarrow>
      step p (ExprPayload y) regs = Go (regs(d := packet_header p base off n))"
    and load_ct: "ct_dreg t = Some d \<Longrightarrow> ct_key t = Some ck \<Longrightarrow> ct_sreg t = None \<Longrightarrow>
      step p (ExprConntrack t) regs = Go (regs(d := packet_ct p ck))"
    and compare_eq: "cmp_sreg c = Some s \<Longrightarrow> cmp_op c = Some CmpEq \<Longrightarrow>
      cmp_data c = Some \<lparr>data_value = Some v, data_verdict = None\<rparr> \<Longrightarrow>
      step p (ExprCmp c) regs = (if take (length v) (regs s) = v then Go regs else Stop)"
    and compare_neq: "cmp_sreg c = Some s \<Longrightarrow> cmp_op c = Some CmpNeq \<Longrightarrow>
      cmp_data c = Some \<lparr>data_value = Some v, data_verdict = None\<rparr> \<Longrightarrow>
      step p (ExprCmp c) regs = (if take (length v) (regs s) \<noteq> v then Go regs else Stop)"
    and combine: "bitwise_sreg b = Some s \<Longrightarrow> bitwise_dreg b = Some d \<Longrightarrow>
      bitwise_len b = Some n \<Longrightarrow> unat n = length m \<Longrightarrow> length x = length m \<Longrightarrow>
      bitwise_mask b = Some \<lparr>data_value = Some m, data_verdict = None\<rparr> \<Longrightarrow>
      bitwise_xor b = Some \<lparr>data_value = Some x, data_verdict = None\<rparr> \<Longrightarrow>
      step p (ExprBitwise b) regs =
        Go (regs(d := bitwise_bytes (take (length m) (regs s)) m x))"
    and decide: "immediate_dreg i = Some RegVerdict \<Longrightarrow> immediate_data i = Some dt \<Longrightarrow>
      data_verdict dt = Some vd \<Longrightarrow> verdict_code vd = Some code \<Longrightarrow>
      step p (ExprImmediate i) regs = Decide code"

fun run :: "(packet \<Rightarrow> ExpressionVariant \<Rightarrow> registers \<Rightarrow> step_result) \<Rightarrow> packet \<Rightarrow>
    RawExpression list \<Rightarrow> registers \<Rightarrow> step_result" where
  "run step p [] regs = Go regs"
| "run step p (e # es) regs =
     (case expression_data e of
        None \<Rightarrow> run step p es regs
      | Some d \<Rightarrow>
          (case step p d regs of Go regs' \<Rightarrow> run step p es regs' | r \<Rightarrow> r))"

text \<open>The evaluation of a rule starts with empty registers.\<close>

definition eval_rule ::
  "(packet \<Rightarrow> ExpressionVariant \<Rightarrow> registers \<Rightarrow> step_result) \<Rightarrow> packet \<Rightarrow> Rule \<Rightarrow> step_result" where
  "eval_rule step p r = run step p (exprs_of r) (\<lambda>_. [])"

definition passes ::
  "(packet \<Rightarrow> ExpressionVariant \<Rightarrow> registers \<Rightarrow> step_result) \<Rightarrow> packet \<Rightarrow> Rule \<Rightarrow> bool" where
  "passes step p r \<longleftrightarrow> (\<exists>regs. eval_rule step p r = Go regs)"

lemma run_append:
  "run step p (es @ es') regs =
     (case run step p es regs of Go regs' \<Rightarrow> run step p es' regs' | r \<Rightarrow> r)"
  by (induction es arbitrary: regs) (auto split: option.split step_result.split)

lemma run_expr [simp]:
  "run step p (expr d # es) regs = (case step p d regs of Go regs' \<Rightarrow> run step p es regs' | r \<Rightarrow> r)"
  by (simp add: RawExpression_from_def set_field_def)

declare run.simps(2) [simp del]

text \<open>
  \<open>tests es cond\<close>: the expressions \<open>es\<close> let exactly the packets with \<open>cond\<close> pass, whatever the
  registers hold.
\<close>

definition tests ::
  "(packet \<Rightarrow> ExpressionVariant \<Rightarrow> registers \<Rightarrow> step_result) \<Rightarrow> packet \<Rightarrow> RawExpression list \<Rightarrow> bool \<Rightarrow>
   bool" where
  "tests step p es cond \<longleftrightarrow> (\<exists>f. \<forall>regs. run step p es regs = (if cond then Go (f regs) else Stop))"

lemma testsI:
  "(\<And>regs. run step p es regs = (if cond then Go (f regs) else Stop)) \<Longrightarrow> tests step p es cond"
  by (auto simp: tests_def)

text \<open>
  \<open>adds r r' cond\<close>: \<open>r'\<close> is \<open>r\<close> with expressions appended that let exactly the packets with \<open>cond\<close>
  pass. \<open>guards r cond\<close>: \<open>r\<close> has no verdict, and exactly the packets with \<open>cond\<close> pass.
\<close>

definition adds ::
  "(packet \<Rightarrow> ExpressionVariant \<Rightarrow> registers \<Rightarrow> step_result) \<Rightarrow> packet \<Rightarrow> Rule \<Rightarrow> Rule \<Rightarrow> bool \<Rightarrow> bool" where
  "adds step p r r' cond \<longleftrightarrow> (\<exists>es. r' = add_exprs r es \<and> tests step p es cond)"

definition guards ::
  "(packet \<Rightarrow> ExpressionVariant \<Rightarrow> registers \<Rightarrow> step_result) \<Rightarrow> packet \<Rightarrow> Rule \<Rightarrow> bool \<Rightarrow> bool" where
  "guards step p r cond \<longleftrightarrow> (\<exists>regs. eval_rule step p r = (if cond then Go regs else Stop))"

lemma adds_exprs: "tests step p es cond \<Longrightarrow> adds step p r (add_exprs r es) cond"
  by (auto simp: adds_def)

lemma passes_adds:
  assumes "adds step p r r' cond"
  shows "passes step p r' \<longleftrightarrow> passes step p r \<and> cond"
  using assms unfolding passes_def eval_rule_def tests_def adds_def
  by (cases cond) (auto simp: run_append split: step_result.splits)

lemma guards_adds:
  assumes "guards step p r c" and "adds step p r r' cond"
  shows "guards step p r' (c \<and> cond)"
  using assms unfolding guards_def eval_rule_def tests_def adds_def
  by (cases c; cases cond) (auto simp: run_append)

lemma guards_empty: "exprs_of r = [] \<Longrightarrow> guards step p r True"
  by (simp add: guards_def eval_rule_def)

lemma tests_append:
  assumes "tests step p es c" and "tests step p es' c'"
  shows "tests step p (es @ es') (c \<and> c')"
proof -
  obtain f g where "\<And>regs. run step p es regs = (if c then Go (f regs) else Stop)"
    "\<And>regs. run step p es' regs = (if c' then Go (g regs) else Stop)"
    using assms by (auto simp: tests_def)
  then show ?thesis by (intro testsI [where f = "\<lambda>regs. g (f regs)"]) (simp add: run_append)
qed

section \<open>The expressions that the methods make\<close>

lemma take_all_eq: "length xs = n \<Longrightarrow> take n xs = xs"
  by simp

lemma be_bytes_eq_iff:
  assumes "LENGTH('a) = 8 * n"
  shows "be_bytes n (x :: 'a::len word) = be_bytes n y \<longleftrightarrow> x = y"
  using from_be_bytes [OF assms] by metis

lemma be_bytes_and: "map2 (AND) (be_bytes n x) (be_bytes n y) = be_bytes n (x AND y)"
  by (induction n) (simp_all add: drop_bit_and unsigned_and_eq)

lemma be_bytes_xor_0: "length v = n \<Longrightarrow> map2 (XOR) v (be_bytes n 0) = v"
  by (induction n arbitrary: v) (auto simp: length_Suc_conv)

lemma length_bitwise [simp]:
  "length (bitwise_bytes v m x) = min (min (length v) (length m)) (length x)"
  by (simp add: bitwise_bytes_def)

lemma bitwise_network:
  "bitwise_bytes (be_bytes n x) (be_bytes n m) (be_bytes n 0) = be_bytes n (x AND m)"
  by (simp add: bitwise_bytes_def be_bytes_and be_bytes_xor_0)

lemma bitwise_le:
  "bitwise_bytes (le_bytes 4 x) (le_bytes 4 m) (be_bytes 4 (0 :: u32)) = be_bytes 4 (0 :: u32) \<longleftrightarrow>
     x AND m = (0 :: u32)"
proof -
  have zeros: "be_bytes 4 (0 :: u32) = rev (be_bytes 4 (0 :: u32))" by (simp add: numeral_eq_Suc)
  have "map2 (AND) (le_bytes 4 x) (le_bytes 4 m) = rev (be_bytes 4 (x AND m))"
    by (simp add: le_bytes_def zip_rev flip: be_bytes_and rev_map)
  then have "bitwise_bytes (le_bytes 4 x) (le_bytes 4 m) (be_bytes 4 (0 :: u32)) =
      rev (be_bytes 4 (x AND m))"
    by (simp add: bitwise_bytes_def be_bytes_xor_0)
  then show ?thesis using be_bytes_eq_iff [of 4 "x AND m" 0] zeros by (simp add: rev_swap)
qed

text \<open>A name padded with zeros to the width of the field starts with another name and a zero.\<close>

lemma padded_name_eq:
  assumes "length name < 16" and "0 \<notin> set name" and "0 \<notin> set dev" and "length dev < 16"
  shows "take (Suc (length name)) (dev @ replicate (16 - length dev) 0) = name @ [0 :: u8] \<longleftrightarrow> dev = name"
proof
  assume eq: "take (Suc (length name)) (dev @ replicate (16 - length dev) 0) = name @ [0]"
  have "takeWhile (\<lambda>b. b \<noteq> 0) (name @ [0]) = name" using assms(2) by (auto simp: takeWhile_append)
  moreover have "takeWhile (\<lambda>b. b \<noteq> 0) (dev @ replicate (16 - length dev) 0) = dev"
    using assms(3) by (auto simp: takeWhile_append takeWhile_replicate)
  moreover have "0 \<in> set (take (Suc (length name)) (dev @ replicate (16 - length dev) 0))"
    unfolding eq by simp
  ultimately show "dev = name"
    by (metis (mono_tags, lifting) append_take_drop_id eq takeWhile_append1)
next
  assume "dev = name"
  then show "take (Suc (length name)) (dev @ replicate (16 - length dev) 0) = name @ [0]"
    using assms(1) by (cases "16 - length name") simp_all
qed

context nft_machine
begin

lemma step_meta [simp]: "step p (ExprMeta (Meta_new k)) regs = Go (regs(Reg1 := packet_meta p k))"
  by (rule load_meta) (simp_all add: Meta_new_def set_field_def Meta_default_def)

lemma step_ct [simp]:
  "step p (ExprConntrack (Conntrack_new k)) regs = Go (regs(Reg1 := packet_ct p k))"
  by (rule load_ct) (simp_all add: Conntrack_new_def set_field_def Conntrack_default_def)

lemma step_transport [simp]:
  "step p (ExprPayload (HighLevelPayload_build S (HlTransport f))) regs =
     Go (regs(Reg1 := packet_header p (NFT_PAYLOAD_TRANSPORT_HEADER S) (TransportHeaderField_offset f)
       (TransportHeaderField_len f)))"
  by (rule load_payload) (simp_all add: HighLevelPayload_build_def set_field_def Payload_default_def)

lemma step_network [simp]:
  "step p (ExprPayload (HighLevelPayload_build S (HlNetwork f))) regs =
     Go (regs(Reg1 := packet_header p (NFT_PAYLOAD_NETWORK_HEADER S) (NetworkHeaderField_offset f)
       (NetworkHeaderField_len f)))"
  by (rule load_payload) (simp_all add: HighLevelPayload_build_def set_field_def Payload_default_def)

lemma step_eq [simp]:
  "step p (ExprCmp (Cmp_new CmpEq v)) regs = (if take (length v) (regs Reg1) = v then Go regs else Stop)"
  by (rule compare_eq) (simp_all add: Cmp_new_def set_field_def NfNetlinkData_default_def)

lemma step_neq [simp]:
  "step p (ExprCmp (Cmp_new CmpNeq v)) regs = (if take (length v) (regs Reg1) \<noteq> v then Go regs else Stop)"
  by (rule compare_neq) (simp_all add: Cmp_new_def set_field_def NfNetlinkData_default_def)

lemma step_bitwise:
  assumes "Bitwise_new m x = Ok b" and "length m < 2 ^ 32"
  shows "step p (ExprBitwise b) regs =
    Go (regs(Reg1 := bitwise_bytes (take (length m) (regs Reg1)) m x))"
  using assms
  by (intro combine) (auto simp: Bitwise_new_def set_field_def NfNetlinkData_default_def unat_small
      Bitwise_default_def split: if_splits)

lemma step_verdicts [simp]:
  "step p (ExprImmediate (Immediate_new_verdict Accept)) regs = Decide VtAccept"
  "step p (ExprImmediate (Immediate_new_verdict Drop)) regs = Decide VtDrop"
  by (simp_all add: decide [where dt = "set_field data_verdict_update (set_field verdict_code_update code
      Verdict_default) NfNetlinkData_default" for code] Immediate_new_verdict_def set_field_def)

section \<open>What the methods add\<close>

lemma tests_load:
  assumes "\<And>regs. step p d regs = Go (regs(Reg1 := v))"
  shows "tests step p [expr d, expr (ExprCmp (Cmp_new CmpEq w))] (take (length w) v = w)"
  by (rule testsI [where f = "\<lambda>regs. regs(Reg1 := v)"]) (simp add: assms)

lemma tests_masked:
  assumes "\<And>regs. step p d regs = Go (regs(Reg1 := v))" and "Bitwise_new m x = Ok b"
    and "length m < 2 ^ 32"
  shows "tests step p [expr d, expr (ExprBitwise b), expr (ExprCmp (Cmp_new CmpEq w))]
      (take (length w) (bitwise_bytes (take (length m) v) m x) = w)"
    and "tests step p [expr d, expr (ExprBitwise b), expr (ExprCmp (Cmp_new CmpNeq w))]
      (take (length w) (bitwise_bytes (take (length m) v) m x) \<noteq> w)"
  by (rule testsI [where f = "\<lambda>regs. regs(Reg1 := bitwise_bytes (take (length m) v) m x)"],
      simp add: assms(1) step_bitwise [OF assms(2,3)])+

lemmas tests_meta = tests_load [OF step_meta]
lemmas tests_payload = tests_load [OF step_transport] tests_load [OF step_network]

lemma adds_meta:
  "length w = n \<Longrightarrow> adds step p r (add_exprs r
     [expr (ExprMeta (Meta_new k)), expr (ExprCmp (Cmp_new CmpEq w))]) (take n (packet_meta p k) = w)"
  using adds_exprs [OF tests_meta] by blast

lemma adds_payload:
  "length w = n \<Longrightarrow> TransportHeaderField_offset f = off \<Longrightarrow> TransportHeaderField_len f = len \<Longrightarrow>
   adds step p r (add_exprs r [expr (ExprPayload (HighLevelPayload_build S (HlTransport f))),
     expr (ExprCmp (Cmp_new CmpEq w))])
     (take n (packet_header p (NFT_PAYLOAD_TRANSPORT_HEADER S) off len) = w)"
  using adds_exprs [OF tests_payload(1)] by blast

lemma adds_meta_network:
  "length w = n \<Longrightarrow> length v = m \<Longrightarrow> NetworkHeaderField_offset f = off \<Longrightarrow> NetworkHeaderField_len f = len \<Longrightarrow>
   adds step p r (add_exprs r [expr (ExprMeta (Meta_new k)), expr (ExprCmp (Cmp_new CmpEq v)),
     expr (ExprPayload (HighLevelPayload_build S (HlNetwork f))), expr (ExprCmp (Cmp_new CmpEq w))])
     (take m (packet_meta p k) = v \<and>
      take n (packet_header p (NFT_PAYLOAD_NETWORK_HEADER S) off len) = w)"
  using adds_exprs [OF tests_append [OF tests_meta tests_payload(2)]] by auto

lemma adds_protocol:
  "adds step p r (protocol S r proto) (take 1 (packet_meta p MetaL4Proto) =
     [word_of_int (case proto of TCP \<Rightarrow> IPPROTO_TCP S | UDP \<Rightarrow> IPPROTO_UDP S)])"
  by (simp add: protocol_def add_expr_eq adds_meta)

lemma adds_port:
  "adds step p (protocol S r proto) (match_port S r port proto source)
     (take 2 (packet_header p (NFT_PAYLOAD_TRANSPORT_HEADER S) (if source then 0 else 2) 2) =
       be_bytes 2 port)"
  by (cases proto; cases source) (simp_all add: match_port_def Let_def add_expr_eq adds_payload)

lemma adds_ip:
  "adds step p r (match_ip S r (V4 a) source)
     (take 1 (packet_meta p MetaNfProto) = [word_of_int (NFPROTO_IPV4 S)] \<and>
      take 4 (packet_header p (NFT_PAYLOAD_NETWORK_HEADER S) (if source then 12 else 16) 4) = octets4 a)"
  "adds step p r (match_ip S r (V6 b) source)
     (take 1 (packet_meta p MetaNfProto) = [word_of_int (NFPROTO_IPV6 S)] \<and>
      take 16 (packet_header p (NFT_PAYLOAD_NETWORK_HEADER S) (if source then 8 else 24) 16) = octets6 b)"
  by (cases source; simp add: match_ip_def Let_def add_expr_eq adds_meta_network octets4_def octets6_def)+

lemma adds_network4:
  assumes "net_is_v4 N net" and "net_mask N net = V4 m" and "net_network N net = V4 a"
    and h: "packet_header p (NFT_PAYLOAD_NETWORK_HEADER S) (if source then 12 else 16) 4 = octets4 x"
  shows "\<exists>r'. match_network S N r net source = Ok r' \<and>
    adds step p r r'
      (take 1 (packet_meta p MetaNfProto) = [word_of_int (NFPROTO_IPV4 S)] \<and> x AND m = a)"
proof -
  obtain b where b: "Bitwise_new (octets4 m) (be_bytes 4 (0 :: u32)) = Ok b"
    by (simp add: Bitwise_new_def octets4_def)
  let ?f = "NetIPv4 (if source then IPv4Saddr else IPv4Daddr)"
  have "step p (ExprPayload (HighLevelPayload_build S (HlNetwork ?f))) regs =
      Go (regs(Reg1 := octets4 x))" for regs
    using h by (cases source) simp_all
  then have "tests step p [expr (ExprPayload (HighLevelPayload_build S (HlNetwork ?f))),
      expr (ExprBitwise b), expr (ExprCmp (Cmp_new CmpEq (octets4 a)))] (x AND m = a)"
    using tests_masked(1) [OF _ b, of p _ "octets4 x" "octets4 a"]
    by (simp add: octets4_def bitwise_network be_bytes_eq_iff)
  from adds_exprs [OF tests_append [OF tests_meta [of p MetaNfProto "[word_of_int (NFPROTO_IPV4 S)]"] this],
      of r] show ?thesis
    using assms(1-3) b by (simp add: match_network_def Let_def add_expr_eq)
qed

lemma adds_network6:
  assumes "\<not> net_is_v4 N net" and "net_mask N net = V6 m" and "net_network N net = V6 a"
    and h: "packet_header p (NFT_PAYLOAD_NETWORK_HEADER S) (if source then 8 else 24) 16 = octets6 x"
  shows "\<exists>r'. match_network S N r net source = Ok r' \<and>
    adds step p r r'
      (take 1 (packet_meta p MetaNfProto) = [word_of_int (NFPROTO_IPV6 S)] \<and> x AND m = a)"
proof -
  obtain b where b: "Bitwise_new (octets6 m) (be_bytes 16 (0 :: 128 word)) = Ok b"
    by (simp add: Bitwise_new_def octets6_def)
  let ?f = "NetIPv6 (if source then IPv6Saddr else IPv6Daddr)"
  have "step p (ExprPayload (HighLevelPayload_build S (HlNetwork ?f))) regs =
      Go (regs(Reg1 := octets6 x))" for regs
    using h by (cases source) simp_all
  then have "tests step p [expr (ExprPayload (HighLevelPayload_build S (HlNetwork ?f))),
      expr (ExprBitwise b), expr (ExprCmp (Cmp_new CmpEq (octets6 a)))] (x AND m = a)"
    using tests_masked(1) [OF _ b, of p _ "octets6 x" "octets6 a"]
    by (simp add: octets6_def bitwise_network be_bytes_eq_iff)
  from adds_exprs [OF tests_append [OF tests_meta [of p MetaNfProto "[word_of_int (NFPROTO_IPV6 S)]"] this],
      of r] show ?thesis
    using assms(1-3) b by (simp add: match_network_def Let_def add_expr_eq)
qed

lemma adds_iface:
  assumes "IFNAMSIZ S = 16" and "length name < 16" and "0 \<notin> set name" and "0 \<notin> set dev"
    and "packet_meta p k = dev @ replicate (16 - length dev) 0" and "length dev < 16"
    and m: "m = iface \<and> k = MetaIifName \<or> m = oface \<and> k = MetaOifName"
  shows "\<exists>r'. m S r name = Ok r' \<and> adds step p r r' (dev = name)"
proof -
  have "take (Suc (length name)) (dev @ replicate (16 - length dev) 0) = name @ [0] \<longleftrightarrow> dev = name"
    using assms(2-4,6) by (rule padded_name_eq)
  then show ?thesis
    using m assms(1,2) adds_exprs [OF tests_meta, of p r k "name @ [0]"]
    by (auto simp: iface_def oface_def Let_def add_expr_eq assms(5))
qed

lemma adds_iface_id:
  "adds step p r (iface_id r i) (take 4 (packet_meta p MetaIif) = be_bytes 4 i)"
  "adds step p r (oface_id r i) (take 4 (packet_meta p MetaOif) = be_bytes 4 i)"
  by (simp_all add: iface_id_def oface_id_def Let_def add_expr_eq adds_meta)

lemma adds_l4:
  "adds step p r (icmp S r) (take 1 (packet_meta p MetaL4Proto) = [word_of_int (IPPROTO_ICMP S)])"
  "adds step p r (icmpv6_rule S r)
     (take 1 (packet_meta p MetaL4Proto) = [word_of_int (IPPROTO_ICMPV6 S)])"
  "adds step p r (igmp S r) (take 1 (packet_meta p MetaL4Proto) = [word_of_int (IPPROTO_IGMP S)])"
  by (simp_all add: icmp_def icmpv6_rule_def igmp_def Let_def add_expr_eq adds_meta)

lemma adds_established:
  assumes "packet_ct p CtState = le_bytes 4 (st :: u32)"
  shows "\<exists>r'. established r = Ok r' \<and>
    adds step p r r' (st AND ESTABLISHED \<noteq> 0)"
proof -
  obtain b where b: "Bitwise_new (le_bytes 4 ESTABLISHED) (be_bytes 4 (0 :: u32)) = Ok b"
    by (simp add: Bitwise_new_def)
  have "tests step p [expr (ExprConntrack (Conntrack_new CtState)), expr (ExprBitwise b),
      expr (ExprCmp (Cmp_new CmpNeq (be_bytes 4 (0 :: u32))))] (st AND ESTABLISHED \<noteq> 0)"
    using tests_masked(2) [OF step_ct b, of p CtState "be_bytes 4 (0 :: u32)"] assms
    by (simp add: bitwise_le)
  from adds_exprs [OF this] show ?thesis
    using b by (simp add: established_def Let_def add_expr_eq)
qed

lemma adds_syn:
  assumes "packet_header p (NFT_PAYLOAD_TRANSPORT_HEADER S) 13 1 = [flags]"
  shows "\<exists>r'. syn S r = Ok r' \<and> adds step p r r' (flags AND 2 \<noteq> 0)"
proof -
  let ?y = "set_field payload_dreg_update Reg1 (set_field payload_len_update 1
    (set_field payload_offset_update 13
    (set_field payload_base_update (NFT_PAYLOAD_TRANSPORT_HEADER S) Payload_default)))"
  obtain b where b: "Bitwise_new (be_bytes 1 (2 :: u8)) (be_bytes 1 (0 :: u8)) = Ok b"
    by (simp add: Bitwise_new_def)
  have "step p (ExprPayload ?y) regs = Go (regs(Reg1 := [flags]))" for regs
    unfolding assms [symmetric]
    by (rule load_payload) (simp_all add: set_field_def Payload_default_def)
  from adds_exprs [OF tests_masked(2) [OF this b, of "be_bytes 1 (0 :: u8)"]] show ?thesis
    using b by (simp add: syn_def Let_def add_expr_eq bitwise_bytes_def)
qed

lemmas passes_protocol = passes_adds [OF adds_protocol]
lemmas passes_port = passes_adds [OF adds_port]
lemmas passes_ip = passes_adds [OF adds_ip(1)] passes_adds [OF adds_ip(2)]
lemmas passes_iface_id = passes_adds [OF adds_iface_id(1)] passes_adds [OF adds_iface_id(2)]

lemma eval_verdict:
  "eval_rule step p (accept r) =
     (case eval_rule step p r of Go _ \<Rightarrow> Decide VtAccept | x \<Rightarrow> x)"
  "eval_rule step p (drop_packet r) =
     (case eval_rule step p r of Go _ \<Rightarrow> Decide VtDrop | x \<Rightarrow> x)"
  by (simp_all add: accept_def drop_packet_def add_expr_eq eval_rule_def run_append
      split: step_result.split)

end

section \<open>A reference machine\<close>

text \<open>
  An evaluation of the expressions that has these properties; expressions of other kinds leave the
  registers alone.
\<close>

definition compare :: "CmpOp \<Rightarrow> bytes \<Rightarrow> bytes \<Rightarrow> bool" where
  "compare op v w \<longleftrightarrow> (if op = CmpNeq then v \<noteq> w else v = w)"

fun reference_step :: "packet \<Rightarrow> ExpressionVariant \<Rightarrow> registers \<Rightarrow> step_result" where
  "reference_step p (ExprMeta m) regs =
     (case (meta_dreg m, meta_key m) of
        (Some d, Some k) \<Rightarrow> Go (regs(d := packet_meta p k)) | _ \<Rightarrow> Go regs)"
| "reference_step p (ExprPayload y) regs =
     (case (payload_dreg y, payload_base y, payload_offset y, payload_len y) of
        (Some d, Some base, Some off, Some n) \<Rightarrow> Go (regs(d := packet_header p base off n))
      | _ \<Rightarrow> Go regs)"
| "reference_step p (ExprConntrack t) regs =
     (case (ct_dreg t, ct_key t) of
        (Some d, Some k) \<Rightarrow> Go (regs(d := packet_ct p k)) | _ \<Rightarrow> Go regs)"
| "reference_step p (ExprCmp c) regs =
     (case (cmp_sreg c, cmp_op c, cmp_data c) of
        (Some s, Some op, Some d) \<Rightarrow>
          (case data_value d of
             Some v \<Rightarrow> if compare op (take (length v) (regs s)) v then Go regs else Stop
           | None \<Rightarrow> Go regs)
      | _ \<Rightarrow> Go regs)"
| "reference_step p (ExprBitwise b) regs =
     (case (bitwise_sreg b, bitwise_dreg b, bitwise_mask b, bitwise_xor b) of
        (Some s, Some d, Some m, Some x) \<Rightarrow>
          (case (data_value m, data_value x) of
             (Some m, Some x) \<Rightarrow> Go (regs(d := bitwise_bytes (take (length m) (regs s)) m x))
           | _ \<Rightarrow> Go regs)
      | _ \<Rightarrow> Go regs)"
| "reference_step p (ExprImmediate i) regs =
     (case (immediate_dreg i, immediate_data i) of
        (Some d, Some v) \<Rightarrow>
          (case (data_value v, map_option verdict_code (data_verdict v)) of
             (_, Some (Some code)) \<Rightarrow> if d = RegVerdict then Decide code else Go regs
           | (Some w, _) \<Rightarrow> Go (regs(d := w))
           | _ \<Rightarrow> Go regs)
      | _ \<Rightarrow> Go regs)"
| "reference_step p _ regs = Go regs"

interpretation reference: nft_machine reference_step
  by unfold_locales (simp_all add: compare_def split: option.split)

end
