(* ===== verification/BuilderProps.thy ===== *)
theory BuilderProps
  imports Witnesses RuleSemantics
begin

text \<open>
  Properties of the builder interface: what the rules mean, which part of a rule the methods touch,
  when the constructors fail, and the header fields of payload expressions.
\<close>

section \<open>Rules that grow\<close>







section \<open>The meaning of rules\<close>

text \<open>
  C26. \<open>dport\<close> matches the destination port: it adds to a rule exactly the condition that the packet
  has the given transport protocol and that the destination port in its transport header, in
  network byte order, is the given port.
\<close>

theorem dport_meaning:
  assumes "nft_machine step"
  shows "passes step p (dport S r port proto) \<longleftrightarrow> passes step p r \<and>
    take 1 (packet_meta p MetaL4Proto) =
      [word_of_int (case proto of TCP \<Rightarrow> IPPROTO_TCP S | UDP \<Rightarrow> IPPROTO_UDP S)] \<and>
    take 2 (packet_header p (NFT_PAYLOAD_TRANSPORT_HEADER S) 2 2) = be_bytes 2 port"
  by (simp add: dport_def nft_machine.passes_port [OF assms] nft_machine.passes_protocol [OF assms])

text \<open>An HTTP packet: TCP from port 4660 to port 80.\<close>

definition example_packet :: packet where
  "example_packet =
     \<lparr>packet_meta = (\<lambda>k. if k = MetaL4Proto then [6] else if k = MetaNfProto then [2]
        else if k = MetaIif then le_bytes 4 (1 :: u32)
        else if k = MetaIifName then str ''lo'' @ replicate 14 0 else []),
      packet_ct = (\<lambda>k. le_bytes 4 (2 :: u32)),
      packet_header = (\<lambda>base off n.
        if base = 2 \<and> off = 0 then be_bytes 2 (4660 :: u16)
        else if base = 2 \<and> off = 2 then be_bytes 2 (80 :: u16)
        else if base = 2 \<and> off = 13 then [2]
        else if base = 1 \<and> off = 12 then octets4 0xC0A80117 else octets4 0x0A010005)\<rparr>"

abbreviation empty_rule :: Rule where
  "empty_rule \<equiv> Rule_default"

lemma empty_passes [simp]: "passes step p empty_rule"
  by (simp add: passes_def eval_rule_def exprs_of_def Rule_default_def)

lemma example_passes: "passes reference_step example_packet (dport linux_sys empty_rule 80 TCP)"
  by (simp add: dport_def reference.passes_port reference.passes_protocol example_packet_def)

theorem dport_meaning_witness:
  "passes reference_step example_packet (dport linux_sys empty_rule 80 TCP) \<and>
   \<not> passes reference_step example_packet (dport linux_sys empty_rule 443 TCP)"
proof -
  have "be_bytes 2 (80 :: u16) \<noteq> be_bytes 2 (443 :: u16)" by code_simp
  then show ?thesis
    by (simp add: dport_meaning [OF reference.nft_machine_axioms] example_packet_def)
qed

text \<open>
  C27. \<open>sport\<close> does not match the source port: the rule it builds lets exactly those packets pass
  whose destination port is the given port, whatever their source port is.
\<close>

theorem sport_meaning:
  assumes "nft_machine step"
  shows "passes step p (sport S r port proto) \<longleftrightarrow> passes step p r \<and>
    take 1 (packet_meta p MetaL4Proto) =
      [word_of_int (case proto of TCP \<Rightarrow> IPPROTO_TCP S | UDP \<Rightarrow> IPPROTO_UDP S)] \<and>
    take 2 (packet_header p (NFT_PAYLOAD_TRANSPORT_HEADER S) 2 2) = be_bytes 2 port"
  by (simp add: sport_def nft_machine.passes_port [OF assms] nft_machine.passes_protocol [OF assms])

theorem sport_meaning_witness:
  "\<not> passes reference_step example_packet (sport linux_sys empty_rule 4660 TCP) \<and>
   passes reference_step example_packet (sport linux_sys empty_rule 80 TCP)"
proof -
  have "be_bytes 2 (80 :: u16) \<noteq> be_bytes 2 (4660 :: u16)" by code_simp
  then show ?thesis
    by (simp add: sport_meaning [OF reference.nft_machine_axioms] example_packet_def)
qed

text \<open>
  C28. \<open>saddr\<close> and \<open>daddr\<close> match the addresses: they add exactly the condition that the packet is an
  IPv4 (or IPv6) packet and that the source (destination) address in its network header is the
  given address.
\<close>

theorem address_meaning:
  assumes "nft_machine step"
  shows "(passes step p (saddr S r (V4 a)) \<longleftrightarrow> passes step p r \<and>
      take 1 (packet_meta p MetaNfProto) = [word_of_int (NFPROTO_IPV4 S)] \<and>
      take 4 (packet_header p (NFT_PAYLOAD_NETWORK_HEADER S) 12 4) = octets4 a) \<and>
    (passes step p (daddr S r (V4 a)) \<longleftrightarrow> passes step p r \<and>
      take 1 (packet_meta p MetaNfProto) = [word_of_int (NFPROTO_IPV4 S)] \<and>
      take 4 (packet_header p (NFT_PAYLOAD_NETWORK_HEADER S) 16 4) = octets4 a) \<and>
    (passes step p (saddr S r (V6 b)) \<longleftrightarrow> passes step p r \<and>
      take 1 (packet_meta p MetaNfProto) = [word_of_int (NFPROTO_IPV6 S)] \<and>
      take 16 (packet_header p (NFT_PAYLOAD_NETWORK_HEADER S) 8 16) = octets6 b) \<and>
    (passes step p (daddr S r (V6 b)) \<longleftrightarrow> passes step p r \<and>
      take 1 (packet_meta p MetaNfProto) = [word_of_int (NFPROTO_IPV6 S)] \<and>
      take 16 (packet_header p (NFT_PAYLOAD_NETWORK_HEADER S) 24 16) = octets6 b)"
  by (simp add: saddr_def daddr_def nft_machine.passes_ip [OF assms])

theorem address_meaning_witness:
  "passes reference_step example_packet (saddr linux_sys empty_rule (V4 0xC0A80117)) \<and>
   \<not> passes reference_step example_packet (daddr linux_sys empty_rule (V4 0xC0A80117)) \<and>
   passes reference_step example_packet (daddr linux_sys empty_rule (V4 0x0A010005))"
proof -
  have "octets4 0x0A010005 \<noteq> octets4 0xC0A80117" by code_simp
  then show ?thesis
    using address_meaning [OF reference.nft_machine_axioms, of example_packet linux_sys empty_rule]
    by (simp add: example_packet_def)
qed

text \<open>
  C29. \<open>snetwork\<close> and \<open>dnetwork\<close> match networks: for every network of the crate \<open>ipnetwork\<close> they
  succeed, and they add exactly the condition that the packet is of the IP version of the network
  and that its source (destination) address, masked with the network mask, is the network address.
\<close>

theorem network_meaning:
  assumes "nft_machine step" and "ip_network N"
    and "\<And>off. packet_header p (NFT_PAYLOAD_NETWORK_HEADER S) off 4 = octets4 (addr4 off)"
    and "\<And>off. packet_header p (NFT_PAYLOAD_NETWORK_HEADER S) off 16 = octets6 (addr6 off)"
  shows "\<exists>rs rd. snetwork S N r net = Ok rs \<and> dnetwork S N r net = Ok rd \<and>
    (case (net_mask N net, net_network N net) of
       (V4 m, V4 a) \<Rightarrow>
         (passes step p rs \<longleftrightarrow> passes step p r \<and>
            take 1 (packet_meta p MetaNfProto) = [word_of_int (NFPROTO_IPV4 S)] \<and> addr4 12 AND m = a) \<and>
         (passes step p rd \<longleftrightarrow> passes step p r \<and>
            take 1 (packet_meta p MetaNfProto) = [word_of_int (NFPROTO_IPV4 S)] \<and> addr4 16 AND m = a)
     | (V6 m, V6 a) \<Rightarrow>
         (passes step p rs \<longleftrightarrow> passes step p r \<and>
            take 1 (packet_meta p MetaNfProto) = [word_of_int (NFPROTO_IPV6 S)] \<and> addr6 8 AND m = a) \<and>
         (passes step p rd \<longleftrightarrow> passes step p r \<and>
            take 1 (packet_meta p MetaNfProto) = [word_of_int (NFPROTO_IPV6 S)] \<and> addr6 24 AND m = a)
     | _ \<Rightarrow> False)"
proof (cases "net_is_v4 N net")
  case True
  obtain m a where net: "net_mask N net = V4 m" "net_network N net = V4 a"
    using ip_network.v4_network [OF assms(2) True] by blast
  show ?thesis
    using nft_machine.adds_network4 [OF assms(1) True net, of p S True "addr4 12" r]
      nft_machine.adds_network4 [OF assms(1) True net, of p S False "addr4 16" r]
    by (auto simp: assms(3) net snetwork_def dnetwork_def passes_adds)
next
  case False
  obtain m a where net: "net_mask N net = V6 m" "net_network N net = V6 a"
    using ip_network.v6_network [OF assms(2) False] by blast
  show ?thesis
    using nft_machine.adds_network6 [OF assms(1) False net, of p S True "addr6 8" r]
      nft_machine.adds_network6 [OF assms(1) False net, of p S False "addr6 24" r]
    by (auto simp: assms(4) net snetwork_def dnetwork_def passes_adds)
qed

text \<open>An IPv4 packet from 192.168.1.23 to 10.1.0.5 is in the network 192.168.1.0/24.\<close>

definition network_packet :: packet where
  "network_packet = example_packet\<lparr>packet_header := (\<lambda>base off n.
     if n = 16 then octets6 0 else octets4 (if off = 12 then 0xC0A80117 else 0x0A010005))\<rparr>"

theorem network_meaning_witness:
  "\<exists>rs rd. snetwork linux_sys cidr empty_rule (V4 0xC0A80100, 24) = Ok rs \<and>
    dnetwork linux_sys cidr empty_rule (V4 0xC0A80100, 24) = Ok rd \<and>
    passes reference_step network_packet rs \<and> \<not> passes reference_step network_packet rd"
proof -
  have "net_mask cidr (V4 0xC0A80100, 24) = V4 0xFFFFFF00"
    "net_network cidr (V4 0xC0A80100, 24) = V4 0xC0A80100"
    by (simp_all add: cidr_def mask_eq_exp_minus_1)
  then show ?thesis
    using network_meaning [OF reference.nft_machine_axioms cidr_net.ip_network_axioms,
        of network_packet linux_sys "\<lambda>off. if off = 12 then 0xC0A80117 else 0x0A010005" "\<lambda>_. 0"
        empty_rule "(V4 0xC0A80100, 24)"]
    by (auto simp: network_packet_def) (auto simp: example_packet_def)
qed

text \<open>
  C30. \<open>iface\<close> and \<open>oface\<close> match interfaces by their full name: for every name that fits, the packets
  that pass are exactly those that enter (leave) through the interface with that name, not through
  an interface whose name only starts with it.
\<close>

theorem interface_name_meaning:
  assumes "nft_machine step" and "IFNAMSIZ S = 16"
    and "length name < 16" and "0 \<notin> set name"
    and "packet_meta p MetaIifName = indev @ replicate (16 - length indev) 0"
    and "packet_meta p MetaOifName = outdev @ replicate (16 - length outdev) 0"
    and "0 \<notin> set (indev @ outdev)" and "length indev < 16" and "length outdev < 16"
  shows "\<exists>ri ro. iface S r name = Ok ri \<and> oface S r name = Ok ro \<and>
    (passes step p ri \<longleftrightarrow> passes step p r \<and> indev = name) \<and>
    (passes step p ro \<longleftrightarrow> passes step p r \<and> outdev = name)"
  using nft_machine.adds_iface [OF assms(1-4) _ assms(5) assms(8), of iface r]
    nft_machine.adds_iface [OF assms(1-4) _ assms(6) assms(9), of oface r] assms(7)
  by (auto simp: passes_adds)

theorem interface_name_meaning_witness:
  "\<exists>ri ro. iface linux_sys empty_rule (str ''lo'') = Ok ri \<and>
    oface linux_sys empty_rule (str ''lo'') = Ok ro \<and>
    passes reference_step (example_packet\<lparr>packet_meta := (\<lambda>k.
      (if k = MetaIifName then str ''lo'' else str ''lo0'') @ replicate (if k = MetaIifName then 14 else 13) 0)\<rparr>) ri \<and>
    \<not> passes reference_step (example_packet\<lparr>packet_meta := (\<lambda>k.
      (if k = MetaIifName then str ''lo'' else str ''lo0'') @ replicate (if k = MetaIifName then 14 else 13) 0)\<rparr>) ro"
  (is "\<exists>ri ro. _ \<and> _ \<and> passes _ ?p ri \<and> _")
proof -
  have len: "length (str ''lo'') = 2" "length (str ''lo0'') = 3" by (simp_all add: str_def)
  have zero: "0 \<notin> set (str ''lo'')" "0 \<notin> set (str ''lo0'')" by (simp_all add: str_def)
  show ?thesis
    using interface_name_meaning [OF reference.nft_machine_axioms, of linux_sys "str ''lo''" ?p
        "str ''lo''" "str ''lo0''" empty_rule] len zero
    by auto
qed

text \<open>
  C31. \<open>iface_id\<close> compares the interface index in network byte order: when the index of the incoming
  interface is in a register in the byte order of a little-endian host, the packets that pass are
  those whose interface index is the given index with its bytes reversed.
\<close>

theorem interface_index_meaning:
  assumes "nft_machine step" and "packet_meta p MetaIif = le_bytes 4 (idx :: u32)"
  shows "passes step p (iface_id r i) \<longleftrightarrow> passes step p r \<and> be_bytes 4 idx = rev (be_bytes 4 i)"
  by (simp add: nft_machine.passes_iface_id [OF assms(1)] assms(2) le_bytes_def rev_swap)

theorem interface_index_meaning_witness:
  "\<not> passes reference_step example_packet (iface_id empty_rule 1) \<and>
   passes reference_step example_packet (iface_id empty_rule 0x01000000)"
proof -
  have m: "packet_meta example_packet MetaIif = le_bytes 4 (1 :: u32)"
    by (simp add: example_packet_def)
  have "be_bytes 4 (1 :: u32) \<noteq> rev (be_bytes 4 (1 :: u32))"
    "be_bytes 4 (1 :: u32) = rev (be_bytes 4 (0x01000000 :: u32))"
    by code_simp+
  then show ?thesis by (simp add: interface_index_meaning [OF reference.nft_machine_axioms m])
qed

text \<open>
  C32. \<open>established\<close> and \<open>syn\<close>: the first succeeds and lets exactly the packets pass whose connection
  state (in host byte order) has the bit of established connections. The second succeeds and lets
  exactly the packets pass whose transport header has the second lowest bit of byte 13 set; in a TCP
  header this is the flag SYN. It does not look at the transport protocol, although its documentation
  speaks of TCP packets: a packet of any other protocol with this bit passes too.
\<close>

theorem state_meaning:
  assumes "nft_machine step" and "packet_ct p CtState = le_bytes 4 (state :: u32)"
    and "packet_header p (NFT_PAYLOAD_TRANSPORT_HEADER S) 13 1 = [flags]"
  shows "\<exists>re rs. established r = Ok re \<and> syn S r = Ok rs \<and>
    (passes step p re \<longleftrightarrow> passes step p r \<and> state AND 2 \<noteq> 0) \<and>
    (passes step p rs \<longleftrightarrow> passes step p r \<and> flags AND 2 \<noteq> 0)"
  using nft_machine.adds_established [OF assms(1,2), of r]
    nft_machine.adds_syn [OF assms(1,3), of r]
  by (auto simp: ESTABLISHED_def passes_adds)

text \<open>The example packet, and a UDP packet whose byte 13, a part of its data, is 2: both pass \<open>syn\<close>.\<close>

definition udp_packet :: packet where
  "udp_packet = example_packet\<lparr>packet_meta := (\<lambda>k. if k = MetaL4Proto then [17] else [])\<rparr>"

theorem state_meaning_witness:
  "\<exists>re rs. established empty_rule = Ok re \<and> syn linux_sys empty_rule = Ok rs \<and>
    passes reference_step example_packet re \<and> passes reference_step example_packet rs \<and>
    \<not> passes reference_step udp_packet (protocol linux_sys empty_rule TCP) \<and>
    passes reference_step udp_packet rs"
  using state_meaning [OF reference.nft_machine_axioms, of example_packet 2 linux_sys 2 empty_rule]
    state_meaning [OF reference.nft_machine_axioms, of udp_packet 2 linux_sys 2 empty_rule]
  by (auto simp: udp_packet_def example_packet_def reference.passes_protocol)

text \<open>
  C33. Verdicts: a packet is accepted (dropped) by a rule that ends with \<open>accept\<close> (\<open>drop\<close>) if and only
  if it passes the conditions before the verdict; expressions added after the verdict have no effect.
\<close>

theorem verdict_meaning:
  assumes "nft_machine step"
  shows "eval_rule step p (add_exprs (accept r) es) =
      (case eval_rule step p r of Go _ \<Rightarrow> Decide VtAccept | x \<Rightarrow> x) \<and>
    eval_rule step p (add_exprs (drop_packet r) es) =
      (case eval_rule step p r of Go _ \<Rightarrow> Decide VtDrop | x \<Rightarrow> x)"
  using nft_machine.eval_verdict [OF assms, of p r]
  by (auto simp: eval_rule_def run_append split: step_result.splits)

theorem verdict_meaning_witness:
  "eval_rule reference_step example_packet
      (add_exprs (accept (dport linux_sys empty_rule 80 TCP))
        [expr (ExprLog \<lparr>log_group = Some 1, log_prefix = None\<rparr>)]) = Decide VtAccept"
  using verdict_meaning [OF reference.nft_machine_axioms, of example_packet
      "dport linux_sys empty_rule 80 TCP"] example_passes
  by (auto simp: passes_def)

section \<open>Building\<close>



text \<open>
  C35. When constructors fail: \<open>Rule::new\<close> exactly for a chain without table or name, \<open>Lookup::new\<close> without
  a set name, \<open>SetBuilder::new\<close> without a table name, \<open>Log::new\<close> with a prefix of more than 127 bytes (of
  its UTF-8 encoding; the text of the error speaks of characters), \<open>iface\<close> and \<open>oface\<close> with a name of
  \<open>IFNAMSIZ\<close> bytes or more, \<open>Bitwise::new\<close> with operands of different lengths; each with its own error.
\<close>

theorem builder_errors:
  "(Rule_new S c = Err e \<longleftrightarrow>
      e = MissingChainInformationError \<and> (chain_table c = None \<or> chain_name c = None)) \<and>
   (Lookup_new s = Err e \<longleftrightarrow> e = MissingSetName \<and> nfset_name s = None) \<and>
   (SetBuilder_new K n t = Err e \<longleftrightarrow> e = MissingTableName \<and> table_name t = None) \<and>
   (Log_new g prefix = Err e \<longleftrightarrow>
      e = TooLongLogPrefix \<and> (\<exists>q. prefix = Some q \<and> 127 < length q)) \<and>
   (iface S r name = Err e \<longleftrightarrow> e = InterfaceNameTooLong \<and> IFNAMSIZ S \<le> length name) \<and>
   (oface S r name = Err e \<longleftrightarrow> e = InterfaceNameTooLong \<and> IFNAMSIZ S \<le> length name) \<and>
   (Bitwise_new m x = Err e \<longleftrightarrow> e = IncompatibleLength \<and> length m \<noteq> length x)"
proof (intro conjI)
  show "Rule_new S c = Err e \<longleftrightarrow>
      e = MissingChainInformationError \<and> (chain_table c = None \<or> chain_name c = None)"
    by (cases "chain_table c"; cases "chain_name c") (auto simp: Rule_new_def Let_def)
  show "Lookup_new s = Err e \<longleftrightarrow> e = MissingSetName \<and> nfset_name s = None"
    by (cases "nfset_name s") (auto simp: Lookup_new_def Let_def)
  show "SetBuilder_new K n t = Err e \<longleftrightarrow> e = MissingTableName \<and> table_name t = None"
    by (cases "table_name t") (auto simp: SetBuilder_new_def)
  show "Log_new g prefix = Err e \<longleftrightarrow> e = TooLongLogPrefix \<and> (\<exists>q. prefix = Some q \<and> 127 < length q)"
    by (cases prefix) (auto simp: Log_new_def Let_def)
qed (auto simp: iface_def oface_def Bitwise_new_def Let_def)

text \<open>
  C36. The header fields: for each of the six protocol headers, \<open>from_raw_data\<close> returns a field if and
  only if it is given the offset and the length of that field; and a payload expression that
  \<open>HighLevelPayload::build\<close> makes is classified as what it was built from.
\<close>

theorem header_fields_exact:
  assumes "distinct [NFT_PAYLOAD_LL_HEADER S, NFT_PAYLOAD_NETWORK_HEADER S,
    NFT_PAYLOAD_TRANSPORT_HEADER S]"
  shows "(LLHeaderField_from_raw_data off n = Ok f1 \<longleftrightarrow>
      off = LLHeaderField_offset f1 \<and> n = LLHeaderField_len f1) \<and>
   (IPv4HeaderField_from_raw_data off n = Ok f2 \<longleftrightarrow>
      off = IPv4HeaderField_offset f2 \<and> n = IPv4HeaderField_len f2) \<and>
   (IPv6HeaderField_from_raw_data off n = Ok f3 \<longleftrightarrow>
      off = IPv6HeaderField_offset f3 \<and> n = IPv6HeaderField_len f3) \<and>
   (TCPHeaderField_from_raw_data off n = Ok f4 \<longleftrightarrow>
      off = TCPHeaderField_offset f4 \<and> n = TCPHeaderField_len f4) \<and>
   (UDPHeaderField_from_raw_data off n = Ok f5 \<longleftrightarrow>
      off = UDPHeaderField_offset f5 \<and> n = UDPHeaderField_len f5) \<and>
   (ICMPv6HeaderField_from_raw_data off n = Ok f6 \<longleftrightarrow>
      off = ICMPv6HeaderField_offset f6 \<and> n = ICMPv6HeaderField_len f6) \<and>
   parse_from_payload S (HighLevelPayload_build S f) =
    Ok (case f of HlLinkLayer g \<Rightarrow> PtLinkLayer g | HlNetwork _ \<Rightarrow> PtNetwork | HlTransport _ \<Rightarrow> PtTransport)"
proof (intro conjI ll.from_raw_iff ipv4.from_raw_iff ipv6.from_raw_iff tcp.from_raw_iff
      udp.from_raw_iff icmpv6.from_raw_iff)
  show "parse_from_payload S (HighLevelPayload_build S f) =
    Ok (case f of HlLinkLayer g \<Rightarrow> PtLinkLayer g | HlNetwork _ \<Rightarrow> PtNetwork | HlTransport _ \<Rightarrow> PtTransport)"
    using assms ll.from_raw_field
    by (auto simp: parse_from_payload_def HighLevelPayload_build_def set_field_def
        split: HighLevelPayload.split)
qed

theorem header_fields_exact_witness:
  "TCPHeaderField_from_raw_data 2 2 = Ok TCPDport \<and>
   parse_from_payload linux_sys (HighLevelPayload_build linux_sys (HlLinkLayer LLSaddr)) =
    Ok (PtLinkLayer LLSaddr)"
  using header_fields_exact [of linux_sys 2 2 LLSaddr _ _ TCPDport _ _ "HlLinkLayer LLSaddr"] by simp

end
