(* ===== verification/MacroArgs.thy ===== *)
theory MacroArgs
  imports Prelude
begin

text \<open>
  Model of the first half of the procedural macros in \<open>macros/src/lib.rs\<close>: reading the arguments of
  \<open>#[nfnetlink_struct(...)]\<close>, \<open>#[field(...)]\<close> and \<open>#[nfnetlink_enum(...)]\<close>, choosing the fields
  and the variants for which code is generated, and assembling the generated items.

  The crate \<open>syn\<close> does the parsing, so the input is a syntax tree; where \<open>syn\<close> can fail, the
  tree has \<open>None\<close>. Types, visibilities and the attributes other than \<open>field\<close> are copied and
  never inspected: types are a type parameter, visibilities are left out. \<open>abort!\<close> leaves the macro
  with a message and is an error; \<open>expect\<close> is a panic. \<open>Ident::new\<close> of \<open>proc_macro2\<close> panics on a
  string that is no identifier: the parameter \<open>is_ident\<close> tells which strings are.
\<close>

section \<open>Syntax trees\<close>

text \<open>A path: whether it starts with \<open>::\<close>, and its segments, each with a mark for arguments.\<close>

record syn_path =
  leading_colon :: bool
  segments :: "(string \<times> bool) list"

definition get_ident :: "syn_path \<Rightarrow> string option" where
  "get_ident p =
     (case segments p of
        [(x, arguments)] \<Rightarrow> if leading_colon p \<or> arguments then None else Some x
      | _ \<Rightarrow> None)"

datatype Lit = LitStr string | LitBool bool | LitOther

datatype syn_meta = MetaPath syn_path | MetaNameValue syn_path Lit | MetaList syn_path

text \<open>An attribute with the result of parsing its tokens as arguments in parentheses.\<close>

record syn_attribute =
  attribute_path :: syn_path
  attribute_args :: "syn_meta list option"

record 'ty syn_field =
  field_ident :: "string option"
  field_ty :: 'ty
  field_attrs :: "syn_attribute list"

text \<open>The ways in which a macro fails: an error of \<open>syn\<close>, handed on, or \<open>abort!\<close>.\<close>

datatype macro_error = SynError | Abort string

type_synonym 'a expanded = "(macro_error, 'a) outcome"

text \<open>\<open>match parse(..) { Ok(x) => x, Err(_) => abort!(msg) }\<close>: an abort inside is not caught.\<close>

fun or_abort :: "string \<Rightarrow> 'a expanded \<Rightarrow> 'a expanded" where
  "or_abort text (Err SynError) = Err (Abort text)"
| "or_abort text r = r"

fun expect :: "'a option \<Rightarrow> ('e, 'a) outcome" where
  "expect None = Panic"
| "expect (Some x) = Ok x"

text \<open>The loop over the arguments, which stops at the first failure.\<close>

fun for_args :: "('a \<Rightarrow> syn_meta \<Rightarrow> 'a expanded) \<Rightarrow> 'a \<Rightarrow> syn_meta list \<Rightarrow> 'a expanded" where
  "for_args step args [] = Ok args"
| "for_args step args (arg # rest) = bind (step args arg) (\<lambda>args'. for_args step args' rest)"

definition parse_terminated :: "syn_meta list option \<Rightarrow> syn_meta list expanded" where
  "parse_terminated input = (case input of None \<Rightarrow> Err SynError | Some metas \<Rightarrow> Ok metas)"

section \<open>The declared identifiers\<close>

datatype syn_item = ItemConst string | ItemOther

text \<open>\<open>None\<close>: the generated header cannot be opened, read or parsed.\<close>

definition get_state :: "syn_item list option \<Rightarrow> string list expanded" where
  "get_state sys_file =
     bind (expect sys_file) (\<lambda>items.
     Ok (concat (map (\<lambda>item. case item of ItemConst x \<Rightarrow> [x] | ItemOther \<Rightarrow> []) items)))"

section \<open>Arguments of fields\<close>

record FieldArgs =
  args_netlink_type :: "syn_path option"
  override_function_name :: "string option"
  optional :: bool

definition FieldArgs_default :: FieldArgs where
  "FieldArgs_default =
     \<lparr>args_netlink_type = None, override_function_name = None, optional = False\<rparr>"

fun field_arg :: "FieldArgs \<Rightarrow> syn_meta \<Rightarrow> FieldArgs expanded" where
  "field_arg args (MetaPath path) =
     (if args_netlink_type args = None then Ok (args\<lparr>args_netlink_type := Some path\<rparr>)
      else Err (Abort ''Only a single netlink value can exist for a given field''))"
| "field_arg args (MetaNameValue path lit) =
     bind (expect (get_ident path)) (\<lambda>key.
     if key = ''name_in_functions'' then
       (case lit of
          LitStr val \<Rightarrow> Ok (args\<lparr>override_function_name := Some val\<rparr>)
        | _ \<Rightarrow> Err (Abort ''Expected a string literal''))
     else if key = ''optional'' then
       (case lit of
          LitBool boolean \<Rightarrow> Ok (args\<lparr>optional := boolean\<rparr>)
        | _ \<Rightarrow> Err (Abort ''Expected a boolean''))
     else Err (Abort ''Unsupported macro parameter''))"
| "field_arg args (MetaList path) = Err (Abort ''Unrecognized argument'')"

definition parse_field_args :: "syn_meta list option \<Rightarrow> FieldArgs expanded" where
  "parse_field_args input =
     bind (parse_terminated input) (\<lambda>metas. for_args field_arg FieldArgs_default metas)"

section \<open>Arguments of structures\<close>

record StructArgs =
  struct_nested :: bool
  derive_decoder :: bool
  derive_deserialize :: bool

definition StructArgs_default :: StructArgs where
  "StructArgs_default =
     \<lparr>struct_nested = False, derive_decoder = True, derive_deserialize = True\<rparr>"

fun bool_lit :: "Lit \<Rightarrow> bool expanded" where
  "bool_lit (LitBool boolean) = Ok boolean"
| "bool_lit _ = Err (Abort ''Expected a boolean'')"

fun struct_arg :: "StructArgs \<Rightarrow> syn_meta \<Rightarrow> StructArgs expanded" where
  "struct_arg args (MetaNameValue path lit) =
     bind (expect (get_ident path)) (\<lambda>key.
     if key = ''derive_decoder'' then bind (bool_lit lit) (\<lambda>v. Ok (args\<lparr>derive_decoder := v\<rparr>))
     else if key = ''nested'' then bind (bool_lit lit) (\<lambda>v. Ok (args\<lparr>struct_nested := v\<rparr>))
     else if key = ''derive_deserialize'' then
       bind (bool_lit lit) (\<lambda>v. Ok (args\<lparr>derive_deserialize := v\<rparr>))
     else Err (Abort ''Unsupported macro parameter''))"
| "struct_arg args _ = Err (Abort ''Unrecognized argument'')"

definition parse_struct_args :: "syn_meta list option \<Rightarrow> StructArgs expanded" where
  "parse_struct_args input =
     bind (parse_terminated input) (\<lambda>metas. for_args struct_arg StructArgs_default metas)"

section \<open>The fields of a structure\<close>

record 'ty Field =
  Field_name :: string
  Field_ty :: 'ty
  Field_args :: FieldArgs
  Field_netlink_type :: syn_path
  Field_attrs :: "syn_attribute list"

text \<open>What becomes of a field: generated code, no code at all, or a copy.\<close>

datatype 'ty chosen = Generated "'ty Field" | Rejected | Identical

definition is_field_attribute :: "syn_attribute \<Rightarrow> bool" where
  "is_field_attribute attr \<longleftrightarrow> get_ident (attribute_path attr) = Some ''field''"

definition last_ident :: "syn_path \<Rightarrow> string expanded" where
  "last_ident path = (if segments path = [] then Panic else Ok (fst (last (segments path))))"

definition choose_annotated ::
  "string list \<Rightarrow> 'ty syn_field \<Rightarrow> syn_attribute \<Rightarrow> 'ty chosen expanded" where
  "choose_annotated declared_identifiers field attr =
     bind (or_abort ''Could not parse the field attributes''
             (parse_field_args (attribute_args attr))) (\<lambda>args.
     case args_netlink_type args of
       None \<Rightarrow> Err (Abort ''Missing Netlink Type in field'')
     | Some netlink_type \<Rightarrow>
         bind (if optional args
               then bind (last_ident netlink_type) (\<lambda>x. Ok (x \<in> set declared_identifiers))
               else Ok True) (\<lambda>keep.
         if \<not> keep then Ok Rejected
         else
           bind (expect (field_ident field)) (\<lambda>name.
           Ok (Generated
             \<lparr>Field_name = name, Field_ty = field_ty field, Field_args = args,
              Field_netlink_type = netlink_type,
              Field_attrs = filter (\<lambda>x. get_ident (attribute_path x) \<noteq> get_ident (attribute_path attr))
                (field_attrs field)\<rparr>))))"

fun choose_field ::
  "string list \<Rightarrow> 'ty syn_field \<Rightarrow> syn_attribute list \<Rightarrow> 'ty chosen expanded" where
  "choose_field declared_identifiers field [] = Ok Identical"
| "choose_field declared_identifiers field (attr # attrs) =
     (if is_field_attribute attr then choose_annotated declared_identifiers field attr
      else choose_field declared_identifiers field attrs)"

text \<open>The loop over the fields: the generated ones and the identical ones.\<close>

fun select_fields ::
  "string list \<Rightarrow> 'ty syn_field list \<Rightarrow> ('ty Field list \<times> 'ty syn_field list) expanded" where
  "select_fields declared_identifiers [] = Ok ([], [])"
| "select_fields declared_identifiers (f # fs) =
     bind (choose_field declared_identifiers f (field_attrs f)) (\<lambda>chosen.
     bind (select_fields declared_identifiers fs) (\<lambda>(gs, ids).
     Ok (case chosen of Generated g \<Rightarrow> (g # gs, ids) | Rejected \<Rightarrow> (gs, ids) | Identical \<Rightarrow> (gs, f # ids))))"

section \<open>The generated structure\<close>

text \<open>The names of the getter, the mutable getter, the setter and the builder of a field.\<close>

record accessor_names =
  getter_name :: string
  muttable_getter_name :: string
  setter_name :: string
  in_place_edit_name :: string

definition new_ident :: "(string \<Rightarrow> bool) \<Rightarrow> string \<Rightarrow> string expanded" where
  "new_ident is_ident x = (if is_ident x then Ok x else Panic)"

definition accessors :: "(string \<Rightarrow> bool) \<Rightarrow> 'ty Field \<Rightarrow> accessor_names expanded" where
  "accessors is_ident field =
     (let field_str = (case override_function_name (Field_args field) of
          None \<Rightarrow> Field_name field | Some x \<Rightarrow> x) in
      bind (new_ident is_ident (''get_'' @ field_str)) (\<lambda>getter.
      bind (new_ident is_ident (''get_mut_'' @ field_str)) (\<lambda>muttable_getter.
      bind (new_ident is_ident (''set_'' @ field_str)) (\<lambda>setter.
      bind (new_ident is_ident (''with_'' @ field_str)) (\<lambda>in_place_edit.
      Ok \<lparr>getter_name = getter, muttable_getter_name = muttable_getter, setter_name = setter,
          in_place_edit_name = in_place_edit\<rparr>)))))"

fun for_fields :: "('f \<Rightarrow> 'b expanded) \<Rightarrow> 'f list \<Rightarrow> 'b list expanded" where
  "for_fields h [] = Ok []"
| "for_fields h (f # fs) = bind (h f) (\<lambda>y. bind (for_fields h fs) (\<lambda>ys. Ok (y # ys)))"

text \<open>
  The generated item: the structure with its fields (the generated ones, wrapped in \<open>Option\<close>,
  before the identical ones), the accessors, the arms of \<open>decode_attribute\<close> (attribute and field),
  the entries of \<open>get_size\<close> and \<open>write_payload\<close> with the value of \<open>is_nested\<close>, and whether
  \<open>deserialize\<close> is implemented. \<open>struct_decode_attribute\<close>, \<open>struct_get_size\<close>,
  \<open>struct_write_payload\<close> and \<open>struct_deserialize\<close> are the code that these entries stand for.
\<close>

record 'ty expansion =
  new_fields :: "(string \<times> 'ty) list"
  identical_fields :: "'ty syn_field list"
  getters_and_setters :: "accessor_names list"
  decoder_entries :: "(syn_path \<times> string \<times> 'ty) list option"
  attribute_entries :: "(syn_path \<times> string) list"
  attribute_nested :: bool
  deserialize_impl :: bool

definition nfnetlink_struct ::
  "(string \<Rightarrow> bool) \<Rightarrow> syn_item list option \<Rightarrow> syn_meta list option \<Rightarrow> 'ty syn_field list \<Rightarrow>
   'ty expansion expanded" where
  "nfnetlink_struct is_ident sys_file attrs ast_fields =
     bind (or_abort ''Could not parse the macro arguments'' (parse_struct_args attrs)) (\<lambda>args.
     bind (get_state sys_file) (\<lambda>declared_identifiers.
     bind (select_fields declared_identifiers ast_fields) (\<lambda>(fields, identical).
     bind (for_fields (accessors is_ident) fields) (\<lambda>names.
     Ok \<lparr>new_fields = map (\<lambda>f. (Field_name f, Field_ty f)) fields,
         identical_fields = identical,
         getters_and_setters = names,
         decoder_entries =
           (if derive_decoder args
            then Some (map (\<lambda>f. (Field_netlink_type f, Field_name f, Field_ty f)) fields) else None),
         attribute_entries = map (\<lambda>f. (Field_netlink_type f, Field_name f)) fields,
         attribute_nested = struct_nested args,
         deserialize_impl = derive_deserialize args\<rparr>))))"

section \<open>Enumerations\<close>

record EnumArgs =
  enum_nested :: bool
  enum_ty :: "syn_path option"

definition EnumArgs_default :: EnumArgs where
  "EnumArgs_default = \<lparr>enum_nested = False, enum_ty = None\<rparr>"

fun enum_arg :: "EnumArgs \<Rightarrow> syn_meta \<Rightarrow> EnumArgs expanded" where
  "enum_arg args (MetaPath path) =
     (if enum_ty args = None then Ok (args\<lparr>enum_ty := Some path\<rparr>)
      else Err (Abort ''A value can only have a single representation''))"
| "enum_arg args (MetaNameValue path lit) =
     bind (expect (get_ident path)) (\<lambda>key.
     if key = ''nested'' then bind (bool_lit lit) (\<lambda>v. Ok (args\<lparr>enum_nested := v\<rparr>))
     else Err (Abort ''Unsupported macro parameter''))"
| "enum_arg args (MetaList path) = Err (Abort ''Unrecognized argument'')"

definition parse_enum_args :: "syn_meta list option \<Rightarrow> EnumArgs expanded" where
  "parse_enum_args input =
     bind (parse_terminated input) (\<lambda>metas. for_args enum_arg EnumArgs_default metas)"

datatype syn_expr = ExprPath syn_path | ExprCast syn_expr syn_path | ExprOther

record syn_variant =
  variant_ident :: string
  discriminant :: "syn_expr option"

record Variant =
  Variant_inner :: syn_variant
  Variant_name :: string
  Variant_value :: syn_path

definition enum_variant :: "syn_variant \<Rightarrow> Variant expanded" where
  "enum_variant v =
     (case discriminant v of
        None \<Rightarrow> Err (Abort ''Missing value'')
      | Some (ExprPath path) \<Rightarrow>
          Ok \<lparr>Variant_inner = v, Variant_name = variant_ident v, Variant_value = path\<rparr>
      | Some _ \<Rightarrow> Err (Abort ''Expected a path''))"

text \<open>
  The generated item: the representation, the enumeration with cast discriminants, the arms of
  \<open>try_from\<close> and the variant of \<open>DecodeError\<close> for unknown values. \<open>enum_try_from\<close>,
  \<open>enum_deserialize\<close> and \<open>enum_attr\<close> are the code that they stand for.
\<close>

record enum_expansion =
  repr_type :: syn_path
  original_variants :: "syn_variant list"
  try_from_entries :: "(syn_path \<times> string) list"
  unknown_type_ident :: string

definition nfnetlink_enum ::
  "(string \<Rightarrow> bool) \<Rightarrow> syn_meta list option \<Rightarrow> string \<Rightarrow> syn_variant list \<Rightarrow>
   enum_expansion expanded" where
  "nfnetlink_enum is_ident attrs name ast_variants =
     bind (or_abort ''Could not parse the macro arguments'' (parse_enum_args attrs)) (\<lambda>args.
     case enum_ty args of
       None \<Rightarrow> Err (Abort ''The target type representation is unspecified'')
     | Some repr \<Rightarrow>
         bind (for_fields enum_variant ast_variants) (\<lambda>variants.
         bind (new_ident is_ident (''Unknown'' @ name)) (\<lambda>unknown.
         Ok \<lparr>repr_type = repr,
             original_variants = map (\<lambda>x. (Variant_inner x)
               \<lparr>discriminant := map_option (\<lambda>cur_value. ExprCast cur_value repr)
                  (discriminant (Variant_inner x))\<rparr>) variants,
             try_from_entries = map (\<lambda>x. (Variant_value x, Variant_name x)) variants,
             unknown_type_ident = unknown\<rparr>)))"

section \<open>What the arguments of a field mean\<close>

definition good_field_arg :: "syn_meta \<Rightarrow> bool" where
  "good_field_arg m =
     (case m of
        MetaPath p \<Rightarrow> True
      | MetaNameValue p (LitStr s) \<Rightarrow> get_ident p = Some ''name_in_functions''
      | MetaNameValue p (LitBool b) \<Rightarrow> get_ident p = Some ''optional''
      | _ \<Rightarrow> False)"

text \<open>The attribute types, the method names and the values of \<open>optional\<close> in a list of arguments.\<close>

definition arg_types :: "syn_meta list \<Rightarrow> syn_path list" where
  "arg_types ms = concat (map (\<lambda>m. case m of MetaPath p \<Rightarrow> [p] | _ \<Rightarrow> []) ms)"

definition arg_names :: "syn_meta list \<Rightarrow> string list" where
  "arg_names ms = concat (map (\<lambda>m. case m of MetaNameValue p (LitStr s) \<Rightarrow> [s] | _ \<Rightarrow> []) ms)"

definition arg_optional :: "syn_meta list \<Rightarrow> bool list" where
  "arg_optional ms = concat (map (\<lambda>m. case m of MetaNameValue p (LitBool b) \<Rightarrow> [b] | _ \<Rightarrow> []) ms)"

lemma arg_lists_simps [simp]:
  "arg_types [] = []" "arg_names [] = []" "arg_optional [] = []"
  "arg_types (m # ms) = (case m of MetaPath p \<Rightarrow> [p] | _ \<Rightarrow> []) @ arg_types ms"
  "arg_names (m # ms) = (case m of MetaNameValue p (LitStr s) \<Rightarrow> [s] | _ \<Rightarrow> []) @ arg_names ms"
  "arg_optional (m # ms) = (case m of MetaNameValue p (LitBool b) \<Rightarrow> [b] | _ \<Rightarrow> []) @ arg_optional ms"
  by (simp_all add: arg_types_def arg_names_def arg_optional_def)

text \<open>The last of the given values, or the default.\<close>

fun last_given :: "'a \<Rightarrow> 'a list \<Rightarrow> 'a" where
  "last_given d [] = d"
| "last_given d (x # xs) = last_given x xs"

lemma expect_eq_Ok [simp]: "expect x = Ok y \<longleftrightarrow> x = Some y"
  by (cases x) simp_all

lemma parse_terminated_Some [simp]: "parse_terminated (Some ms) = Ok ms"
  by (simp add: parse_terminated_def)

lemma or_abort_eq_Ok [simp]: "or_abort t r = Ok x \<longleftrightarrow> r = Ok x"
  by (cases "(t, r)" rule: or_abort.cases) simp_all

text \<open>
  The value of an argument that is given twice is the last one; the attribute type may be given
  only once.
\<close>

lemma for_args_field:
  "for_args field_arg a ms = Ok a' \<longleftrightarrow>
     list_all good_field_arg ms \<and>
     (args_netlink_type a \<noteq> None \<longrightarrow> arg_types ms = []) \<and> length (arg_types ms) \<le> 1 \<and>
     a' = \<lparr>args_netlink_type = last_given (args_netlink_type a) (map Some (arg_types ms)),
           override_function_name = last_given (override_function_name a) (map Some (arg_names ms)),
           optional = last_given (optional a) (arg_optional ms)\<rparr>"
proof (induction ms arbitrary: a)
  case Nil
  then show ?case by auto
next
  case (Cons m ms)
  show ?case
  proof (cases m)
    case (MetaPath p)
    then show ?thesis
      by (cases "args_netlink_type a"; cases "arg_types ms")
        (simp_all add: bind_eq_Ok Cons.IH good_field_arg_def)
  next
    case (MetaNameValue p lit)
    then show ?thesis
      by (cases lit; cases "get_ident p")
        (simp_all add: bind_eq_Ok Cons.IH good_field_arg_def)
  next
    case (MetaList p)
    then show ?thesis by (simp add: good_field_arg_def)
  qed
qed

lemma parse_field_args_iff:
  "parse_field_args input = Ok a \<longleftrightarrow>
     (\<exists>ms. input = Some ms \<and> list_all good_field_arg ms \<and> length (arg_types ms) \<le> 1 \<and>
       a = \<lparr>args_netlink_type = last_given None (map Some (arg_types ms)),
            override_function_name = last_given None (map Some (arg_names ms)),
            optional = last_given False (arg_optional ms)\<rparr>)"
  by (cases input)
    (auto simp: parse_field_args_def for_args_field FieldArgs_default_def parse_terminated_def)

section \<open>Which fields get code\<close>

definition annotation :: "'ty syn_field \<Rightarrow> syn_attribute option" where
  "annotation f = find is_field_attribute (field_attrs f)"

definition annotation_args :: "'ty syn_field \<Rightarrow> syn_meta list" where
  "annotation_args f =
     (case annotation f of
        None \<Rightarrow> []
      | Some attr \<Rightarrow> (case attribute_args attr of None \<Rightarrow> [] | Some ms \<Rightarrow> ms))"

definition annotation_type :: "'ty syn_field \<Rightarrow> syn_path" where
  "annotation_type f = hd (arg_types (annotation_args f))"

definition annotation_optional :: "'ty syn_field \<Rightarrow> bool" where
  "annotation_optional f \<longleftrightarrow> last_given False (arg_optional (annotation_args f))"

text \<open>A field is unsupported when it is optional and the headers do not declare its attribute.\<close>

definition unsupported :: "string list \<Rightarrow> 'ty syn_field \<Rightarrow> bool" where
  "unsupported declared f \<longleftrightarrow>
     annotation_optional f \<and> fst (last (segments (annotation_type f))) \<notin> set declared"

definition well_declared :: "string list \<Rightarrow> 'ty syn_field \<Rightarrow> bool" where
  "well_declared declared f \<longleftrightarrow>
     annotation f = None \<or>
     list_all good_field_arg (annotation_args f) \<and> length (arg_types (annotation_args f)) = 1 \<and>
     (annotation_optional f \<longrightarrow> segments (annotation_type f) \<noteq> []) \<and>
     (unsupported declared f \<or> field_ident f \<noteq> None)"

definition kept :: "string list \<Rightarrow> 'ty syn_field \<Rightarrow> bool" where
  "kept declared f \<longleftrightarrow> annotation f \<noteq> None \<and> \<not> unsupported declared f"

lemma choose_field_find:
  "choose_field declared f attrs =
     (case find is_field_attribute attrs of
        None \<Rightarrow> Ok Identical | Some a \<Rightarrow> choose_annotated declared f a)"
  by (induction attrs) auto

lemma annotation_is_field: "annotation f = Some a \<Longrightarrow> is_field_attribute a"
  by (auto simp: annotation_def find_Some_iff)

text \<open>The code of a field, from its annotation.\<close>

definition field_code :: "'ty syn_field \<Rightarrow> 'ty Field" where
  "field_code f =
     \<lparr>Field_name = the (field_ident f), Field_ty = field_ty f,
      Field_args = \<lparr>args_netlink_type = Some (annotation_type f),
        override_function_name = last_given None (map Some (arg_names (annotation_args f))),
        optional = annotation_optional f\<rparr>,
      Field_netlink_type = annotation_type f,
      Field_attrs = filter (\<lambda>x. \<not> is_field_attribute x) (field_attrs f)\<rparr>"

lemma choose_field_iff:
  "choose_field declared f (field_attrs f) = Ok c \<longleftrightarrow>
     well_declared declared f \<and>
     c = (if annotation f = None then Identical
          else if unsupported declared f then Rejected else Generated (field_code f))"
proof (cases "annotation f")
  case None
  then show ?thesis by (auto simp: choose_field_find annotation_def [symmetric] well_declared_def)
next
  case (Some a)
  then have field: "is_field_attribute a" by (rule annotation_is_field)
  show ?thesis
  proof (cases "attribute_args a")
    case None
    with Some show ?thesis
      by (simp add: choose_field_find annotation_def [symmetric] choose_annotated_def
          parse_field_args_def parse_terminated_def well_declared_def annotation_args_def)
  next
    case args: (Some ms)
    then have ms: "annotation_args f = ms" using Some by (simp add: annotation_args_def)
    have types: "arg_types ms = [] \<or> (\<exists>p. arg_types ms = [p]) \<or> 1 < length (arg_types ms)"
      by (cases "arg_types ms" rule: remdups_adj.cases) auto
    show ?thesis
      using types Some field args
      by (auto simp: choose_field_find annotation_def [symmetric] choose_annotated_def bind_eq_Ok
          parse_field_args_iff well_declared_def ms annotation_optional_def
          annotation_type_def unsupported_def last_ident_def field_code_def is_field_attribute_def
          split: if_splits)
  qed
qed

lemma select_fields_iff:
  "select_fields declared fs = Ok (gs, ids) \<longleftrightarrow>
     list_all (well_declared declared) fs \<and> gs = map field_code (filter (kept declared) fs) \<and>
     ids = filter (\<lambda>f. annotation f = None) fs"
  by (induction fs arbitrary: gs ids)
    (auto simp: bind_eq_Ok choose_field_iff kept_def split: if_splits)

section \<open>The generated items\<close>

lemma for_fields_iff: "for_fields h fs = Ok ys \<longleftrightarrow> list_all2 (\<lambda>f y. h f = Ok y) fs ys"
  by (induction fs arbitrary: ys) (auto simp: bind_eq_Ok list_all2_Cons1)

lemma for_fields_total: "(\<And>f. f \<in> set fs \<Longrightarrow> \<exists>y. h f = Ok y) \<Longrightarrow> \<exists>ys. for_fields h fs = Ok ys"
  by (induction fs) (auto simp: bind_eq_Ok)

definition declared_identifiers :: "syn_item list \<Rightarrow> string list" where
  "declared_identifiers items =
     concat (map (\<lambda>item. case item of ItemConst x \<Rightarrow> [x] | ItemOther \<Rightarrow> []) items)"

lemma declared_identifiers_iff: "x \<in> set (declared_identifiers items) \<longleftrightarrow> ItemConst x \<in> set items"
  by (induction items) (auto simp: declared_identifiers_def split: syn_item.splits)

lemma get_state_Some [simp]: "get_state (Some items) = Ok (declared_identifiers items)"
  by (simp add: get_state_def declared_identifiers_def)

text \<open>The name that the methods of a field carry.\<close>

definition function_name :: "'ty syn_field \<Rightarrow> string" where
  "function_name f = last_given (the (field_ident f)) (arg_names (annotation_args f))"

lemma last_given_last: "last_given d ys = (if ys = [] then d else last ys)"
  by (induction ys arbitrary: d) auto

definition names_ok :: "(string \<Rightarrow> bool) \<Rightarrow> 'ty syn_field \<Rightarrow> bool" where
  "names_ok is_ident f \<longleftrightarrow>
     (\<forall>prefix\<in>set [''get_'', ''get_mut_'', ''set_'', ''with_'']. is_ident (prefix @ function_name f))"

lemma accessors_field_code:
  assumes "names_ok is_ident f"
  shows "accessors is_ident (field_code f) =
     Ok \<lparr>getter_name = ''get_'' @ function_name f, muttable_getter_name = ''get_mut_'' @ function_name f,
         setter_name = ''set_'' @ function_name f, in_place_edit_name = ''with_'' @ function_name f\<rparr>"
proof -
  have "(case override_function_name (Field_args (field_code f)) of
      None \<Rightarrow> Field_name (field_code f) | Some x \<Rightarrow> x) = function_name f"
    by (simp add: field_code_def function_name_def last_given_last last_map)
  with assms show ?thesis
    unfolding accessors_def Let_def by (simp add: new_ident_def names_ok_def)
qed

lemma nfnetlink_struct_iff:
  "nfnetlink_struct is_ident (Some items) attrs fs = Ok e \<longleftrightarrow>
     (\<exists>args names. parse_struct_args attrs = Ok args \<and>
       list_all (well_declared (declared_identifiers items)) fs \<and>
       for_fields (accessors is_ident)
         (map field_code (filter (kept (declared_identifiers items)) fs)) = Ok names \<and>
       e = (let ks = filter (kept (declared_identifiers items)) fs in
         \<lparr>new_fields = map (\<lambda>f. (the (field_ident f), field_ty f)) ks,
          identical_fields = filter (\<lambda>f. annotation f = None) fs,
          getters_and_setters = names,
          decoder_entries =
            (if derive_decoder args
             then Some (map (\<lambda>f. (annotation_type f, the (field_ident f), field_ty f)) ks) else None),
          attribute_entries = map (\<lambda>f. (annotation_type f, the (field_ident f))) ks,
          attribute_nested = struct_nested args,
          deserialize_impl = derive_deserialize args\<rparr>))"
  by (auto simp: nfnetlink_struct_def bind_eq_Ok select_fields_iff Let_def comp_def field_code_def
      cong: map_cong)

lemma for_fields_map: "for_fields h (map g fs) = for_fields (\<lambda>f. h (g f)) fs"
  by (induction fs) simp_all

text \<open>When the names are identifiers, only the declarations decide whether there is code.\<close>

lemma nfnetlink_struct_total:
  assumes "parse_struct_args attrs = Ok args" and "list_all (well_declared (declared_identifiers items)) fs"
    and "list_all (names_ok is_ident) fs"
  shows "\<exists>e. nfnetlink_struct is_ident (Some items) attrs fs = Ok e"
proof -
  have "\<exists>names. for_fields (\<lambda>f. accessors is_ident (field_code f))
      (filter (kept (declared_identifiers items)) fs) = Ok names"
  proof (rule for_fields_total)
    fix f assume "f \<in> set (filter (kept (declared_identifiers items)) fs)"
    then have "names_ok is_ident f" using assms(3) by (simp add: list_all_iff)
    then show "\<exists>y. accessors is_ident (field_code f) = Ok y"
      using accessors_field_code [of is_ident f] by blast
  qed
  with assms(1,2) show ?thesis unfolding nfnetlink_struct_iff for_fields_map by blast
qed

lemma enum_variant_iff:
  "enum_variant v = Ok x \<longleftrightarrow>
     (\<exists>p. discriminant v = Some (ExprPath p) \<and>
       x = \<lparr>Variant_inner = v, Variant_name = variant_ident v, Variant_value = p\<rparr>)"
  by (auto simp: enum_variant_def split: option.splits syn_expr.splits)

end
