(* ===== verification/MacroProps.thy ===== *)
theory MacroProps
  imports MacroArgs Rules
begin

text \<open>
  Properties of the procedural macros: which fields and variants they generate code for, and that
  the field lists and the variants of the other theories are what the macros make of the
  declarations in \<open>table.rs\<close>, \<open>chain.rs\<close>, \<open>rule.rs\<close> and \<open>expr/verdict.rs\<close>.
\<close>

section \<open>Declarations\<close>

definition ident_path :: "string \<Rightarrow> syn_path" where
  "ident_path x = \<lparr>leading_colon = False, segments = [(x, False)]\<rparr>"

definition sys_path :: "string \<Rightarrow> syn_path" where
  "sys_path x =
     \<lparr>leading_colon = False, segments = [(''crate'', False), (''sys'', False), (x, False)]\<rparr>"

definition plain_field :: "string \<Rightarrow> string \<Rightarrow> string syn_field" where
  "plain_field name ty = \<lparr>field_ident = Some name, field_ty = ty, field_attrs = []\<rparr>"

definition field_with :: "syn_meta list \<Rightarrow> string \<Rightarrow> string \<Rightarrow> string syn_field" where
  "field_with args name ty =
     \<lparr>field_ident = Some name, field_ty = ty,
      field_attrs = [\<lparr>attribute_path = ident_path ''field'', attribute_args = Some args\<rparr>]\<rparr>"

abbreviation field_of :: "string \<Rightarrow> string \<Rightarrow> string \<Rightarrow> string syn_field" where
  "field_of x \<equiv> field_with [MetaPath (ident_path x)]"

abbreviation optional_of :: "string \<Rightarrow> string \<Rightarrow> string \<Rightarrow> string syn_field" where
  "optional_of x \<equiv> field_with [MetaNameValue (ident_path ''optional'') (LitBool True), MetaPath (sys_path x)]"

definition table_declaration :: "string syn_field list" where
  "table_declaration =
     [plain_field ''family'' ''ProtocolFamily'',
      field_of ''NFTA_TABLE_NAME'' ''name'' ''String'',
      field_of ''NFTA_TABLE_FLAGS'' ''flags'' ''u32'',
      optional_of ''NFTA_TABLE_USERDATA'' ''userdata'' ''Vec<u8>'']"

definition chain_declaration :: "string syn_field list" where
  "chain_declaration =
     [plain_field ''family'' ''ProtocolFamily'',
      field_of ''NFTA_CHAIN_TABLE'' ''table'' ''String'',
      field_of ''NFTA_CHAIN_NAME'' ''name'' ''String'',
      field_of ''NFTA_CHAIN_HOOK'' ''hook'' ''Hook'',
      field_of ''NFTA_CHAIN_POLICY'' ''policy'' ''ChainPolicy'',
      field_with [MetaPath (ident_path ''NFTA_CHAIN_TYPE''),
        MetaNameValue (ident_path ''name_in_functions'') (LitStr ''type'')] ''chain_type'' ''ChainType'',
      field_of ''NFTA_CHAIN_FLAGS'' ''flags'' ''u32'',
      optional_of ''NFTA_CHAIN_USERDATA'' ''userdata'' ''Vec<u8>'']"

definition rule_declaration :: "string syn_field list" where
  "rule_declaration =
     [plain_field ''family'' ''ProtocolFamily'',
      field_of ''NFTA_RULE_TABLE'' ''table'' ''String'',
      field_of ''NFTA_RULE_CHAIN'' ''chain'' ''String'',
      field_of ''NFTA_RULE_HANDLE'' ''handle'' ''u64'',
      field_of ''NFTA_RULE_EXPRESSIONS'' ''expressions'' ''ExpressionList'',
      field_of ''NFTA_RULE_POSITION'' ''position'' ''u64'',
      field_of ''NFTA_RULE_USERDATA'' ''userdata'' ''Vec<u8>'',
      field_of ''NFTA_RULE_ID'' ''id'' ''u32'']"

definition verdict_declaration :: "string syn_field list" where
  "verdict_declaration =
     [field_of ''NFTA_VERDICT_CODE'' ''code'' ''VerdictType'',
      field_of ''NFTA_VERDICT_CHAIN'' ''chain'' ''String'',
      optional_of ''NFTA_VERDICT_CHAIN_ID'' ''chain_id'' ''u32'']"

definition verdict_type_declaration :: "syn_variant list" where
  "verdict_type_declaration =
     map (\<lambda>(name, x). \<lparr>variant_ident = name, discriminant = Some (ExprPath (ident_path x))\<rparr>)
       [(''Drop'', ''NF_DROP''), (''Accept'', ''NF_ACCEPT''), (''Queue'', ''NF_QUEUE''),
        (''Continue'', ''NFT_CONTINUE''), (''Break'', ''NFT_BREAK''), (''Jump'', ''NFT_JUMP''),
        (''Goto'', ''NFT_GOTO''), (''Return'', ''NFT_RETURN'')]"

text \<open>The arguments of the macro on these declarations.\<close>

definition derive_deserialize_false :: "syn_meta list" where
  "derive_deserialize_false = [MetaNameValue (ident_path ''derive_deserialize'') (LitBool False)]"

definition nested_true :: "syn_meta list" where
  "nested_true = [MetaNameValue (ident_path ''nested'') (LitBool True)]"

section \<open>Resolving the names\<close>

definition attribute_number :: "sys \<Rightarrow> string \<Rightarrow> u16 option" where
  "attribute_number S x =
     (case map_of
        [(''NFTA_TABLE_NAME'', Some (NFTA_TABLE_NAME S)), (''NFTA_TABLE_FLAGS'', Some (NFTA_TABLE_FLAGS S)),
         (''NFTA_TABLE_USERDATA'', NFTA_TABLE_USERDATA S),
         (''NFTA_CHAIN_TABLE'', Some (NFTA_CHAIN_TABLE S)), (''NFTA_CHAIN_NAME'', Some (NFTA_CHAIN_NAME S)),
         (''NFTA_CHAIN_HOOK'', Some (NFTA_CHAIN_HOOK S)), (''NFTA_CHAIN_POLICY'', Some (NFTA_CHAIN_POLICY S)),
         (''NFTA_CHAIN_TYPE'', Some (NFTA_CHAIN_TYPE S)), (''NFTA_CHAIN_FLAGS'', Some (NFTA_CHAIN_FLAGS S)),
         (''NFTA_CHAIN_USERDATA'', NFTA_CHAIN_USERDATA S),
         (''NFTA_RULE_TABLE'', Some (NFTA_RULE_TABLE S)), (''NFTA_RULE_CHAIN'', Some (NFTA_RULE_CHAIN S)),
         (''NFTA_RULE_HANDLE'', Some (NFTA_RULE_HANDLE S)),
         (''NFTA_RULE_EXPRESSIONS'', Some (NFTA_RULE_EXPRESSIONS S)),
         (''NFTA_RULE_POSITION'', Some (NFTA_RULE_POSITION S)),
         (''NFTA_RULE_USERDATA'', Some (NFTA_RULE_USERDATA S)), (''NFTA_RULE_ID'', Some (NFTA_RULE_ID S)),
         (''NFTA_VERDICT_CODE'', Some (NFTA_VERDICT_CODE S)),
         (''NFTA_VERDICT_CHAIN'', Some (NFTA_VERDICT_CHAIN S)),
         (''NFTA_VERDICT_CHAIN_ID'', NFTA_VERDICT_CHAIN_ID S)] x of
        None \<Rightarrow> None | Some n \<Rightarrow> n)"

definition verdict_number :: "sys \<Rightarrow> string \<Rightarrow> int option" where
  "verdict_number S =
     map_of [(''NF_DROP'', NF_DROP S), (''NF_ACCEPT'', NF_ACCEPT S), (''NF_QUEUE'', NF_QUEUE S),
       (''NFT_CONTINUE'', NFT_CONTINUE S), (''NFT_BREAK'', NFT_BREAK S), (''NFT_JUMP'', NFT_JUMP S),
       (''NFT_GOTO'', NFT_GOTO S), (''NFT_RETURN'', NFT_RETURN S)]"

definition path_name :: "syn_path \<Rightarrow> string" where
  "path_name p = fst (last (segments p))"

lemma path_simps [simp]:
  "get_ident (ident_path x) = Some x" "segments (ident_path x) = [(x, False)]"
  "segments (sys_path x) = [(''crate'', False), (''sys'', False), (x, False)]"
  "path_name (ident_path x) = x" "path_name (sys_path x) = x"
  by (simp_all add: ident_path_def sys_path_def get_ident_def path_name_def)

lemma declared_field_simps [simp]:
  "annotation (plain_field x t) = None" "annotation (field_with args x t) \<noteq> None"
  "annotation_args (field_with args x t) = args" "annotation_args (plain_field x t) = []"
  "field_ident (plain_field x t) = Some x"
  "field_ident (field_with args x t) = Some x" "field_ty (field_with args x t) = t"
  by (simp_all add: annotation_def annotation_args_def plain_field_def field_with_def
      is_field_attribute_def)

lemma good_field_arg_simps [simp]:
  "good_field_arg (MetaPath p)"
  "good_field_arg (MetaNameValue p (LitBool v)) \<longleftrightarrow> get_ident p = Some ''optional''"
  "good_field_arg (MetaNameValue p (LitStr t)) \<longleftrightarrow> get_ident p = Some ''name_in_functions''"
  by (simp_all add: good_field_arg_def)

lemmas annotation_defs = annotation_type_def annotation_optional_def

lemma well_declared_simps [simp]:
  "well_declared D (plain_field x t)" "well_declared D (field_of a x t)"
  "well_declared D (optional_of a x t)"
  "well_declared D (field_with [MetaPath (ident_path a),
     MetaNameValue (ident_path ''name_in_functions'') (LitStr n)] x t)"
  by (simp_all add: well_declared_def annotation_defs)

lemma kept_simps [simp]:
  "\<not> kept D (plain_field x t)" "kept D (field_of a x t)"
  "kept D (optional_of a x t) \<longleftrightarrow> a \<in> set D"
  "kept D (field_with [MetaPath (ident_path a),
     MetaNameValue (ident_path ''name_in_functions'') (LitStr n)] x t)"
  by (simp_all add: kept_def unsupported_def annotation_defs)

lemma annotation_type_simps [simp]:
  "annotation_type (field_with (MetaPath p # ms) x t) = p"
  "annotation_type (optional_of a x t) = sys_path a"
  by (simp_all add: annotation_type_def)

lemma macro_args [simp]:
  "parse_struct_args (Some derive_deserialize_false) =
     Ok \<lparr>struct_nested = False, derive_decoder = True, derive_deserialize = False\<rparr>"
  "parse_struct_args (Some nested_true) =
     Ok \<lparr>struct_nested = True, derive_decoder = True, derive_deserialize = True\<rparr>"
  by (simp_all add: parse_struct_args_def derive_deserialize_false_def nested_true_def
      StructArgs_default_def)

text \<open>\<open>headers S items\<close>: the headers declare an optional attribute when \<open>S\<close> has a number for it.\<close>

definition headers :: "sys \<Rightarrow> syn_item list \<Rightarrow> bool" where
  "headers S items \<longleftrightarrow>
     (\<forall>x\<in>{''NFTA_TABLE_USERDATA'', ''NFTA_CHAIN_USERDATA'', ''NFTA_VERDICT_CHAIN_ID''}.
        ItemConst x \<in> set items \<longleftrightarrow> attribute_number S x \<noteq> None)"

text \<open>
  \<open>expands\<close>: the macro accepts the declaration, and the attributes that it decodes and writes, in
  this order, have the numbers of the given fields.
\<close>

definition expands ::
  "sys \<Rightarrow> (string \<Rightarrow> bool) \<Rightarrow> syn_item list \<Rightarrow> syn_meta list \<Rightarrow> string syn_field list \<Rightarrow> bool \<Rightarrow> bool \<Rightarrow>
   's field list \<Rightarrow> bool" where
  "expands S is_ident items args ds nested deser fs \<longleftrightarrow>
     (\<exists>e. nfnetlink_struct is_ident (Some items) (Some args) ds = Ok e \<and>
       map (\<lambda>(p, x). attribute_number S (path_name p)) (attribute_entries e) =
         map (\<lambda>f. Some (netlink_type f)) fs \<and>
       map_option (map (\<lambda>(p, x, t). (p, x))) (decoder_entries e) = Some (attribute_entries e) \<and>
       attribute_nested e = nested \<and> deserialize_impl e = deser)"

lemma expandsI:
  assumes "parse_struct_args (Some args) =
      Ok \<lparr>struct_nested = nested, derive_decoder = True, derive_deserialize = deser\<rparr>"
    and "list_all (well_declared (declared_identifiers items)) ds" and "list_all (names_ok is_ident) ds"
    and "map (\<lambda>f. attribute_number S (path_name (annotation_type f)))
        (filter (kept (declared_identifiers items)) ds) = map (\<lambda>f. Some (netlink_type f)) fs"
  shows "expands S is_ident items args ds nested deser fs"
proof -
  obtain e where e: "nfnetlink_struct is_ident (Some items) (Some args) ds = Ok e"
    using nfnetlink_struct_total [OF assms(1-3)] by blast
  then show ?thesis
    using assms(1,4) unfolding expands_def
    by (intro exI [of _ e]) (auto simp: nfnetlink_struct_iff Let_def comp_def)
qed

section \<open>The properties\<close>

text \<open>
  C37. The field lists of this development are what the macro makes of the declarations: for tables,
  chains, rules and verdicts \<open>nfnetlink_struct\<close> accepts the declaration and generates code for the
  attributes of \<open>table_fields\<close>, \<open>chain_fields\<close>, \<open>rule_fields\<close> and \<open>verdict_fields\<close>, in that order,
  with an optional attribute exactly when the kernel headers declare it; \<open>nfnetlink_enum\<close> makes the
  arms of \<open>VerdictType_try_from\<close>.
\<close>

theorem macro_declarations:
  assumes "headers S items"
    and "list_all (names_ok is_ident)
      (table_declaration @ chain_declaration @ rule_declaration @ verdict_declaration)"
    and "is_ident ''UnknownVerdictType''"
  shows "expands S is_ident items derive_deserialize_false table_declaration False False (table_fields S) \<and>
    expands S is_ident items derive_deserialize_false chain_declaration False False (chain_fields S) \<and>
    expands S is_ident items derive_deserialize_false rule_declaration False False (rule_fields S) \<and>
    expands S is_ident items nested_true verdict_declaration True True (verdict_fields S) \<and>
    (\<exists>e. nfnetlink_enum is_ident (Some [MetaPath (ident_path ''i32'')]) ''VerdictType''
        verdict_type_declaration = Ok e \<and>
      map (\<lambda>(p, x). map_option word_of_int (verdict_number S (path_name p))) (try_from_entries e) =
        map (\<lambda>v. Some (VerdictType_value S v)) VerdictType_variants)"
proof (intro conjI)
  note opt = assms(1) [unfolded headers_def, simplified] 
  show "expands S is_ident items derive_deserialize_false table_declaration False False (table_fields S)"
    using assms(2) opt
    by (intro expandsI) (auto simp: table_declaration_def table_fields_def attribute_number_def
        declared_identifiers_iff)
  show "expands S is_ident items derive_deserialize_false chain_declaration False False (chain_fields S)"
    using assms(2) opt
    by (intro expandsI) (auto simp: chain_declaration_def chain_fields_def attribute_number_def
        declared_identifiers_iff)
  show "expands S is_ident items derive_deserialize_false rule_declaration False False (rule_fields S)"
    using assms(2)
    by (intro expandsI) (simp_all add: rule_declaration_def rule_fields_def attribute_number_def)
  show "expands S is_ident items nested_true verdict_declaration True True (verdict_fields S)"
    using assms(2) opt
    by (intro expandsI) (auto simp: verdict_declaration_def verdict_fields_def attribute_number_def
        declared_identifiers_iff)
  show "\<exists>e. nfnetlink_enum is_ident (Some [MetaPath (ident_path ''i32'')]) ''VerdictType''
        verdict_type_declaration = Ok e \<and>
      map (\<lambda>(p, x). map_option word_of_int (verdict_number S (path_name p))) (try_from_entries e) =
        map (\<lambda>v. Some (VerdictType_value S v)) VerdictType_variants"
    using assms(3)
    by (simp add: nfnetlink_enum_def parse_enum_args_def EnumArgs_default_def
        verdict_type_declaration_def enum_variant_def new_ident_def verdict_number_def
        VerdictType_variants_def)
qed

text \<open>The identifiers of the method names, and headers that declare no optional attribute.\<close>

definition letter_ident :: "string \<Rightarrow> bool" where
  "letter_ident x \<longleftrightarrow> x \<noteq> [] \<and> list_all (\<lambda>c. c \<noteq> CHR '' '' \<and> c \<noteq> CHR ''-'') x"

abbreviation old_sys :: sys where
  "old_sys \<equiv> linux_sys\<lparr>NFTA_TABLE_USERDATA := None, NFTA_CHAIN_USERDATA := None,
     NFTA_VERDICT_CHAIN_ID := None\<rparr>"

lemma letter_ident_names:
  "list_all (names_ok letter_ident)
     (table_declaration @ chain_declaration @ rule_declaration @ verdict_declaration)"
  by (simp add: table_declaration_def chain_declaration_def rule_declaration_def
      verdict_declaration_def names_ok_def function_name_def letter_ident_def)

theorem macro_declarations_witness:
  "expands old_sys letter_ident [ItemOther, ItemConst ''NFTA_TABLE_NAME''] derive_deserialize_false
     chain_declaration False False (chain_fields old_sys) \<and> length (chain_fields old_sys) = 6 \<and>
   expands linux_sys letter_ident [ItemConst ''NFTA_TABLE_USERDATA'', ItemConst ''NFTA_CHAIN_USERDATA'',
       ItemConst ''NFTA_VERDICT_CHAIN_ID''] derive_deserialize_false
     chain_declaration False False (chain_fields linux_sys) \<and> length (chain_fields linux_sys) = 7"
proof -
  have "letter_ident ''UnknownVerdictType''" by (simp add: letter_ident_def)
  moreover have "headers old_sys [ItemOther, ItemConst ''NFTA_TABLE_NAME'']"
    "headers linux_sys [ItemConst ''NFTA_TABLE_USERDATA'', ItemConst ''NFTA_CHAIN_USERDATA'',
       ItemConst ''NFTA_VERDICT_CHAIN_ID'']"
    by (simp_all add: headers_def attribute_number_def)
  moreover have "length (chain_fields old_sys) = 6" "length (chain_fields linux_sys) = 7"
    by (simp_all add: chain_fields_def)
  ultimately show ?thesis
    using macro_declarations [OF _ letter_ident_names] by blast
qed

text \<open>
  C39. The macro \<open>nfnetlink_struct\<close> generates code for exactly the annotated fields of a structure,
  except the optional ones whose attribute the headers do not declare; the fields without
  annotation are copied; decoding and writing cover the same attributes in the order of the
  declaration. A field whose annotation has no attribute type, more than one, or an unknown
  argument makes the macro fail.
\<close>

theorem struct_macro_fields:
  assumes "nfnetlink_struct is_ident (Some items) attrs fs = Ok e"
  shows "list_all (well_declared (declared_identifiers items)) fs \<and>
    map fst (new_fields e) = map (\<lambda>f. the (field_ident f)) (filter (kept (declared_identifiers items)) fs) \<and>
    map fst (attribute_entries e) = map annotation_type (filter (kept (declared_identifiers items)) fs) \<and>
    identical_fields e = filter (\<lambda>f. annotation f = None) fs \<and>
    pred_option (\<lambda>ds. map (\<lambda>(p, x, t). (p, x)) ds = attribute_entries e) (decoder_entries e)"
  using assms by (auto simp: nfnetlink_struct_iff Let_def comp_def)

theorem struct_macro_fields_witness:
  "\<exists>e. nfnetlink_struct letter_ident (Some [ItemOther]) (Some derive_deserialize_false)
      table_declaration = Ok e \<and> map fst (new_fields e) = [''name'', ''flags''] \<and>
    identical_fields e = [plain_field ''family'' ''ProtocolFamily'']"
proof -
  have "list_all (names_ok letter_ident) table_declaration" using letter_ident_names by simp
  moreover have "list_all (well_declared (declared_identifiers [ItemOther])) table_declaration"
    by (simp add: table_declaration_def)
  ultimately obtain e where
    e: "nfnetlink_struct letter_ident (Some [ItemOther]) (Some derive_deserialize_false)
      table_declaration = Ok e"
    using nfnetlink_struct_total [OF macro_args(1)] by blast
  from struct_macro_fields [OF e] e show ?thesis
    by (simp add: table_declaration_def declared_identifiers_def)
qed

text \<open>\<open>nfnetlink_enum\<close> reads its argument \<open>nested\<close> and does not use it.\<close>

lemma enum_nested_ignored:
  "nfnetlink_enum is_ident (Some [MetaPath p, MetaNameValue (ident_path ''nested'') (LitBool v)]) name vs =
   nfnetlink_enum is_ident (Some [MetaPath p]) name vs"
  by (simp add: nfnetlink_enum_def parse_enum_args_def EnumArgs_default_def)

end
