(* ===== verification/Firewall.thy ===== *)
theory Firewall
  imports Witnesses RuleSemantics
begin

text \<open>
  Model of \<open>examples/firewall.rs\<close>, a client of the library: it makes a table with three chains,
  builds seven rules with the methods of rules and sends everything in one batch. The constructor of
  \<open>IpNetwork\<close> is code of the crate \<open>ipnetwork\<close> and is a parameter. The output on the terminal is
  left out.

  The end of the theory shows what the batch contains and which packets the firewall lets in.
\<close>

section \<open>The program\<close>

datatype Error = BuildError BuilderError | QueryFailure QueryError

text \<open>Writing into a batch never returns an error; the model gives its error type a place.\<close>

abbreviation wrote :: "'a decoded \<Rightarrow> (Error, 'a) outcome" where
  "wrote \<equiv> map_err (\<lambda>e. QueryFailure (ProcessNetlinkError e))"

abbreviation builds :: "'a built \<Rightarrow> (Error, 'a) outcome" where
  "builds \<equiv> map_err BuildError"

fun unwrap :: "'a option \<Rightarrow> ('e, 'a) outcome" where
  "unwrap None = Panic"
| "unwrap (Some x) = Ok x"

definition TABLE_NAME :: rust_string where "TABLE_NAME = str ''main-table''"

definition INBOUND_CHAIN_NAME :: rust_string where "INBOUND_CHAIN_NAME = str ''in-chain''"

definition FORWARD_CHAIN_NAME :: rust_string where "FORWARD_CHAIN_NAME = str ''forward-chain''"

definition OUTBOUND_CHAIN_NAME :: rust_string where "OUTBOUND_CHAIN_NAME = str ''out-chain''"

record Firewall =
  fw_batch :: Batch
  fw_inbound :: Chain
  fw_outbound :: Chain
  fw_forward :: Chain
  fw_table :: Table

text \<open>\<open>Chain::new(..).with_name(..).with_hook(Hook::new(.., 0)).with_policy(..)\<close>\<close>

definition base_chain :: "sys \<Rightarrow> Table \<Rightarrow> rust_string \<Rightarrow> HookClass \<Rightarrow> ChainPolicy \<Rightarrow> Chain" where
  "base_chain S table name class policy =
     set_field chain_policy_update policy
     (set_field chain_hook_update (Hook_new S class 0)
     (set_field chain_name_update name (Chain_new table)))"

definition Firewall_new :: "sys \<Rightarrow> int \<Rightarrow> (Error, Firewall) outcome" where
  "Firewall_new S pagesize =
     bind (wrote (batch_new S pagesize)) (\<lambda>b0.
     let table = set_field table_name_update TABLE_NAME (Table_new FamInet) in
     bind (wrote (batch_add S (table_object S) b0 table Add)) (\<lambda>b1.
     bind (wrote (chain_add_to_batch S (base_chain S table INBOUND_CHAIN_NAME In PolicyDrop) b1))
       (\<lambda>(inbound, b2).
     bind (wrote (chain_add_to_batch S (base_chain S table OUTBOUND_CHAIN_NAME Out PolicyAccept) b2))
       (\<lambda>(outbound, b3).
     bind (wrote (chain_add_to_batch S (base_chain S table FORWARD_CHAIN_NAME Forward PolicyAccept) b3))
       (\<lambda>(forward, b4).
     Ok \<lparr>fw_batch = b4, fw_inbound = inbound, fw_outbound = outbound, fw_forward = forward,
         fw_table = table\<rparr>)))))"

text \<open>One statement of \<open>start\<close>: \<open>Rule::new(&self.inbound)? ... .add_to_batch(&mut self.batch)\<close>.\<close>

definition start_rule ::
  "sys \<Rightarrow> Chain \<Rightarrow> (Rule \<Rightarrow> Rule built) \<Rightarrow> Batch \<Rightarrow> (Error, Batch) outcome" where
  "start_rule S inbound methods b =
     bind (builds (Rule_new S inbound)) (\<lambda>r0.
     bind (builds (methods r0)) (\<lambda>r.
     bind (wrote (rule_add_to_batch S r b)) (\<lambda>(_, b'). Ok b')))"

definition allow_established :: "Rule \<Rightarrow> Rule built" where
  "allow_established r = bind (established r) (\<lambda>r1. Ok (accept r1))"

definition allow_loopback :: "sys \<Rightarrow> Rule \<Rightarrow> Rule built" where
  "allow_loopback S r = bind (iface S r (str ''lo'')) (\<lambda>r1. Ok (accept r1))"

definition allow_ssh :: "sys \<Rightarrow> Rule \<Rightarrow> Rule built" where
  "allow_ssh S r =
     (let r1 = accept (dport S r 22 TCP) in
      bind (Log_new None (Some (str ''allow ssh connection:''))) (\<lambda>l.
      Ok (with_expr r1 (expr (ExprLog l)))))"

definition allow_http :: "sys \<Rightarrow> 'n IpNetwork \<Rightarrow> 'n \<Rightarrow> Rule \<Rightarrow> Rule built" where
  "allow_http S N local_net r = bind (snetwork S N (dport S r 80 TCP) local_net) (\<lambda>r1. Ok (accept r1))"

definition log_rest :: "Rule \<Rightarrow> Rule built" where
  "log_rest r = bind (Log_new (Some 1) None) (\<lambda>l. Ok (with_expr r (expr (ExprLog l))))"

text \<open>\<open>start\<close> up to the call of \<open>send\<close>: the batch with the seven rules.\<close>

definition Firewall_rules ::
  "sys \<Rightarrow> 'n IpNetwork \<Rightarrow> (IpAddr \<Rightarrow> u8 \<Rightarrow> 'n option) \<Rightarrow> Firewall \<Rightarrow> (Error, Batch) outcome" where
  "Firewall_rules S N network_new fw =
     bind (start_rule S (fw_inbound fw) allow_established (fw_batch fw)) (\<lambda>b1.
     bind (start_rule S (fw_inbound fw) (allow_loopback S) b1) (\<lambda>b2.
     bind (start_rule S (fw_inbound fw) (allow_ssh S) b2) (\<lambda>b3.
     bind (unwrap (network_new (V4 0xC0A80100) 24)) (\<lambda>local_net.
     bind (start_rule S (fw_inbound fw) (allow_http S N local_net) b3) (\<lambda>b4.
     bind (start_rule S (fw_inbound fw) (\<lambda>r. Ok (accept (icmp S r))) b4) (\<lambda>b5.
     bind (start_rule S (fw_inbound fw) (\<lambda>r. Ok (drop_packet (igmp S r))) b5) (\<lambda>b6.
     start_rule S (fw_inbound fw) log_rest b6)))))))"

definition send_all ::
  "sys \<Rightarrow> int \<Rightarrow> kernel \<Rightarrow> (Error, Batch) outcome \<Rightarrow> (Error, unit) outcome \<times> syscall list" where
  "send_all S pagesize K ready =
     (case ready of
        Ok b \<Rightarrow> (let (res, calls) = batch_send S pagesize K b in (map_err QueryFailure res, calls))
      | Err e \<Rightarrow> (Err e, []) | Panic \<Rightarrow> (Panic, []) | UB \<Rightarrow> (UB, []) | Diverge \<Rightarrow> (Diverge, []))"

definition Firewall_start ::
  "sys \<Rightarrow> int \<Rightarrow> kernel \<Rightarrow> 'n IpNetwork \<Rightarrow> (IpAddr \<Rightarrow> u8 \<Rightarrow> 'n option) \<Rightarrow> Firewall \<Rightarrow>
   (Error, unit) outcome \<times> syscall list" where
  "Firewall_start S pagesize K N network_new fw =
     send_all S pagesize K (Firewall_rules S N network_new fw)"

definition Firewall_stop ::
  "sys \<Rightarrow> int \<Rightarrow> kernel \<Rightarrow> Firewall \<Rightarrow> (Error, unit) outcome \<times> syscall list" where
  "Firewall_stop S pagesize K fw =
     send_all S pagesize K
       (bind (wrote (batch_add S (table_object S) (fw_batch fw) (fw_table fw) Add)) (\<lambda>b1.
        wrote (batch_add S (table_object S) b1 (fw_table fw) Del)))"

definition firewall_main ::
  "sys \<Rightarrow> int \<Rightarrow> kernel \<Rightarrow> 'n IpNetwork \<Rightarrow> (IpAddr \<Rightarrow> u8 \<Rightarrow> 'n option) \<Rightarrow>
   (Error, unit) outcome \<times> syscall list" where
  "firewall_main S pagesize K N network_new =
     (case Firewall_new S pagesize of
        Ok fw \<Rightarrow> Firewall_start S pagesize K N network_new fw
      | Err e \<Rightarrow> (Err e, []) | Panic \<Rightarrow> (Panic, []) | UB \<Rightarrow> (UB, []) | Diverge \<Rightarrow> (Diverge, []))"

section \<open>Evaluating a chain\<close>

text \<open>
  The rules of a base chain are evaluated in order until one accepts or drops the packet; the
  policy decides when none does.
\<close>

fun eval_chain ::
  "(packet \<Rightarrow> ExpressionVariant \<Rightarrow> registers \<Rightarrow> step_result) \<Rightarrow> packet \<Rightarrow> ChainPolicy option \<Rightarrow>
   Rule list \<Rightarrow> VerdictType" where
  "eval_chain step p policy [] = (if policy = Some PolicyDrop then VtDrop else VtAccept)"
| "eval_chain step p policy (r # rs) =
     (case eval_rule step p r of
        Decide VtAccept \<Rightarrow> VtAccept
      | Decide VtDrop \<Rightarrow> VtDrop
      | _ \<Rightarrow> eval_chain step p policy rs)"

text \<open>A log expression has no effect on the evaluation.\<close>

locale nft_logger = nft_machine +
  assumes log_goes: "step p (ExprLog l) regs = Go regs"
begin

lemma eval_accept: "guards step p r c \<Longrightarrow>
   eval_rule step p (accept r) = (if c then Decide VtAccept else Stop)"
  by (auto simp: guards_def eval_verdict)

lemma eval_drop: "guards step p r c \<Longrightarrow>
   eval_rule step p (drop_packet r) = (if c then Decide VtDrop else Stop)"
  by (auto simp: guards_def eval_verdict)

lemma eval_after_verdict:
  "eval_rule step p r = (if c then Decide v else Stop) \<Longrightarrow>
   eval_rule step p (with_expr r e) = (if c then Decide v else Stop)"
  by (auto simp: with_expr_def add_expr_eq eval_rule_def run_append)

lemma eval_log: "exprs_of r = [] \<Longrightarrow> eval_rule step p (with_expr r (expr (ExprLog l))) = Go (\<lambda>_. [])"
  by (simp add: with_expr_def add_expr_eq eval_rule_def log_goes)

end

interpretation reference_logger: nft_logger reference_step
  by unfold_locales simp

section \<open>What the rules mean\<close>

lemma Log_new_simps [simp]:
  "Log_new None (Some q) =
     (if 127 < length q then Err TooLongLogPrefix else Ok \<lparr>log_group = None, log_prefix = Some q\<rparr>)"
  "Log_new (Some g) None = Ok \<lparr>log_group = Some g, log_prefix = None\<rparr>"
  by (simp_all add: Log_new_def Let_def set_field_def Log_default_def)

lemma length_str [simp]: "length (str x) = length x"
  by (simp add: str_def)

context nft_logger
begin

lemma eval_established:
  assumes "exprs_of r = []" and "packet_ct p CtState = le_bytes 4 (state :: u32)"
  shows "\<exists>r'. allow_established r = Ok r' \<and>
    eval_rule step p r' = (if state AND 2 \<noteq> 0 then Decide VtAccept else Stop)"
proof -
  obtain r1 where "established r = Ok r1" "adds step p r r1 (state AND ESTABLISHED \<noteq> 0)"
    using adds_established [OF assms(2)] by blast
  then show ?thesis
    using eval_accept [OF guards_adds [OF guards_empty [OF assms(1)]]]
    by (auto simp: allow_established_def ESTABLISHED_def)
qed

lemma eval_loopback:
  assumes "exprs_of r = []" and "IFNAMSIZ S = 16" and "0 \<notin> set dev" and "length dev < 16"
    and "packet_meta p MetaIifName = dev @ replicate (16 - length dev) 0"
  shows "\<exists>r'. allow_loopback S r = Ok r' \<and>
    eval_rule step p r' = (if dev = str ''lo'' then Decide VtAccept else Stop)"
proof -
  have "0 \<notin> set (str ''lo'')" by (simp add: str_def)
  then obtain r1 where "iface S r (str ''lo'') = Ok r1" "adds step p r r1 (dev = str ''lo'')"
    using adds_iface [OF assms(2) _ _ assms(3,5,4), of "str ''lo''" iface r] by auto
  then show ?thesis
    using eval_accept [OF guards_adds [OF guards_empty [OF assms(1)]]]
    by (auto simp: allow_loopback_def)
qed

lemma guards_dport:
  assumes "exprs_of r = []"
  shows "guards step p (dport S r port TCP)
    (take 1 (packet_meta p MetaL4Proto) = [word_of_int (IPPROTO_TCP S)] \<and>
     take 2 (packet_header p (NFT_PAYLOAD_TRANSPORT_HEADER S) 2 2) = be_bytes 2 port)"
  using guards_adds [OF guards_adds [OF guards_empty [OF assms] adds_protocol [of p r S TCP]]
      adds_port [of p S r TCP port False]]
  by (simp add: dport_def)

lemma eval_ssh:
  assumes "exprs_of r = []"
  shows "\<exists>r'. allow_ssh S r = Ok r' \<and> eval_rule step p r' =
    (if take 1 (packet_meta p MetaL4Proto) = [word_of_int (IPPROTO_TCP S)] \<and>
        take 2 (packet_header p (NFT_PAYLOAD_TRANSPORT_HEADER S) 2 2) = be_bytes 2 (22 :: u16)
     then Decide VtAccept else Stop)"
  using eval_after_verdict [OF eval_accept [OF guards_dport [OF assms]]] by (simp add: allow_ssh_def Let_def)

lemma eval_http:
  assumes "exprs_of r = []" and "net_is_v4 N net" and "net_mask N net = V4 m" and "net_network N net = V4 a"
    and "packet_header p (NFT_PAYLOAD_NETWORK_HEADER S) 12 4 = octets4 src"
  shows "\<exists>r'. allow_http S N net r = Ok r' \<and> eval_rule step p r' =
    (if take 1 (packet_meta p MetaL4Proto) = [word_of_int (IPPROTO_TCP S)] \<and>
        take 2 (packet_header p (NFT_PAYLOAD_TRANSPORT_HEADER S) 2 2) = be_bytes 2 (80 :: u16) \<and>
        take 1 (packet_meta p MetaNfProto) = [word_of_int (NFPROTO_IPV4 S)] \<and> src AND m = a
     then Decide VtAccept else Stop)"
proof -
  obtain r1 where "snetwork S N (dport S r 80 TCP) net = Ok r1"
    and r1: "adds step p (dport S r 80 TCP) r1
      (take 1 (packet_meta p MetaNfProto) = [word_of_int (NFPROTO_IPV4 S)] \<and> src AND m = a)"
    using adds_network4 [OF assms(2-4), of p S True src "dport S r 80 TCP"] assms(5)
    by (auto simp: snetwork_def)
  then show ?thesis
    using eval_accept [OF guards_adds [OF guards_dport [OF assms(1)] r1]]
    by (simp add: allow_http_def conj_assoc)
qed

lemma eval_l4:
  assumes "exprs_of r = []"
  shows "eval_rule step p (accept (icmp S r)) =
      (if take 1 (packet_meta p MetaL4Proto) = [word_of_int (IPPROTO_ICMP S)]
       then Decide VtAccept else Stop)"
    and "eval_rule step p (drop_packet (igmp S r)) =
      (if take 1 (packet_meta p MetaL4Proto) = [word_of_int (IPPROTO_IGMP S)]
       then Decide VtDrop else Stop)"
  using eval_accept [OF guards_adds [OF guards_empty [OF assms] adds_l4(1)]]
    eval_drop [OF guards_adds [OF guards_empty [OF assms] adds_l4(3)]]
  by simp_all

lemma eval_log_rest: "exprs_of r = [] \<Longrightarrow> \<exists>r'. log_rest r = Ok r' \<and> eval_rule step p r' = Go (\<lambda>_. [])"
  by (simp add: log_rest_def eval_log)

end

section \<open>What the batch contains\<close>

definition firewall_table :: Table where
  "firewall_table = set_field table_name_update TABLE_NAME (Table_new FamInet)"

definition inbound_chain :: "sys \<Rightarrow> Chain" where
  "inbound_chain S = base_chain S firewall_table INBOUND_CHAIN_NAME In PolicyDrop"

definition firewall_head :: "sys \<Rightarrow> (item \<times> MsgType) list" where
  "firewall_head S =
     [(TableItem firewall_table, Add), (ChainItem (inbound_chain S), Add),
      (ChainItem (base_chain S firewall_table OUTBOUND_CHAIN_NAME Out PolicyAccept), Add),
      (ChainItem (base_chain S firewall_table FORWARD_CHAIN_NAME Forward PolicyAccept), Add)]"

abbreviation rule_items :: "Rule list \<Rightarrow> (item \<times> MsgType) list" where
  "rule_items rs \<equiv> map (\<lambda>r. (RuleItem r, Add)) rs"

lemma add_items_append: "add_items S b (xs @ ys) = bind (add_items S b xs) (\<lambda>b'. add_items S b' ys)"
  by (induction xs arbitrary: b) auto

lemma Firewall_new_Ok:
  assumes "batch_new S pagesize = Ok b0" and "add_items S b0 (firewall_head S) = Ok b"
  shows "\<exists>fw. Firewall_new S pagesize = Ok fw \<and> fw_batch fw = b \<and> fw_inbound fw = inbound_chain S \<and>
    fw_table fw = firewall_table"
  using assms
  by (auto simp: Firewall_new_def firewall_head_def bind_eq_Ok chain_add_to_batch_def inbound_chain_def
      firewall_table_def Let_def)

lemma start_rule_Ok:
  "Rule_new S c = Ok r0 \<Longrightarrow> methods r0 = Ok r \<Longrightarrow> add_item S b (RuleItem r) Add = Ok b' \<Longrightarrow>
   start_rule S c methods b = Ok b'"
  by (simp add: start_rule_def rule_add_to_batch_def)

lemma Firewall_rules_Ok:
  assumes "Rule_new S (fw_inbound fw) = Ok r0" and "network_new (V4 0xC0A80100) 24 = Some net"
    and "allow_established r0 = Ok r1" "allow_loopback S r0 = Ok r2" "allow_ssh S r0 = Ok r3"
    "allow_http S N net r0 = Ok r4" "log_rest r0 = Ok r7"
    and "add_items S (fw_batch fw) (rule_items
      [r1, r2, r3, r4, accept (icmp S r0), drop_packet (igmp S r0), r7]) = Ok b"
  shows "Firewall_rules S N network_new fw = Ok b"
  using assms(3-8)
  by (auto simp: Firewall_rules_def bind_eq_Ok assms(2) start_rule_Ok [OF assms(1)] simp del: add_item.simps)

lemma inbound_fields [simp]:
  "chain_table (inbound_chain S) = Some TABLE_NAME"
  "chain_name (inbound_chain S) = Some INBOUND_CHAIN_NAME"
  "chain_policy (inbound_chain S) = Some PolicyDrop"
  by (simp_all add: inbound_chain_def base_chain_def set_field_def Chain_new_def firewall_table_def
      Table_new_def Chain_default_def Table_default_def)

lemma inbound_names:
  "string_ok TABLE_NAME" "string_ok INBOUND_CHAIN_NAME" "INBOUND_CHAIN_NAME \<noteq> []"
  "length TABLE_NAME \<le> 256" "length INBOUND_CHAIN_NAME \<le> 256"
  by (simp_all add: string_ok_def TABLE_NAME_def INBOUND_CHAIN_NAME_def str_def utf8_valid_ascii)

lemma inbound_rule:
  "\<exists>r0. Rule_new S (inbound_chain S) = Ok r0 \<and> exprs_of r0 = [] \<and> built S N (inbound_chain S) r0"
proof -
  obtain r0 where r0: "Rule_new S (inbound_chain S) = Ok r0" "exprs_of r0 = []"
    by (simp add: Rule_new_def inbound_chain_def base_chain_def set_field_def Chain_new_def
        firewall_table_def Table_new_def Let_def exprs_of_def with_family_def rule_object_def
        Rule_default_def)
  then show ?thesis by (blast intro: built.built_new)
qed

text \<open>A rule that is short and has no masquerade expression.\<close>

definition short_rule :: "Rule \<Rightarrow> bool" where
  "short_rule r \<longleftrightarrow> masquerade_expr \<notin> set (exprs_of r) \<and> length (exprs_of r) \<le> 400"

lemma expr_eq_iff: "expr d = expr d' \<longleftrightarrow> d = d'"
  by (auto simp: RawExpression_from_def set_field_def RawExpression_default_def)

lemmas rule_exprs = short_rule_def expr_eq_iff add_expr_eq bind_eq_Ok Let_def accept_def with_expr_def

lemma firewall_rules_short:
  assumes "exprs_of r = []"
  shows "allow_established r = Ok r1 \<Longrightarrow> short_rule r1"
    and "allow_loopback S r = Ok r2 \<Longrightarrow> short_rule r2"
    and "allow_ssh S r = Ok r3 \<Longrightarrow> short_rule r3"
    and "allow_http S N net r = Ok r4 \<Longrightarrow> short_rule r4"
    and "short_rule (accept (icmp S r))" and "short_rule (drop_packet (igmp S r))"
    and "log_rest r = Ok r7 \<Longrightarrow> short_rule r7"
proof -
  show "allow_established r = Ok r1 \<Longrightarrow> short_rule r1"
    using assms by (auto simp: rule_exprs allow_established_def established_def)
  show "allow_loopback S r = Ok r2 \<Longrightarrow> short_rule r2"
    using assms by (auto simp: rule_exprs allow_loopback_def iface_def split: if_splits)
  show "allow_ssh S r = Ok r3 \<Longrightarrow> short_rule r3"
    using assms by (auto simp: rule_exprs allow_ssh_def dport_def match_port_def protocol_def)
  show "allow_http S N net r = Ok r4 \<Longrightarrow> short_rule r4"
    using assms by (auto simp: rule_exprs allow_http_def dport_def match_port_def protocol_def
        snetwork_def match_network_def split: if_splits)
  show "short_rule (accept (icmp S r))" "short_rule (drop_packet (igmp S r))"
    using assms by (auto simp: rule_exprs icmp_def igmp_def drop_packet_def)
  show "log_rest r = Ok r7 \<Longrightarrow> short_rule r7"
    using assms by (auto simp: rule_exprs log_rest_def)
qed

context builder_abi
begin

lemma firewall_rules_built:
  assumes "built S N c r"
  shows "allow_established r = Ok r1 \<Longrightarrow> built S N c r1"
    and "allow_loopback S r = Ok r2 \<Longrightarrow> built S N c r2"
    and "allow_ssh S r = Ok r3 \<Longrightarrow> built S N c r3"
    and "allow_http S N net r = Ok r4 \<Longrightarrow> built S N c r4"
    and "built S N c (accept (icmp S r))" and "built S N c (drop_packet (igmp S r))"
    and "log_rest r = Ok r7 \<Longrightarrow> built S N c r7"
proof -
  have ssh: "string_ok (str ''allow ssh connection:'')" "str ''allow ssh connection:'' \<noteq> []"
    by (simp_all add: string_ok_def str_def utf8_valid_ascii)
  show "allow_established r = Ok r1 \<Longrightarrow> built S N c r1" "allow_loopback S r = Ok r2 \<Longrightarrow> built S N c r2"
    using assms by (auto simp: allow_established_def allow_loopback_def bind_eq_Ok intro: built.intros)
  show "allow_http S N net r = Ok r4 \<Longrightarrow> built S N c r4"
    by (auto simp: allow_http_def bind_eq_Ok intro!: built.built_accept
        dest!: built.built_snetwork [OF built.built_dport [OF assms]])
  show "allow_ssh S r = Ok r3 \<Longrightarrow> built S N c r3"
    using assms ssh by (auto simp: allow_ssh_def Let_def intro!: built.built_with_expr
        built.built_accept built.built_dport log_fit)
  show "built S N c (accept (icmp S r))" "built S N c (drop_packet (igmp S r))"
    using assms by (auto intro: built.intros)
  show "log_rest r = Ok r7 \<Longrightarrow> built S N c r7"
    using assms by (auto simp: log_rest_def intro!: built.built_with_expr log_fit)
qed

lemma inbound_rule_size:
  assumes "built S N (inbound_chain S) r" and "short_rule r"
  shows "20 + item_size S (RuleItem r) < 2 ^ 32"
  using built_rule_ok(2) [OF assms(1)] assms(2) inbound_names by (simp add: short_rule_def)

lemma firewall_head_size: "\<forall>(x, msg_type)\<in>set (firewall_head S). 20 + item_size S x < 2 ^ 32"
  by (cases "NFTA_TABLE_USERDATA S"; cases "NFTA_CHAIN_USERDATA S")
    (simp_all add: firewall_head_def firewall_table_def inbound_chain_def base_chain_def set_field_def
      Chain_new_def Table_new_def table_object_def chain_object_def table_fields_def chain_fields_def
      Table_default_def Chain_default_def Hook_new_def Hook_default_def Hook_attr_def hook_fields_def
      TABLE_NAME_def INBOUND_CHAIN_NAME_def OUTBOUND_CHAIN_NAME_def FORWARD_CHAIN_NAME_def
      ChainPolicy_attr_def abi pad_eq)

end

section \<open>The firewall\<close>

lemma firewall_batch:
  assumes "builder_abi S" and "unat (word_of_int pagesize :: u32) * 32 < 2 ^ 32"
    and "network_new (V4 0xC0A80100) 24 = Some net"
    and r0: "Rule_new S (inbound_chain S) = Ok r0" "exprs_of r0 = []" "built S N (inbound_chain S) r0"
    and rs: "allow_established r0 = Ok r1" "allow_loopback S r0 = Ok r2" "allow_ssh S r0 = Ok r3"
      "allow_http S N net r0 = Ok r4" "log_rest r0 = Ok r7"
    and rules: "rules = [r1, r2, r3, r4, accept (icmp S r0), drop_packet (igmp S r0), r7]"
  shows "\<exists>fw b. Firewall_new S pagesize = Ok fw \<and> fw_inbound fw = inbound_chain S \<and>
    Firewall_rules S N network_new fw = Ok b \<and>
    batch_finalize S b = Ok (concat (batch_messages S (firewall_head S @ rule_items rules))) \<and>
    list_all (built S N (inbound_chain S)) rules"
proof -
  let ?items = "firewall_head S @ rule_items rules"
  note builder = builder_abi.axioms(1) [OF assms(1)]
  have built: "list_all (built S N (inbound_chain S)) rules"
    using builder_abi.firewall_rules_built [OF assms(1) r0(3)] rs by (simp add: rules)
  have short: "list_all short_rule rules"
    using firewall_rules_short [OF r0(2)] rs by (simp add: rules)
  have "\<forall>(x, msg_type)\<in>set ?items. 20 + item_size S x < 2 ^ 32"
    using builder_abi.firewall_head_size [OF assms(1)]
      builder_abi.inbound_rule_size [OF assms(1), of N] built short
    by (auto simp: list_all_iff simp del: item_size.simps)
  moreover have "1 + length ?items < 2 ^ 32" by (simp add: rules firewall_head_def)
  ultimately obtain b0 b where b0: "batch_new S pagesize = Ok b0" "add_items S b0 ?items = Ok b"
    "batch_inv S (item_messages S 1 ?items) b"
    using rule_abi.batch_build [OF builder assms(2)] by blast
  then obtain b1 where b1: "add_items S b0 (firewall_head S) = Ok b1"
    "add_items S b1 (rule_items rules) = Ok b"
    by (auto simp: add_items_append bind_eq_Ok)
  then obtain fw where fw: "Firewall_new S pagesize = Ok fw" "fw_batch fw = b1"
    "fw_inbound fw = inbound_chain S"
    using Firewall_new_Ok [OF b0(1)] by blast
  then have "Firewall_rules S N network_new fw = Ok b"
    using Firewall_rules_Ok [where network_new = network_new, OF _ assms(3) rs] r0(1) b1(2) by (simp add: rules)
  moreover have "batch_finalize S b = Ok (concat (batch_messages S ?items))"
    using rule_abi.batch_finish [OF builder b0(3)] b0(3) by (simp add: batch_messages_def batch_inv_def)
  ultimately show ?thesis using fw built by blast
qed

text \<open>
  C40. The example firewall: \<open>Firewall::new\<close> and \<open>start\<close> build, without an error, one batch with the
  table, the three chains and seven rules of the inbound chain. A packet that these rules see is
  accepted if and only if it belongs to an established connection, comes in through the interface
  \<open>lo\<close>, is for TCP port 22, is for TCP port 80 and comes from the network 192.168.1.0/24, or is an
  ICMP packet; every other packet is dropped.
\<close>

theorem firewall_meaning:
  assumes "builder_abi S" and "nft_logger step" and "unat (word_of_int pagesize :: u32) * 32 < 2 ^ 32"
    and "network_new (V4 0xC0A80100) 24 = Some net" and "net_is_v4 N net"
    and "net_mask N net = V4 0xFFFFFF00" and "net_network N net = V4 0xC0A80100"
    and "packet_ct p CtState = le_bytes 4 (state :: u32)"
    and "packet_meta p MetaIifName = dev @ replicate (16 - length dev) 0"
    and "0 \<notin> set dev" and "length dev < 16"
    and "packet_meta p MetaL4Proto = [proto]" and "packet_meta p MetaNfProto = [nfproto]"
    and "packet_header p (NFT_PAYLOAD_TRANSPORT_HEADER S) 2 2 = be_bytes 2 (port :: u16)"
    and "packet_header p (NFT_PAYLOAD_NETWORK_HEADER S) 12 4 = octets4 src"
  shows "\<exists>fw b rules. Firewall_new S pagesize = Ok fw \<and> Firewall_rules S N network_new fw = Ok b \<and>
    batch_finalize S b = Ok (concat (batch_messages S (firewall_head S @ rule_items rules))) \<and>
    list_all (built S N (fw_inbound fw)) rules \<and> length rules = 7 \<and>
    eval_chain step p (chain_policy (fw_inbound fw)) rules =
      (if state AND 2 \<noteq> 0 \<or> dev = str ''lo'' \<or>
          proto = word_of_int (IPPROTO_TCP S) \<and> (port = 22 \<or> port = 80 \<and>
            nfproto = word_of_int (NFPROTO_IPV4 S) \<and> src AND 0xFFFFFF00 = 0xC0A80100) \<or>
          proto = word_of_int (IPPROTO_ICMP S)
       then VtAccept else VtDrop)"
proof -
  note eval = nft_logger.eval_established [OF assms(2)] nft_logger.eval_loopback [OF assms(2)]
    nft_logger.eval_ssh [OF assms(2)] nft_logger.eval_http [OF assms(2)]
    nft_logger.eval_log_rest [OF assms(2)]
  obtain r0 where r0: "Rule_new S (inbound_chain S) = Ok r0" "exprs_of r0 = []"
    "built S N (inbound_chain S) r0"
    using inbound_rule by blast
  obtain r1 where r1: "allow_established r0 = Ok r1"
    "eval_rule step p r1 = (if state AND 2 \<noteq> 0 then Decide VtAccept else Stop)"
    using eval(1) [OF r0(2) assms(8)] by blast
  obtain r2 where r2: "allow_loopback S r0 = Ok r2"
    "eval_rule step p r2 = (if dev = str ''lo'' then Decide VtAccept else Stop)"
    using eval(2) [OF r0(2) builder_abi.ifnamsiz [OF assms(1)] assms(10,11,9)] by blast
  obtain r3 where r3: "allow_ssh S r0 = Ok r3" "eval_rule step p r3 =
      (if proto = word_of_int (IPPROTO_TCP S) \<and> port = 22 then Decide VtAccept else Stop)"
    using eval(3) [OF r0(2), of S p] assms(12,14) by (auto simp: be_bytes_eq_iff)
  obtain r4 where r4: "allow_http S N net r0 = Ok r4" "eval_rule step p r4 =
      (if proto = word_of_int (IPPROTO_TCP S) \<and> port = 80 \<and> nfproto = word_of_int (NFPROTO_IPV4 S) \<and>
         src AND 0xFFFFFF00 = 0xC0A80100 then Decide VtAccept else Stop)"
    using eval(4) [OF r0(2) assms(5-7,15)] assms(12-14) by (auto simp: be_bytes_eq_iff)
  obtain r7 where r7: "log_rest r0 = Ok r7" "eval_rule step p r7 = Go (\<lambda>_. [])"
    using eval(5) [OF r0(2)] by blast
  let ?rules = "[r1, r2, r3, r4, accept (icmp S r0), drop_packet (igmp S r0), r7]"
  from firewall_batch [where network_new = network_new and rules = ?rules,
      OF assms(1,3,4) r0 r1(1) r2(1) r3(1) r4(1) r7(1) refl] show ?thesis
    using nft_logger.eval_l4 [OF assms(2) r0(2), of p S] r1(2) r2(2) r3(2) r4(2) r7(2) assms(12)
    by (elim exE conjE, intro exI conjI) (assumption | simp)+
qed

text \<open>A TCP packet from 192.168.1.23 through the interface \<open>eth\<close> that opens a connection.\<close>

definition incoming_packet :: "u16 \<Rightarrow> packet" where
  "incoming_packet port =
     \<lparr>packet_meta = (\<lambda>k. if k = MetaL4Proto then [6] else if k = MetaNfProto then [2]
        else str ''eth'' @ replicate 13 0),
      packet_ct = (\<lambda>k. le_bytes 4 (8 :: u32)),
      packet_header = (\<lambda>base off n. if base = 2 then be_bytes 2 port else octets4 0xC0A80117)\<rparr>"

theorem firewall_meaning_witness:
  "(\<exists>fw b rules. Firewall_new linux_sys 4096 = Ok fw \<and>
    Firewall_rules linux_sys cidr (\<lambda>a n. Some (a, unat n)) fw = Ok b \<and> length rules = 7 \<and>
    eval_chain reference_step (incoming_packet 80) (chain_policy (fw_inbound fw)) rules = VtAccept) \<and>
   (\<exists>fw b rules. Firewall_new linux_sys 4096 = Ok fw \<and>
    Firewall_rules linux_sys cidr (\<lambda>a n. Some (a, unat n)) fw = Ok b \<and> length rules = 7 \<and>
    eval_chain reference_step (incoming_packet 443) (chain_policy (fw_inbound fw)) rules = VtDrop)"
proof -
  have net: "net_mask cidr (V4 0xC0A80100, 24) = V4 0xFFFFFF00"
    "net_network cidr (V4 0xC0A80100, 24) = V4 0xC0A80100" "net_is_v4 cidr (V4 0xC0A80100, 24)"
    by (simp_all add: cidr_def mask_eq_exp_minus_1)
  have dev: "0 \<notin> set (str ''eth'')" "str ''eth'' \<noteq> str ''lo''" by (simp_all add: str_def)
  note meaning = firewall_meaning [where pagesize = 4096 and net = "(V4 0xC0A80100, 24)" and
      network_new = "\<lambda>a n. Some (a, unat n)" and N = cidr and p = "incoming_packet port" and
      state = 8 and dev = "str ''eth''" and proto = 6 and nfproto = 2 and port = port and
      src = "0xC0A80117" for port, OF linux.builder_abi_axioms reference_logger.nft_logger_axioms]
  show ?thesis
    using meaning [of 80] meaning [of 443] net dev by (auto simp: incoming_packet_def)
qed

end
