(* ===== verification/Programs.thy ===== *)
theory Programs
  imports Firewall
begin

text \<open>
  Models of the two other example programs, \<open>examples/add-rules.rs\<close> and
  \<open>examples/filter-ethernet.rs\<close>, which build their rules expression by expression. The number
  \<open>ARPHRD_ETHER\<close> of the C library, the constructor and the accessor \<open>ip\<close> of \<open>Ipv4Network\<close> and the C
  function \<open>if_nametoindex\<close> are parameters; setting up the logger is left out.

  The lemmas say what the two batches contain and when the rules match.
\<close>

section \<open>\<open>add-rules\<close>\<close>

text \<open>The errors that \<open>?\<close> turns into the error type of the program.\<close>

datatype ProgramError = IoFailure IoError | BuildFailure BuilderError | NetworkFailure | SendFailure QueryError

abbreviation written :: "'a decoded \<Rightarrow> (ProgramError, 'a) outcome" where
  "written \<equiv> map_err (\<lambda>e. SendFailure (ProcessNetlinkError e))"

abbreviation constructed :: "'a built \<Rightarrow> (ProgramError, 'a) outcome" where
  "constructed \<equiv> map_err BuildFailure"

definition EXAMPLE_TABLE_NAME :: rust_string where "EXAMPLE_TABLE_NAME = str ''example-table''"

definition OUT_CHAIN_NAME :: rust_string where "OUT_CHAIN_NAME = str ''chain-for-outgoing-packets''"

definition IN_CHAIN_NAME :: rust_string where "IN_CHAIN_NAME = str ''chain-for-incoming-packets''"

definition loopback_in_rule :: "Rule \<Rightarrow> u32 \<Rightarrow> Rule" where
  "loopback_in_rule r lo_iface_index =
     (let r1 = with_expr r (expr (ExprMeta (Meta_new MetaIif)));
          r2 = with_expr r1 (expr (ExprCmp (Cmp_new CmpEq (le_bytes 4 lo_iface_index)))) in
      with_expr r2 (expr (ExprImmediate (Immediate_new_verdict Accept))))"

definition private_net_rule :: "sys \<Rightarrow> IpAddr \<Rightarrow> IpAddr \<Rightarrow> Rule \<Rightarrow> Rule built" where
  "private_net_rule S net_mask_ip net_ip r =
     (let r1 = with_expr r (expr (ExprMeta (Meta_new MetaNfProto)));
          r2 = with_expr r1 (expr (ExprCmp (Cmp_new CmpEq [word_of_int (NFPROTO_IPV4 S)])));
          r3 = with_expr r2 (expr (ExprPayload (HighLevelPayload_build S (HlNetwork (NetIPv4 IPv4Daddr))))) in
      bind (Bitwise_new (ip_to_vec net_mask_ip) (be_bytes 4 (0 :: u32))) (\<lambda>b.
      let r4 = with_expr r3 (expr (ExprBitwise b));
          r5 = with_expr r4 (expr (ExprCmp (Cmp_new CmpEq (ip_to_vec net_ip))));
          r6 = with_expr r5 (expr (ExprCounter Counter_default)) in
      Ok (with_expr r6 (expr (ExprImmediate (Immediate_new_verdict Accept))))))"

definition router_solicitation_rule :: "sys \<Rightarrow> Rule \<Rightarrow> Rule" where
  "router_solicitation_rule S r =
     (let r1 = with_expr r (expr (ExprMeta (Meta_new MetaNfProto)));
          r2 = with_expr r1 (expr (ExprCmp (Cmp_new CmpEq [word_of_int (NFPROTO_IPV6 S)])));
          r3 = with_expr r2 (expr (ExprMeta (Meta_new MetaL4Proto)));
          r4 = with_expr r3 (expr (ExprCmp (Cmp_new CmpEq [word_of_int (IPPROTO_ICMPV6 S)])));
          r5 = with_expr r4 (expr (ExprPayload (HighLevelPayload_build S (HlTransport (TransICMPv6 ICMPv6Type)))));
          r6 = with_expr r5 (expr (ExprCmp (Cmp_new CmpEq [133])));
          r7 = with_expr r6 (expr (ExprPayload (HighLevelPayload_build S (HlTransport (TransICMPv6 ICMPv6Code)))));
          r8 = with_expr r7 (expr (ExprCmp (Cmp_new CmpEq [IcmpCode_value S NoRoute]))) in
      with_expr r8 (expr (ExprImmediate (Immediate_new_verdict Accept))))"

text \<open>\<open>main\<close> up to the call of \<open>send\<close>; \<open>net_mask_of\<close> and \<open>net_ip_of\<close> are the accessors of the network.\<close>

definition add_rules_batch ::
  "sys \<Rightarrow> int \<Rightarrow> (bytes \<Rightarrow> u32 \<times> errno) \<Rightarrow> (u32 \<Rightarrow> u8 \<Rightarrow> 'n option) \<Rightarrow> ('n \<Rightarrow> IpAddr) \<Rightarrow> ('n \<Rightarrow> IpAddr) \<Rightarrow>
   (ProgramError, Batch) outcome" where
  "add_rules_batch S pagesize if_nametoindex network_new net_mask_of net_ip_of =
     bind (written (batch_new S pagesize)) (\<lambda>b0.
     let table = set_field table_name_update EXAMPLE_TABLE_NAME (Table_new FamInet) in
     bind (written (batch_add S (table_object S) b0 table Add)) (\<lambda>b1.
     let out_chain = set_field chain_name_update OUT_CHAIN_NAME (Chain_new table);
         in_chain = set_field chain_name_update IN_CHAIN_NAME (Chain_new table);
         out_chain1 = set_field chain_hook_update (Hook_new S Out 0) out_chain;
         in_chain1 = set_field chain_hook_update (Hook_new S In 0) in_chain;
         out_chain2 = set_field chain_policy_update PolicyAccept out_chain1;
         in_chain2 = set_field chain_policy_update PolicyAccept in_chain1 in
     bind (written (batch_add S (chain_object S) b1 out_chain2 Add)) (\<lambda>b2.
     bind (written (batch_add S (chain_object S) b2 in_chain2 Add)) (\<lambda>b3.
     bind (map_err IoFailure (iface_index if_nametoindex (str ''lo''))) (\<lambda>lo_iface_index.
     bind (constructed (Rule_new S in_chain2)) (\<lambda>r1.
     bind (written (batch_add S (rule_object S) b3 (loopback_in_rule r1 lo_iface_index) Add)) (\<lambda>b4.
     bind (case network_new 0x0A010000 24 of None \<Rightarrow> Err NetworkFailure | Some n \<Rightarrow> Ok n) (\<lambda>private_net.
     bind (constructed (Rule_new S out_chain2)) (\<lambda>r2.
     bind (constructed (private_net_rule S (net_mask_of private_net) (net_ip_of private_net) r2)) (\<lambda>r3.
     bind (written (batch_add S (rule_object S) b4 r3 Add)) (\<lambda>b5.
     bind (constructed (Rule_new S out_chain2)) (\<lambda>r4.
     written (batch_add S (rule_object S) b5 (router_solicitation_rule S r4) Add)))))))))))))"

definition add_rules_main ::
  "sys \<Rightarrow> int \<Rightarrow> kernel \<Rightarrow> (bytes \<Rightarrow> u32 \<times> errno) \<Rightarrow> (u32 \<Rightarrow> u8 \<Rightarrow> 'n option) \<Rightarrow> ('n \<Rightarrow> IpAddr) \<Rightarrow>
   ('n \<Rightarrow> IpAddr) \<Rightarrow> (ProgramError, unit) outcome \<times> syscall list" where
  "add_rules_main S pagesize K if_nametoindex network_new net_mask_of net_ip_of =
     (case add_rules_batch S pagesize if_nametoindex network_new net_mask_of net_ip_of of
        Ok b \<Rightarrow> (let (res, calls) = batch_send S pagesize K b in (map_err SendFailure res, calls))
      | Err e \<Rightarrow> (Err e, []) | Panic \<Rightarrow> (Panic, []) | UB \<Rightarrow> (UB, []) | Diverge \<Rightarrow> (Diverge, []))"

section \<open>\<open>filter-ethernet\<close>\<close>

definition ETHERNET_TABLE_NAME :: rust_string where
  "ETHERNET_TABLE_NAME = str ''example-filter-ethernet''"

definition BLOCK_THIS_MAC :: bytes where "BLOCK_THIS_MAC = [1, 2, 3, 4, 5, 6]"

definition block_ethernet_rule :: "sys \<Rightarrow> u16 \<Rightarrow> Rule \<Rightarrow> Rule" where
  "block_ethernet_rule S ARPHRD_ETHER r =
     (let l1 = with_value [] (expr (ExprMeta (Meta_new MetaIifType)));
          l2 = with_value l1 (expr (ExprCmp (Cmp_new CmpEq (le_bytes 2 ARPHRD_ETHER))));
          l3 = with_value l2 (expr (ExprPayload (HighLevelPayload_build S (HlLinkLayer LLDaddr))));
          l4 = with_value l3 (expr (ExprCmp (Cmp_new CmpEq BLOCK_THIS_MAC)));
          l5 = with_value l4 (expr (ExprImmediate (Immediate_new_verdict Drop))) in
      set_field rule_expressions_update l5 r)"

definition random_rule :: "Rule \<Rightarrow> Rule" where
  "random_rule r =
     (let l1 = with_value [] (expr (ExprCounter Counter_default));
          l2 = with_value l1 (expr (ExprMeta (Meta_new MetaPRandom)));
          l3 = with_value l2 (expr (ExprCmp (Cmp_new CmpGt (be_bytes 4 ((- 1 :: u32) div 2)))));
          l4 = with_value l3 (expr (ExprCounter Counter_default)) in
      set_field rule_expressions_update l4 r)"

fun unwrapped :: "('e, 'a) outcome \<Rightarrow> ('f, 'a) outcome" where
  "unwrapped (Ok x) = Ok x"
| "unwrapped (Err e) = Panic"
| "unwrapped Panic = Panic"
| "unwrapped UB = UB"
| "unwrapped Diverge = Diverge"

definition filter_ethernet_batch :: "sys \<Rightarrow> int \<Rightarrow> u16 \<Rightarrow> (ProgramError, Batch) outcome" where
  "filter_ethernet_batch S pagesize ARPHRD_ETHER =
     bind (written (batch_new S pagesize)) (\<lambda>b0.
     let table = set_field table_name_update ETHERNET_TABLE_NAME (Table_new FamInet) in
     bind (written (batch_add S (table_object S) b0 table Add)) (\<lambda>b1.
     let out_chain = set_field chain_name_update OUT_CHAIN_NAME (Chain_new table);
         out_chain1 = set_field chain_hook_update (Hook_new S Out 3) out_chain;
         out_chain2 = set_field chain_policy_update PolicyAccept out_chain1 in
     bind (written (batch_add S (chain_object S) b1 out_chain2 Add)) (\<lambda>b2.
     bind (unwrapped (Rule_new S out_chain2)) (\<lambda>r1.
     bind (written (batch_add S (rule_object S) b2 (block_ethernet_rule S ARPHRD_ETHER r1) Add)) (\<lambda>b3.
     bind (unwrapped (Rule_new S out_chain2)) (\<lambda>r2.
     written (batch_add S (rule_object S) b3 (random_rule r2) Add)))))))"

definition filter_ethernet_main ::
  "sys \<Rightarrow> int \<Rightarrow> kernel \<Rightarrow> u16 \<Rightarrow> (ProgramError, unit) outcome \<times> syscall list" where
  "filter_ethernet_main S pagesize K ARPHRD_ETHER =
     (case filter_ethernet_batch S pagesize ARPHRD_ETHER of
        Ok b \<Rightarrow> (let (res, calls) = batch_send S pagesize K b in (unwrapped res, calls))
      | Err e \<Rightarrow> (Err e, []) | Panic \<Rightarrow> (Panic, []) | UB \<Rightarrow> (UB, []) | Diverge \<Rightarrow> (Diverge, []))"

section \<open>When the rules match\<close>

text \<open>Counters count and do nothing else.\<close>

locale nft_counter = nft_logger +
  assumes counter_goes: "step p (ExprCounter c) regs = Go regs"
begin

lemma step_link [simp]:
  "step p (ExprPayload (HighLevelPayload_build S (HlLinkLayer f))) regs =
     Go (regs(Reg1 := packet_header p (NFT_PAYLOAD_LL_HEADER S) (LLHeaderField_offset f) (LLHeaderField_len f)))"
  by (rule load_payload) (simp_all add: HighLevelPayload_build_def set_field_def Payload_default_def)

text \<open>
  The index of the interface is compared in the byte order of a little-endian host, as the kernel
  stores it (unlike \<open>iface_id\<close>).
\<close>

lemma eval_loopback_in:
  assumes "exprs_of r = []" and "packet_meta p MetaIif = le_bytes 4 (idx :: u32)"
  shows "eval_rule step p (loopback_in_rule r i) = (if idx = i then Decide VtAccept else Stop)"
  using assms by (simp add: loopback_in_rule_def with_expr_def add_expr_eq eval_rule_def le_bytes_def
      be_bytes_eq_iff)

lemma eval_private_net:
  assumes "exprs_of r = []" and "packet_meta p MetaNfProto = [nfproto]"
    and "packet_header p (NFT_PAYLOAD_NETWORK_HEADER S) 16 4 = octets4 dst"
  shows "\<exists>r'. private_net_rule S (V4 m) (V4 a) r = Ok r' \<and> eval_rule step p r' =
    (if nfproto = word_of_int (NFPROTO_IPV4 S) \<and> dst AND m = a then Decide VtAccept else Stop)"
proof -
  obtain b where b: "Bitwise_new (octets4 m) (be_bytes 4 (0 :: u32)) = Ok b"
    by (simp add: Bitwise_new_def octets4_def)
  moreover have "bitwise_bytes (be_bytes 4 dst) (be_bytes 4 m) (be_bytes 4 (0 :: u32)) = be_bytes 4 (dst AND m)"
    by (rule bitwise_network)
  ultimately show ?thesis
    using assms step_bitwise [OF b]
    by (simp add: private_net_rule_def Let_def with_expr_def add_expr_eq eval_rule_def counter_goes
        octets4_def be_bytes_eq_iff)
qed

lemma eval_router_solicitation:
  assumes "exprs_of r = []" and "packet_meta p MetaNfProto = [nfproto]"
    and "packet_meta p MetaL4Proto = [proto]"
    and "packet_header p (NFT_PAYLOAD_TRANSPORT_HEADER S) 0 1 = [ty]"
    and "packet_header p (NFT_PAYLOAD_TRANSPORT_HEADER S) 1 1 = [code]"
  shows "eval_rule step p (router_solicitation_rule S r) =
    (if nfproto = word_of_int (NFPROTO_IPV6 S) \<and> proto = word_of_int (IPPROTO_ICMPV6 S) \<and>
        ty = 133 \<and> code = IcmpCode_value S NoRoute then Decide VtAccept else Stop)"
  using assms by (simp add: router_solicitation_rule_def Let_def with_expr_def add_expr_eq eval_rule_def)

lemma eval_block_ethernet:
  assumes "packet_meta p MetaIifType = le_bytes 2 (iftype :: u16)"
    and "length (packet_header p (NFT_PAYLOAD_LL_HEADER S) 0 6) = 6"
  shows "eval_rule step p (block_ethernet_rule S ether r) =
    (if iftype = ether \<and> packet_header p (NFT_PAYLOAD_LL_HEADER S) 0 6 = BLOCK_THIS_MAC
     then Decide VtDrop else Stop)"
  using assms by (simp add: block_ethernet_rule_def Let_def with_value_def add_value_def set_field_def
      eval_rule_def le_bytes_def be_bytes_eq_iff BLOCK_THIS_MAC_def)

end

interpretation reference_counter: nft_counter reference_step
  by unfold_locales simp

end
