(* ===== verification/Spec2Isabelle.thy ===== *)
theory Spec2Isabelle
  imports WireProps BuilderProps MacroProps Programs
begin

text \<open>
  Verification of rustables, a Rust library that configures the packet filter of the Linux kernel
  (nf_tables) over netlink sockets.

  \<^bold>\<open>The program.\<close> A client makes tables, chains, rules and sets as Rust values, puts them into a batch
  of netlink messages and sends the batch to the kernel, or asks the kernel for a list of objects.
  Objects are structures whose annotated fields are netlink attributes: the procedural macros of
  \<open>macros/src/lib.rs\<close> generate the code that writes and reads them. Attributes nest: a rule has a
  list of expressions, an expression a name and data in the format of the named kind. Writing goes
  through \<open>NfNetlinkWriter\<close> (\<open>nlmsg.rs\<close>) and \<open>write_attribute\<close> (\<open>parser.rs\<close>), reading through
  \<open>parse_nlmsg\<close>, \<open>parse_object\<close> and \<open>read_attributes\<close> (\<open>parser.rs\<close>); \<open>batch.rs\<close> and \<open>query.rs\<close> talk
  to the kernel.

  \<^bold>\<open>Theories and sources.\<close>
  \<^item> \<open>Prelude\<close>: outcomes of running code (success, error, panic, access out of bounds, endless loop),
    slices, integers in both byte orders, UTF-8. \<open>Sys\<close>: the constants and layouts of the kernel
    headers, which the build generates and which are therefore a parameter, the record \<open>S\<close>; the values
    on Linux are the instance \<open>linux_sys\<close>. \<open>Errors\<close>: \<open>error.rs\<close> and the enumerations of \<open>lib.rs\<close>.
  \<^item> \<open>Nlmsg\<close>, \<open>Parser\<close>, \<open>ParserImpls\<close>: \<open>nlmsg.rs\<close>, \<open>parser.rs\<close>, \<open>parser_impls.rs\<close>. \<open>Macros\<close>: the code that
    the macros generate. \<open>MacroArgs\<close>: the macros themselves, on syntax trees.
  \<^item> \<open>Codec\<close>: the contracts \<open>attribute\<close> (what \<open>get_size\<close> and \<open>write_payload\<close> promise each other) and
    \<open>codec\<close> (reading inverts writing) as locales; \<open>Objects\<close>: the contract of a whole object, \<open>nf_obj\<close>,
    and what follows for its messages. The theories of the types interpret these locales on the model's
    own definitions, so that every round trip is an instance of one proof.
  \<^item> \<open>Tables\<close>, \<open>Chains\<close>, \<open>Rules\<close>, \<open>Sets\<close>: \<open>table.rs\<close>, \<open>chain.rs\<close>, \<open>rule.rs\<close>, \<open>set.rs\<close> and
    \<open>data_type.rs\<close>. \<open>Verdicts\<close>, \<open>ExprTypes\<close>, \<open>Payloads\<close>, \<open>Expressions\<close>: the files of \<open>expr/\<close>.
    \<open>RuleMethods\<close>: \<open>rule_methods.rs\<close>.
  \<^item> \<open>Batch\<close> and \<open>Queries\<close>: \<open>batch.rs\<close> and \<open>query.rs\<close>; the kernel is a parameter, the record
    \<open>kernel\<close> with the results of the successive system calls.
  \<^item> \<open>Dumps\<close>, \<open>Replies\<close>, \<open>Listings\<close>, \<open>Batches\<close>, \<open>BuiltRules\<close>, \<open>BuiltSets\<close>, \<open>Soundness\<close>: lemmas that span
    components (the receive loop refines handling one message after the other; messages of the kernel
    with attributes of its own choice; the three listing functions; the streams of batches; the rules
    and sets that can be built; decoding of arbitrary bytes).
  \<^item> \<open>RuleSemantics\<close>: the evaluation of expressions, a locale whose laws are what the documentation of
    the expressions says; the methods of rules add the conditions that their names promise.
  \<^item> \<open>Firewall\<close> and \<open>Programs\<close>: the programs of \<open>examples/\<close>.
  \<^item> \<open>Witnesses\<close>: concrete objects. This theory, \<open>WireProps\<close>, \<open>BuilderProps\<close>, \<open>MacroProps\<close> and
    \<open>Firewall\<close> hold the properties C1 to C40.

  \<^bold>\<open>What is shown.\<close> Admissible objects survive the trip through a message (C1 to C6, C16; element lists
  and expression data without contents do not, as C4, C6 and C16 also say), the bytes of a message are
  exactly described (C15, C21, C22), decoding arbitrary bytes is safe (C7) and so is writing (C20);
  decoders ignore what they do not know and accept nothing else (C17 to C19). Batches are streams of
  numbered messages and are sent once and in order (C8, C9); the receive loop refines its
  specification and never runs out of buffer space (C10, C11); the listings return what the messages
  of the kernel describe, in order, or the first failure, whatever attributes the kernel sends (C12 to
  C14); sockets are closed (C38). What the methods of rules match and decide is described exactly (C26
  to C34), and so is when constructors fail (C35); header fields are recognised (C36). The macros generate the field lists that
  the other theories use (C37, C39), and the example firewall accepts what its comments say (C40).
  C22 to C25, C27, C31, the part of C32 about \<open>syn\<close> and the second half of C38 state where the code falls
  short of its intention or of its documentation.

  \<^bold>\<open>Bounds.\<close> Lengths of attributes are 16-bit words in the format: admissible values (\<open>rule_ok\<close>,
  \<open>chain_ok\<close> and so on) are those whose attributes fit, whose strings are UTF-8 without trailing NUL, and
  whose structures do not end with an empty attribute. C5 allows 400 expressions of at most 132 bytes
  and names of at most 256 bytes, C6 allows 2000 keys of 1 to 16 bytes: the largest numbers, in
  round figures, for which the lists fit into an attribute. C12 to C14 suppose nothing about the
  attributes of the kernel but the format (14-bit types, 16-bit lengths), and that the dump is not
  interrupted. Messages are shorter than \<open>2 ^ 32\<close>
  bytes, datagrams at most 65535 bytes, as the size of the receive buffer supposes. No loop has fuel:
  loops over buffers are recursive functions with a measure, and the loops over \<open>send\<close> and \<open>recv\<close>
  run over the list of results of the kernel and are \<open>Diverge\<close> when it ends.

  \<^bold>\<open>Conventions.\<close> Arithmetic overflow is a panic, as in a build with overflow checks; \<open>usize\<close> is a natural
  number whose subtractions are checked. Accesses through raw pointers are checked against the
  buffer, their alignment is not. \<open>Result\<close>s of writing are given the error type of decoding so that
  one type of outcome serves everywhere; writing never returns an error. The trace of system calls has
  the sockets that are opened, bound and closed and the bytes that the kernel took in each \<open>send\<close>;
  calls of \<open>send\<close> that fail and calls of \<open>recv\<close> leave no event in it.

  \<^bold>\<open>Not modelled.\<close> \<open>build.rs\<close> and \<open>sys.rs\<close> (they run \<open>bindgen\<close> and include its output), output for
  debugging and logging (\<open>InnerFormat\<close>, \<open>Debug\<close>, \<open>debug!\<close>, \<open>println!\<close>), the texts of errors, the unit
  tests. Code of other crates is a parameter: \<open>IpNetwork\<close>, \<open>if_nametoindex\<close>, the parser \<open>syn\<close>, the system
  calls, and the evaluation of expressions in the kernel.
\<close>

section \<open>Objects and messages\<close>

text \<open>
  C1. A rule written into an empty message buffer is read back: for every admissible rule and
  both message kinds the writer succeeds, and decoding what it appended, whatever follows it in
  the buffer, gives the same rule, all its expressions included, and leaves exactly what
  follows.
\<close>

theorem rule_round_trip:
  assumes "rule_abi S" and "rule_ok S r"
    and "20 + get_size (as_attr (rule_object S) r) < 2 ^ 32"
  shows "\<exists>w. add_or_remove S (rule_object S) r (writer_new []) msg_type seq = Ok w \<and>
    object_deserialize S (rule_object S) (w_buf w @ rest) = Ok (r, rest)"
  using assms by (intro rule_abi.rule_trip)

theorem rule_round_trip_witness:
  "\<exists>w. add_or_remove linux_sys (rule_object linux_sys) example_rule (writer_new []) Add 7 = Ok w \<and>
    object_deserialize linux_sys (rule_object linux_sys) (w_buf w @ [1, 2]) =
      Ok (example_rule, [1, 2])"
  by (rule rule_round_trip [OF linux.rule_abi_axioms example_rule_ok])

text \<open>
  C2. A chain written into an empty message buffer is read back, provided its policy is not
  \<open>Drop\<close> (see the property about chain policies).
\<close>

theorem chain_round_trip:
  assumes "rule_abi S" and "chain_ok S c"
    and "20 + get_size (as_attr (chain_object S) c) < 2 ^ 32"
  shows "\<exists>w. add_or_remove S (chain_object S) c (writer_new []) msg_type seq = Ok w \<and>
    object_deserialize S (chain_object S) (w_buf w @ rest) = Ok (c, rest)"
  using assms by (intro rule_abi.chain_trip)

theorem chain_round_trip_witness:
  "\<exists>w. add_or_remove linux_sys (chain_object linux_sys)
        (example_chain\<lparr>chain_hook := Some (Hook_new linux_sys In 0),
           chain_policy := Some PolicyAccept, chain_type := Some TypeFilter\<rparr>)
        (writer_new []) Add 0 = Ok w \<and>
    object_deserialize linux_sys (chain_object linux_sys) (w_buf w @ [1, 2]) =
      Ok (example_chain\<lparr>chain_hook := Some (Hook_new linux_sys In 0),
           chain_policy := Some PolicyAccept, chain_type := Some TypeFilter\<rparr>, [1, 2])"
proof (rule chain_round_trip)
  show "rule_abi linux_sys" by (rule linux.rule_abi_axioms)
qed (simp_all add: chain_ok_def chain_base_ok_def example_defs example_names chain_object_def
    Hook_ok_def Hook_new_def Hook_default_def hook_fields_def Hook_attr_def chain_fields_def
    struct_fits_def ends_nonempty_def pad_netlink_object_def linux.pad_eq str_def
    ChainPolicy_attr_def ChainType_attr_def string_ok_def)

text \<open>
  C3. A table written into an empty message buffer is read back: for every admissible table and
  both message kinds the writer succeeds, and decoding what it appended, whatever follows it in
  the buffer, gives the same table and leaves exactly what follows.
\<close>

theorem table_round_trip:
  assumes "table_abi S" and "table_ok S t"
    and "20 + get_size (as_attr (table_object S) t) < 2 ^ 32"
  shows "\<exists>w. add_or_remove S (table_object S) t (writer_new []) msg_type seq = Ok w \<and>
    object_deserialize S (table_object S) (w_buf w @ rest) = Ok (t, rest)"
  using assms by (intro table_abi.table_trip)

text \<open>The table of the unit tests, named \<open>mocktable\<close>.\<close>

theorem table_round_trip_witness:
  "\<exists>w. add_or_remove linux_sys (table_object linux_sys)
        \<lparr>table_family = FamInet, table_name = Some (str ''mocktable''), table_flags = Some 0,
         table_userdata = None\<rparr> (writer_new []) Add 0 = Ok w \<and>
    object_deserialize linux_sys (table_object linux_sys) (w_buf w @ [1, 2]) =
      Ok (\<lparr>table_family = FamInet, table_name = Some (str ''mocktable''), table_flags = Some 0,
           table_userdata = None\<rparr>, [1, 2])"
proof (rule table_round_trip)
  show "table_abi linux_sys" by (rule linux.table_abi_axioms)
qed (simp_all add: table_ok_def table_base_ok_def string_ok_def str_def table_object_def
    table_fields_def struct_fits_def struct_attr_def ends_nonempty_def pad_netlink_object_def
    linux.pad_eq)

text \<open>
  C4. Admissible sets and element lists are read back from their messages: set definitions keep
  their table, name, flags, key description, identifier and user data, element lists keep their
  keys in order. Admissible means that strings are UTF-8 without trailing NUL, that the encoding of
  every attribute, the whole list of elements included, fits its 16-bit length, that the elements can be
  read, and that no structure ends with an empty attribute. In particular the list of elements must not
  be empty: a list that is emptied can be written, but its message decodes to the error
  \<open>InvalidDataSize\<close>.
\<close>

theorem set_round_trip:
  assumes "rule_abi S" and "set_ok S s" and "elements_ok S es"
    and "20 + get_size (as_attr (set_object S) s) < 2 ^ 32"
    and "20 + get_size (as_attr (elements_object S) es) < 2 ^ 32"
  shows "(\<exists>w. add_or_remove S (set_object S) s (writer_new []) msg_type seq = Ok w \<and>
      object_deserialize S (set_object S) (w_buf w @ rest) = Ok (s, rest)) \<and>
    (\<exists>w. add_or_remove S (elements_object S) es (writer_new []) msg_type seq = Ok w \<and>
      object_deserialize S (elements_object S) (w_buf w @ rest) = Ok (es, rest)) \<and>
    (\<exists>w. add_or_remove S (elements_object S) (es\<lparr>elements_elements := Some []\<rparr>) (writer_new [])
        msg_type seq = Ok w \<and>
      object_deserialize S (elements_object S) (w_buf w @ rest) = Err InvalidDataSize)"
  using assms
  by (intro conjI rule_abi.nfset_trip rule_abi.elements_trip rule_abi.emptied_elements)

text \<open>A set of two IPv4 addresses in the example table, as the builder makes it.\<close>

abbreviation example_set :: Set where
  "example_set \<equiv> built_set Ipv4Addr_DataType (str ''mockset'') (str ''mocktable'')"

abbreviation example_elements :: SetElementList where
  "example_elements \<equiv> built_elements Ipv4Addr_DataType (str ''mockset'') (str ''mocktable'')
     [0xC0A80001, 0xC0A80002]"

lemma example_set_ok:
  "set_ok linux_sys example_set" "elements_ok linux_sys example_elements"
  "20 + get_size (as_attr (set_object linux_sys) example_set) < 2 ^ 32"
  "20 + get_size (as_attr (elements_object linux_sys) example_elements) < 2 ^ 32"
  by (rule linux.built_set_ok linux.built_elements_ok;
      simp add: example_names string_ok_def str_def Ipv4Addr_DataType_def octets4_def)+

theorem set_round_trip_witness:
  "(\<exists>w. add_or_remove linux_sys (set_object linux_sys) example_set (writer_new []) Add 3 = Ok w \<and>
      object_deserialize linux_sys (set_object linux_sys) (w_buf w @ [7]) = Ok (example_set, [7])) \<and>
    (\<exists>w. add_or_remove linux_sys (elements_object linux_sys) example_elements (writer_new []) Add 3 =
        Ok w \<and>
      object_deserialize linux_sys (elements_object linux_sys) (w_buf w @ [7]) =
        Ok (example_elements, [7])) \<and>
    (\<exists>w. add_or_remove linux_sys (elements_object linux_sys)
        (example_elements\<lparr>elements_elements := Some []\<rparr>) (writer_new []) Add 3 = Ok w \<and>
      object_deserialize linux_sys (elements_object linux_sys) (w_buf w @ [7]) = Err InvalidDataSize)"
  by (rule set_round_trip [OF linux.rule_abi_axioms example_set_ok])

text \<open>
  C5. Every rule that the builder methods produce can be read back: starting from \<open>Rule::new\<close> on a
  chain whose names are valid and short, any sequence of the methods of \<open>rule_methods.rs\<close> (with
  the single exception of \<open>masquerade\<close>) and of \<open>with_expr\<close> with a readable expression of at most 128
  bytes that yields at most 400 expressions gives a rule whose message decodes to the same rule.
\<close>

theorem built_rule_round_trip:
  assumes "builder_abi S" and "chain_named c" and "built S N c r"
    and "masquerade_expr \<notin> set (exprs_of r)" and "length (exprs_of r) \<le> 400"
  shows "\<exists>w. add_or_remove S (rule_object S) r (writer_new []) msg_type seq = Ok w \<and>
    object_deserialize S (rule_object S) (w_buf w @ rest) = Ok (r, rest)"
  using builder_abi.built_rule_ok [OF assms(1,3-5)] assms(1,2) builder_abi.axioms(1)
  by (intro rule_abi.rule_trip) (auto simp: chain_named_def)

theorem built_rule_round_trip_witness:
  "\<exists>w. add_or_remove linux_sys (rule_object linux_sys) example_rule (writer_new []) Add 7 = Ok w \<and>
    object_deserialize linux_sys (rule_object linux_sys) (w_buf w @ []) = Ok (example_rule, [])"
  by (rule built_rule_round_trip [OF linux.builder_abi_axioms example_chain_named
        example_rule_built example_rule_exprs])

text \<open>
  C6. The sets that \<open>SetBuilder\<close> produces from at most 2000 keys of 1 to 16 bytes, with valid names of at
  most 256 bytes: \<open>new\<close>, \<open>add\<close> and \<open>finish\<close> succeed, the set describes the key type and the table, the
  element list has the keys in the order they were added, both messages can be written, and the
  message of the set decodes to the set. The message of the element list decodes to the list if at
  least one key was added; the list that the builder makes when no key was added decodes to the error
  \<open>InvalidDataSize\<close>.
\<close>

theorem built_set_round_trip:
  assumes "builder_abi S" and "table_name t = Some tn"
    and "string_ok n" "0 < length n" "length n \<le> 256" "string_ok tn" "length tn \<le> 256"
    and "\<forall>k\<in>set ks. 0 < length (key_bytes K k) \<and> length (key_bytes K k) \<le> 16"
    and "length ks \<le> 2000"
  shows "\<exists>b0 b s es. SetBuilder_new K n t = Ok b0 \<and> SetBuilder_add_all K b0 ks = Ok b \<and>
    SetBuilder_finish b = (s, es) \<and>
    nfset_name s = Some n \<and> nfset_table s = Some tn \<and> nfset_key_type s = Some (TYPE_CONST K) \<and>
    nfset_key_len s = Some (LEN_CONST K) \<and> elements_table es = Some tn \<and> elements_set es = Some n \<and>
    elements_elements es = Some (map (\<lambda>k. key_element (key_bytes K k)) ks) \<and>
    (\<exists>w. add_or_remove S (set_object S) s (writer_new []) Add seq = Ok w \<and>
      object_deserialize S (set_object S) (w_buf w @ rest) = Ok (s, rest)) \<and>
    (\<exists>w. add_or_remove S (elements_object S) es (writer_new []) Add seq = Ok w \<and>
      object_deserialize S (elements_object S) (w_buf w @ rest) =
        (if ks = [] then Err InvalidDataSize else Ok (es, rest)))"
proof -
  have abi: "rule_abi S" using assms(1) by (rule builder_abi.axioms(1))
  then have "\<exists>w. add_or_remove S (set_object S) (built_set K n tn) (writer_new []) Add seq = Ok w \<and>
      object_deserialize S (set_object S) (w_buf w @ rest) = Ok (built_set K n tn, rest)"
    using assms(3-7) builder_abi.built_set_ok [OF assms(1)] by (intro rule_abi.nfset_trip; blast)
  moreover have "\<exists>w. add_or_remove S (elements_object S) (built_elements K n tn ks) (writer_new []) Add seq =
      Ok w \<and> object_deserialize S (elements_object S) (w_buf w @ rest) =
        (if ks = [] then Err InvalidDataSize else Ok (built_elements K n tn ks, rest))"
  proof (cases "ks = []")
    case True
    then show ?thesis
      using assms(3,5-7) rule_abi.empty_elements [OF abi, of "built_elements K n tn ks"]
      by (simp add: built_elements_def)
  next
    case False
    then show ?thesis
      unfolding if_not_P [OF False]
      using assms(3-9) builder_abi.built_elements_ok [OF assms(1)] abi
      by (intro rule_abi.elements_trip; blast)
  qed
  ultimately show ?thesis
    using builder_result [OF assms(2), of K n ks] by (fastforce simp: built_set_def built_elements_def)
qed

theorem built_set_round_trip_witness:
  "(\<exists>b0 b s es. SetBuilder_new Ipv4Addr_DataType (str ''mockset'') example_table = Ok b0 \<and>
    SetBuilder_add_all Ipv4Addr_DataType b0 [0xC0A80001, 0xC0A80002] = Ok b \<and>
    SetBuilder_finish b = (s, es) \<and>
    elements_elements es = Some [key_element [192, 168, 0, 1], key_element [192, 168, 0, 2]] \<and>
    (\<exists>w. add_or_remove linux_sys (elements_object linux_sys) es (writer_new []) Add 4 = Ok w \<and>
      object_deserialize linux_sys (elements_object linux_sys) (w_buf w) = Ok (es, []))) \<and>
   (\<exists>b s es. SetBuilder_new Ipv4Addr_DataType (str ''mockset'') example_table = Ok b \<and>
    SetBuilder_finish b = (s, es) \<and>
    (\<exists>w. add_or_remove linux_sys (elements_object linux_sys) es (writer_new []) Add 4 = Ok w \<and>
      object_deserialize linux_sys (elements_object linux_sys) (w_buf w) = Err InvalidDataSize))"
proof
  have t: "table_name example_table = Some (str ''mocktable'')" by (simp add: example_defs)
  have keys: "key_bytes Ipv4Addr_DataType 0xC0A80001 = [192, 168, 0, 1]"
    "key_bytes Ipv4Addr_DataType 0xC0A80002 = [192, 168, 0, 2]"
    by code_simp+
  have names: "string_ok (str ''mockset'')" "length (str ''mockset'') = 7"
    "length (str ''mocktable'') = 9"
    by (simp_all add: string_ok_def str_def)
  from built_set_round_trip [OF linux.builder_abi_axioms t, of "str ''mockset''"
      "[0xC0A80001, 0xC0A80002]" Ipv4Addr_DataType 4 "[]"] names example_names
  show "\<exists>b0 b s es. SetBuilder_new Ipv4Addr_DataType (str ''mockset'') example_table = Ok b0 \<and>
    SetBuilder_add_all Ipv4Addr_DataType b0 [0xC0A80001, 0xC0A80002] = Ok b \<and>
    SetBuilder_finish b = (s, es) \<and>
    elements_elements es = Some [key_element [192, 168, 0, 1], key_element [192, 168, 0, 2]] \<and>
    (\<exists>w. add_or_remove linux_sys (elements_object linux_sys) es (writer_new []) Add 4 = Ok w \<and>
      object_deserialize linux_sys (elements_object linux_sys) (w_buf w) = Ok (es, []))"
    by (simp add: keys) blast
  from built_set_round_trip [OF linux.builder_abi_axioms t, of "str ''mockset''" "[]"
      Ipv4Addr_DataType 4 "[]"] names example_names
  show "\<exists>b s es. SetBuilder_new Ipv4Addr_DataType (str ''mockset'') example_table = Ok b \<and>
    SetBuilder_finish b = (s, es) \<and>
    (\<exists>w. add_or_remove linux_sys (elements_object linux_sys) es (writer_new []) Add 4 = Ok w \<and>
      object_deserialize linux_sys (elements_object linux_sys) (w_buf w) = Err InvalidDataSize)"
    by simp blast
qed

text \<open>
  C7. Decoding is safe on arbitrary bytes: whatever the buffer holds, decoding a table, a chain, a
  rule, a set or a list of set elements neither reads outside the buffer nor runs for ever.
\<close>

theorem decoders_sound:
  assumes "netlink_abi S"
  shows "sound (object_deserialize S (table_object S) b) \<and>
    sound (object_deserialize S (chain_object S) b) \<and>
    sound (object_deserialize S (rule_object S) b) \<and>
    sound (object_deserialize S (set_object S) b) \<and>
    sound (object_deserialize S (elements_object S) b)"
  using netlink_abi.objects_total [OF assms] by blast

theorem decoders_sound_witness:
  "sound (object_deserialize linux_sys (rule_object linux_sys) [20, 0, 0, 0, 6, 10, 0, 0])"
  using decoders_sound [OF linux.netlink_abi_axioms] by blast

section \<open>Batches\<close>

text \<open>
  C8. A batch is a stream of valid messages with consecutive numbers: after \<open>Batch::new\<close> and any
  sequence of additions and deletions of tables, chains, rules, sets and elements, \<open>finalize\<close>
  returns the begin message, one message per object in the order of the calls, and the end message;
  each of them is accepted by the parser, and their sequence numbers are 0, 1, 2 and so on.
\<close>

theorem batch_stream:
  assumes "rule_abi S" and "unat (word_of_int pagesize :: u32) * 32 < 2 ^ 32"
    and "\<forall>(x, msg_type)\<in>set xs. 20 + item_size S x < 2 ^ 32" and "1 + length xs < 2 ^ 32"
  shows "\<exists>b0 b. batch_new S pagesize = Ok b0 \<and> add_items S b0 xs = Ok b \<and>
    batch_finalize S b = Ok (concat (batch_messages S xs)) \<and>
    list_all2 (numbered S) (batch_messages S xs) (map of_nat [0..<length xs + 2])"
proof -
  obtain b0 b where b: "batch_new S pagesize = Ok b0" "add_items S b0 xs = Ok b"
    "batch_inv S (item_messages S 1 xs) b"
    using rule_abi.batch_build [OF assms] by blast
  then have "batch_finalize S b = Ok (concat (batch_messages S xs))"
    using rule_abi.batch_finish [OF assms(1) b(3)] by (simp add: batch_messages_def batch_inv_def)
  then show ?thesis using b(1,2) rule_abi.batch_messages_numbered [OF assms(1,3)] by blast
qed

text \<open>A table, a chain and a rule, and the removal of the table.\<close>

abbreviation example_items :: "(item \<times> MsgType) list" where
  "example_items \<equiv> [(TableItem example_table, Add), (ChainItem example_chain, Add),
     (RuleItem example_rule, Add), (TableItem example_table, Del)]"

lemma example_sizes:
  "get_size (as_attr (table_object linux_sys) example_table) = 16"
  "get_size (as_attr (chain_object linux_sys) example_chain) = 32"
  by (simp_all add: table_object_def table_fields_def chain_object_def chain_fields_def example_defs
      str_def pad_netlink_object_def linux.pad_eq)

theorem batch_stream_witness:
  "\<exists>b0 b. batch_new linux_sys 4096 = Ok b0 \<and> add_items linux_sys b0 example_items = Ok b \<and>
    batch_finalize linux_sys b = Ok (concat (batch_messages linux_sys example_items)) \<and>
    list_all2 (numbered linux_sys) (batch_messages linux_sys example_items)
      (map of_nat [0..<length example_items + 2])"
  by (rule batch_stream [OF linux.rule_abi_axioms])
    (use example_rule_ok(2) in \<open>simp_all add: example_sizes\<close>)

text \<open>
  C9. Sending a batch: when the kernel takes the bytes in any number of pieces and acknowledges the
  messages, \<open>Batch::send\<close> has sent the whole batch exactly once and in order, closes the socket,
  and returns success once the last message is acknowledged; when an acknowledgement carries an
  error instead, it returns that error.
\<close>

theorem batch_send_exchange:
  assumes "rule_abi S" and "unat (word_of_int pagesize :: u32) * 32 < 2 ^ 32"
    and "\<forall>(x, msg_type)\<in>set xs. 20 + item_size S x < 2 ^ 32" and "1 + length xs < 2 ^ 32"
    and "batch_answer S pagesize K sock (item_messages S 1 xs) ns
      (map (map (ack_block S)) ass @ [map (ack_block S) as @ ack_block S (h, p, e) # bs])"
    and "\<forall>a\<in>set (concat ass @ as). quiet_ack (of_nat (length xs)) a"
    and "nlmsgerr_error e = 0 \<longrightarrow> of_nat (length xs) \<le> nlmsg_seq h"
  shows "\<exists>b0 b cs. batch_new S pagesize = Ok b0 \<and> add_items S b0 xs = Ok b \<and>
    batch_send S pagesize K b =
      (if nlmsgerr_error e = 0 then Ok () else Err (NetlinkError e),
       Socket sock # Bind sock # map (Send sock) cs @ [Close sock]) \<and>
    concat cs = concat (batch_messages S xs)"
  by (rule rule_abi.batch_exchange [OF assms])

text \<open>
  The kernel takes 56 and 20 bytes of a batch with one table and answers with one acknowledgement.
\<close>

definition example_ack :: "i32 \<Rightarrow> ack" where
  "example_ack err =
     (\<lparr>nlmsg_len = 36, nlmsg_type = 2, nlmsg_flags = 0, nlmsg_seq = 1, nlmsg_pid = 0\<rparr>,
      le_bytes 4 err @ replicate 16 0,
      (linux_nlmsgerr_of (le_bytes 4 err @ replicate 16 0))\<lparr>nlmsgerr_error := - err\<rparr>)"

definition example_kernel :: "i32 \<Rightarrow> kernel" where
  "example_kernel err =
     \<lparr>open_result = Inr 3, bind_result = None, send_results = [Inr 56, Inr 20],
      recv_results = [Received (stream [ack_block linux_sys (example_ack err)])],
      close_result = None\<rparr>"

lemma example_ack_ok: "ack_ok linux_sys (example_ack 0)" "ack_ok linux_sys (example_ack (- 1))"
  by code_simp+

lemma example_kernel_answers:
  assumes "ack_ok linux_sys (example_ack err)"
  shows "batch_answer linux_sys 4096 (example_kernel err) 3
      (item_messages linux_sys 1 [(TableItem example_table, Add)]) [56, 20]
      (map (map (ack_block linux_sys)) [] @
        [map (ack_block linux_sys) [] @ ack_block linux_sys (example_ack err) # []])"
  using linux.ack_valid [OF assms] linux.length_control
  by (simp add: batch_answer_def example_kernel_def datagram_ok_def)
    (simp add: example_sizes linux.table_message_length example_ack_def ack_block_def error_block_def)

theorem batch_send_exchange_witness:
  "\<exists>b0 b cs. batch_new linux_sys 4096 = Ok b0 \<and>
    add_items linux_sys b0 [(TableItem example_table, Add)] = Ok b \<and>
    batch_send linux_sys 4096 (example_kernel 0) b =
      (Ok (), Socket 3 # Bind 3 # map (Send 3) cs @ [Close 3]) \<and>
    concat cs = concat (batch_messages linux_sys [(TableItem example_table, Add)])"
  using batch_send_exchange [OF linux.rule_abi_axioms _ _ _
      example_kernel_answers [OF example_ack_ok(1), unfolded example_ack_def]]
  by (simp add: example_sizes)

section \<open>Receiving and listing\<close>

text \<open>
  C10. \<open>recv_and_process\<close> implements its specification: on any sequence of datagrams that consist of
  whole valid messages and are not larger than the largest nftables message, the loop over the
  reused buffer returns exactly what handling the messages one after the other returns (end of the
  stream, error, or waiting for more), for every callback and both ways to detect the end.
\<close>

theorem recv_refines:
  assumes "netlink_abi S" and "nft_nlmsg_maxsize pagesize = (Ok m :: u32 queried)"
    and "\<forall>bs\<in>set bss. datagram_ok S (unat m) bs"
  shows "recv_and_process S pagesize (map (\<lambda>bs. Received (stream bs)) bss) max_seq cb data =
    run_datagrams S max_seq cb bss data"
proof -
  have "unat m = 65535 + unat (word_of_int pagesize :: u32)"
    using assms(2) by (auto simp: nft_nlmsg_maxsize_def checked_add_u32_def unat_word_ariths
        split: if_splits)
  then have "0 < unat m" by linarith
  with assms show ?thesis by (intro netlink_abi.recv_and_process_blocks)
qed

theorem recv_refines_witness:
  "recv_and_process linux_sys 4096
      [Received (stream [done_block linux_sys done_hdr (replicate 4 0)])] None None (7 :: nat) = Ok 7"
proof -
  let ?d = "done_block linux_sys done_hdr (replicate 4 0)"
  have "nft_nlmsg_maxsize 4096 = (Ok 69631 :: u32 queried)"
    by (simp add: nft_nlmsg_maxsize_def checked_add_u32_def)
  moreover have "\<forall>bs\<in>set [[?d]]. datagram_ok linux_sys (unat (69631 :: u32)) bs"
    using linux.done_block_valid [OF done_ok] linux.length_control
    by (simp add: datagram_ok_def) (simp add: done_block_def)
  ultimately show ?thesis
    using recv_refines [OF linux.netlink_abi_axioms, of 4096 69631 "[[?d]]" None None "7 :: nat"]
    by (simp add: done_block_def)
qed

text \<open>
  C11. The buffer of \<open>recv_and_process\<close> never runs full: in every state that its loop reaches,
  whatever the kernel sends, the read and write positions agree (every received message has been
  processed) and more than \<open>nft_nlmsg_maxsize\<close> bytes are free.
\<close>

theorem recv_buffer_free:
  assumes "recv_reach S maxsize max_seq cb data st" and "0 < maxsize"
  shows "length (msg_buffer st) = 2 * maxsize \<and> buf_start st = end_pos st \<and>
    maxsize < length (msg_buffer st) - end_pos st"
  using recv_reach_inv [OF assms] by (auto simp: recv_inv_def)

text \<open>A state after a round: a buffer of 40 bytes has received a message of 16 bytes.\<close>

definition noop_datagram :: bytes where
  "noop_datagram = linux_nlmsghdr_bytes
     \<lparr>nlmsg_len = 16, nlmsg_type = 1, nlmsg_flags = 2, nlmsg_seq = 0, nlmsg_pid = 0\<rparr>"

lemma noop_round:
  "recv_round linux_sys 20 None None
     \<lparr>msg_buffer = replicate (2 * 20) 0, buf_start = 0, end_pos = 0, working_data = ()\<rparr>
     (Received noop_datagram) =
   Ok (Next \<lparr>msg_buffer = noop_datagram @ replicate 24 0, buf_start = 16, end_pos = 16, working_data = ()\<rparr>)"
  by code_simp

theorem recv_buffer_free_witness:
  "recv_reach linux_sys 20 None None ()
     \<lparr>msg_buffer = noop_datagram @ replicate 24 0, buf_start = 16, end_pos = 16, working_data = ()\<rparr> \<and>
   20 < length (noop_datagram @ replicate 24 0) - 16"
proof -
  have reach: "recv_reach linux_sys 20 None None ()
     \<lparr>msg_buffer = noop_datagram @ replicate 24 0, buf_start = 16, end_pos = 16, working_data = ()\<rparr>"
    by (rule recv_reach.reach_round [OF recv_reach.reach_start noop_round])
  with recv_buffer_free [OF reach] show ?thesis by simp
qed

text \<open>
  C12. \<open>list_tables\<close> returns the tables that the kernel dumps: the kernel takes the request for all
  tables and answers with an uninterrupted dump, one message per table, in any number of datagrams,
  ended by the end mark. The attributes of the messages are arbitrary, as the kernel is free to choose
  them: unknown types, in any order, with any contents. The function has sent exactly the request, and
  it returns what the messages describe (\<open>entry_value\<close>: unknown attributes count for nothing), in order,
  or the failure of the first message that describes no table; it closes the socket before it
  returns.
\<close>

theorem list_tables_complete:
  assumes "rule_abi S" and "req = dump_request S (word_of_int (NFT_MSG_GETTABLE S)) 0 []"
    and "dump_answer S pagesize (table_object S) K sock req ess es h p"
    and "res = map_err ProcessNetlinkError
      (traverse (entry_value S (table_object S) (table_fields S)) (concat ess @ es))"
  shows "list_tables S pagesize K =
    (res, [Socket sock, Send sock req] @ (if returned res then [Close sock] else []))"
proof -
  have "list_tables S pagesize K =
      (bind res (\<lambda>ts. Ok ts), [Socket sock, Send sock req] @
        (if returned (bind res (\<lambda>ts. Ok ts)) then [Close sock] else []))"
    unfolding list_tables_def assms(4)
    by (rule rule_abi.tables_dump [OF assms(1,3)])
      (simp_all add: assms(2) rule_abi.request_none [OF assms(1)] fold_append_singleton)
  then show ?thesis by simp
qed

text \<open>
  A Linux kernel with two tables, in two datagrams: their names end with NUL, and their messages have
  the attributes \<open>NFTA_TABLE_USE\<close> and \<open>NFTA_TABLE_HANDLE\<close>.
\<close>

definition dumped_tables :: "entry list list" where
  "dumped_tables =
     [[dumped linux_sys (table_object linux_sys) FamInet (linux_table (str ''mocktable''))]]"

definition last_tables :: "entry list" where
  "last_tables = [dumped linux_sys (table_object linux_sys) FamIpv4 (linux_table (str ''nat''))]"

lemma dumped_tables_answer:
  "dump_answer linux_sys 4096 (table_object linux_sys)
     (dump_kernel linux_sys 20 dumped_tables last_tables) 3 (dump_request linux_sys 1 0 [])
     dumped_tables last_tables done_hdr (replicate 4 0)"
  by (rule dump_kernel_answers)
    (simp_all add: dumped_tables_def last_tables_def linux_table_def dump_entries dump_sizes
      dump_request_def linux.length_message)

lemma dumped_tables_value:
  "traverse (entry_value linux_sys (table_object linux_sys) (table_fields linux_sys))
     (concat dumped_tables @ last_tables) =
   Ok [(Table_new FamInet)\<lparr>table_name := Some (str ''mocktable''), table_flags := Some 0\<rparr>,
       (Table_new FamIpv4)\<lparr>table_name := Some (str ''nat''), table_flags := Some 0\<rparr>]"
  by code_simp

theorem list_tables_complete_witness:
  "list_tables linux_sys 4096 (dump_kernel linux_sys 20 dumped_tables last_tables) =
    (Ok [(Table_new FamInet)\<lparr>table_name := Some (str ''mocktable''), table_flags := Some 0\<rparr>,
         (Table_new FamIpv4)\<lparr>table_name := Some (str ''nat''), table_flags := Some 0\<rparr>],
     [Socket 3, Send 3 (dump_request linux_sys 1 0 []), Close 3])"
  using list_tables_complete [OF linux.rule_abi_axioms refl _ refl, simplified, OF dumped_tables_answer]
  by (simp add: dumped_tables_value)

text \<open>
  C13. \<open>list_chains_for_table\<close> asks for all chains and returns, of the chains that the messages of the
  kernel describe, those of the given table, in order; the messages are as free as in C12, and the
  first one that describes no chain makes the whole call fail. As the policy \<open>Drop\<close> is decoded as
  \<open>Accept\<close>, no chain that is returned has the policy \<open>Drop\<close>, whatever its policy in the kernel.
\<close>

theorem list_chains_complete:
  assumes "rule_abi S" and "req = dump_request S (word_of_int (NFT_MSG_GETCHAIN S)) 0 []"
    and "dump_answer S pagesize (chain_object S) K sock req ess es h p"
    and "res = map_err ProcessNetlinkError
      (bind (traverse (entry_value S (chain_object S) (chain_fields S)) (concat ess @ es))
        (\<lambda>cs. Ok (filter (\<lambda>c. chain_table c = table_name t) cs)))"
  shows "list_chains_for_table S pagesize K t =
      (res, [Socket sock, Send sock req] @ (if returned res then [Close sock] else [])) \<and>
    (\<forall>cs. res = Ok cs \<longrightarrow> (\<forall>c\<in>set cs. chain_policy c \<noteq> Some PolicyDrop))"
proof
  let ?f = "\<lambda>c cs. if chain_table c = table_name t then cs @ [c] else cs"
  have cb: "(\<lambda>c cs. if chain_table c = table_name t then Ok (cs @ [c]) else Ok cs) =
      (\<lambda>c cs. Ok (?f c cs) :: Chain list queried)"
    by (simp add: fun_eq_iff)
  show "list_chains_for_table S pagesize K t =
      (res, [Socket sock, Send sock req] @ (if returned res then [Close sock] else []))"
    unfolding list_chains_for_table_def cb
    by (rule rule_abi.chains_dump [OF assms(1,3)])
      (simp_all add: assms(2,4) rule_abi.request_none [OF assms(1)] fold_append_filter map_err_bind)
  show "\<forall>cs. res = Ok cs \<longrightarrow> (\<forall>c\<in>set cs. chain_policy c \<noteq> Some PolicyDrop)"
    using chain_values_policy [of S "concat ess @ es"]
    by (cases "traverse (entry_value S (chain_object S) (chain_fields S)) (concat ess @ es)")
      (auto simp: assms(4))
qed

text \<open>
  A Linux kernel with two chains of different tables, both with the policy \<open>Drop\<close>: one is returned,
  with the policy \<open>Accept\<close>.
\<close>

definition dumped_chains :: "entry list" where
  "dumped_chains =
     [dumped linux_sys (chain_object linux_sys) FamInet (linux_chain (str ''mocktable'') (str ''in'')),
      dumped linux_sys (chain_object linux_sys) FamIpv4 (linux_chain (str ''nat'') (str ''pre''))]"

lemma dumped_chains_answer:
  "dump_answer linux_sys 4096 (chain_object linux_sys) (dump_kernel linux_sys 20 [] dumped_chains) 3
     (dump_request linux_sys 4 0 []) [] dumped_chains done_hdr (replicate 4 0)"
  by (rule dump_kernel_answers)
    (simp_all add: dumped_chains_def linux_chain_def dump_entries dump_sizes dump_request_def
      linux.length_message)

lemma dumped_chains_value:
  "bind (traverse (entry_value linux_sys (chain_object linux_sys) (chain_fields linux_sys)) dumped_chains)
     (\<lambda>cs. Ok (filter (\<lambda>c. chain_table c = table_name example_table) cs)) =
   Ok [(Chain_new example_table)\<lparr>chain_name := Some (str ''in''),
         chain_hook := Some (Hook_new linux_sys In 0), chain_policy := Some PolicyAccept,
         chain_type := Some TypeFilter\<rparr>]"
  by code_simp

theorem list_chains_complete_witness:
  "list_chains_for_table linux_sys 4096 (dump_kernel linux_sys 20 [] dumped_chains) example_table =
    (Ok [(Chain_new example_table)\<lparr>chain_name := Some (str ''in''),
           chain_hook := Some (Hook_new linux_sys In 0), chain_policy := Some PolicyAccept,
           chain_type := Some TypeFilter\<rparr>],
     [Socket 3, Send 3 (dump_request linux_sys 4 0 []), Close 3])"
  using list_chains_complete [OF linux.rule_abi_axioms refl _ refl, simplified, OF dumped_chains_answer]
  by (simp add: dumped_chains_value)

text \<open>
  C14. \<open>list_rules_for_chain\<close> asks the kernel for the rules of the given chain only (the request, which
  is sent exactly, carries the table and the chain name) and returns the rules that the messages of
  the kernel describe, in order; the messages are as free as in C12. The first message that describes
  no rule makes the whole call fail: one rule with a masquerade expression suffices.
\<close>

theorem list_rules_complete:
  assumes "rule_abi S" and "Rule_new S c = Ok flt"
    and "20 + get_size (as_attr (rule_object S) flt) < 2 ^ 32"
    and "req = dump_request S (word_of_int (NFT_MSG_GETRULE S)) 0 (wire (as_attr (rule_object S) flt))"
    and "dump_answer S pagesize (rule_object S) K sock req ess es h p"
    and "res = map_err ProcessNetlinkError
      (traverse (entry_value S (rule_object S) (rule_fields S)) (concat ess @ es))"
  shows "list_rules_for_chain S pagesize K c =
    (res, [Socket sock, Send sock req] @ (if returned res then [Close sock] else []))"
proof -
  have "list_objects_with_data S pagesize K (rule_object S) (word_of_int (NFT_MSG_GETRULE S))
      (\<lambda>r rules. Ok (rules @ [r])) (Some flt) [] =
      (bind res (\<lambda>rs. Ok rs), [Socket sock, Send sock req] @
        (if returned (bind res (\<lambda>rs. Ok rs)) then [Close sock] else []))"
    unfolding assms(6)
    by (rule rule_abi.rules_dump [OF assms(1,5)])
      (simp_all add: assms(4) rule_abi.request_filter [OF assms(1,3)] fold_append_singleton)
  then show ?thesis using assms(2) by (simp add: list_rules_for_chain_def)
qed

text \<open>
  A Linux kernel with a rule that loads the transport protocol, and one with, after it, a rule that
  masquerades: its expression has the name \<open>masq\<close> and empty data.
\<close>

definition dumped_rules :: "entry list" where
  "dumped_rules =
     [dumped linux_sys (rule_object linux_sys) FamInet
        (linux_rule (str ''meta'') [(1, False, [0, 0, 0, 1]), (2, False, [0, 0, 0, 16])])]"

definition dumped_masquerade :: "entry list" where
  "dumped_masquerade =
     dumped_rules @ [dumped linux_sys (rule_object linux_sys) FamInet (linux_rule (str ''masq'') [])]"

definition example_filter :: Rule where
  "example_filter = Rule_default\<lparr>rule_family := FamInet, rule_table := Some (str ''mocktable''),
     rule_chain := Some (str ''mockchain'')\<rparr>"

lemma example_filter_new: "Rule_new linux_sys example_chain = Ok example_filter"
  by code_simp

lemma example_filter_size: "get_size (as_attr (rule_object linux_sys) example_filter) = 32"
  by (simp add: example_filter_def rule_object_def rule_fields_def Rule_default_def linux.pad_eq
      pad_netlink_object_def str_def)

definition rules_request :: bytes where
  "rules_request = dump_request linux_sys 7 0 (wire (as_attr (rule_object linux_sys) example_filter))"

lemma dumped_rules_answer:
  "dump_answer linux_sys 4096 (rule_object linux_sys) (dump_kernel linux_sys 52 [] dumped_rules) 3
     rules_request [] dumped_rules done_hdr (replicate 4 0)"
  "dump_answer linux_sys 4096 (rule_object linux_sys) (dump_kernel linux_sys 52 [] dumped_masquerade) 3
     rules_request [] dumped_masquerade done_hdr (replicate 4 0)"
  using linux.length_rule_wire [of example_filter]
  by (rule_tac [!] dump_kernel_answers)
    (simp_all add: dumped_rules_def dumped_masquerade_def linux_rule_def dump_entries dump_sizes
      rules_request_def dump_request_def linux.length_message example_filter_size)

lemma dumped_rules_value:
  "traverse (entry_value linux_sys (rule_object linux_sys) (rule_fields linux_sys)) dumped_rules =
   Ok [example_filter\<lparr>rule_handle := Some 5,
         rule_expressions := Some [expr (ExprMeta (Meta_new MetaL4Proto))]\<rparr>]"
  "traverse (entry_value linux_sys (rule_object linux_sys) (rule_fields linux_sys)) dumped_masquerade =
   Err InvalidDataSize"
  by code_simp+

theorem list_rules_complete_witness:
  "list_rules_for_chain linux_sys 4096 (dump_kernel linux_sys 52 [] dumped_rules) example_chain =
    (Ok [example_filter\<lparr>rule_handle := Some 5,
           rule_expressions := Some [expr (ExprMeta (Meta_new MetaL4Proto))]\<rparr>],
     [Socket 3, Send 3 rules_request, Close 3]) \<and>
   list_rules_for_chain linux_sys 4096 (dump_kernel linux_sys 52 [] dumped_masquerade) example_chain =
    (Err (ProcessNetlinkError InvalidDataSize), [Socket 3, Send 3 rules_request, Close 3])"
  using list_rules_complete [OF linux.rule_abi_axioms example_filter_new _ _ dumped_rules_answer(1) refl]
    list_rules_complete [OF linux.rule_abi_axioms example_filter_new _ _ dumped_rules_answer(2) refl]
  by (simp add: dumped_rules_value example_filter_size) (simp add: rules_request_def)

section \<open>Sockets\<close>

lemma close_wrapper_returned:
  "socket_close_wrapper K sock ret = (res, calls) \<Longrightarrow> returned res \<Longrightarrow>
   calls = [Close sock] \<and> (\<forall>e. close_result K = Some e \<longrightarrow> res = Err (CloseFailed e))"
  by (auto simp: socket_close_wrapper_def split: outcome.splits option.splits)

text \<open>
  C38. Sockets: once the request of a listing has been sent, the socket is closed before the function
  returns, and an error of \<open>close\<close> replaces the result; when sending fails, the function returns the
  error of \<open>send\<close> and the socket stays open. The same holds for \<open>Batch::send\<close>, where the socket is
  closed exactly when the whole batch has been sent.
\<close>

theorem sockets_closed:
  assumes "open_result K = Inr sock"
    and "get_list_of_objects S ty 0 (map_option (as_attr T) flt) = Ok req"
    and "list_objects_with_data S pagesize K T ty cb flt data = (res, calls)" and "returned res"
    and "batch_seq b \<noteq> 0" and "bind_result K = None" and "batch_finalize S b = Ok to_send"
    and "batch_send S pagesize K b = (bres, bcalls)" and "returned bres"
  shows "(case send_results K of
      [] \<Rightarrow> False
    | Inl e # _ \<Rightarrow> res = Err (NetlinkSendError e) \<and> calls = [Socket sock]
    | Inr n # _ \<Rightarrow> calls = [Socket sock, Send sock (take n req), Close sock] \<and>
        (\<forall>e. close_result K = Some e \<longrightarrow> res = Err (CloseFailed e))) \<and>
   (case send_loop sock (send_results K) to_send 0 of
      (Ok _, sends) \<Rightarrow> bcalls = Socket sock # Bind sock # sends @ [Close sock] \<and>
        (\<forall>e. close_result K = Some e \<longrightarrow> bres = Err (CloseFailed e))
    | (failed, sends) \<Rightarrow> bres = failed \<and> bcalls = Socket sock # Bind sock # sends)"
proof (intro conjI)
  show "case send_results K of
      [] \<Rightarrow> False
    | Inl e # _ \<Rightarrow> res = Err (NetlinkSendError e) \<and> calls = [Socket sock]
    | Inr n # _ \<Rightarrow> calls = [Socket sock, Send sock (take n req), Close sock] \<and>
        (\<forall>e. close_result K = Some e \<longrightarrow> res = Err (CloseFailed e))"
    using assms(1-4)
    by (auto simp: list_objects_with_data_def Let_def split: list.splits sum.splits
        prod.splits dest: close_wrapper_returned)
  show "case send_loop sock (send_results K) to_send 0 of
      (Ok _, sends) \<Rightarrow> bcalls = Socket sock # Bind sock # sends @ [Close sock] \<and>
        (\<forall>e. close_result K = Some e \<longrightarrow> bres = Err (CloseFailed e))
    | (failed, sends) \<Rightarrow> bres = failed \<and> bcalls = Socket sock # Bind sock # sends"
    using assms(1,5-9)
    by (auto simp: batch_send_def Let_def split: outcome.splits prod.splits
        dest: close_wrapper_returned)
qed

text \<open>A kernel that refuses to take messages: both functions return and leave socket 3 open.\<close>

abbreviation refusing_kernel :: kernel where
  "refusing_kernel \<equiv> \<lparr>open_result = Inr 3, bind_result = None, send_results = [Inl 1],
     recv_results = [], close_result = None\<rparr>"

theorem sockets_closed_witness:
  "snd (list_tables linux_sys 4096 refusing_kernel) = [Socket 3] \<and>
   (\<exists>b. batch_new linux_sys 4096 = Ok b \<and>
      batch_send linux_sys 4096 refusing_kernel b = (Err (NetlinkSendError 1), [Socket 3, Bind 3]))"
proof -
  let ?cb = "\<lambda>t ts. Ok (ts @ [t]) :: Table list queried"
  obtain b where b: "batch_new linux_sys 4096 = Ok b" "batch_inv linux_sys [] b"
    using linux.batch_new_inv [of 4096] by auto
  obtain sent where fin: "batch_finalize linux_sys b = Ok sent" and sent: "sent \<noteq> []"
    using linux.batch_finalize_inv [OF b(2)] linux.length_message by (auto simp: begin_message_def)
      (metis add_is_0 length_0_conv zero_neq_numeral)
  have seq: "batch_seq b \<noteq> 0" using b(2) by (simp add: batch_inv_def)
  obtain req where req: "get_list_of_objects linux_sys 1 0
      (map_option (as_attr (table_object linux_sys)) None) = Ok req"
    using linux.request_none by auto
  have loop: "send_loop 3 [Inl 1] sent 0 = (Err (NetlinkSendError 1), [])"
    using sent by (simp add: send_loop.simps)
  obtain res calls where list: "list_objects_with_data linux_sys 4096 refusing_kernel
      (table_object linux_sys) 1 ?cb None [] = (res, calls)" "returned res"
    by (simp add: list_objects_with_data_def req [simplified])
  obtain bres bcalls where send: "batch_send linux_sys 4096 refusing_kernel b = (bres, bcalls)"
    "returned bres"
    by (simp add: batch_send_def seq fin loop)
  show ?thesis
    using sockets_closed [OF _ req list seq _ fin send] b(1) list send loop
    by (simp add: list_tables_def)
qed

end
